(* ===== verification/Prelude.thy ===== *)
theory Prelude
imports Main "HOL-Library.AList" "HOL-Library.List_Lexorder" "HOL-Library.Char_ord"
begin

text \<open>
  Shared vocabulary of the SyncForge development.

  \<^item> Go maps are association lists with distinct keys: the list order is the (arbitrary)
    iteration order of a Go \<open>range\<close> loop, \<^const>\<open>map_of\<close> is the lookup
    \<open>m[k]\<close>, \<^const>\<open>AList.update\<close> the assignment \<open>m[k] = v\<close>.
  \<^item> Go errors are values of the datatype \<open>goerr\<close>; \<open>errors.Is\<close> and
    \<open>errors.As\<close> walk its wrapping chain.
  \<^item> Code that may fail and changes state is a function
    \<open>'s \<Rightarrow> (goerr + 'a) \<times> 's\<close>; the state reached when an error is returned is kept,
    as in Go. \<open>bindM\<close> is \<open>if err != nil { return err }\<close>, \<open>attempt\<close> is
    \<open>x, err := f()\<close> with the error inspected afterwards, and \<open>ignore\<close> is
    \<open>_ = f()\<close>.
  \<^item> \<open>pres\<close>, \<open>keeps\<close> and \<open>valid\<close> are the program logic: invariant
    preservation, frame conditions and postconditions, each with compositional rules collected
    in \<open>pres_intros\<close>, \<open>keeps_intros\<close> and \<open>valid_intros\<close>.
\<close>

named_theorems pres_intros \<open>rules that show a program keeps an invariant\<close>
named_theorems keeps_intros \<open>rules that show a program leaves a part of the state alone\<close>
named_theorems valid_intros \<open>rules for postconditions of programs\<close>
named_theorems returns_intros \<open>rules for the values programs return\<close>
named_theorems run_simps \<open>one-step evaluation of programs\<close>

section \<open>Go integers and decimal text\<close>

text \<open>Signed 64-bit wrap-around, the result of \<open>int64\<close> arithmetic.\<close>

definition i64 :: "int \<Rightarrow> int" where
  "i64 x = (x + 2 ^ 63) mod 2 ^ 64 - 2 ^ 63"

definition in64 :: "int \<Rightarrow> bool" where
  "in64 x \<longleftrightarrow> - (2 ^ 63) \<le> x \<and> x < 2 ^ 63"

text \<open>\<open>strconv.Itoa\<close>: decimal digits, most significant first.\<close>

fun digits10 :: "nat \<Rightarrow> string" where
  "digits10 n =
     (if n < 10 then [char_of (48 + n)]
      else digits10 (n div 10) @ [char_of (48 + n mod 10)])"

declare digits10.simps [simp del]

definition Itoa :: "int \<Rightarrow> string" where
  "Itoa i = (if i < 0 then ''-'' @ digits10 (nat (- i)) else digits10 (nat i))"

section \<open>Go maps\<close>

type_synonym 'v gomap = "(string \<times> 'v) list"

definition gget :: "'v \<Rightarrow> 'v gomap \<Rightarrow> string \<Rightarrow> 'v" where
  "gget zero m k = (case map_of m k of Some v \<Rightarrow> v | None \<Rightarrow> zero)"

abbreviation gset :: "string \<Rightarrow> 'v \<Rightarrow> 'v gomap \<Rightarrow> 'v gomap" where
  "gset \<equiv> AList.update"

definition gok :: "'v gomap \<Rightarrow> bool" where
  "gok m \<longleftrightarrow> distinct (map fst m)"

section \<open>Go errors\<close>

datatype goerr =
    ErrNotFound
  | ErrDuplicate
  | ErrExists
  | PlainErr string
  | WrapErr string goerr
  | ConnErr string string int "goerr option"

text \<open>\<open>errors.Is(err, target)\<close> for the sentinel errors of the store.\<close>

fun errorsIs :: "goerr \<Rightarrow> goerr \<Rightarrow> bool" where
  "errorsIs (WrapErr m e) t = (WrapErr m e = t \<or> errorsIs e t)"
| "errorsIs (ConnErr k m r (Some e)) t = (ConnErr k m r (Some e) = t \<or> errorsIs e t)"
| "errorsIs e t = (e = t)"

text \<open>\<open>err.Error()\<close>.\<close>

fun errorText :: "goerr \<Rightarrow> string" where
  "errorText ErrNotFound = ''not found''"
| "errorText ErrDuplicate = ''duplicate event''"
| "errorText ErrExists = ''resource already exists''"
| "errorText (PlainErr m) = m"
| "errorText (WrapErr m e) = m @ '': '' @ errorText e"
| "errorText (ConnErr k m r None) = k @ '': '' @ m"
| "errorText (ConnErr k m r (Some e)) = k @ '': '' @ m @ '': '' @ errorText e"

section \<open>Programs with state and errors\<close>

type_synonym ('s, 'a) M = "'s \<Rightarrow> (goerr + 'a) \<times> 's"

definition ret :: "'a \<Rightarrow> ('s, 'a) M" where
  "ret x = (\<lambda>s. (Inr x, s))"

definition throw :: "goerr \<Rightarrow> ('s, 'a) M" where
  "throw e = (\<lambda>s. (Inl e, s))"

definition bindM :: "('s, 'a) M \<Rightarrow> ('a \<Rightarrow> ('s, 'b) M) \<Rightarrow> ('s, 'b) M" where
  "bindM m f = (\<lambda>s. case m s of (Inl e, s') \<Rightarrow> (Inl e, s') | (Inr x, s') \<Rightarrow> f x s')"

definition attempt :: "('s, 'a) M \<Rightarrow> ('s, goerr + 'a) M" where
  "attempt m = (\<lambda>s. case m s of (r, s') \<Rightarrow> (Inr r, s'))"

definition thenM :: "('s, 'a) M \<Rightarrow> ('s, 'b) M \<Rightarrow> ('s, 'b) M" where
  "thenM m n = bindM m (\<lambda>_. n)"

definition ignore :: "('s, 'a) M \<Rightarrow> ('s, unit) M" where
  "ignore m = bindM (attempt m) (\<lambda>_. ret ())"

definition gets :: "('s \<Rightarrow> 'a) \<Rightarrow> ('s, 'a) M" where
  "gets f = (\<lambda>s. (Inr (f s), s))"

text \<open>A \<open>for range\<close> loop with an accumulator; an error leaves the loop and the function.\<close>

primrec forM :: "'x list \<Rightarrow> ('x \<Rightarrow> 'acc \<Rightarrow> ('s, 'acc) M) \<Rightarrow> 'acc \<Rightarrow> ('s, 'acc) M" where
  "forM [] body acc = ret acc"
| "forM (x # xs) body acc = bindM (body x acc) (forM xs body)"

section \<open>Program logic: invariants, frames, postconditions\<close>

definition pres :: "('s \<Rightarrow> bool) \<Rightarrow> ('s, 'a) M \<Rightarrow> bool" where
  "pres P m \<longleftrightarrow> (\<forall>s. P s \<longrightarrow> P (snd (m s)))"

definition keeps :: "('s \<Rightarrow> 'v) \<Rightarrow> ('s, 'a) M \<Rightarrow> bool" where
  "keeps f m \<longleftrightarrow> (\<forall>s. f (snd (m s)) = f s)"

definition valid ::
  "('s \<Rightarrow> bool) \<Rightarrow> ('s, 'a) M \<Rightarrow> ('a \<Rightarrow> 's \<Rightarrow> bool) \<Rightarrow> (goerr \<Rightarrow> 's \<Rightarrow> bool) \<Rightarrow> bool" where
  "valid P m Q E \<longleftrightarrow>
     (\<forall>s. P s \<longrightarrow> (case m s of (Inr x, s') \<Rightarrow> Q x s' | (Inl e, s') \<Rightarrow> E e s'))"

text \<open>What is known of the value a program returns.\<close>

definition returns :: "('s, 'a) M \<Rightarrow> ('a \<Rightarrow> bool) \<Rightarrow> bool" where
  "returns m R \<longleftrightarrow> (\<forall>s x s'. m s = (Inr x, s') \<longrightarrow> R x)"

section \<open>Lemmas on integers and decimal text\<close>

lemma i64_id [simp]: "in64 x \<Longrightarrow> i64 x = x"
  by (simp add: i64_def in64_def)

lemma in64_i64 [simp]: "in64 (i64 x)"
  by (simp add: i64_def in64_def)

lemma digits10_nonempty [simp]: "digits10 n \<noteq> []"
  by (subst digits10.simps) simp

lemma digits10_digit: "c \<in> set (digits10 n) \<Longrightarrow> 48 \<le> (of_char c :: nat) \<and> of_char c < (58 :: nat)"
proof (induction n rule: digits10.induct)
  case (1 n)
  then show ?case
    by (subst (asm) digits10.simps) (auto split: if_splits)
qed

lemma Itoa_nonempty [simp]: "Itoa i \<noteq> []"
  by (simp add: Itoa_def)

text \<open>Reading the digits back: decimal rendering is injective.\<close>

fun undigits10 :: "nat \<Rightarrow> string \<Rightarrow> nat" where
  "undigits10 acc [] = acc"
| "undigits10 acc (c # cs) = undigits10 (10 * acc + (of_char c - 48)) cs"

lemma undigits10_append: "undigits10 acc (xs @ ys) = undigits10 (undigits10 acc xs) ys"
  by (induction acc xs rule: undigits10.induct) simp_all

lemma undigits10_digits10 [simp]: "undigits10 0 (digits10 n) = n"
proof (induction n rule: digits10.induct)
  case (1 n)
  then show ?case
    by (subst digits10.simps) (auto simp: undigits10_append)
qed

lemma digits10_inject [simp]: "digits10 m = digits10 n \<longleftrightarrow> m = n"
  by (metis undigits10_digits10)

lemma Itoa_inject [simp]: "Itoa i = Itoa j \<longleftrightarrow> i = j"
proof -
  have "CHR ''-'' \<notin> set (digits10 n)" for n
    using digits10_digit [of "CHR ''-''" n] by auto
  then have "digits10 n \<noteq> CHR ''-'' # xs" for n xs
    by (metis list.set_intros(1))
  then show ?thesis
    by (auto simp: Itoa_def dest: sym)
qed

section \<open>Lemmas on Go maps\<close>

lemma map_of_gset [simp]: "map_of (gset k v m) = (map_of m)(k \<mapsto> v)"
  by (rule update_conv')

lemma gok_gset [simp]: "gok m \<Longrightarrow> gok (gset k v m)"
  by (simp add: gok_def distinct_update)

lemma gok_Nil [simp]: "gok []"
  by (simp add: gok_def)

lemma gget_gset [simp]: "gget z (gset k v m) k' = (if k = k' then v else gget z m k')"
  by (simp add: gget_def)

lemma gok_map_of_iff: "gok m \<Longrightarrow> (k, v) \<in> set m \<longleftrightarrow> map_of m k = Some v"
  by (simp add: gok_def)

section \<open>Evaluation of programs\<close>

lemma ret_run [run_simps]: "ret x s = (Inr x, s)"
  by (simp add: ret_def)

lemma throw_run [run_simps]: "throw e s = (Inl e, s)"
  by (simp add: throw_def)

lemma gets_run [run_simps]: "gets f s = (Inr (f s), s)"
  by (simp add: gets_def)

lemma bindM_run [run_simps]:
  "bindM m f s = (case m s of (Inl e, s') \<Rightarrow> (Inl e, s') | (Inr x, s') \<Rightarrow> f x s')"
  by (simp add: bindM_def)

lemma thenM_run [run_simps]:
  "thenM m n s = (case m s of (Inl e, s') \<Rightarrow> (Inl e, s') | (Inr x, s') \<Rightarrow> n s')"
  by (simp add: thenM_def bindM_def)

lemma attempt_run [run_simps]: "attempt m s = (Inr (fst (m s)), snd (m s))"
  by (simp add: attempt_def split: prod.splits)

lemma ignore_run [run_simps]: "ignore m s = (Inr (), snd (m s))"
  by (simp add: ignore_def run_simps)

lemma bindM_assoc: "bindM (bindM m f) g = bindM m (\<lambda>x. bindM (f x) g)"
  by (rule ext) (simp add: bindM_def split: prod.splits sum.splits)

lemma bindM_Inr:
  "bindM m f s = (Inr y, s'') \<longleftrightarrow> (\<exists>x s'. m s = (Inr x, s') \<and> f x s' = (Inr y, s''))"
  by (auto simp: bindM_def split: prod.splits sum.splits)

lemma bindM_Inl:
  "bindM m f s = (Inl e, s'') \<longleftrightarrow>
     m s = (Inl e, s'') \<or> (\<exists>x s'. m s = (Inr x, s') \<and> f x s' = (Inl e, s''))"
  by (auto simp: bindM_def split: prod.splits sum.splits)

section \<open>Rules for invariants\<close>

lemma presI: "(\<And>s. P s \<Longrightarrow> P (snd (m s))) \<Longrightarrow> pres P m"
  by (simp add: pres_def)

lemma presD: "pres P m \<Longrightarrow> P s \<Longrightarrow> P (snd (m s))"
  by (simp add: pres_def)

lemma pres_ret [pres_intros]: "pres P (ret x)"
  by (simp add: pres_def ret_def)

lemma pres_throw [pres_intros]: "pres P (throw e)"
  by (simp add: pres_def throw_def)

lemma pres_gets [pres_intros]: "pres P (gets f)"
  by (simp add: pres_def gets_def)

lemma pres_bindM [pres_intros]:
  "pres P m \<Longrightarrow> (\<And>x. pres P (f x)) \<Longrightarrow> pres P (bindM m f)"
  by (fastforce simp: pres_def bindM_def split: prod.splits sum.splits)

lemma pres_thenM [pres_intros]: "pres P m \<Longrightarrow> pres P n \<Longrightarrow> pres P (thenM m n)"
  by (simp add: thenM_def pres_bindM)

lemma pres_attempt [pres_intros]: "pres P m \<Longrightarrow> pres P (attempt m)"
  by (simp add: pres_def attempt_run)

lemma pres_ignore [pres_intros]: "pres P m \<Longrightarrow> pres P (ignore m)"
  by (simp add: pres_def ignore_run)

lemma pres_forM [pres_intros]: "(\<And>x acc. pres P (body x acc)) \<Longrightarrow> pres P (forM xs body acc)"
  by (induction xs arbitrary: acc) (simp_all add: pres_ret pres_bindM)

lemma pres_if [pres_intros]:
  "(b \<Longrightarrow> pres P m) \<Longrightarrow> (\<not> b \<Longrightarrow> pres P n) \<Longrightarrow> pres P (if b then m else n)"
  by simp

lemma pres_option [pres_intros]:
  "(x = None \<Longrightarrow> pres P m) \<Longrightarrow> (\<And>y. x = Some y \<Longrightarrow> pres P (f y)) \<Longrightarrow>
   pres P (case x of None \<Rightarrow> m | Some y \<Rightarrow> f y)"
  by (cases x) simp_all

lemma pres_sum [pres_intros]:
  "(\<And>e. x = Inl e \<Longrightarrow> pres P (g e)) \<Longrightarrow> (\<And>y. x = Inr y \<Longrightarrow> pres P (f y)) \<Longrightarrow>
   pres P (case x of Inl e \<Rightarrow> g e | Inr y \<Rightarrow> f y)"
  by (cases x) simp_all

lemma pres_prod [pres_intros]:
  "(\<And>a b. x = (a, b) \<Longrightarrow> pres P (f a b)) \<Longrightarrow> pres P (case x of (a, b) \<Rightarrow> f a b)"
  by (cases x) simp_all

lemma pres_list [pres_intros]:
  "(x = [] \<Longrightarrow> pres P m) \<Longrightarrow> (\<And>y ys. x = y # ys \<Longrightarrow> pres P (f y ys)) \<Longrightarrow>
   pres P (case x of [] \<Rightarrow> m | y # ys \<Rightarrow> f y ys)"
  by (cases x) simp_all

lemma pres_Let [pres_intros]: "(\<And>y. y = x \<Longrightarrow> pres P (f y)) \<Longrightarrow> pres P (let y = x in f y)"
  by simp

section \<open>Rules for frames\<close>

lemma keeps_pres: "keeps f m \<longleftrightarrow> (\<forall>c. pres (\<lambda>s. f s = c) m)"
  by (auto simp: keeps_def pres_def)

lemma keepsI: "(\<And>s. f (snd (m s)) = f s) \<Longrightarrow> keeps f m"
  by (simp add: keeps_def)

lemma keepsD: "keeps f m \<Longrightarrow> f (snd (m s)) = f s"
  by (simp add: keeps_def)

lemma keeps_run: "keeps f m \<Longrightarrow> m s = (r, s') \<Longrightarrow> f s' = f s"
  by (metis keepsD snd_conv)

lemma keeps_ret [keeps_intros]: "keeps v (ret x)"
  and keeps_throw [keeps_intros]: "keeps v (throw e)"
  and keeps_gets [keeps_intros]: "keeps v (gets f)"
  by (simp_all add: keeps_pres pres_ret pres_throw pres_gets)

lemma keeps_bindM [keeps_intros]:
  "keeps v m \<Longrightarrow> (\<And>x. keeps v (f x)) \<Longrightarrow> keeps v (bindM m f)"
  by (simp add: keeps_pres pres_bindM)

lemma keeps_thenM [keeps_intros]: "keeps v m \<Longrightarrow> keeps v n \<Longrightarrow> keeps v (thenM m n)"
  by (simp add: keeps_pres pres_thenM)

lemma keeps_attempt [keeps_intros]: "keeps v m \<Longrightarrow> keeps v (attempt m)"
  by (simp add: keeps_pres pres_attempt)

lemma keeps_ignore [keeps_intros]: "keeps v m \<Longrightarrow> keeps v (ignore m)"
  by (simp add: keeps_pres pres_ignore)

lemma keeps_forM [keeps_intros]:
  "(\<And>x acc. keeps v (body x acc)) \<Longrightarrow> keeps v (forM xs body acc)"
  by (simp add: keeps_pres pres_forM)

lemma keeps_if [keeps_intros]:
  "(b \<Longrightarrow> keeps v m) \<Longrightarrow> (\<not> b \<Longrightarrow> keeps v n) \<Longrightarrow> keeps v (if b then m else n)"
  by simp

lemma keeps_option [keeps_intros]:
  "(x = None \<Longrightarrow> keeps v m) \<Longrightarrow> (\<And>y. x = Some y \<Longrightarrow> keeps v (f y)) \<Longrightarrow>
   keeps v (case x of None \<Rightarrow> m | Some y \<Rightarrow> f y)"
  by (cases x) simp_all

lemma keeps_sum [keeps_intros]:
  "(\<And>e. x = Inl e \<Longrightarrow> keeps v (g e)) \<Longrightarrow> (\<And>y. x = Inr y \<Longrightarrow> keeps v (f y)) \<Longrightarrow>
   keeps v (case x of Inl e \<Rightarrow> g e | Inr y \<Rightarrow> f y)"
  by (cases x) simp_all

lemma keeps_prod [keeps_intros]:
  "(\<And>a b. x = (a, b) \<Longrightarrow> keeps v (f a b)) \<Longrightarrow> keeps v (case x of (a, b) \<Rightarrow> f a b)"
  by (cases x) simp_all

lemma keeps_list [keeps_intros]:
  "(x = [] \<Longrightarrow> keeps v m) \<Longrightarrow> (\<And>y ys. x = y # ys \<Longrightarrow> keeps v (f y ys)) \<Longrightarrow>
   keeps v (case x of [] \<Rightarrow> m | y # ys \<Rightarrow> f y ys)"
  by (cases x) simp_all

lemma keeps_Let [keeps_intros]: "(\<And>y. y = x \<Longrightarrow> keeps v (f y)) \<Longrightarrow> keeps v (let y = x in f y)"
  by simp

section \<open>Rules for failed runs\<close>

definition errKeeps :: "('s \<Rightarrow> 'v) \<Rightarrow> ('s, 'a) M \<Rightarrow> bool" where
  "errKeeps f m \<longleftrightarrow> (\<forall>s e s'. m s = (Inl e, s') \<longrightarrow> f s' = f s)"

lemma errKeepsD: "errKeeps f m \<Longrightarrow> m s = (Inl e, s') \<Longrightarrow> f s' = f s"
  by (auto simp: errKeeps_def)

lemma errKeeps_keeps: "keeps f m \<Longrightarrow> errKeeps f m"
  by (auto simp: errKeeps_def dest: keeps_run)

lemma errKeeps_bindM: "keeps f m \<Longrightarrow> (\<And>x. errKeeps f (g x)) \<Longrightarrow> errKeeps f (bindM m g)"
  by (fastforce simp: errKeeps_def bindM_Inl dest: keeps_run)

lemma errKeeps_bindM_ret: "errKeeps f m \<Longrightarrow> errKeeps f (bindM m (\<lambda>x. ret (h x)))"
  by (fastforce simp: errKeeps_def bindM_Inl ret_def)

lemma errKeeps_thenM: "keeps f m \<Longrightarrow> errKeeps f n \<Longrightarrow> errKeeps f (thenM m n)"
  unfolding thenM_def by (rule errKeeps_bindM)

lemma errKeeps_if:
  "(b \<Longrightarrow> errKeeps f m) \<Longrightarrow> (\<not> b \<Longrightarrow> errKeeps f n) \<Longrightarrow> errKeeps f (if b then m else n)"
  by simp

lemma errKeeps_option:
  "(x = None \<Longrightarrow> errKeeps f m) \<Longrightarrow> (\<And>y. x = Some y \<Longrightarrow> errKeeps f (g y)) \<Longrightarrow>
   errKeeps f (case x of None \<Rightarrow> m | Some y \<Rightarrow> g y)"
  by (cases x) simp_all

lemma errKeeps_prod:
  "(\<And>a b. x = (a, b) \<Longrightarrow> errKeeps f (g a b)) \<Longrightarrow> errKeeps f (case x of (a, b) \<Rightarrow> g a b)"
  by (cases x) simp_all

section \<open>Rules for postconditions\<close>

lemma validI:
  "(\<And>s x s'. P s \<Longrightarrow> m s = (Inr x, s') \<Longrightarrow> Q x s') \<Longrightarrow>
   (\<And>s e s'. P s \<Longrightarrow> m s = (Inl e, s') \<Longrightarrow> E e s') \<Longrightarrow> valid P m Q E"
  by (auto simp: valid_def split: prod.splits sum.splits)

lemma validD_Inr: "valid P m Q E \<Longrightarrow> P s \<Longrightarrow> m s = (Inr x, s') \<Longrightarrow> Q x s'"
  by (fastforce simp: valid_def)

lemma validD_Inl: "valid P m Q E \<Longrightarrow> P s \<Longrightarrow> m s = (Inl e, s') \<Longrightarrow> E e s'"
  by (fastforce simp: valid_def)

lemma valid_weaken:
  assumes "valid P' m Q' E'" "\<And>s. P s \<Longrightarrow> P' s" "\<And>x s. Q' x s \<Longrightarrow> Q x s" "\<And>e s. E' e s \<Longrightarrow> E e s"
  shows "valid P m Q E"
  using assms by (fastforce simp: valid_def split: prod.splits sum.splits)

lemma valid_pres: "pres P m \<Longrightarrow> valid P m (\<lambda>_. P) (\<lambda>_. P)"
  by (auto simp: valid_def pres_def split: prod.splits sum.splits)

lemma valid_keeps: "keeps f m \<Longrightarrow> valid (\<lambda>s. P (f s)) m (\<lambda>_ s. P (f s)) (\<lambda>_ s. P (f s))"
  by (rule valid_pres) (simp add: keeps_def pres_def)

lemma valid_ret: "(\<And>s. P s \<Longrightarrow> Q x s) \<Longrightarrow> valid P (ret x) Q E"
  by (simp add: valid_def ret_def)

lemma valid_throw: "(\<And>s. P s \<Longrightarrow> E e s) \<Longrightarrow> valid P (throw e) Q E"
  by (simp add: valid_def throw_def)

lemma valid_gets: "(\<And>s. P s \<Longrightarrow> Q (f s) s) \<Longrightarrow> valid P (gets f) Q E"
  by (simp add: valid_def gets_def)

lemma valid_bindM:
  "valid P m Q E \<Longrightarrow> (\<And>x. valid (Q x) (f x) R E) \<Longrightarrow> valid P (bindM m f) R E"
  by (fastforce simp: valid_def bindM_def split: prod.splits sum.splits)

lemma valid_thenM:
  "valid P m (\<lambda>_. Q) E \<Longrightarrow> valid Q n R E \<Longrightarrow> valid P (thenM m n) R E"
  by (simp add: thenM_def valid_bindM)

lemma valid_attempt:
  "valid P m (\<lambda>x. Q (Inr x)) (\<lambda>e. Q (Inl e)) \<Longrightarrow> valid P (attempt m) Q E"
  by (simp add: valid_def attempt_def case_prod_beta) (metis old.sum.simps(5,6) sum.exhaust_sel)

lemma valid_bindM_attempt:
  assumes "valid P m Q E" "\<And>x. valid (Q x) (f (Inr x)) R E'" "\<And>e. valid (E e) (f (Inl e)) R E'"
  shows "valid P (bindM (attempt m) f) R E'"
proof (rule valid_bindM [where Q = "\<lambda>r s. case r of Inl e \<Rightarrow> E e s | Inr x \<Rightarrow> Q x s"])
  show "valid P (attempt m) (\<lambda>r s. case r of Inl e \<Rightarrow> E e s | Inr x \<Rightarrow> Q x s) E'"
    by (rule valid_attempt) (simp add: assms(1))
  show "valid (\<lambda>s. case r of Inl e \<Rightarrow> E e s | Inr x \<Rightarrow> Q x s) (f r) R E'" for r
    using assms(2,3) by (cases r) simp_all
qed

lemma valid_ignore:
  "valid P m (\<lambda>_. Q ()) (\<lambda>_. Q ()) \<Longrightarrow> valid P (ignore m) Q E"
  unfolding ignore_def
  by (rule valid_bindM [where Q = "\<lambda>_. Q ()"]) (auto intro: valid_attempt valid_ret)

lemma valid_forM:
  assumes "\<And>x acc. x \<in> set xs \<Longrightarrow> valid (I acc) (body x acc) I E"
  shows "valid (I acc) (forM xs body acc) I E"
  using assms
  by (induction xs arbitrary: acc) (auto intro!: valid_ret intro: valid_bindM)

lemma valid_if:
  "(b \<Longrightarrow> valid P m Q E) \<Longrightarrow> (\<not> b \<Longrightarrow> valid P n Q E) \<Longrightarrow> valid P (if b then m else n) Q E"
  by simp

lemma valid_option:
  "(x = None \<Longrightarrow> valid P m Q E) \<Longrightarrow> (\<And>y. x = Some y \<Longrightarrow> valid P (f y) Q E) \<Longrightarrow>
   valid P (case x of None \<Rightarrow> m | Some y \<Rightarrow> f y) Q E"
  by (cases x) simp_all

lemma valid_sum:
  "(\<And>e. x = Inl e \<Longrightarrow> valid P (g e) Q E) \<Longrightarrow> (\<And>y. x = Inr y \<Longrightarrow> valid P (f y) Q E) \<Longrightarrow>
   valid P (case x of Inl e \<Rightarrow> g e | Inr y \<Rightarrow> f y) Q E"
  by (cases x) simp_all

lemma valid_prod:
  "(\<And>a b. x = (a, b) \<Longrightarrow> valid P (f a b) Q E) \<Longrightarrow> valid P (case x of (a, b) \<Rightarrow> f a b) Q E"
  by (cases x) simp_all

lemma valid_list:
  "(x = [] \<Longrightarrow> valid P m Q E) \<Longrightarrow> (\<And>y ys. x = y # ys \<Longrightarrow> valid P (f y ys) Q E) \<Longrightarrow>
   valid P (case x of [] \<Rightarrow> m | y # ys \<Rightarrow> f y ys) Q E"
  by (cases x) simp_all

lemma valid_Let:
  "(\<And>y. y = x \<Longrightarrow> valid P (f y) Q E) \<Longrightarrow> valid P (let y = x in f y) Q E"
  by simp

lemmas valid_struct [valid_intros] =
  valid_bindM valid_thenM valid_attempt valid_ignore valid_if valid_option valid_sum valid_prod
  valid_list valid_Let

section \<open>Rules for returned values\<close>

lemma returnsI: "(\<And>s x s'. m s = (Inr x, s') \<Longrightarrow> R x) \<Longrightarrow> returns m R"
  by (simp add: returns_def)

lemma returnsD: "returns m R \<Longrightarrow> m s = (Inr x, s') \<Longrightarrow> R x"
  by (auto simp: returns_def)

lemma returns_ret [returns_intros]: "R x \<Longrightarrow> returns (ret x) R"
  by (simp add: returns_def ret_def)

lemma returns_throw [returns_intros]: "returns (throw e) R"
  by (simp add: returns_def throw_def)

lemma returns_bindM: "returns m Q \<Longrightarrow> (\<And>x. Q x \<Longrightarrow> returns (f x) R) \<Longrightarrow> returns (bindM m f) R"
  by (fastforce simp: returns_def bindM_Inr)

lemma returns_bindM_any [returns_intros]: "(\<And>x. returns (f x) R) \<Longrightarrow> returns (bindM m f) R"
  by (fastforce simp: returns_def bindM_Inr)

lemma returns_thenM [returns_intros]: "returns n R \<Longrightarrow> returns (thenM m n) R"
  by (simp add: thenM_def returns_bindM_any)

lemma returns_attempt: "returns m R \<Longrightarrow> returns (attempt m) (\<lambda>r. case r of Inl e \<Rightarrow> True | Inr x \<Rightarrow> R x)"
proof (rule returnsI)
  fix s x s'
  assume "returns m R" "attempt m s = (Inr x, s')"
  then show "case x of Inl e \<Rightarrow> True | Inr x \<Rightarrow> R x"
    by (cases "m s") (auto simp: attempt_run returns_def split: sum.split)
qed

lemma returns_True: "returns m (\<lambda>_. True)"
  by (simp add: returns_def)

lemma returns_forM:
  assumes "\<And>x acc. I acc \<Longrightarrow> returns (body x acc) I" "I acc"
  shows "returns (forM xs body acc) I"
  using assms by (induction xs arbitrary: acc) (auto intro: returns_ret returns_bindM)

lemma keeps_bindM_returns:
  "keeps v m \<Longrightarrow> returns m R \<Longrightarrow> (\<And>x. R x \<Longrightarrow> keeps v (f x)) \<Longrightarrow> keeps v (bindM m f)"
proof (rule keepsI)
  fix s
  assume m: "keeps v m" "returns m R" and f: "\<And>x. R x \<Longrightarrow> keeps v (f x)"
  obtain r s' where ms: "m s = (r, s')"
    by force
  then have "v s' = v s"
    using keeps_run [OF m(1)] by blast
  then show "v (snd (bindM m f s)) = v s"
    using ms returnsD [OF m(2)] keepsD [OF f] by (cases r) (auto simp: bindM_run)
qed

lemma keeps_bindM_attempt:
  "keeps v m \<Longrightarrow> returns m R \<Longrightarrow> (\<And>e. keeps v (f (Inl e))) \<Longrightarrow> (\<And>x. R x \<Longrightarrow> keeps v (f (Inr x))) \<Longrightarrow>
   keeps v (bindM (attempt m) f)"
proof (rule keeps_bindM_returns [OF keeps_attempt returns_attempt])
  fix r :: "goerr + 'c"
  assume "\<And>e. keeps v (f (Inl e))" "\<And>x. R x \<Longrightarrow> keeps v (f (Inr x))"
    "case r of Inl e \<Rightarrow> True | Inr x \<Rightarrow> R x"
  then show "keeps v (f r)"
    by (cases r) simp_all
qed

lemma keeps_forM_inv:
  assumes "\<And>x acc. x \<in> set xs \<Longrightarrow> keeps v (body x acc)"
  shows "keeps v (forM xs body acc)"
  using assms by (induction xs arbitrary: acc) (auto intro: keeps_ret keeps_bindM)

text \<open>A program whose every result state differs from the start only in the part \<open>upd\<close> writes.\<close>

lemma keeps_pair: "keeps f m \<Longrightarrow> keeps g m \<Longrightarrow> keeps (\<lambda>s. (f s, g s)) m"
  by (simp add: keeps_def)

lemma keeps_comp: "keeps f m \<Longrightarrow> keeps (\<lambda>s. g (f s)) m"
  by (simp add: keeps_def)

end
