(* ===== verification/Tables.thy ===== *)
theory Tables
imports Prelude
begin

text \<open>
  Database tables as lists of rows in creation order. \<open>upsertBy\<close> is
  \<open>INSERT ... ON CONFLICT (key) DO UPDATE\<close>, \<open>insertIgnore\<close> is
  \<open>INSERT ... ON CONFLICT DO NOTHING\<close>, \<open>updateWhere\<close> and \<open>deleteWhere\<close> are
  \<open>UPDATE\<close> and \<open>DELETE\<close> with a \<open>WHERE\<close> clause, \<open>findRow\<close> a
  \<open>SELECT ... LIMIT 1\<close> in creation order.

  The locale \<open>keyed_table\<close> is the contract a client relies on when it writes a row through
  an upsert and reads it back; \<open>upsert_table\<close> is the shape the statements of the store have,
  and the sublocale declaration shows that this shape meets the contract. Every table of the
  store that is written by an upsert interprets \<open>upsert_table\<close> in its own theory.
\<close>

section \<open>Statements\<close>

definition findRow :: "('r \<Rightarrow> bool) \<Rightarrow> 'r list \<Rightarrow> 'r option" where
  "findRow P rows = List.find P rows"

definition updateWhere :: "('r \<Rightarrow> bool) \<Rightarrow> ('r \<Rightarrow> 'r) \<Rightarrow> 'r list \<Rightarrow> 'r list" where
  "updateWhere P f rows = map (\<lambda>r. if P r then f r else r) rows"

definition deleteWhere :: "('r \<Rightarrow> bool) \<Rightarrow> 'r list \<Rightarrow> 'r list" where
  "deleteWhere P rows = filter (\<lambda>r. \<not> P r) rows"

definition hasKey :: "('r \<Rightarrow> 'k) \<Rightarrow> 'k \<Rightarrow> 'r list \<Rightarrow> bool" where
  "hasKey key k rows \<longleftrightarrow> k \<in> set (map key rows)"

definition upsertBy :: "('r \<Rightarrow> 'k) \<Rightarrow> ('r \<Rightarrow> 'r \<Rightarrow> 'r) \<Rightarrow> 'r \<Rightarrow> 'r list \<Rightarrow> 'r list" where
  "upsertBy key merge row rows =
     (if hasKey key (key row) rows
      then updateWhere (\<lambda>r. key r = key row) (\<lambda>r. merge r row) rows
      else rows @ [row])"

definition insertIgnore :: "('r \<Rightarrow> 'k) \<Rightarrow> 'r \<Rightarrow> 'r list \<Rightarrow> 'r list" where
  "insertIgnore key row rows = (if hasKey key (key row) rows then rows else rows @ [row])"

definition keysOk :: "('r \<Rightarrow> 'k) \<Rightarrow> 'r list \<Rightarrow> bool" where
  "keysOk key rows \<longleftrightarrow> distinct (map key rows)"

definition getBy :: "('r \<Rightarrow> 'k) \<Rightarrow> 'k \<Rightarrow> 'r list \<Rightarrow> 'r option" where
  "getBy key k rows = findRow (\<lambda>r. key r = k) rows"

section \<open>Facts on rows\<close>

lemma findRow_Nil [simp]: "findRow P [] = None"
  by (simp add: findRow_def)

lemma findRow_Cons [simp]: "findRow P (r # rs) = (if P r then Some r else findRow P rs)"
  by (simp add: findRow_def)

lemma findRow_append:
  "findRow P (xs @ ys) = (case findRow P xs of Some r \<Rightarrow> Some r | None \<Rightarrow> findRow P ys)"
  by (induction xs) simp_all

lemma findRow_None_iff: "findRow P rows = None \<longleftrightarrow> (\<forall>r \<in> set rows. \<not> P r)"
  by (induction rows) simp_all

lemma findRow_SomeD: "findRow P rows = Some r \<Longrightarrow> r \<in> set rows \<and> P r"
  by (induction rows) (auto split: if_splits)

lemma findRow_updateWhere_other:
  assumes "\<And>r. P r \<Longrightarrow> \<not> Q r" "\<And>r. P r \<Longrightarrow> \<not> Q (f r)"
  shows "findRow Q (updateWhere P f rows) = findRow Q rows"
  using assms by (induction rows) (auto simp: updateWhere_def)

lemma updateWhere_Nil [simp]: "updateWhere P f [] = []"
  by (simp add: updateWhere_def)

lemma updateWhere_Cons [simp]:
  "updateWhere P f (r # rs) = (if P r then f r else r) # updateWhere P f rs"
  by (simp add: updateWhere_def)

lemma updateWhere_keys:
  assumes "\<And>r. P r \<Longrightarrow> key (f r) = key r"
  shows "map key (updateWhere P f rows) = map key rows"
  using assms by (induction rows) auto

lemma updateWhere_none: "(\<And>r. r \<in> set rows \<Longrightarrow> \<not> P r) \<Longrightarrow> updateWhere P f rows = rows"
  by (induction rows) auto

lemma filter_updateWhere:
  assumes "\<And>r. P r \<Longrightarrow> \<not> Q r" "\<And>r. P r \<Longrightarrow> \<not> Q (f r)"
  shows "filter Q (updateWhere P f rows) = filter Q rows"
  using assms by (induction rows) auto

lemma filter_deleteWhere:
  assumes "\<And>r. P r \<Longrightarrow> \<not> Q r"
  shows "filter Q (deleteWhere P rows) = filter Q rows"
  using assms by (induction rows) (auto simp: deleteWhere_def)

lemma filter_upsertBy:
  assumes "\<And>r. key r = key row \<Longrightarrow> \<not> Q r"
    and "\<And>r. key r = key row \<Longrightarrow> \<not> Q (merge r row)"
  shows "filter Q (upsertBy key merge row rows) = filter Q rows"
  using assms filter_updateWhere [of "\<lambda>r. key r = key row" Q "\<lambda>r. merge r row" rows]
  by (auto simp: upsertBy_def)

lemma filter_insertIgnore: "\<not> Q row \<Longrightarrow> filter Q (insertIgnore key row rows) = filter Q rows"
  by (simp add: insertIgnore_def)

lemma hasKey_iff_getBy: "hasKey key k rows \<longleftrightarrow> getBy key k rows \<noteq> None"
  by (auto simp: hasKey_def getBy_def findRow_None_iff)

lemma getBy_key: "getBy key k rows = Some r \<Longrightarrow> key r = k"
  by (auto simp: getBy_def dest: findRow_SomeD)

lemma getBy_set: "getBy key k rows = Some r \<Longrightarrow> r \<in> set rows"
  by (auto simp: getBy_def dest: findRow_SomeD)

lemma keysOk_Nil [simp]: "keysOk key []"
  by (simp add: keysOk_def)

lemma keysOk_getBy: "keysOk key rows \<Longrightarrow> r \<in> set rows \<Longrightarrow> getBy key (key r) rows = Some r"
  by (induction rows) (auto simp: keysOk_def getBy_def image_iff)

lemma keysOk_deleteWhere: "keysOk key rows \<Longrightarrow> keysOk key (deleteWhere P rows)"
  by (simp add: keysOk_def deleteWhere_def distinct_map_filter)

lemma keysOk_insertIgnore: "keysOk key rows \<Longrightarrow> keysOk key (insertIgnore key row rows)"
  by (auto simp: keysOk_def insertIgnore_def hasKey_def)

lemma hasKey_insertIgnore:
  "hasKey key k (insertIgnore key row rows) \<longleftrightarrow> k = key row \<or> hasKey key k rows"
  by (auto simp: insertIgnore_def hasKey_def)

lemma hasKey_deleteWhere_key:
  "hasKey key k (deleteWhere (\<lambda>r. key r = k') rows) \<longleftrightarrow> k \<noteq> k' \<and> hasKey key k rows"
  by (auto simp: hasKey_def deleteWhere_def image_iff)

section \<open>The contract of a keyed table\<close>

locale keyed_table =
  fixes key :: "'r \<Rightarrow> 'k"
    and put :: "'r \<Rightarrow> 'r list \<Rightarrow> 'r list"
    and val :: "'r \<Rightarrow> 'v"
  assumes put_get: "map_option val (getBy key (key row) (put row rows)) = Some (val row)"
    and put_other: "k \<noteq> key row \<Longrightarrow> getBy key k (put row rows) = getBy key k rows"
    and put_keysOk: "keysOk key rows \<Longrightarrow> keysOk key (put row rows)"
begin

lemma put_hasKey: "hasKey key k (put row rows) \<longleftrightarrow> k = key row \<or> hasKey key k rows"
proof (cases "k = key row")
  case True
  then show ?thesis
    using put_get [of row rows] by (auto simp: hasKey_iff_getBy)
next
  case False
  then show ?thesis
    by (simp add: hasKey_iff_getBy put_other)
qed

lemma last_put_wins:
  "key row' = key row \<Longrightarrow>
   map_option val (getBy key (key row) (put row' (put row rows))) = Some (val row')"
  by (metis put_get)

lemma fold_put_keysOk: "keysOk key rows \<Longrightarrow> keysOk key (fold put new rows)"
  by (induction new arbitrary: rows) (simp_all add: put_keysOk)

lemma fold_put_other:
  "k \<notin> key ` set new \<Longrightarrow> getBy key k (fold put new rows) = getBy key k rows"
  by (induction new arbitrary: rows) (simp_all add: put_other)

text \<open>A batch of upserts leaves, for every key it writes, the values of its last row.\<close>

lemma fold_put_last:
  assumes "k \<in> key ` set new"
  shows "\<exists>row \<in> set new. key row = k \<and>
           map_option val (getBy key k (fold put new rows)) = Some (val row)"
  using assms
proof (induction new arbitrary: rows)
  case (Cons row new)
  show ?case
  proof (cases "k \<in> key ` set new")
    case True
    then show ?thesis
      using Cons.IH [of "put row rows"] by auto
  next
    case False
    then have "key row = k"
      using Cons.prems by auto
    then show ?thesis
      using False put_get [of row rows] by (auto simp: fold_put_other)
  qed
qed simp

lemma fold_put_distinct:
  assumes "distinct (map key new)" "row \<in> set new"
  shows "map_option val (getBy key (key row) (fold put new rows)) = Some (val row)"
proof -
  obtain row' where "row' \<in> set new" "key row' = key row"
    and *: "map_option val (getBy key (key row) (fold put new rows)) = Some (val row')"
    using fold_put_last [of "key row" new rows] assms(2) by auto
  moreover have "row' = row"
    using assms calculation(1,2) by (auto simp: distinct_map inj_on_def)
  ultimately show ?thesis
    by simp
qed

end

locale upsert_table =
  fixes key :: "'r \<Rightarrow> 'k"
    and merge :: "'r \<Rightarrow> 'r \<Rightarrow> 'r"
    and val :: "'r \<Rightarrow> 'v"
  assumes merge_key: "key old = key row \<Longrightarrow> key (merge old row) = key row"
    and merge_val: "key old = key row \<Longrightarrow> val (merge old row) = val row"
begin

lemma get_updated:
  "hasKey key (key row) rows \<Longrightarrow>
   map_option val (getBy key (key row)
      (updateWhere (\<lambda>r. key r = key row) (\<lambda>r. merge r row) rows)) = Some (val row)"
  by (induction rows) (auto simp: hasKey_def getBy_def merge_key merge_val)

lemma get_appended:
  "\<not> hasKey key (key row) rows \<Longrightarrow> getBy key (key row) (rows @ [row]) = Some row"
  by (induction rows) (auto simp: hasKey_def getBy_def)

lemma get_put: "map_option val (getBy key (key row) (upsertBy key merge row rows)) = Some (val row)"
  by (cases "hasKey key (key row) rows") 
    (simp_all only: upsertBy_def if_True if_False get_updated, simp add: get_appended)

lemma other_unchanged:
  "k \<noteq> key row \<Longrightarrow> getBy key k (upsertBy key merge row rows) = getBy key k rows"
  using findRow_updateWhere_other [of "\<lambda>r. key r = key row" "\<lambda>r. key r = k" "\<lambda>r. merge r row" rows]
  by (auto simp: upsertBy_def getBy_def findRow_append merge_key split: option.split)

lemma keys_distinct: "keysOk key rows \<Longrightarrow> keysOk key (upsertBy key merge row rows)"
  unfolding upsertBy_def keysOk_def
  using updateWhere_keys [of "\<lambda>r. key r = key row" key "\<lambda>r. merge r row" rows]
  by (auto simp: merge_key hasKey_def)

end

sublocale upsert_table \<subseteq> kt: keyed_table key "upsertBy key merge" val
  by unfold_locales (rule get_put, erule other_unchanged, erule keys_distinct)

end
