(* ===== verification/GoValues.thy ===== *)
theory GoValues
imports Prelude Complex_Main
begin

text \<open>
  The dynamic values the code passes around as \<open>any\<close> (decoded JSON) and the parts of Go's
  standard library that read them: \<open>encoding/json\<close> text of a value, used by
  \<open>conflict.valuesEqual\<close> and \<open>model.str\<close>, and \<open>fmt.Sprint\<close>, used by the
  adapters and by the reconciliation diff.

  A JSON number is a \<open>float64\<close>; it is kept as the rational it denotes, and its two textual
  renderings (\<open>strconv\<close>'s shortest formats as used by \<open>encoding/json\<close> and by
  \<open>fmt\<close>) are members of the record \<open>golib\<close> of library functions, together with SHA-256,
  HMAC, bcrypt and RFC 3339 time text. Strings are byte strings; the ones that reach the
  functions below come out of a JSON decoder or a database text column and are valid UTF-8.
  The main fact is that the escaping of \<open>encoding/json\<close> is injective, so that equality of
  marshalled strings is equality of strings.
\<close>

section \<open>Values and library functions\<close>

datatype goval =
    GNil
  | GBool bool
  | GNum rat
  | GStr string
  | GArr "goval list"
  | GObj "(string \<times> goval) list"

record golib =
  json_num :: "rat \<Rightarrow> string"
  sprint_num :: "rat \<Rightarrow> string"
  json_decode :: "string \<Rightarrow> goval option"
  sha256_hex :: "string \<Rightarrow> string"
  hmac_sha256 :: "string \<Rightarrow> string \<Rightarrow> string"
  hmac_sha1 :: "string \<Rightarrow> string \<Rightarrow> string"
  bcrypt_ok :: "string \<Rightarrow> string \<Rightarrow> bool"
  rfc3339 :: "int \<Rightarrow> string"
  parse_rfc3339 :: "string \<Rightarrow> int option"

text \<open>A concrete library for evaluating the definitions on inputs.\<close>

definition demoLib :: golib where
  "demoLib = \<lparr>json_num = (\<lambda>r. Itoa \<lfloor>r\<rfloor>), sprint_num = (\<lambda>r. Itoa \<lfloor>r\<rfloor>),
     json_decode = (\<lambda>s. if s = [] then None else Some (GStr s)), sha256_hex = (\<lambda>s. s),
     hmac_sha256 = (\<lambda>k m. k @ m), hmac_sha1 = (\<lambda>k m. replicate 20 (CHR 0x01)),
     bcrypt_ok = (\<lambda>h p. h = p), rfc3339 = Itoa, parse_rfc3339 = (\<lambda>s. None)\<rparr>"

definition joinWith :: "string \<Rightarrow> string list \<Rightarrow> string" where
  "joinWith sep xs = (case xs of [] \<Rightarrow> [] | y # ys \<Rightarrow> y @ concat (map (\<lambda>s. sep @ s) ys))"

section \<open>The text of encoding/json\<close>

definition hexDigit :: "nat \<Rightarrow> char" where
  "hexDigit n = char_of (if n < 10 then 48 + n else 87 + n)"

text \<open>
  One byte: quotes, backslash and control characters are escaped, and so are \<open><\<close>,
  \<open>>\<close> and \<open>&\<close> (HTML escaping is on in \<open>json.Marshal\<close>).
\<close>

definition shortEsc :: "(char \<times> char) list" where
  "shortEsc = [(CHR 0x22, CHR 0x22), (CHR 0x5C, CHR 0x5C), (CHR 0x08, CHR 0x62),
     (CHR 0x0C, CHR 0x66), (CHR 0x0A, CHR 0x6E), (CHR 0x0D, CHR 0x72), (CHR 0x09, CHR 0x74)]"

definition hexEsc :: "char \<Rightarrow> bool" where
  "hexEsc c \<longleftrightarrow> of_char c < (32 :: nat) \<or> c = CHR 0x3C \<or> c = CHR 0x3E \<or> c = CHR 0x26"

definition jsonEscChar :: "char \<Rightarrow> string" where
  "jsonEscChar c =
     (case map_of shortEsc c of
        Some e \<Rightarrow> [CHR 0x5C, e]
      | None \<Rightarrow>
          if hexEsc c
          then [CHR 0x5C, CHR 0x75, CHR 0x30, CHR 0x30,
                hexDigit (of_char c div 16), hexDigit (of_char c mod 16)]
          else [c])"

text \<open>The line separators U+2028 and U+2029 (bytes E2 80 A8 and E2 80 A9) are escaped as well.\<close>

definition lineSep :: "char \<Rightarrow> string \<Rightarrow> string option" where
  "lineSep c cs =
     (if c = CHR 0xE2 \<and> take 2 cs = [CHR 0x80, CHR 0xA8] then Some (CHR 0x5C # ''u2028'')
      else if c = CHR 0xE2 \<and> take 2 cs = [CHR 0x80, CHR 0xA9] then Some (CHR 0x5C # ''u2029'')
      else None)"

function jsonEscape :: "string \<Rightarrow> string" where
  "jsonEscape [] = []"
| "jsonEscape (c # cs) =
     (case lineSep c cs of
        Some e \<Rightarrow> e @ jsonEscape (drop 2 cs)
      | None \<Rightarrow> jsonEscChar c @ jsonEscape cs)"
  by pat_completeness auto
termination by (relation "measure length") auto

definition jsonString :: "string \<Rightarrow> string" where
  "jsonString s = [CHR 0x22] @ jsonEscape s @ [CHR 0x22]"

text \<open>\<open>json.Marshal\<close>; the members of an object are written in the order of their keys.\<close>

fun jsonMarshal :: "('x) golib_scheme \<Rightarrow> goval \<Rightarrow> string" where
  "jsonMarshal L GNil = ''null''"
| "jsonMarshal L (GBool b) = (if b then ''true'' else ''false'')"
| "jsonMarshal L (GNum r) = json_num L r"
| "jsonMarshal L (GStr s) = jsonString s"
| "jsonMarshal L (GArr vs) = ''['' @ joinWith '','' (map (jsonMarshal L) vs) @ '']''"
| "jsonMarshal L (GObj kvs) =
     ''{'' @ joinWith '','' (map (\<lambda>(k, t). jsonString k @ '':'' @ t)
        (sort_key fst (map (\<lambda>(k, v). (k, jsonMarshal L v)) kvs))) @ ''}''"

section \<open>The text of fmt.Sprint\<close>

fun sprint :: "('x) golib_scheme \<Rightarrow> goval \<Rightarrow> string" where
  "sprint L GNil = ''<nil>''"
| "sprint L (GBool b) = (if b then ''true'' else ''false'')"
| "sprint L (GNum r) = sprint_num L r"
| "sprint L (GStr s) = s"
| "sprint L (GArr vs) = ''['' @ joinWith '' '' (map (sprint L) vs) @ '']''"
| "sprint L (GObj kvs) =
     ''map['' @ joinWith '' '' (map (\<lambda>(k, t). k @ '':'' @ t)
        (sort_key fst (map (\<lambda>(k, v). (k, sprint L v)) kvs))) @ '']''"

text \<open>The type assertions \<open>v.(map[string]any)\<close> and \<open>v.(string)\<close>.\<close>

fun asObj :: "goval \<Rightarrow> goval gomap option" where
  "asObj (GObj m) = Some m"
| "asObj _ = None"

fun asStr :: "goval \<Rightarrow> string option" where
  "asStr (GStr s) = Some s"
| "asStr _ = None"

section \<open>Escaping is injective\<close>

lemma hexDigit_inject: "m < 16 \<Longrightarrow> n < 16 \<Longrightarrow> hexDigit m = hexDigit n \<longleftrightarrow> m = n"
  by (auto simp: hexDigit_def char_of_eq_iff take_bit_eq_mod)

lemma of_char_less [simp]: "(of_char c :: nat) < 256"
  using nat_of_char_less_256 [of c] by simp

lemma hexPair_inject:
  "hexDigit (of_char c div 16) = hexDigit (of_char d div 16) \<Longrightarrow>
   hexDigit (of_char c mod 16) = hexDigit (of_char d mod 16) \<Longrightarrow> c = d"
proof -
  assume "hexDigit (of_char c div 16) = hexDigit (of_char d div 16)"
    "hexDigit (of_char c mod 16) = hexDigit (of_char d mod 16)"
  moreover have "(of_char c :: nat) div 16 < 16" "(of_char d :: nat) div 16 < 16"
    using of_char_less [of c] of_char_less [of d] by (auto simp: less_mult_imp_div_less)
  ultimately have "(of_char c :: nat) div 16 = of_char d div 16" "(of_char c :: nat) mod 16 = of_char d mod 16"
    by (auto simp: hexDigit_inject)
  then have "(of_char c :: nat) = of_char d"
    by (metis div_mult_mod_eq)
  then show "c = d"
    by simp
qed

text \<open>No escape is a proper prefix of another one.\<close>

lemma shortEsc_inject: "map_of shortEsc c = Some e \<Longrightarrow> map_of shortEsc d = Some e \<Longrightarrow> c = d"
  by (drule map_of_SomeD)+ (auto simp: shortEsc_def)

lemma shortEsc_not_u: "map_of shortEsc c = Some e \<Longrightarrow> e \<noteq> CHR 0x75"
  by (auto simp: shortEsc_def split: if_splits)

lemma shortEsc_backslash: "map_of shortEsc c = None \<Longrightarrow> c \<noteq> CHR 0x5C"
  by (auto simp: shortEsc_def)

lemma jsonEscChar_prefix_free:
  assumes "jsonEscChar c @ xs = jsonEscChar d @ ys"
  shows "c = d \<and> xs = ys"
  using assms shortEsc_not_u [of c] shortEsc_not_u [of d] shortEsc_backslash [of c]
    shortEsc_backslash [of d] shortEsc_inject [of c _ d] hexPair_inject [of c d]
  by (simp add: jsonEscChar_def split: option.splits if_splits)

lemma jsonEscChar_not_lineSep:
  assumes "lineSep d ds = Some e"
  shows "jsonEscChar c @ xs \<noteq> e @ ys"
  using assms shortEsc_not_u [of c] shortEsc_backslash [of c]
  by (auto simp: lineSep_def jsonEscChar_def split: option.splits if_splits)

lemma lineSep_inject:
  assumes "lineSep c cs = Some e" "lineSep d ds = Some e'" "e @ xs = e' @ ys"
  shows "c = d \<and> take 2 cs = take 2 ds \<and> xs = ys"
  using assms by (auto simp: lineSep_def split: if_splits)

lemma jsonEscChar_nonempty [simp]: "jsonEscChar c \<noteq> []"
  by (simp add: jsonEscChar_def split: option.split)

lemma jsonEscape_nonempty [simp]: "jsonEscape (c # cs) \<noteq> []"
  by (auto simp: lineSep_def split: option.splits if_splits)

lemma jsonEscape_inject [simp]: "jsonEscape xs = jsonEscape ys \<longleftrightarrow> xs = ys"
proof
  show "jsonEscape xs = jsonEscape ys \<Longrightarrow> xs = ys"
  proof (induction xs arbitrary: ys rule: jsonEscape.induct)
    case 1
    then show ?case
      by (metis jsonEscape.simps(1) jsonEscape_nonempty neq_Nil_conv)
  next
    case (2 c cs)
    obtain d ds where ys: "ys = d # ds"
      using "2.prems" jsonEscape_nonempty [of c cs] by (cases ys) (auto simp del: jsonEscape_nonempty)
    show ?case
    proof (cases "lineSep c cs")
      case None
      then have "lineSep d ds = None"
        using "2.prems" jsonEscChar_not_lineSep ys by (fastforce split: option.splits)
      with None show ?thesis
        using "2.prems" "2.IH"(1) [OF None, of ds] jsonEscChar_prefix_free [of c "jsonEscape cs" d "jsonEscape ds"] ys
        by simp
    next
      case (Some e)
      then obtain e' where "lineSep d ds = Some e'"
        using "2.prems" jsonEscChar_not_lineSep [OF Some, of d "jsonEscape ds"] ys
        by (cases "lineSep d ds") (auto dest: sym)
      with Some show ?thesis
        using "2.prems" "2.IH"(2) [OF Some, of "drop 2 ds"] ys
          lineSep_inject [OF Some \<open>lineSep d ds = Some e'\<close>, of "jsonEscape (drop 2 cs)" "jsonEscape (drop 2 ds)"]
        by simp (metis append_take_drop_id)
    qed
  qed
qed simp

lemma jsonString_inject [simp]: "jsonString a = jsonString b \<longleftrightarrow> a = b"
  by (simp add: jsonString_def)

lemma jsonMarshal_str_inject [simp]: "jsonMarshal L (GStr a) = jsonMarshal L (GStr b) \<longleftrightarrow> a = b"
  by simp

lemma jsonMarshal_str_ne_nil [simp]: "jsonMarshal L (GStr a) \<noteq> jsonMarshal L GNil"
  by (simp add: jsonString_def)

end
