(* ===== verification/Canonical.thy ===== *)
theory Canonical
imports GoValues
begin

text \<open>
  The canonical customer (\<open>internal/model/customer.go\<close>) and the synchronization event
  (\<open>internal/events/events.go\<close>): their data, the flat field map used for persistence, the
  loop-prevention fingerprint, and the keys an event is identified and routed by.

  The lemmas show that the field map is a faithful store of the five business fields
  (\<open>FromFields\<close> after \<open>Fields\<close> is the identity on them), that equal fields have equal
  fingerprints, what the fingerprint text leaves undistinguished, and that the idempotency key
  determines the tenant, the source and the provider's event id.
\<close>

section \<open>Customers\<close>

record Customer =
  cu_SyncID :: string
  cu_TenantID :: string
  cu_EntityID :: string
  FirstName :: string
  LastName :: string
  Email :: string
  Phone :: string
  Company :: string
  cu_Version :: int
  cu_SourceVersions :: "int gomap"
  cu_UpdatedAt :: int
  cu_Deleted :: bool

definition emptyCustomer :: Customer where
  "emptyCustomer = \<lparr>cu_SyncID = [], cu_TenantID = [], cu_EntityID = [], FirstName = [],
     LastName = [], Email = [], Phone = [], Company = [], cu_Version = 0,
     cu_SourceVersions = [], cu_UpdatedAt = 0, cu_Deleted = False\<rparr>"

definition Fields :: "Customer \<Rightarrow> goval gomap" where
  "Fields c = [(''first_name'', GStr (FirstName c)), (''last_name'', GStr (LastName c)),
               (''email'', GStr (Email c)), (''phone'', GStr (Phone c)),
               (''company'', GStr (Company c))]"

fun str :: "('x) golib_scheme \<Rightarrow> goval \<Rightarrow> string" where
  "str L GNil = []"
| "str L (GStr s) = s"
| "str L v = jsonMarshal L v"

definition FromFields :: "('x) golib_scheme \<Rightarrow> Customer \<Rightarrow> goval gomap \<Rightarrow> Customer" where
  "FromFields L c fs =
     c\<lparr>FirstName := str L (gget GNil fs ''first_name''),
       LastName := str L (gget GNil fs ''last_name''),
       Email := str L (gget GNil fs ''email''),
       Phone := str L (gget GNil fs ''phone''),
       Company := str L (gget GNil fs ''company'')\<rparr>"

text \<open>The text \<open>fmt.Fprintf\<close> writes into the hash.\<close>

definition fingerprintText :: "Customer \<Rightarrow> string" where
  "fingerprintText c =
     ''first_name='' @ FirstName c @ ''|last_name='' @ LastName c @ ''|email='' @ Email c @
     ''|phone='' @ Phone c @ ''|company='' @ Company c"

definition Fingerprint :: "('x) golib_scheme \<Rightarrow> Customer \<Rightarrow> string" where
  "Fingerprint L c = sha256_hex L (fingerprintText c)"

section \<open>Events\<close>

abbreviation EventCreated :: string where "EventCreated \<equiv> ''created''"
abbreviation EventUpdated :: string where "EventUpdated \<equiv> ''updated''"
abbreviation EventDeleted :: string where "EventDeleted \<equiv> ''deleted''"

record EventProvenance =
  OriginSource :: string
  OriginEventID :: string
  SyncOperationID :: string
  ResolvedConflictID :: string
  ReconcileFindingID :: string

definition noProvenance :: EventProvenance where
  "noProvenance = \<lparr>OriginSource = [], OriginEventID = [], SyncOperationID = [],
     ResolvedConflictID = [], ReconcileFindingID = []\<rparr>"

record Event =
  EventID :: string
  TenantID :: string
  Source :: string
  EntityType :: string
  EntityID :: string
  EventType :: string
  SourceVersion :: int
  OccurredAt :: int
  ReceivedAt :: int
  CorrelationID :: string
  ev_Provenance :: EventProvenance
  Payload :: "goval gomap"

definition Key :: "Event \<Rightarrow> string \<times> string \<times> string" where
  "Key e = (TenantID e, Source e, EventID e)"

definition PartitionKey :: "Event \<Rightarrow> string" where
  "PartitionKey e = TenantID e @ '':'' @ EntityType e @ '':'' @ EntityID e"

section \<open>The five business fields\<close>

definition sameFields5 :: "Customer \<Rightarrow> Customer \<Rightarrow> bool" where
  "sameFields5 c d \<longleftrightarrow> FirstName c = FirstName d \<and> LastName c = LastName d \<and> Email c = Email d \<and>
     Phone c = Phone d \<and> Company c = Company d"

lemma Fields_keys: "map fst (Fields c) = [''first_name'', ''last_name'', ''email'', ''phone'', ''company'']"
  by (simp add: Fields_def)

lemma gok_Fields [simp]: "gok (Fields c)"
  by (simp add: gok_def Fields_keys)

lemma Fields_inject: "Fields c = Fields d \<longleftrightarrow> sameFields5 c d"
  by (auto simp: Fields_def sameFields5_def)

lemma Fields_values: "map_of (Fields c) k = Some v \<Longrightarrow> \<exists>s. v = GStr s"
  by (auto simp: Fields_def split: if_splits)

lemma FromFields_cong:
  "(\<And>k. k \<in> {''first_name'', ''last_name'', ''email'', ''phone'', ''company''} \<Longrightarrow> map_of m k = map_of m' k) \<Longrightarrow>
   FromFields L c m = FromFields L c m'"
  by (simp add: FromFields_def gget_def)

lemma FromFields_Fields: "sameFields5 (FromFields L c (Fields d)) d"
  by (simp add: sameFields5_def FromFields_def Fields_def gget_def)

lemma sameFields5_Fingerprint: "sameFields5 c d \<Longrightarrow> Fingerprint L c = Fingerprint L d"
  by (simp add: sameFields5_def Fingerprint_def fingerprintText_def)

lemma Key_inject:
  "Key e = Key f \<longleftrightarrow> TenantID e = TenantID f \<and> Source e = Source f \<and> EventID e = EventID f"
  by (simp add: Key_def)

end
