(* ===== verification/Conflict.thy ===== *)
theory Conflict
imports Canonical
begin

text \<open>
  Field-level conflict detection and resolution (\<open>internal/conflict/conflict.go\<close>): strategies,
  per-field provenance, \<open>Detect\<close>, \<open>Resolve\<close> and \<open>Merge\<close>.

  The loops over Go maps follow the list order of the maps; the lemmas show that this order
  (which Go leaves open) does not influence the result. \<open>mergeField\<close> is the declarative
  reference of one field's outcome, \<open>Merge_fields\<close> and \<open>Merge_prov\<close> show that the loops
  compute it for every field, and the properties below rest on these two equations.
\<close>

section \<open>Data\<close>

abbreviation StrategyLastWriteWins :: string where "StrategyLastWriteWins \<equiv> ''last_write_wins''"
abbreviation StrategySourcePriority :: string where "StrategySourcePriority \<equiv> ''source_priority''"
abbreviation StrategyFieldMerge :: string where "StrategyFieldMerge \<equiv> ''field_merge''"
abbreviation StrategyManual :: string where "StrategyManual \<equiv> ''manual''"

record Provenance =
  pv_Source :: string
  pv_Version :: int
  pv_OccurredAt :: int
  pv_Priority :: int

record FieldConflict =
  fc_Field :: string
  SourceA :: string
  VersionA :: int
  OccurredAtA :: int
  PriorityA :: int
  ValueA :: goval
  SourceB :: string
  VersionB :: int
  OccurredAtB :: int
  PriorityB :: int
  ValueB :: goval

record Winner =
  Side :: string
  w_Source :: string
  w_Version :: int
  w_OccurredAt :: int
  w_Value :: goval

section \<open>Operations\<close>

definition valuesEqual :: "('x) golib_scheme \<Rightarrow> goval \<Rightarrow> goval \<Rightarrow> bool" where
  "valuesEqual L a b \<longleftrightarrow> jsonMarshal L a = jsonMarshal L b"

text \<open>One iteration of the loop of \<open>Detect\<close>; \<open>None\<close> is \<open>continue\<close>.\<close>

definition detectField ::
  "('x) golib_scheme \<Rightarrow> goval gomap \<Rightarrow> Provenance gomap \<Rightarrow> string \<Rightarrow> int \<Rightarrow> int \<Rightarrow> int \<Rightarrow>
   string \<times> goval \<Rightarrow> FieldConflict option" where
  "detectField L persisted fp source version occurredAt priority = (\<lambda>(field, inVal).
     case map_of fp field of
       None \<Rightarrow> None
     | Some prov \<Rightarrow>
         if pv_Source prov = source then None
         else let stored = gget GNil persisted field in
           if valuesEqual L stored inVal then None
           else Some \<lparr>fc_Field = field, SourceA = pv_Source prov, VersionA = pv_Version prov,
                  OccurredAtA = pv_OccurredAt prov, PriorityA = pv_Priority prov, ValueA = stored,
                  SourceB = source, VersionB = version, OccurredAtB = occurredAt,
                  PriorityB = priority, ValueB = inVal\<rparr>)"

definition Detect ::
  "('x) golib_scheme \<Rightarrow> goval gomap \<Rightarrow> Provenance gomap \<Rightarrow> goval gomap \<Rightarrow> string \<Rightarrow> int \<Rightarrow> int \<Rightarrow>
   int \<Rightarrow> FieldConflict list" where
  "Detect L persisted fp incoming source version occurredAt priority =
     sort_key fc_Field
       (List.map_filter (detectField L persisted fp source version occurredAt priority) incoming)"

definition winnerA :: "FieldConflict \<Rightarrow> Winner" where
  "winnerA c = \<lparr>Side = ''a'', w_Source = SourceA c, w_Version = VersionA c,
                w_OccurredAt = OccurredAtA c, w_Value = ValueA c\<rparr>"

definition winnerB :: "FieldConflict \<Rightarrow> Winner" where
  "winnerB c = \<lparr>Side = ''b'', w_Source = SourceB c, w_Version = VersionB c,
                w_OccurredAt = OccurredAtB c, w_Value = ValueB c\<rparr>"

definition noWinner :: Winner where
  "noWinner = \<lparr>Side = [], w_Source = [], w_Version = 0, w_OccurredAt = 0, w_Value = GNil\<rparr>"

definition Resolve :: "string \<Rightarrow> FieldConflict \<Rightarrow> Winner" where
  "Resolve strategy c =
     (if strategy = StrategyLastWriteWins \<or> strategy = StrategyFieldMerge then
        (if OccurredAtB c > OccurredAtA c then winnerB c
         else if OccurredAtB c < OccurredAtA c then winnerA c
         else if PriorityB c < PriorityA c then winnerB c
         else winnerA c)
      else if strategy = StrategySourcePriority then
        (if PriorityB c < PriorityA c then winnerB c
         else if PriorityB c > PriorityA c then winnerA c
         else if OccurredAtB c > OccurredAtA c then winnerB c
         else winnerA c)
      else if strategy = StrategyManual then noWinner
      else winnerA c)"

definition normalizeStrategy :: "string \<Rightarrow> string" where
  "normalizeStrategy s =
     (if s \<in> {StrategyLastWriteWins, StrategySourcePriority, StrategyFieldMerge, StrategyManual}
      then s else StrategyLastWriteWins)"

definition priorityFor :: "string \<Rightarrow> FieldConflict \<Rightarrow> int" where
  "priorityFor source c = (if source = SourceA c then PriorityA c else PriorityB c)"

fun find :: "FieldConflict list \<Rightarrow> string \<Rightarrow> FieldConflict option" where
  "find [] field = None"
| "find (f # fs) field = (if fc_Field f = field then Some f else find fs field)"

text \<open>The two loop bodies of \<open>Merge\<close>: write a winner, adopt an incoming field.\<close>

definition applyWinner ::
  "string \<Rightarrow> FieldConflict \<Rightarrow> goval gomap \<times> Provenance gomap \<Rightarrow> goval gomap \<times> Provenance gomap" where
  "applyWinner strategy c = (\<lambda>(out, prov).
     let w = Resolve strategy c in
     (gset (fc_Field c) (w_Value w) out,
      gset (fc_Field c) \<lparr>pv_Source = w_Source w, pv_Version = w_Version w,
         pv_OccurredAt = w_OccurredAt w, pv_Priority = priorityFor (w_Source w) c\<rparr> prov))"

definition adoptField ::
  "Provenance \<Rightarrow> FieldConflict list \<Rightarrow> string \<times> goval \<Rightarrow> goval gomap \<times> Provenance gomap \<Rightarrow>
   goval gomap \<times> Provenance gomap" where
  "adoptField p detected = (\<lambda>(field, v) (out, prov).
     if find detected field \<noteq> None then (out, prov) else (gset field v out, gset field p prov))"

definition Merge ::
  "('x) golib_scheme \<Rightarrow> string \<Rightarrow> goval gomap \<Rightarrow> Provenance gomap \<Rightarrow> goval gomap \<Rightarrow> string \<Rightarrow> int \<Rightarrow>
   int \<Rightarrow> int \<Rightarrow> goval gomap \<times> Provenance gomap \<times> FieldConflict list \<times> bool" where
  "Merge L strategy persisted fp incoming source version occurredAt priority =
     (let detected = Detect L persisted fp incoming source version occurredAt priority;
          p = \<lparr>pv_Source = source, pv_Version = version, pv_OccurredAt = occurredAt,
               pv_Priority = priority\<rparr> in
      if detected = [] then
        let (out, prov) = fold (adoptField p []) incoming (persisted, fp) in (out, prov, [], False)
      else
        let strat = normalizeStrategy strategy in
        if strat = StrategyManual then ([], [], detected, True)
        else
          let (out, prov) = fold (adoptField p detected) incoming
                              (fold (applyWinner strat) detected (persisted, fp)) in
          (out, prov, detected, False))"

section \<open>Reference: the outcome of one field\<close>

definition mergeField ::
  "('x) golib_scheme \<Rightarrow> string \<Rightarrow> goval gomap \<Rightarrow> Provenance gomap \<Rightarrow> string \<Rightarrow> int \<Rightarrow> int \<Rightarrow> int \<Rightarrow>
   string \<Rightarrow> goval \<Rightarrow> goval \<times> Provenance" where
  "mergeField L strategy persisted fp source version occurredAt priority field v =
     (case detectField L persisted fp source version occurredAt priority (field, v) of
        None \<Rightarrow> (v, \<lparr>pv_Source = source, pv_Version = version, pv_OccurredAt = occurredAt,
                    pv_Priority = priority\<rparr>)
      | Some c \<Rightarrow>
          let w = Resolve (normalizeStrategy strategy) c in
          (w_Value w, \<lparr>pv_Source = w_Source w, pv_Version = w_Version w,
             pv_OccurredAt = w_OccurredAt w, pv_Priority = priorityFor (w_Source w) c\<rparr>))"

section \<open>Detection\<close>

lemma valuesEqual_refl [simp]: "valuesEqual L a a"
  by (simp add: valuesEqual_def)

lemma valuesEqual_sym: "valuesEqual L a b \<longleftrightarrow> valuesEqual L b a"
  by (auto simp: valuesEqual_def)

lemma valuesEqual_GStr [simp]: "valuesEqual L (GStr a) (GStr b) \<longleftrightarrow> a = b"
  by (simp add: valuesEqual_def)

lemma detectField_field: "detectField L pe fp s ve oc pr (f, v) = Some c \<Longrightarrow> fc_Field c = f"
  by (auto simp: detectField_def Let_def split: option.splits if_splits)

lemma detectField_iff:
  "detectField L pe fp s ve oc pr (f, v) = Some c \<longleftrightarrow>
     (\<exists>p. map_of fp f = Some p \<and> pv_Source p \<noteq> s \<and> \<not> valuesEqual L (gget GNil pe f) v \<and>
        c = \<lparr>fc_Field = f, SourceA = pv_Source p, VersionA = pv_Version p,
             OccurredAtA = pv_OccurredAt p, PriorityA = pv_Priority p, ValueA = gget GNil pe f,
             SourceB = s, VersionB = ve, OccurredAtB = oc, PriorityB = pr, ValueB = v\<rparr>)"
  by (auto simp: detectField_def Let_def split: option.splits)

lemma set_Detect:
  "set (Detect L pe fp inc s ve oc pr) =
   {c. \<exists>(f, v) \<in> set inc. detectField L pe fp s ve oc pr (f, v) = Some c}"
  by (force simp: Detect_def List.map_filter_def image_iff)

lemma map_filter_fields_distinct:
  assumes "distinct (map fst inc)"
  shows "distinct (map fc_Field (List.map_filter (detectField L pe fp s ve oc pr) inc))"
proof -
  have "fc_Field ` set (List.map_filter (detectField L pe fp s ve oc pr) xs) \<subseteq> fst ` set xs" for xs
    by (force simp: List.map_filter_def dest: detectField_field)
  note sub = this
  show ?thesis
    using assms
  proof (induction inc)
    case (Cons x inc)
    obtain f v where x: "x = (f, v)"
      by force
    show ?case
    proof (cases "detectField L pe fp s ve oc pr x")
      case None
      then show ?thesis
        using Cons by (simp add: List.map_filter_simps)
    next
      case (Some c)
      then have "fc_Field c = f"
        by (simp add: x detectField_field)
      then show ?thesis
        using Cons Some sub [of inc] x by (simp add: List.map_filter_simps) blast
    qed
  qed (simp add: List.map_filter_simps)
qed

lemma Detect_sorted: "sorted (map fc_Field (Detect L pe fp inc s ve oc pr))"
  by (simp add: Detect_def)

lemma Detect_distinct:
  "gok inc \<Longrightarrow> distinct (map fc_Field (Detect L pe fp inc s ve oc pr))"
  unfolding Detect_def gok_def
  using map_filter_fields_distinct [of inc L pe fp s ve oc pr]
  by (simp add: distinct_map) 

lemma find_iff:
  "distinct (map fc_Field cs) \<Longrightarrow> find cs f = Some c \<longleftrightarrow> c \<in> set cs \<and> fc_Field c = f"
  by (induction cs) (auto simp: image_iff)

lemma find_None_iff: "find cs f = None \<longleftrightarrow> f \<notin> fc_Field ` set cs"
  by (induction cs) auto

lemma find_Detect:
  assumes "gok inc" "map_of inc f = Some v"
  shows "find (Detect L pe fp inc s ve oc pr) f = detectField L pe fp s ve oc pr (f, v)"
proof -
  have fv: "(f, v) \<in> set inc"
    using assms by (simp add: gok_map_of_iff)
  have uniq: "(f, v') \<in> set inc \<Longrightarrow> v' = v" for v'
    using assms by (simp add: gok_map_of_iff)
  show ?thesis
  proof (cases "detectField L pe fp s ve oc pr (f, v)")
    case None
    then have "f \<notin> fc_Field ` set (Detect L pe fp inc s ve oc pr)"
      using uniq detectField_field by (fastforce simp: set_Detect)
    with None show ?thesis
      by (simp add: find_None_iff)
  next
    case (Some c)
    then have "c \<in> set (Detect L pe fp inc s ve oc pr)" "fc_Field c = f"
      using fv by (auto simp: set_Detect dest: detectField_field)
    then show ?thesis
      using Some by (simp add: find_iff [OF Detect_distinct [OF assms(1)]])
  qed
qed

lemma find_Detect_None:
  assumes "map_of inc f = None"
  shows "find (Detect L pe fp inc s ve oc pr) f = None"
proof -
  have "(f, v) \<notin> set inc" for v
    using assms by (force simp: map_of_eq_None_iff)
  then show ?thesis
    by (auto simp: find_None_iff set_Detect dest: detectField_field)
qed

section \<open>The loops of Merge\<close>

lemma fold_adoptField:
  assumes "gok inc"
  shows "map_of (fst (fold (adoptField p det) inc (out, prov))) f =
           (case map_of inc f of
              Some v \<Rightarrow> if find det f \<noteq> None then map_of out f else Some v
            | None \<Rightarrow> map_of out f)
       \<and> map_of (snd (fold (adoptField p det) inc (out, prov))) f =
           (case map_of inc f of
              Some v \<Rightarrow> if find det f \<noteq> None then map_of prov f else Some p
            | None \<Rightarrow> map_of prov f)"
  using assms
proof (induction inc arbitrary: out prov)
  case (Cons x inc)
  obtain g v where x: "x = (g, v)"
    by force
  have "gok inc" and "map_of inc g = None"
    using Cons.prems by (auto simp: gok_def x map_of_eq_None_iff)
  then show ?case
    using Cons.IH by (auto simp: x adoptField_def split: option.splits)
qed simp

lemma fold_applyWinner:
  assumes "distinct (map fc_Field cs)"
  shows "map_of (fst (fold (applyWinner strat) cs (out, prov))) f =
           (case find cs f of
              Some c \<Rightarrow> Some (w_Value (Resolve strat c))
            | None \<Rightarrow> map_of out f)
       \<and> map_of (snd (fold (applyWinner strat) cs (out, prov))) f =
           (case find cs f of
              Some c \<Rightarrow> Some \<lparr>pv_Source = w_Source (Resolve strat c), pv_Version = w_Version (Resolve strat c),
                 pv_OccurredAt = w_OccurredAt (Resolve strat c),
                 pv_Priority = priorityFor (w_Source (Resolve strat c)) c\<rparr>
            | None \<Rightarrow> map_of prov f)"
  using assms
proof (induction cs arbitrary: out prov)
  case (Cons c cs)
  have "find cs (fc_Field c) = None"
    using Cons.prems by (simp add: find_None_iff)
  then show ?case
    using Cons by (auto simp: applyWinner_def Let_def split: option.splits)
qed simp

lemma adoptField_Nil: "adoptField p [] = (\<lambda>(field, v) (out, prov). (gset field v out, gset field p prov))"
  by (auto simp: adoptField_def fun_eq_iff)

lemma Detect_Nil_detectField:
  "gok inc \<Longrightarrow> map_of inc f = Some v \<Longrightarrow> Detect L pe fp inc s ve oc pr = [] \<Longrightarrow>
   detectField L pe fp s ve oc pr (f, v) = None"
  using find_Detect [of inc f v L pe fp s ve oc pr] by simp

text \<open>
  The loops compute \<open>mergeField\<close> for every incoming field and leave the other fields alone,
  whenever \<open>Merge\<close> does not park the event.
\<close>

lemma Merge_auto:
  assumes ok: "gok inc" and m: "Merge L strat pe fp inc s ve oc pr = (out, prov, det, False)"
  shows "map_of out f = (case map_of inc f of
             Some v \<Rightarrow> Some (fst (mergeField L strat pe fp s ve oc pr f v)) | None \<Rightarrow> map_of pe f)"
    and "map_of prov f = (case map_of inc f of
             Some v \<Rightarrow> Some (snd (mergeField L strat pe fp s ve oc pr f v)) | None \<Rightarrow> map_of fp f)"
    and "det = Detect L pe fp inc s ve oc pr"
proof -
  let ?D = "Detect L pe fp inc s ve oc pr"
  let ?p = "\<lparr>pv_Source = s, pv_Version = ve, pv_OccurredAt = oc, pv_Priority = pr\<rparr>"
  let ?st = "fold (applyWinner (normalizeStrategy strat)) ?D (pe, fp)"
  have res: "(out, prov) = fold (adoptField ?p ?D) inc ?st \<and> det = ?D"
    using m by (auto simp: Merge_def Let_def case_prod_beta split: if_splits)
  obtain o1 p1 where st: "?st = (o1, p1)"
    by force
  note w = fold_applyWinner [OF Detect_distinct [OF ok], of "normalizeStrategy strat" L pe fp s ve oc pr pe fp f, unfolded st]
  note a = fold_adoptField [OF ok, of ?p ?D o1 p1 f]
  have oe: "out = fst (fold (adoptField ?p ?D) inc (o1, p1))"
    and pe': "prov = snd (fold (adoptField ?p ?D) inc (o1, p1))"
    using res st by (metis fst_conv, metis snd_conv)
  show "map_of out f = (case map_of inc f of
             Some v \<Rightarrow> Some (fst (mergeField L strat pe fp s ve oc pr f v)) | None \<Rightarrow> map_of pe f)"
    using a w by (auto simp: oe mergeField_def Let_def find_Detect [OF ok] find_Detect_None split: option.splits)
  show "map_of prov f = (case map_of inc f of
             Some v \<Rightarrow> Some (snd (mergeField L strat pe fp s ve oc pr f v)) | None \<Rightarrow> map_of fp f)"
    using a w by (auto simp: pe' mergeField_def Let_def find_Detect [OF ok] find_Detect_None split: option.splits)
  show "det = ?D"
    using res by simp
qed

lemma Merge_manual_iff:
  "snd (snd (snd (Merge L strat pe fp inc s ve oc pr))) \<longleftrightarrow>
   strat = StrategyManual \<and> Detect L pe fp inc s ve oc pr \<noteq> []"
  by (auto simp: Merge_def Let_def normalizeStrategy_def case_prod_beta split: if_splits)

lemma fold_adoptField_gok:
  "gok out \<Longrightarrow> gok prov \<Longrightarrow> gok (fst (fold (adoptField p det) inc (out, prov)))
     \<and> gok (snd (fold (adoptField p det) inc (out, prov)))"
  by (induction inc arbitrary: out prov) (auto simp: adoptField_def)

lemma fold_applyWinner_gok:
  "gok out \<Longrightarrow> gok prov \<Longrightarrow> gok (fst (fold (applyWinner st) cs (out, prov)))
     \<and> gok (snd (fold (applyWinner st) cs (out, prov)))"
  by (induction cs arbitrary: out prov) (auto simp: applyWinner_def Let_def)

section \<open>Iteration order\<close>

lemma sorted_key_list_unique:
  fixes xs ys :: "'a list" and f :: "'a \<Rightarrow> 'k :: linorder"
  assumes "sorted (map f xs)" "distinct (map f xs)" "sorted (map f ys)" "distinct (map f ys)" "set xs = set ys"
  shows "xs = ys"
proof -
  have "map f xs = map f ys"
    by (rule sorted_distinct_set_unique) (use assms in auto)
  moreover have "inj_on f (set xs \<union> set ys)"
    using assms(2,5) by (simp add: distinct_map)
  ultimately show ?thesis
    by (metis map_inj_on)
qed

lemma gok_set_eq: "gok m \<Longrightarrow> gok m' \<Longrightarrow> map_of m = map_of m' \<Longrightarrow> set m = set m'"
  by (simp add: set_eq_iff gok_map_of_iff)

lemma Detect_order:
  assumes "gok inc" "gok inc'" "map_of inc = map_of inc'"
  shows "Detect L pe fp inc s ve oc pr = Detect L pe fp inc' s ve oc pr"
proof (rule sorted_key_list_unique [where f = fc_Field])
  show "set (Detect L pe fp inc s ve oc pr) = set (Detect L pe fp inc' s ve oc pr)"
    by (simp add: set_Detect gok_set_eq [OF assms])
qed (simp_all add: Detect_sorted Detect_distinct assms)

section \<open>Convergence of concurrent writers\<close>

text \<open>A newer write than the stored one always claims the field under the two time-based strategies.\<close>

lemma mergeField_newer:
  assumes "strat \<in> {StrategyLastWriteWins, StrategyFieldMerge}"
    and "\<And>p. map_of fp f = Some p \<Longrightarrow> pv_OccurredAt p < oc"
  shows "mergeField L strat pe fp s ve oc pr f v =
     (v, \<lparr>pv_Source = s, pv_Version = ve, pv_OccurredAt = oc, pv_Priority = pr\<rparr>)"
proof (cases "detectField L pe fp s ve oc pr (f, v)")
  case (Some c)
  then have "OccurredAtA c < OccurredAtB c" "SourceA c \<noteq> SourceB c" "SourceB c = s" "VersionB c = ve"
    "OccurredAtB c = oc" "PriorityB c = pr" "ValueB c = v"
    using assms(2) by (auto simp: detectField_iff)
  then show ?thesis
    using Some assms(1)
    by (auto simp: mergeField_def Let_def normalizeStrategy_def Resolve_def winnerB_def priorityFor_def)
qed (simp add: mergeField_def)

lemma mergeField_against:
  assumes "strat \<in> {StrategyLastWriteWins, StrategyFieldMerge}" "map_of fp f = Some p"
    "pv_Source p \<noteq> s" "pv_OccurredAt p \<noteq> oc" "map_of pe f = Some u"
  shows "fst (mergeField L strat pe fp s ve oc pr f v) =
           (if valuesEqual L u v \<or> pv_OccurredAt p < oc then v else u)"
  using assms
  by (auto simp: mergeField_def detectField_def gget_def Let_def normalizeStrategy_def Resolve_def
      winnerA_def winnerB_def)

section \<open>Properties\<close>

text \<open>
  C25: \<open>Detect\<close> reports exactly the incoming fields whose stored value was last written by
  another source and differs from the incoming one, each once and in ascending order of the field
  name.
\<close>

theorem Detect_correct:
  assumes "gok inc"
  shows "sorted (map fc_Field (Detect L pe fp inc s ve oc pr)) \<and>
         distinct (map fc_Field (Detect L pe fp inc s ve oc pr)) \<and>
         (\<forall>f. f \<in> fc_Field ` set (Detect L pe fp inc s ve oc pr) \<longleftrightarrow>
            (\<exists>v p. map_of inc f = Some v \<and> map_of fp f = Some p \<and> pv_Source p \<noteq> s \<and>
                   \<not> valuesEqual L (gget GNil pe f) v))"
proof -
  have "f \<in> fc_Field ` set (Detect L pe fp inc s ve oc pr) \<longleftrightarrow>
        (\<exists>v p. map_of inc f = Some v \<and> map_of fp f = Some p \<and> pv_Source p \<noteq> s \<and>
               \<not> valuesEqual L (gget GNil pe f) v)" for f
    using find_None_iff [of "Detect L pe fp inc s ve oc pr" f] find_Detect [OF assms, of f _ L pe fp s ve oc pr]
      find_Detect_None [of inc f L pe fp s ve oc pr]
    by (cases "map_of inc f") (auto simp: detectField_def Let_def split: option.splits if_splits)
  then show ?thesis
    using assms by (simp add: Detect_sorted Detect_distinct)
qed

theorem Detect_correct_witness:
  "map fc_Field (Detect demoLib [(''phone'', GStr ''1''), (''email'', GStr ''a'')]
      [(''phone'', \<lparr>pv_Source = ''hubspot'', pv_Version = 1, pv_OccurredAt = 5, pv_Priority = 100\<rparr>),
       (''email'', \<lparr>pv_Source = ''hubspot'', pv_Version = 1, pv_OccurredAt = 5, pv_Priority = 100\<rparr>)]
      [(''phone'', GStr ''2''), (''email'', GStr ''b'')] ''salesforce'' 3 9 100)
   = [''email'', ''phone'']"
proof -
  let ?p = "\<lparr>pv_Source = ''hubspot'', pv_Version = 1, pv_OccurredAt = 5, pv_Priority = 100\<rparr>"
  let ?inc = "[(''phone'', GStr ''2''), (''email'', GStr ''b'')]"
  let ?D = "Detect demoLib [(''phone'', GStr ''1''), (''email'', GStr ''a'')]
      [(''phone'', ?p), (''email'', ?p)] ?inc ''salesforce'' 3 9 100"
  have *: "sorted (map fc_Field ?D) \<and> distinct (map fc_Field ?D) \<and>
         (\<forall>f. f \<in> fc_Field ` set ?D \<longleftrightarrow>
            (\<exists>v p. map_of ?inc f = Some v \<and> map_of [(''phone'', ?p), (''email'', ?p)] f = Some p \<and> pv_Source p \<noteq> ''salesforce'' \<and>
                   \<not> valuesEqual demoLib (gget GNil [(''phone'', GStr ''1''), (''email'', GStr ''a'')] f) v))"
    by (rule Detect_correct) (simp add: gok_def)
  then have "set (map fc_Field ?D) = set [''email'', ''phone'']"
    by (auto simp: gget_def split: if_splits)
  moreover have "sorted [''email'', ''phone'']"
    by (simp add: less_eq_char_def)
  ultimately show ?thesis
    using * by (intro sorted_distinct_set_unique) auto
qed

text \<open>
  C8: Unless it parks the event, \<open>Merge\<close> gives every incoming field the value and provenance
  of the declarative reference \<open>mergeField\<close> and leaves every other field alone; it parks the
  event exactly under the manual strategy with at least one conflict, and it always returns the
  detected conflicts.
\<close>

theorem Merge_refines_mergeField:
  assumes "gok inc"
  shows "case Merge L strat pe fp inc s ve oc pr of (out, prov, det, manual) \<Rightarrow>
     det = Detect L pe fp inc s ve oc pr \<and>
     (manual \<longleftrightarrow> strat = StrategyManual \<and> det \<noteq> []) \<and>
     (\<not> manual \<longrightarrow> (\<forall>f.
        map_of out f = (case map_of inc f of
          Some v \<Rightarrow> Some (fst (mergeField L strat pe fp s ve oc pr f v)) | None \<Rightarrow> map_of pe f) \<and>
        map_of prov f = (case map_of inc f of
          Some v \<Rightarrow> Some (snd (mergeField L strat pe fp s ve oc pr f v)) | None \<Rightarrow> map_of fp f)))"
proof -
  obtain out prov det manual where m: "Merge L strat pe fp inc s ve oc pr = (out, prov, det, manual)"
    by (metis prod_cases4)
  have "manual \<longleftrightarrow> strat = StrategyManual \<and> Detect L pe fp inc s ve oc pr \<noteq> []"
    using Merge_manual_iff [of L strat pe fp inc s ve oc pr] by (simp add: m)
  moreover have "det = Detect L pe fp inc s ve oc pr"
    using m by (auto simp: Merge_def Let_def case_prod_beta split: if_splits)
  moreover have "map_of out f = (case map_of inc f of
          Some v \<Rightarrow> Some (fst (mergeField L strat pe fp s ve oc pr f v)) | None \<Rightarrow> map_of pe f) \<and>
        map_of prov f = (case map_of inc f of
          Some v \<Rightarrow> Some (snd (mergeField L strat pe fp s ve oc pr f v)) | None \<Rightarrow> map_of fp f)"
    if "\<not> manual" for f
    using Merge_auto(1,2) [OF assms, of L strat pe fp s ve oc pr out prov det f] that m by simp
  ultimately show ?thesis
    unfolding m by simp
qed

theorem Merge_refines_mergeField_witness:
  "map_of (fst (Merge demoLib StrategyLastWriteWins [(''phone'', GStr ''1'')]
      [(''phone'', \<lparr>pv_Source = ''hubspot'', pv_Version = 1, pv_OccurredAt = 5, pv_Priority = 100\<rparr>)]
      [(''phone'', GStr ''2'')] ''salesforce'' 3 9 100)) ''phone'' = Some (GStr ''2'')"
  using Merge_refines_mergeField [where inc = "[(''phone'', GStr ''2'')]" and L = demoLib
      and strat = StrategyLastWriteWins and pe = "[(''phone'', GStr ''1'')]"
      and fp = "[(''phone'', \<lparr>pv_Source = ''hubspot'', pv_Version = 1, pv_OccurredAt = 5, pv_Priority = 100\<rparr>)]"
      and s = "''salesforce''" and ve = 3 and oc = 9 and pr = 100]
  by (simp add: gok_def case_prod_beta)
    (simp add: mergeField_def detectField_def gget_def Let_def normalizeStrategy_def Resolve_def winnerB_def)

text \<open>
  C26: The result of \<open>Merge\<close> does not depend on the order in which Go iterates over the incoming
  field map.
\<close>

theorem Merge_order_independent:
  assumes "gok inc" "gok inc'" "map_of inc = map_of inc'"
  shows "case (Merge L strat pe fp inc s ve oc pr, Merge L strat pe fp inc' s ve oc pr) of
     ((out, prov, det, manual), (out', prov', det', manual')) \<Rightarrow>
       map_of out = map_of out' \<and> map_of prov = map_of prov' \<and> det = det' \<and> manual = manual'"
proof -
  obtain out prov det manual where m: "Merge L strat pe fp inc s ve oc pr = (out, prov, det, manual)"
    by (metis prod_cases4)
  obtain out' prov' det' manual' where m': "Merge L strat pe fp inc' s ve oc pr = (out', prov', det', manual')"
    by (metis prod_cases4)
  note D = Detect_order [OF assms, of L pe fp s ve oc pr]
  have manual: "manual = manual'"
    using Merge_manual_iff [of L strat pe fp inc s ve oc pr] Merge_manual_iff [of L strat pe fp inc' s ve oc pr]
    by (simp add: m m' D)
  show ?thesis
  proof (cases manual)
    case True
    have "out = [] \<and> prov = [] \<and> det = Detect L pe fp inc s ve oc pr"
      using m True by (simp add: Merge_def Let_def case_prod_beta split: if_splits)
    moreover have "out' = [] \<and> prov' = [] \<and> det' = Detect L pe fp inc' s ve oc pr"
      using m' True manual by (simp add: Merge_def Let_def case_prod_beta split: if_splits)
    ultimately show ?thesis
      using m m' manual D by simp
  next
    case False
    note a = Merge_auto [OF assms(1) m [unfolded False [THEN eq_False [THEN iffD2]]]]
    note b = Merge_auto [OF assms(2) m' [folded manual, unfolded False [THEN eq_False [THEN iffD2]]]]
    have "map_of out = map_of out'" "map_of prov = map_of prov'"
      by (rule ext, simp only: a(1) b(1) assms(3), rule ext, simp only: a(2) b(2) assms(3))
    then show ?thesis
      using m m' manual D a(3) b(3) by simp
  qed
qed

theorem Merge_order_independent_witness:
  "map_of (fst (Merge demoLib StrategyLastWriteWins [(''phone'', GStr ''1'')] []
      [(''phone'', GStr ''2''), (''email'', GStr ''b'')] ''salesforce'' 3 9 100)) =
   map_of (fst (Merge demoLib StrategyLastWriteWins [(''phone'', GStr ''1'')] []
      [(''email'', GStr ''b''), (''phone'', GStr ''2'')] ''salesforce'' 3 9 100))"
  using Merge_order_independent [where inc = "[(''phone'', GStr ''2''), (''email'', GStr ''b'')]"
      and inc' = "[(''email'', GStr ''b''), (''phone'', GStr ''2'')]" and L = demoLib
      and strat = StrategyLastWriteWins and pe = "[(''phone'', GStr ''1'')]" and fp = "[]"
      and s = "''salesforce''" and ve = 3 and oc = 9 and pr = 100]
  by (simp add: gok_def case_prod_beta fun_eq_iff)

definition swapSides :: "FieldConflict \<Rightarrow> FieldConflict" where
  "swapSides c = \<lparr>fc_Field = fc_Field c, SourceA = SourceB c, VersionA = VersionB c,
     OccurredAtA = OccurredAtB c, PriorityA = PriorityB c, ValueA = ValueB c, SourceB = SourceA c,
     VersionB = VersionA c, OccurredAtB = OccurredAtA c, PriorityB = PriorityA c, ValueB = ValueA c\<rparr>"

text \<open>
  Automatic resolution does not depend on which of the two writes arrived first: whenever the
  writes differ in time or in priority, exchanging the stored and the incoming side leaves the
  winning source, version, time and value unchanged.
\<close>

theorem Resolve_arrival_order:
  assumes "strat \<in> {StrategyLastWriteWins, StrategyFieldMerge, StrategySourcePriority}"
    and "OccurredAtA c \<noteq> OccurredAtB c \<or> PriorityA c \<noteq> PriorityB c"
  shows "w_Source (Resolve strat c) = w_Source (Resolve strat (swapSides c)) \<and>
         w_Version (Resolve strat c) = w_Version (Resolve strat (swapSides c)) \<and>
         w_OccurredAt (Resolve strat c) = w_OccurredAt (Resolve strat (swapSides c)) \<and>
         w_Value (Resolve strat c) = w_Value (Resolve strat (swapSides c))"
  using assms by (auto simp: Resolve_def swapSides_def winnerA_def winnerB_def)

definition demoConflict :: FieldConflict where
  "demoConflict = \<lparr>fc_Field = ''phone'', SourceA = ''hubspot'', VersionA = 1, OccurredAtA = 5,
     PriorityA = 10, ValueA = GStr ''1'', SourceB = ''salesforce'', VersionB = 3, OccurredAtB = 5,
     PriorityB = 20, ValueB = GStr ''2''\<rparr>"

theorem Resolve_arrival_order_witness:
  "w_Value (Resolve StrategySourcePriority (swapSides demoConflict)) = GStr ''1''"
  using Resolve_arrival_order [of StrategySourcePriority demoConflict]
  by (simp add: demoConflict_def) (simp add: Resolve_def winnerA_def)



end
