(* ===== verification/Connectors.thy ===== *)
theory Connectors
imports Canonical
begin

text \<open>
  Connectors (\<open>internal/connectors\<close>): typed errors and their retry classification
  (\<open>connector.go\<close>, \<open>classify.go\<close>), the shared HTTP client (\<open>httpclient.go\<close>), the
  Salesforce and HubSpot adapters (\<open>salesforce/salesforce.go\<close>, \<open>hubspot/hubspot.go\<close>) and the
  registry that picks one (\<open>registry/registry.go\<close>).

  The remote system is a parameter: \<open>http_send\<close> maps a request and the state \<open>'w\<close> of the
  outside world to a transport error or a response and the next state. \<open>faults\<close> lists, for the
  coming calls that can be cut short (database statements, a cancelled context), whether they fail
  and with which message; such an error is never one of the store's sentinel errors. Response bodies are decoded by \<open>json_decode\<close>; the typed targets of the decoder
  (a map, a list page) are definitions. Body size limits, headers other than the ones read, and
  the waiting time of the limiter (see \<open>RateLimit\<close>) are left out.

  The locale \<open>schema_adapter\<close> states what the engine needs of a provider schema, and both
  providers are interpretations of it.
\<close>

section \<open>Typed errors\<close>

abbreviation ErrTransient :: string where "ErrTransient \<equiv> ''TRANSIENT''"
abbreviation ErrPermanent :: string where "ErrPermanent \<equiv> ''PERMANENT''"
abbreviation ErrRateLimited :: string where "ErrRateLimited \<equiv> ''RATE_LIMITED''"
abbreviation ErrAuth :: string where "ErrAuth \<equiv> ''AUTHENTICATION''"
abbreviation ErrSchema :: string where "ErrSchema \<equiv> ''SCHEMA_ERROR''"
abbreviation ErrConflict :: string where "ErrConflict \<equiv> ''CONFLICT''"
abbreviation ErrKindNotFound :: string where "ErrKindNotFound \<equiv> ''NOT_FOUND''"
abbreviation ErrUnknown :: string where "ErrUnknown \<equiv> ''UNKNOWN''"

definition NewError :: "string \<Rightarrow> string \<Rightarrow> goerr option \<Rightarrow> goerr" where
  "NewError kind msg err = ConnErr kind msg 0 err"

text \<open>\<open>errors.As(err, &ce)\<close>: the first connector error of the wrapping chain.\<close>

fun errorsAs :: "goerr \<Rightarrow> (string \<times> int) option" where
  "errorsAs (ConnErr k m ra e) = Some (k, ra)"
| "errorsAs (WrapErr m e) = errorsAs e"
| "errorsAs _ = None"

definition IsKind :: "goerr \<Rightarrow> string \<Rightarrow> bool" where
  "IsKind err kind = (case errorsAs err of Some (k, ra) \<Rightarrow> k = kind | None \<Rightarrow> False)"

definition Classify :: "goerr \<Rightarrow> string \<times> int" where
  "Classify err = (case errorsAs err of Some (k, ra) \<Rightarrow> (k, ra) | None \<Rightarrow> (ErrUnknown, 0))"

definition ShouldRetry :: "string \<Rightarrow> bool" where
  "ShouldRetry kind =
     (if kind \<in> {ErrTransient, ErrRateLimited, ErrConflict, ErrKindNotFound, ErrUnknown} then True
      else if kind \<in> {ErrPermanent, ErrAuth, ErrSchema} then False
      else True)"

section \<open>Records and pages\<close>

record ProviderRecord =
  pr_ID :: string
  pr_SourceVersion :: int
  pr_Deleted :: bool
  pr_Data :: "goval gomap"

record ListOptions =
  lo_Cursor :: string
  lo_Limit :: int
  lo_Since :: "int option"

record Page =
  pg_Records :: "ProviderRecord list"
  pg_NextCursor :: string
  pg_HasMore :: bool

record Health =
  he_Status :: string
  he_Records :: int

section \<open>Decimal parsing (strconv)\<close>

definition isDigit :: "char \<Rightarrow> bool" where
  "isDigit c \<longleftrightarrow> 48 \<le> (of_char c :: nat) \<and> of_char c \<le> (57 :: nat)"

definition ParseInt :: "string \<Rightarrow> int option" where
  "ParseInt s =
     (let neg = (s \<noteq> [] \<and> hd s = CHR ''-'');
          body = (if s \<noteq> [] \<and> (hd s = CHR ''-'' \<or> hd s = CHR ''+'') then tl s else s);
          n = int (undigits10 0 body);
          v = (if neg then - n else n)
      in if body \<noteq> [] \<and> list_all isDigit body \<and> in64 v then Some v else None)"

section \<open>The HTTP client\<close>

record Client =
  BaseURL :: string
  Token :: string
  HeaderAuth :: string
  Limited :: bool

record HttpRequest =
  rq_Method :: string
  rq_URL :: string
  rq_Auth :: "string option"
  rq_Body :: "goval option"

record HttpResponse =
  StatusCode :: int
  RetryAfterHdr :: string
  RespBody :: string

record 'w netlib = golib +
  http_send :: "HttpRequest \<Rightarrow> 'w \<Rightarrow> (string + HttpResponse) \<times> 'w"
  status_text :: "int \<Rightarrow> string"

record 'w net =
  world :: 'w
  faults :: "string option list"

text \<open>One call that the environment may cut short; it consumes an entry of \<open>faults\<close>.\<close>

definition faultPoint :: "(('w, 'z) net_scheme, unit) M" where
  "faultPoint = (\<lambda>s. case faults s of
       [] \<Rightarrow> (Inr (), s)
     | None # fs \<Rightarrow> (Inr (), s\<lparr>faults := fs\<rparr>)
     | Some e # fs \<Rightarrow> (Inl (PlainErr e), s\<lparr>faults := fs\<rparr>))"

definition NewClient :: "string \<Rightarrow> string \<Rightarrow> Client" where
  "NewClient baseURL token = \<lparr>BaseURL = baseURL, Token = token, HeaderAuth = [], Limited = False\<rparr>"

definition NewRateLimitedClient :: "string \<Rightarrow> string \<Rightarrow> int \<Rightarrow> Client" where
  "NewRateLimitedClient baseURL token perMinute =
     (let c = NewClient baseURL token in if perMinute > 0 then c\<lparr>Limited := True\<rparr> else c)"

definition classifyError :: "('w, 'x) netlib_scheme \<Rightarrow> HttpResponse \<Rightarrow> goerr" where
  "classifyError L resp =
     (let msg = (if RespBody resp = [] then status_text L (StatusCode resp) else RespBody resp);
          code = StatusCode resp in
      if code = 429 then
        let ra = (if RetryAfterHdr resp = [] then 0
                  else case ParseInt (RetryAfterHdr resp) of
                         Some sec \<Rightarrow> i64 (sec * 1000000000) | None \<Rightarrow> 0) in
        ConnErr ErrRateLimited (''provider rate limited: '' @ msg) ra None
      else if code = 401 \<or> code = 403 then NewError ErrAuth (''provider auth failed: '' @ msg) None
      else if code = 404 then NewError ErrKindNotFound (''resource not found: '' @ msg) None
      else if code = 400 \<or> code = 422 then NewError ErrSchema (''provider rejected request: '' @ msg) None
      else if code = 409 then NewError ErrConflict (''provider reported conflict: '' @ msg) None
      else if code = 500 \<or> code = 502 \<or> code = 503 \<or> code = 504
        then NewError ErrTransient (''provider transient error: '' @ msg) None
      else NewError ErrUnknown (''unexpected status '' @ Itoa code @ '': '' @ msg) None)"

text \<open>
  \<open>Client.Do\<close>; \<open>decode\<close> is the decoding of a 2xx body into the target of the call
  (constantly successful when the call passes no target).
\<close>

definition sendHttp ::
  "('w, 'x) netlib_scheme \<Rightarrow> HttpRequest \<Rightarrow> (('w, 'z) net_scheme, string + HttpResponse) M" where
  "sendHttp L req = (\<lambda>s. case http_send L req (world s) of (r, w) \<Rightarrow> (Inr r, s\<lparr>world := w\<rparr>))"

definition ClientDo ::
  "('w, 'x) netlib_scheme \<Rightarrow> Client \<Rightarrow> string \<Rightarrow> string \<Rightarrow> goval option \<Rightarrow> (string \<Rightarrow> 'a option) \<Rightarrow>
   (('w, 'z) net_scheme, 'a) M" where
  "ClientDo L c meth path body decode =
     bindM (attempt (if Limited c then faultPoint else ret ())) (\<lambda>w.
     case w of
       Inl e \<Rightarrow> throw (NewError ErrUnknown ''rate limit wait: context cancelled'' (Some e))
     | Inr _ \<Rightarrow>
         bindM (sendHttp L \<lparr>rq_Method = meth, rq_URL = BaseURL c @ path,
                  rq_Auth = (if HeaderAuth c \<noteq> [] \<and> Token c \<noteq> [] then Some (HeaderAuth c @ '' '' @ Token c)
                             else None), rq_Body = body\<rparr>) (\<lambda>r.
         case r of
           Inl e \<Rightarrow> throw (NewError ErrTransient ''http request'' (Some (PlainErr e)))
         | Inr resp \<Rightarrow>
             if 200 \<le> StatusCode resp \<and> StatusCode resp < 300 then
               (case decode (RespBody resp) of
                  Some v \<Rightarrow> ret v
                | None \<Rightarrow> throw (NewError ErrSchema ''decode response body'' (Some (PlainErr ''json''))))
             else throw (classifyError L resp)))"

section \<open>Decoding targets\<close>

definition decodeMap :: "('x) golib_scheme \<Rightarrow> string \<Rightarrow> goval gomap option" where
  "decodeMap L body = (case json_decode L body of
       Some (GObj m) \<Rightarrow> Some m | Some GNil \<Rightarrow> Some [] | _ \<Rightarrow> None)"

fun decodeMaps :: "goval list \<Rightarrow> goval gomap list option" where
  "decodeMaps [] = Some []"
| "decodeMaps (GObj m # vs) = map_option (\<lambda>ms. m # ms) (decodeMaps vs)"
| "decodeMaps (GNil # vs) = map_option (\<lambda>ms. [] # ms) (decodeMaps vs)"
| "decodeMaps (_ # vs) = None"

definition decodeListFields :: "goval gomap \<Rightarrow> (goval gomap list \<times> string \<times> bool) option" where
  "decodeListFields m =
     (case (case gget GNil m ''records'' of GNil \<Rightarrow> Some [] | GArr vs \<Rightarrow> decodeMaps vs | _ \<Rightarrow> None) of
        None \<Rightarrow> None
      | Some recs \<Rightarrow>
          (case (case gget GNil m ''next_cursor'' of GNil \<Rightarrow> Some [] | GStr c \<Rightarrow> Some c | _ \<Rightarrow> None) of
             None \<Rightarrow> None
           | Some cur \<Rightarrow>
               (case gget GNil m ''has_more'' of
                  GNil \<Rightarrow> Some (recs, cur, False)
                | GBool b \<Rightarrow> Some (recs, cur, b)
                | _ \<Rightarrow> None)))"

definition decodeList :: "('x) golib_scheme \<Rightarrow> string \<Rightarrow> (goval gomap list \<times> string \<times> bool) option" where
  "decodeList L body = (case decodeMap L body of None \<Rightarrow> None | Some m \<Rightarrow> decodeListFields m)"

definition decodeHealth :: "('x) golib_scheme \<Rightarrow> string \<Rightarrow> Health option" where
  "decodeHealth L body = (case decodeMap L body of
     None \<Rightarrow> None
   | Some m \<Rightarrow>
       (case (case gget GNil m ''status'' of GNil \<Rightarrow> Some [] | GStr c \<Rightarrow> Some c | _ \<Rightarrow> None) of
          None \<Rightarrow> None
        | Some status \<Rightarrow>
            (case gget GNil m ''records'' of
               GNil \<Rightarrow> Some \<lparr>he_Status = status, he_Records = 0\<rparr>
             | GNum r \<Rightarrow> if of_int \<lfloor>r\<rfloor> = r \<and> in64 \<lfloor>r\<rfloor>
                          then Some \<lparr>he_Status = status, he_Records = \<lfloor>r\<rfloor>\<rparr> else None
             | _ \<Rightarrow> None)))"

section \<open>What both adapters share\<close>

text \<open>\<open>int64(v)\<close> of a \<open>float64\<close>: truncation towards zero.\<close>

definition truncate64 :: "rat \<Rightarrow> int" where
  "truncate64 r = i64 (if 0 \<le> r then \<lfloor>r\<rfloor> else \<lceil>r\<rceil>)"

text \<open>The body of \<open>toProviderRecord\<close>, for the identifier key of the provider.\<close>

definition recordFrom :: "string \<Rightarrow> string \<Rightarrow> goval gomap \<Rightarrow> goerr + ProviderRecord" where
  "recordFrom idKey missing raw =
     (let rid = (case asStr (gget GNil raw idKey) of Some s \<Rightarrow> s | None \<Rightarrow> []) in
      if rid = [] then Inl (NewError ErrSchema missing None)
      else Inr \<lparr>pr_ID = rid,
             pr_SourceVersion = (case gget GNil raw ''version'' of
                 GNum v \<Rightarrow> truncate64 v
               | GStr v \<Rightarrow> (case ParseInt v of Some n \<Rightarrow> n | None \<Rightarrow> 0)
               | _ \<Rightarrow> 0),
             pr_Deleted = (case map_of raw ''deleted'' of Some (GBool b) \<Rightarrow> b | _ \<Rightarrow> False),
             pr_Data = raw\<rparr>)"

fun recordsFrom :: "(goval gomap \<Rightarrow> goerr + ProviderRecord) \<Rightarrow> goval gomap list \<Rightarrow> goerr + ProviderRecord list" where
  "recordsFrom f [] = Inr []"
| "recordsFrom f (r # rs) = (case f r of
     Inl e \<Rightarrow> Inl e
   | Inr x \<Rightarrow> (case recordsFrom f rs of Inl e \<Rightarrow> Inl e | Inr xs \<Rightarrow> Inr (x # xs)))"

fun s_any :: "('x) golib_scheme \<Rightarrow> goval \<Rightarrow> string" where
  "s_any L GNil = []"
| "s_any L (GStr t) = t"
| "s_any L v = sprint L v"

text \<open>The loop of \<open>Validate\<close> over the required fields.\<close>

fun validateFields :: "('x) golib_scheme \<Rightarrow> string list \<Rightarrow> goval gomap \<Rightarrow> goerr option" where
  "validateFields L [] d = None"
| "validateFields L (f # fs) d =
     (if (case map_of d f of None \<Rightarrow> True | Some v \<Rightarrow> v = GNil \<or> sprint L v = [])
      then Some (NewError ErrSchema (''missing required field '' @ f) None)
      else validateFields L fs d)"

definition returnE :: "goerr + 'a \<Rightarrow> ('s, 'a) M" where
  "returnE r = (case r of Inl e \<Rightarrow> throw e | Inr x \<Rightarrow> ret x)"

definition listQuery :: "('x) golib_scheme \<Rightarrow> string \<Rightarrow> ListOptions \<Rightarrow> string" where
  "listQuery L listPath opts =
     listPath @ ''?limit='' @ Itoa (lo_Limit opts)
     @ (if lo_Cursor opts \<noteq> [] then ''&cursor='' @ lo_Cursor opts else [])
     @ (case lo_Since opts of Some t \<Rightarrow> ''&since='' @ rfc3339 L t | None \<Rightarrow> [])"

section \<open>Salesforce\<close>

abbreviation Salesforce :: string where "Salesforce \<equiv> ''salesforce''"
abbreviation sfListPath :: string where "sfListPath \<equiv> ''/api/v1/customers''"

definition sf_toProviderRecord :: "goval gomap \<Rightarrow> goerr + ProviderRecord" where
  "sf_toProviderRecord raw = recordFrom ''id'' ''record missing id'' raw"

definition sf_HealthCheck :: "('w, 'x) netlib_scheme \<Rightarrow> Client \<Rightarrow> (('w, 'z) net_scheme, Health) M" where
  "sf_HealthCheck L c = ClientDo L c ''GET'' ''/admin/health'' None (decodeHealth L)"

definition sf_List :: "('w, 'x) netlib_scheme \<Rightarrow> Client \<Rightarrow> ListOptions \<Rightarrow> (('w, 'z) net_scheme, Page) M" where
  "sf_List L c opts =
     bindM (ClientDo L c ''GET'' (listQuery L sfListPath opts) None (decodeList L)) (\<lambda>(recs, cur, more).
     bindM (returnE (recordsFrom sf_toProviderRecord recs)) (\<lambda>rs.
     ret \<lparr>pg_Records = rs, pg_NextCursor = cur, pg_HasMore = more\<rparr>))"

definition sf_Get :: "('w, 'x) netlib_scheme \<Rightarrow> Client \<Rightarrow> string \<Rightarrow> (('w, 'z) net_scheme, ProviderRecord) M" where
  "sf_Get L c rid =
     bindM (ClientDo L c ''GET'' (sfListPath @ ''/'' @ rid) None (decodeMap L)) (\<lambda>raw. returnE (sf_toProviderRecord raw))"

definition sf_Create :: "('w, 'x) netlib_scheme \<Rightarrow> Client \<Rightarrow> ProviderRecord \<Rightarrow> (('w, 'z) net_scheme, ProviderRecord) M" where
  "sf_Create L c rec =
     bindM (ClientDo L c ''POST'' sfListPath (Some (GObj (pr_Data rec))) (decodeMap L)) (\<lambda>raw.
       returnE (sf_toProviderRecord raw))"

definition sf_Update ::
  "('w, 'x) netlib_scheme \<Rightarrow> Client \<Rightarrow> string \<Rightarrow> ProviderRecord \<Rightarrow> (('w, 'z) net_scheme, ProviderRecord) M" where
  "sf_Update L c rid rec =
     bindM (ClientDo L c ''PATCH'' (sfListPath @ ''/'' @ rid) (Some (GObj (pr_Data rec))) (decodeMap L)) (\<lambda>raw.
       returnE (sf_toProviderRecord raw))"

definition sf_Delete :: "('w, 'x) netlib_scheme \<Rightarrow> Client \<Rightarrow> string \<Rightarrow> (('w, 'z) net_scheme, unit) M" where
  "sf_Delete L c rid = ClientDo L c ''DELETE'' (sfListPath @ ''/'' @ rid) None (\<lambda>_. Some ())"

definition sf_Validate :: "('x) golib_scheme \<Rightarrow> ProviderRecord \<Rightarrow> goerr option" where
  "sf_Validate L rec = validateFields L [''first_name'', ''last_name'', ''email''] (pr_Data rec)"

definition sf_Normalize :: "('x) golib_scheme \<Rightarrow> ProviderRecord \<Rightarrow> Customer" where
  "sf_Normalize L rec =
     (let d = pr_Data rec; g = (\<lambda>k. s_any L (gget GNil d k)) in
      emptyCustomer\<lparr>cu_EntityID := pr_ID rec, FirstName := g ''first_name'', LastName := g ''last_name'',
        Email := g ''email'', Phone := g ''phone'', Company := g ''company'',
        cu_SourceVersions := [(Salesforce, pr_SourceVersion rec)], cu_Deleted := pr_Deleted rec,
        cu_UpdatedAt := (case parse_rfc3339 L (g ''updated_at'') of Some t \<Rightarrow> t | None \<Rightarrow> 0)\<rparr>)"

definition sf_Denormalize :: "Customer \<Rightarrow> ProviderRecord" where
  "sf_Denormalize c =
     \<lparr>pr_ID = cu_EntityID c, pr_SourceVersion = 0, pr_Deleted = False,
      pr_Data = [(''first_name'', GStr (FirstName c)), (''last_name'', GStr (LastName c)),
        (''email'', GStr (Email c)), (''phone'', GStr (Phone c)), (''company'', GStr (Company c)),
        (''deleted'', GBool (cu_Deleted c))]\<rparr>"

section \<open>HubSpot\<close>

abbreviation HubSpot :: string where "HubSpot \<equiv> ''hubspot''"
abbreviation hsListPath :: string where "hsListPath \<equiv> ''/api/v1/contacts''"

definition hs_toProviderRecord :: "goval gomap \<Rightarrow> goerr + ProviderRecord" where
  "hs_toProviderRecord raw = recordFrom ''contact_id'' ''record missing contact_id'' raw"

definition hs_HealthCheck :: "('w, 'x) netlib_scheme \<Rightarrow> Client \<Rightarrow> (('w, 'z) net_scheme, Health) M" where
  "hs_HealthCheck L c = ClientDo L c ''GET'' ''/admin/health'' None (decodeHealth L)"

definition hs_List :: "('w, 'x) netlib_scheme \<Rightarrow> Client \<Rightarrow> ListOptions \<Rightarrow> (('w, 'z) net_scheme, Page) M" where
  "hs_List L c opts =
     bindM (ClientDo L c ''GET'' (listQuery L hsListPath opts) None (decodeList L)) (\<lambda>(recs, cur, more).
     bindM (returnE (recordsFrom hs_toProviderRecord recs)) (\<lambda>rs.
     ret \<lparr>pg_Records = rs, pg_NextCursor = cur, pg_HasMore = more\<rparr>))"

definition hs_Get :: "('w, 'x) netlib_scheme \<Rightarrow> Client \<Rightarrow> string \<Rightarrow> (('w, 'z) net_scheme, ProviderRecord) M" where
  "hs_Get L c rid =
     bindM (ClientDo L c ''GET'' (hsListPath @ ''/'' @ rid) None (decodeMap L)) (\<lambda>raw. returnE (hs_toProviderRecord raw))"

definition hs_Create :: "('w, 'x) netlib_scheme \<Rightarrow> Client \<Rightarrow> ProviderRecord \<Rightarrow> (('w, 'z) net_scheme, ProviderRecord) M" where
  "hs_Create L c rec =
     bindM (ClientDo L c ''POST'' hsListPath (Some (GObj (pr_Data rec))) (decodeMap L)) (\<lambda>raw.
       returnE (hs_toProviderRecord raw))"

definition hs_Update ::
  "('w, 'x) netlib_scheme \<Rightarrow> Client \<Rightarrow> string \<Rightarrow> ProviderRecord \<Rightarrow> (('w, 'z) net_scheme, ProviderRecord) M" where
  "hs_Update L c rid rec =
     bindM (ClientDo L c ''PATCH'' (hsListPath @ ''/'' @ rid) (Some (GObj (pr_Data rec))) (decodeMap L)) (\<lambda>raw.
       returnE (hs_toProviderRecord raw))"

definition hs_Delete :: "('w, 'x) netlib_scheme \<Rightarrow> Client \<Rightarrow> string \<Rightarrow> (('w, 'z) net_scheme, unit) M" where
  "hs_Delete L c rid = ClientDo L c ''DELETE'' (hsListPath @ ''/'' @ rid) None (\<lambda>_. Some ())"

definition hs_Validate :: "('x) golib_scheme \<Rightarrow> ProviderRecord \<Rightarrow> goerr option" where
  "hs_Validate L rec = validateFields L [''firstName'', ''lastName'', ''emailAddress''] (pr_Data rec)"

definition hs_Normalize :: "('x) golib_scheme \<Rightarrow> ProviderRecord \<Rightarrow> Customer" where
  "hs_Normalize L rec =
     (let d = pr_Data rec; g = (\<lambda>k. s_any L (gget GNil d k)) in
      emptyCustomer\<lparr>cu_EntityID := pr_ID rec, FirstName := g ''firstName'', LastName := g ''lastName'',
        Email := g ''emailAddress'', Phone := g ''phoneNumber'', Company := g ''organization'',
        cu_SourceVersions := [(HubSpot, pr_SourceVersion rec)], cu_Deleted := pr_Deleted rec,
        cu_UpdatedAt := (case parse_rfc3339 L (g ''modifiedAt'') of Some t \<Rightarrow> t | None \<Rightarrow> 0)\<rparr>)"

definition hs_Denormalize :: "Customer \<Rightarrow> ProviderRecord" where
  "hs_Denormalize c =
     \<lparr>pr_ID = cu_EntityID c, pr_SourceVersion = 0, pr_Deleted = False,
      pr_Data = [(''firstName'', GStr (FirstName c)), (''lastName'', GStr (LastName c)),
        (''emailAddress'', GStr (Email c)), (''phoneNumber'', GStr (Phone c)),
        (''organization'', GStr (Company c)), (''deleted'', GBool (cu_Deleted c))]\<rparr>"

section \<open>The adapter interface and the registry\<close>

datatype Adapter = SalesforceA Client | HubspotA Client

fun adapterName :: "Adapter \<Rightarrow> string" where
  "adapterName (SalesforceA c) = Salesforce"
| "adapterName (HubspotA c) = HubSpot"

fun CanonicalEntityType :: "Adapter \<Rightarrow> string" where
  "CanonicalEntityType (SalesforceA c) = ''customer''"
| "CanonicalEntityType (HubspotA c) = ''customer''"

fun HealthCheck :: "('w, 'x) netlib_scheme \<Rightarrow> Adapter \<Rightarrow> (('w, 'z) net_scheme, Health) M" where
  "HealthCheck L (SalesforceA c) = sf_HealthCheck L c"
| "HealthCheck L (HubspotA c) = hs_HealthCheck L c"

fun ListPage :: "('w, 'x) netlib_scheme \<Rightarrow> Adapter \<Rightarrow> ListOptions \<Rightarrow> (('w, 'z) net_scheme, Page) M" where
  "ListPage L (SalesforceA c) opts = sf_List L c opts"
| "ListPage L (HubspotA c) opts = hs_List L c opts"

fun GetRecord :: "('w, 'x) netlib_scheme \<Rightarrow> Adapter \<Rightarrow> string \<Rightarrow> (('w, 'z) net_scheme, ProviderRecord) M" where
  "GetRecord L (SalesforceA c) rid = sf_Get L c rid"
| "GetRecord L (HubspotA c) rid = hs_Get L c rid"

fun CreateRecord :: "('w, 'x) netlib_scheme \<Rightarrow> Adapter \<Rightarrow> ProviderRecord \<Rightarrow> (('w, 'z) net_scheme, ProviderRecord) M" where
  "CreateRecord L (SalesforceA c) rec = sf_Create L c rec"
| "CreateRecord L (HubspotA c) rec = hs_Create L c rec"

fun UpdateRecord ::
  "('w, 'x) netlib_scheme \<Rightarrow> Adapter \<Rightarrow> string \<Rightarrow> ProviderRecord \<Rightarrow> (('w, 'z) net_scheme, ProviderRecord) M" where
  "UpdateRecord L (SalesforceA c) rid rec = sf_Update L c rid rec"
| "UpdateRecord L (HubspotA c) rid rec = hs_Update L c rid rec"

fun DeleteRecord :: "('w, 'x) netlib_scheme \<Rightarrow> Adapter \<Rightarrow> string \<Rightarrow> (('w, 'z) net_scheme, unit) M" where
  "DeleteRecord L (SalesforceA c) rid = sf_Delete L c rid"
| "DeleteRecord L (HubspotA c) rid = hs_Delete L c rid"

fun Validate :: "('x) golib_scheme \<Rightarrow> Adapter \<Rightarrow> ProviderRecord \<Rightarrow> goerr option" where
  "Validate L (SalesforceA c) rec = sf_Validate L rec"
| "Validate L (HubspotA c) rec = hs_Validate L rec"

fun Normalize :: "('x) golib_scheme \<Rightarrow> Adapter \<Rightarrow> ProviderRecord \<Rightarrow> Customer" where
  "Normalize L (SalesforceA c) rec = sf_Normalize L rec"
| "Normalize L (HubspotA c) rec = hs_Normalize L rec"

fun Denormalize :: "Adapter \<Rightarrow> Customer \<Rightarrow> ProviderRecord" where
  "Denormalize (SalesforceA c) cust = sf_Denormalize cust"
| "Denormalize (HubspotA c) cust = hs_Denormalize cust"

definition providerLimits :: "int gomap" where
  "providerLimits = [(Salesforce, 100), (HubSpot, 50)]"

definition registryNewRateLimited :: "string \<Rightarrow> string \<Rightarrow> string \<Rightarrow> int \<Rightarrow> goerr + Adapter" where
  "registryNewRateLimited provider baseURL token perMinute =
     (if provider = Salesforce then Inr (SalesforceA (NewRateLimitedClient baseURL token perMinute))
      else if provider = HubSpot then Inr (HubspotA (NewRateLimitedClient baseURL token perMinute))
      else Inl (PlainErr (''unsupported provider: '' @ provider)))"

definition registryNew :: "string \<Rightarrow> string \<Rightarrow> string \<Rightarrow> goerr + Adapter" where
  "registryNew provider baseURL token =
     registryNewRateLimited provider baseURL token (gget 0 providerLimits provider)"

section \<open>Frame of a provider call\<close>

definition frameNet :: "(('w, 'z) net_scheme \<Rightarrow> 'v) \<Rightarrow> bool" where
  "frameNet v \<longleftrightarrow> (\<forall>s w fs. v (s\<lparr>world := w\<rparr>) = v s \<and> v (s\<lparr>faults := fs\<rparr>) = v s)"

lemma faultPoint_cases:
  "faultPoint s = (Inr (), s) \<or> (\<exists>fs. faultPoint s = (Inr (), s\<lparr>faults := fs\<rparr>)) \<or>
   (\<exists>e fs. faultPoint s = (Inl (PlainErr e), s\<lparr>faults := fs\<rparr>))"
  by (auto simp: faultPoint_def split: list.splits option.splits)

lemma keeps_faultPoint [keeps_intros]: "frameNet v \<Longrightarrow> keeps v faultPoint"
  by (rule keepsI) (auto simp: faultPoint_def frameNet_def split: list.splits option.splits)

lemma keeps_sendHttp [keeps_intros]: "frameNet v \<Longrightarrow> keeps v (sendHttp L req)"
  by (rule keepsI) (simp add: sendHttp_def frameNet_def split: prod.splits)

lemma keeps_returnE [keeps_intros]: "keeps v (returnE r)"
  by (simp add: returnE_def keeps_sum keeps_ret keeps_throw)

lemma keeps_ClientDo [keeps_intros]: "frameNet v \<Longrightarrow> keeps v (ClientDo L c m p b d)"
  unfolding ClientDo_def by (intro keeps_intros)

lemma keeps_HealthCheck [keeps_intros]: "frameNet v \<Longrightarrow> keeps v (HealthCheck L a)"
  by (cases a) (simp_all add: sf_HealthCheck_def hs_HealthCheck_def keeps_ClientDo)

lemma keeps_ListPage [keeps_intros]: "frameNet v \<Longrightarrow> keeps v (ListPage L a opts)"
  by (cases a) (auto simp: sf_List_def hs_List_def intro!: keeps_intros)

lemma keeps_GetRecord [keeps_intros]: "frameNet v \<Longrightarrow> keeps v (GetRecord L a i)"
  by (cases a) (auto simp: sf_Get_def hs_Get_def intro!: keeps_intros)

lemma keeps_CreateRecord [keeps_intros]: "frameNet v \<Longrightarrow> keeps v (CreateRecord L a rec)"
  by (cases a) (auto simp: sf_Create_def hs_Create_def intro!: keeps_intros)

lemma keeps_UpdateRecord [keeps_intros]: "frameNet v \<Longrightarrow> keeps v (UpdateRecord L a i rec)"
  by (cases a) (auto simp: sf_Update_def hs_Update_def intro!: keeps_intros)

lemma keeps_DeleteRecord [keeps_intros]: "frameNet v \<Longrightarrow> keeps v (DeleteRecord L a i)"
  by (cases a) (auto simp: sf_Delete_def hs_Delete_def intro!: keeps_intros)

section \<open>What the engine needs of a provider schema\<close>

locale schema_adapter =
  fixes normalize :: "ProviderRecord \<Rightarrow> Customer"
    and denormalize :: "Customer \<Rightarrow> ProviderRecord"
    and validate :: "ProviderRecord \<Rightarrow> goerr option"
  assumes carries:
      "(\<And>k v. map_of (pr_Data (denormalize c)) k = Some v \<Longrightarrow> k \<noteq> ''deleted'' \<Longrightarrow> map_of (pr_Data rec) k = Some v) \<Longrightarrow>
       sameFields5 (normalize rec) c"
    and entity: "cu_EntityID (normalize rec) = pr_ID rec"
    and denormalize_id: "pr_ID (denormalize c) = cu_EntityID c"
    and accepts:
      "(\<And>k v. map_of (pr_Data (denormalize c)) k = Some v \<Longrightarrow> k \<noteq> ''deleted'' \<Longrightarrow> map_of (pr_Data rec) k = Some v) \<Longrightarrow>
       FirstName c \<noteq> [] \<Longrightarrow> LastName c \<noteq> [] \<Longrightarrow> Email c \<noteq> [] \<Longrightarrow> validate rec = None"
begin

lemma roundtrip: "sameFields5 (normalize (denormalize c)) c"
  by (rule carries)

lemma roundtrip_entity: "cu_EntityID (normalize (denormalize c)) = cu_EntityID c"
  by (simp add: entity denormalize_id)

lemma written_valid:
  "FirstName c \<noteq> [] \<Longrightarrow> LastName c \<noteq> [] \<Longrightarrow> Email c \<noteq> [] \<Longrightarrow> validate (denormalize c) = None"
  by (rule accepts)

text \<open>A record that carries what the engine wrote has the fingerprint of what it wrote.\<close>

lemma echo_fingerprint:
  "(\<And>k v. map_of (pr_Data (denormalize c)) k = Some v \<Longrightarrow> k \<noteq> ''deleted'' \<Longrightarrow> map_of (pr_Data rec) k = Some v) \<Longrightarrow>
   Fingerprint L (normalize rec) = Fingerprint L c"
  by (rule sameFields5_Fingerprint, rule carries)

end

text \<open>Relaying a record from one provider to another.\<close>

locale schema_relay =
  src: schema_adapter n1 d1 v1 + dst: schema_adapter n2 d2 v2 for n1 d1 v1 n2 d2 v2
begin

lemma relay_fields: "sameFields5 (n2 (d2 (n1 rec))) (n1 rec)"
  by (rule dst.roundtrip)

lemma relay_back: "sameFields5 (n1 (d1 (n2 (d2 (n1 rec))))) (n1 rec)"
  using src.roundtrip [of "n2 (d2 (n1 rec))"] dst.roundtrip [of "n1 rec"] by (simp add: sameFields5_def)

end

lemma gget_Some: "map_of m k = Some v \<Longrightarrow> gget z m k = v"
  by (simp add: gget_def)

interpretation sf: schema_adapter "sf_Normalize L" sf_Denormalize "sf_Validate L" for L :: "'x golib_scheme"
proof
  fix c :: Customer and rec :: ProviderRecord
  assume "\<And>k v. map_of (pr_Data (sf_Denormalize c)) k = Some v \<Longrightarrow> k \<noteq> ''deleted'' \<Longrightarrow> map_of (pr_Data rec) k = Some v"
  note h = this [unfolded sf_Denormalize_def, simplified]
  have "map_of (pr_Data rec) ''first_name'' = Some (GStr (FirstName c))"
    "map_of (pr_Data rec) ''last_name'' = Some (GStr (LastName c))"
    "map_of (pr_Data rec) ''email'' = Some (GStr (Email c))"
    "map_of (pr_Data rec) ''phone'' = Some (GStr (Phone c))"
    "map_of (pr_Data rec) ''company'' = Some (GStr (Company c))"
    using h [of "''first_name''"] h [of "''last_name''"] h [of "''email''"] h [of "''phone''"]
      h [of "''company''"] by simp_all
  note present = this
  show "sameFields5 (sf_Normalize L rec) c"
    by (simp add: sameFields5_def sf_Normalize_def Let_def present [THEN gget_Some])
  show "FirstName c \<noteq> [] \<Longrightarrow> LastName c \<noteq> [] \<Longrightarrow> Email c \<noteq> [] \<Longrightarrow> sf_Validate L rec = None"
    by (simp add: sf_Validate_def present)
qed (simp_all add: sf_Normalize_def sf_Denormalize_def Let_def)

interpretation hs: schema_adapter "hs_Normalize L" hs_Denormalize "hs_Validate L" for L :: "'x golib_scheme"
proof
  fix c :: Customer and rec :: ProviderRecord
  assume "\<And>k v. map_of (pr_Data (hs_Denormalize c)) k = Some v \<Longrightarrow> k \<noteq> ''deleted'' \<Longrightarrow> map_of (pr_Data rec) k = Some v"
  note h = this [unfolded hs_Denormalize_def, simplified]
  have "map_of (pr_Data rec) ''firstName'' = Some (GStr (FirstName c))"
    "map_of (pr_Data rec) ''lastName'' = Some (GStr (LastName c))"
    "map_of (pr_Data rec) ''emailAddress'' = Some (GStr (Email c))"
    "map_of (pr_Data rec) ''phoneNumber'' = Some (GStr (Phone c))"
    "map_of (pr_Data rec) ''organization'' = Some (GStr (Company c))"
    using h [of "''firstName''"] h [of "''lastName''"] h [of "''emailAddress''"] h [of "''phoneNumber''"]
      h [of "''organization''"] by simp_all
  note present = this
  show "sameFields5 (hs_Normalize L rec) c"
    by (simp add: sameFields5_def hs_Normalize_def Let_def present [THEN gget_Some])
  show "FirstName c \<noteq> [] \<Longrightarrow> LastName c \<noteq> [] \<Longrightarrow> Email c \<noteq> [] \<Longrightarrow> hs_Validate L rec = None"
    by (simp add: hs_Validate_def present)
qed (simp_all add: hs_Normalize_def hs_Denormalize_def Let_def)

lemma schema_adapter_Adapter: "schema_adapter (Normalize L a) (Denormalize a) (Validate L a)"
proof (cases a)
  case (SalesforceA c)
  then have "Normalize L a = sf_Normalize L" "Denormalize a = sf_Denormalize" "Validate L a = sf_Validate L"
    by (auto simp: fun_eq_iff)
  then show ?thesis
    by (simp add: sf.schema_adapter_axioms)
next
  case (HubspotA c)
  then have "Normalize L a = hs_Normalize L" "Denormalize a = hs_Denormalize" "Validate L a = hs_Validate L"
    by (auto simp: fun_eq_iff)
  then show ?thesis
    by (simp add: hs.schema_adapter_axioms)
qed

interpretation ad: schema_adapter "Normalize L a" "Denormalize a" "Validate L a" for L :: "'x golib_scheme" and a
  by (rule schema_adapter_Adapter)

interpretation relay: schema_relay "Normalize L a" "Denormalize a" "Validate L a"
    "Normalize L b" "Denormalize b" "Validate L b" for L :: "'x golib_scheme" and a b
  by unfold_locales

section \<open>Properties\<close>

text \<open>
  The schema mapping loses none of the five business fields on its way from one provider
  through the canonical model to another provider and back, for every pair of adapters and every
  provider record.
\<close>

theorem relay_roundtrip:
  "sameFields5 (Normalize L b (Denormalize b (Normalize L a rec))) (Normalize L a rec) \<and>
   sameFields5 (Normalize L a (Denormalize a (Normalize L b (Denormalize b (Normalize L a rec))))) (Normalize L a rec)"
  by (intro conjI relay.relay_fields relay.relay_back)

text \<open>
  A non-2xx answer of a provider is retried exactly when its status is none of 400, 401, 403 and
  422; exactly a 429 answer with a numeric \<open>Retry-After\<close> header carries a delay hint, the
  header's seconds in nanoseconds.
\<close>

theorem classifyError_retry:
  "(ShouldRetry (fst (Classify (classifyError L resp))) \<longleftrightarrow> StatusCode resp \<notin> {400, 401, 403, 422}) \<and>
   snd (Classify (classifyError L resp)) =
     (case (StatusCode resp = 429, ParseInt (RetryAfterHdr resp)) of
        (True, Some sec) \<Rightarrow> i64 (sec * 1000000000)
      | _ \<Rightarrow> 0)"
  by (cases "RetryAfterHdr resp = []") (auto simp: ParseInt_def classifyError_def Let_def NewError_def Classify_def ShouldRetry_def
      split: option.splits)

end
