(* ===== verification/Schema.thy ===== *)
theory Schema
imports Tables Conflict Connectors
begin

text \<open>
  The database of SyncForge (\<open>migrations/*.sql\<close> and the row types of \<open>internal/store\<close>) and the
  state every service runs in: the tables, the outside world, the clock and the supply of
  generated identifiers.

  A row type keeps the columns the code reads. A table is a list of rows in creation order, so
  \<open>ORDER BY created_at\<close> is the list order; a query without an order that returns one row
  takes the first match. \<open>WithTenant\<close> (\<open>internal/db/db.go\<close>) runs one transaction: it may be cut
  short by a fault, and an error leaves the tables unchanged. The row-level security policies are
  written into the statements: a statement run for a tenant reads and writes only that tenant's
  rows. Commit outcomes that are unknown to the client, concurrent transactions and row locks
  are not modelled. Identifiers made by \<open>gen_random_uuid\<close> and \<open>uuid.NewString\<close> are
  \<open>uuid_of n\<close> for a running number \<open>n\<close>.
\<close>

section \<open>Rows\<close>

record SyncPolicy =
  po_TenantID :: string
  po_Entity :: string
  po_Source :: string
  po_Destination :: string
  po_Mode :: string
  po_ConflictStrategy :: string
  po_DeletePolicy :: string
  po_RetryPolicy :: string
  po_SourcePriority :: int
  po_Enabled :: bool

record Connection =
  cn_ID :: string
  cn_TenantID :: string
  cn_Name :: string
  cn_Provider :: string
  cn_BaseURL :: string
  cn_Status :: string
  cn_WebhookSecret :: string
  cn_LastHealthCheck :: "int option"

record CanonicalRecord =
  cr_SyncID :: string
  cr_TenantID :: string
  cr_EntityType :: string
  cr_EntityID :: string
  cr_Fields :: "goval gomap"
  cr_Version :: int
  cr_SourceVersions :: "int gomap"
  cr_FieldProvenance :: "Provenance gomap"
  cr_Tombstone :: bool
  cr_OriginSource :: string
  cr_OriginEventID :: string
  cr_SyncOperationID :: string
  cr_ProviderIDs :: "string gomap"
  cr_CreatedAt :: int
  cr_UpdatedAt :: int

record OutboundWrite =
  ow_TenantID :: string
  ow_EntityType :: string
  ow_EntityID :: string
  ow_TargetSource :: string
  ow_Fingerprint :: string
  ow_AppliedVersion :: int
  ow_WrittenAt :: int

record SyncOperation =
  so_TenantID :: string
  so_EntityType :: string
  so_EntityID :: string
  so_Source :: string
  so_TargetSource :: string
  so_EventID :: string
  so_AppliedVersion :: int
  so_Fingerprint :: string

record ProcessedEvent =
  pe_TenantID :: string
  pe_Source :: string
  pe_EventID :: string
  pe_EntityType :: string
  pe_EntityID :: string
  pe_ProcessedAt :: int

record SourceEvent =
  se_TenantID :: string
  se_Source :: string
  se_EventID :: string
  se_EntityType :: string
  se_EntityID :: string
  se_EventType :: string
  se_SourceVersion :: int
  se_OccurredAt :: "int option"
  se_ReceivedAt :: int
  se_CorrelationID :: string
  se_Provenance :: "goval gomap"
  se_Raw :: "goval gomap"
  se_Status :: string

record ConflictRecord =
  cf_ID :: string
  cf_TenantID :: string
  cf_EntityType :: string
  cf_EntityID :: string
  cf_SourceA :: string
  cf_VersionA :: int
  cf_PayloadA :: string
  cf_SourceB :: string
  cf_VersionB :: int
  cf_PayloadB :: string
  cf_DetectedAt :: int
  cf_Status :: string
  cf_ResolutionStrategy :: string
  cf_ResolvedBy :: "string option"
  cf_ResolvedAt :: "int option"

record RetryEntry =
  re_TenantID :: string
  re_EventID :: string
  re_Attempt :: int
  re_MaxAttempts :: int
  re_NextAttemptAt :: int
  re_LastError :: string
  re_ErrorClass :: string
  re_State :: string

record DeadLetter =
  dl_ID :: string
  dl_TenantID :: string
  dl_EventID :: string
  dl_Reason :: string
  dl_ErrorClass :: string
  dl_Payload :: string
  dl_Status :: string
  dl_CreatedAt :: int
  dl_ResolvedAt :: "int option"

record SyncJob =
  sj_ID :: string
  sj_TenantID :: string
  sj_Entity :: string
  sj_Source :: string
  sj_Destination :: string
  sj_Type :: string
  sj_Status :: string
  sj_Cursor :: "string option"
  sj_Processed :: int
  sj_Failed :: int
  sj_Total :: int
  sj_BatchSize :: int
  sj_StartedAt :: "int option"
  sj_FinishedAt :: "int option"
  sj_LastError :: "string option"

record ReconciliationRun =
  rr_ID :: string
  rr_TenantID :: string
  rr_Entity :: string
  rr_Source :: string
  rr_Mode :: string
  rr_Status :: string
  rr_JobID :: "string option"
  rr_Total :: int
  rr_Drift :: int
  rr_Missed :: int
  rr_Deleted :: int
  rr_Error :: "string option"
  rr_FinishedAt :: "int option"

record ReconciliationFinding =
  rf_ID :: string
  rf_RunID :: string
  rf_TenantID :: string
  rf_Kind :: string
  rf_ProviderID :: string
  rf_CanonicalID :: string
  rf_CanonicalFields :: "goval gomap"
  rf_ProviderFields :: "goval gomap"
  rf_ProviderVersion :: int
  rf_Direction :: string
  rf_Status :: string
  rf_Error :: "string option"
  rf_AppliedAt :: "int option"

record User =
  us_ID :: string
  us_TenantID :: string
  us_Email :: string
  us_PasswordHash :: string
  us_Role :: string
  us_TOTPSecret :: string
  us_TOTPEnabled :: bool
  us_BackupCodes :: "string list"

record Session =
  ss_JTI :: string
  ss_UserID :: string
  ss_TenantID :: string
  ss_Role :: string
  ss_CreatedAt :: int
  ss_ExpiresAt :: int
  ss_RevokedAt :: "int option"

record APIKey =
  ak_ID :: string
  ak_TenantID :: string
  ak_Name :: string
  ak_Role :: string
  ak_KeyHash :: string
  ak_Enabled :: bool
  ak_LastUsedAt :: "int option"

record LoginAttempt =
  la_TenantID :: string
  la_Email :: string
  la_IP :: string
  la_Success :: bool
  la_AttemptedAt :: int

record Tenant =
  te_ID :: string
  te_Name :: string
  te_Slug :: string
  te_Status :: string

record AuditLog =
  au_TenantID :: "string option"
  au_Actor :: string
  au_Action :: string
  au_Resource :: string
  au_ResourceID :: string
  au_Metadata :: "goval gomap"
  au_CreatedAt :: int

section \<open>Tables and state\<close>

record db =
  policies :: "SyncPolicy list"
  connections :: "Connection list"
  canonicals :: "CanonicalRecord list"
  outbounds :: "OutboundWrite list"
  operations :: "SyncOperation list"
  processed :: "ProcessedEvent list"
  sourceEvents :: "SourceEvent list"
  conflicts :: "ConflictRecord list"
  retryQueue :: "RetryEntry list"
  deadLetters :: "DeadLetter list"
  syncJobs :: "SyncJob list"
  reconRuns :: "ReconciliationRun list"
  reconFindings :: "ReconciliationFinding list"
  users :: "User list"
  sessions :: "Session list"
  apiKeys :: "APIKey list"
  loginAttempts :: "LoginAttempt list"
  tenants :: "Tenant list"
  auditLog :: "AuditLog list"

definition emptyDb :: db where
  "emptyDb = \<lparr>policies = [], connections = [], canonicals = [], outbounds = [], operations = [],
     processed = [], sourceEvents = [], conflicts = [], retryQueue = [], deadLetters = [],
     syncJobs = [], reconRuns = [], reconFindings = [], users = [], sessions = [], apiKeys = [],
     loginAttempts = [], tenants = [], auditLog = []\<rparr>"

record 'w st = "'w net" +
  db :: db
  now :: int
  seq :: nat

record 'w lib = "'w netlib" +
  uuid_of :: "nat \<Rightarrow> string"
  event_marshal :: "Event \<Rightarrow> string"
  event_unmarshal :: "string \<Rightarrow> Event option"
  rand_float :: "nat \<Rightarrow> rat"

text \<open>What the code relies on: encoding an event and decoding it again gives the event.\<close>

definition eventCodec :: "('w, 'x) lib_scheme \<Rightarrow> bool" where
  "eventCodec L \<longleftrightarrow> (\<forall>e. event_unmarshal L (event_marshal L e) = Some e)"

section \<open>Transactions\<close>

definition WithTenant :: "(int \<Rightarrow> db \<Rightarrow> (goerr + 'a) \<times> db) \<Rightarrow> (('w, 'z) st_scheme, 'a) M" where
  "WithTenant fn = thenM faultPoint (\<lambda>s. case fn (now s) (db s) of
      (Inl e, d) \<Rightarrow> (Inl e, s)
    | (Inr x, d) \<Rightarrow> (Inr x, s\<lparr>db := d\<rparr>))"

definition newID :: "('w, 'x) lib_scheme \<Rightarrow> (('w, 'z) st_scheme, string) M" where
  "newID L = (\<lambda>s. (Inr (uuid_of L (seq s)), s\<lparr>seq := seq s + 1\<rparr>))"

definition timeNow :: "(('w, 'z) st_scheme, int) M" where
  "timeNow = gets now"

text \<open>Shapes of statements: read one row or fail, and write without a result.\<close>

definition rowOr :: "goerr \<Rightarrow> 'r option \<Rightarrow> db \<Rightarrow> (goerr + 'r) \<times> db" where
  "rowOr e r d = (case r of Some x \<Rightarrow> (Inr x, d) | None \<Rightarrow> (Inl e, d))"

definition clampLimit :: "int \<Rightarrow> int \<Rightarrow> nat" where
  "clampLimit mx limit = (if limit \<le> 0 \<or> limit > mx then 100 else nat limit)"

section \<open>The rows outside a tenant\<close>

definition outside :: "string \<Rightarrow> db \<Rightarrow> db" where
  "outside t d = \<lparr>
     policies = filter (\<lambda>r. po_TenantID r \<noteq> t) (policies d),
     connections = filter (\<lambda>r. cn_TenantID r \<noteq> t) (connections d),
     canonicals = filter (\<lambda>r. cr_TenantID r \<noteq> t) (canonicals d),
     outbounds = filter (\<lambda>r. ow_TenantID r \<noteq> t) (outbounds d),
     operations = filter (\<lambda>r. so_TenantID r \<noteq> t) (operations d),
     processed = filter (\<lambda>r. pe_TenantID r \<noteq> t) (processed d),
     sourceEvents = filter (\<lambda>r. se_TenantID r \<noteq> t) (sourceEvents d),
     conflicts = filter (\<lambda>r. cf_TenantID r \<noteq> t) (conflicts d),
     retryQueue = filter (\<lambda>r. re_TenantID r \<noteq> t) (retryQueue d),
     deadLetters = filter (\<lambda>r. dl_TenantID r \<noteq> t) (deadLetters d),
     syncJobs = filter (\<lambda>r. sj_TenantID r \<noteq> t) (syncJobs d),
     reconRuns = filter (\<lambda>r. rr_TenantID r \<noteq> t) (reconRuns d),
     reconFindings = filter (\<lambda>r. rf_TenantID r \<noteq> t) (reconFindings d),
     users = filter (\<lambda>r. us_TenantID r \<noteq> t) (users d),
     sessions = filter (\<lambda>r. ss_TenantID r \<noteq> t) (sessions d),
     apiKeys = filter (\<lambda>r. ak_TenantID r \<noteq> t) (apiKeys d),
     loginAttempts = filter (\<lambda>r. la_TenantID r \<noteq> t) (loginAttempts d),
     tenants = filter (\<lambda>r. te_ID r \<noteq> t) (tenants d),
     auditLog = filter (\<lambda>r. au_TenantID r \<noteq> Some t) (auditLog d)\<rparr>"

section \<open>Rules for transactions\<close>

lemma WithTenant_run:
  "WithTenant fn s = (case faultPoint s of
      (Inl e, s') \<Rightarrow> (Inl e, s')
    | (Inr _, s') \<Rightarrow> (case fn (now s') (db s') of
          (Inl e, d) \<Rightarrow> (Inl e, s') | (Inr x, d) \<Rightarrow> (Inr x, s'\<lparr>db := d\<rparr>)))"
  by (simp add: WithTenant_def thenM_run)

lemma faultPoint_db [simp]: "db (snd (faultPoint s)) = db s"
  and faultPoint_world [simp]: "world (snd (faultPoint s)) = world s"
  and faultPoint_now [simp]: "now (snd (faultPoint s)) = now s"
  by (auto simp: faultPoint_def split: list.splits option.splits)

lemma faultPoint_none [simp]: "faults s = [] \<Longrightarrow> faultPoint s = (Inr (), s)"
  by (simp add: faultPoint_def)

lemma WithTenant_ok [run_simps]:
  "faults s = [] \<Longrightarrow> WithTenant fn s = (case fn (now s) (db s) of
      (Inl e, d) \<Rightarrow> (Inl e, s) | (Inr x, d) \<Rightarrow> (Inr x, s\<lparr>db := d\<rparr>))"
  by (simp add: WithTenant_run)

lemma newID_run [run_simps]: "newID L s = (Inr (uuid_of L (seq s)), s\<lparr>seq := seq s + 1\<rparr>)"
  by (simp add: newID_def)

lemma timeNow_run [run_simps]: "timeNow s = (Inr (now s), s)"
  by (simp add: timeNow_def gets_def)

lemma WithTenant_cases:
  obtains (fail) e s' where "WithTenant fn s = (Inl e, s')" "db s' = db s" "world s' = world s" "now s' = now s"
  | (ok) x d s' where "fn (now s) (db s) = (Inr x, d)" "WithTenant fn s = (Inr x, s'\<lparr>db := d\<rparr>)"
      "world s' = world s" "now s' = now s"
proof -
  obtain r s' where fp: "faultPoint s = (r, s')"
    by force
  then have eq: "db s' = db s" "world s' = world s" "now s' = now s"
    using faultPoint_db [of s] faultPoint_world [of s] faultPoint_now [of s] by simp_all
  show thesis
  proof (cases r)
    case (Inl e)
    then show thesis
      using fail fp eq by (simp add: WithTenant_run)
  next
    case (Inr u)
    show thesis
    proof (cases "fn (now s) (db s)")
      case (Pair q d)
      then show thesis
        using fail ok fp eq Inr by (cases q) (simp_all add: WithTenant_run)
    qed
  qed
qed

lemma WithTenant_Inr:
  "WithTenant fn s = (Inr x, s') \<Longrightarrow>
   fn (now s) (db s) = (Inr x, db s') \<and> world s' = world s \<and> now s' = now s"
  by (cases rule: WithTenant_cases [of fn s]) auto

lemma WithTenant_Inl:
  "WithTenant fn s = (Inl e, s') \<Longrightarrow> db s' = db s \<and> world s' = world s \<and> now s' = now s"
  by (cases rule: WithTenant_cases [of fn s]) auto

text \<open>
  The frame rules are stated for projections of the tables, \<open>\<lambda>s. f (db s)\<close>, and for the outside
  world: a transaction changes a projection only through its statement.
\<close>

lemma keeps_WithTenant_db:
  assumes "\<And>n d. f (snd (fn n d)) = f d"
  shows "keeps (\<lambda>s. f (db s)) (WithTenant fn)"
proof (rule keepsI)
  fix s
  show "f (db (snd (WithTenant fn s))) = f (db s)"
    using assms [of "now s" "db s"] by (cases rule: WithTenant_cases [of fn s]) auto
qed

lemma keeps_WithTenant_world [keeps_intros]: "keeps world (WithTenant fn)"
proof (rule keepsI)
  fix s
  show "world (snd (WithTenant fn s)) = world s"
    by (cases rule: WithTenant_cases [of fn s]) auto
qed

lemma keeps_WithTenant_now [keeps_intros]: "keeps now (WithTenant fn)"
proof (rule keepsI)
  fix s
  show "now (snd (WithTenant fn s)) = now s"
    by (cases rule: WithTenant_cases [of fn s]) auto
qed

lemma keeps_newID [keeps_intros]: "keeps (\<lambda>s. f (db s)) (newID L)"
  and keeps_newID_world [keeps_intros]: "keeps world (newID L)"
  and keeps_newID_now [keeps_intros]: "keeps now (newID L)"
  by (simp_all add: keeps_def newID_def)

lemma keeps_timeNow [keeps_intros]: "keeps v timeNow"
  by (simp add: timeNow_def keeps_gets)

lemma frameNet_db [simp]: "frameNet (\<lambda>s :: ('w, 'z) st_scheme. f (db s))"
  by (simp add: frameNet_def)

lemma frameNet_now [simp]: "frameNet (now :: ('w, 'z) st_scheme \<Rightarrow> int)"
  by (simp add: frameNet_def)

lemma valid_WithTenant:
  assumes "\<And>n d x d'. P d \<Longrightarrow> fn n d = (Inr x, d') \<Longrightarrow> Q x d'"
    and "\<And>e d. P d \<Longrightarrow> E e d"
  shows "valid (\<lambda>s. P (db s)) (WithTenant fn) (\<lambda>x s. Q x (db s)) (\<lambda>e s. E e (db s))"
proof (rule validI)
  fix s x s'
  assume "P (db s)" "WithTenant fn s = (Inr x, s')"
  then show "Q x (db s')"
    using assms(1) by (cases rule: WithTenant_cases [of fn s]) auto
next
  fix s e s'
  assume "P (db s)" "WithTenant fn s = (Inl e, s')"
  then show "E e (db s')"
    using assms(2) by (cases rule: WithTenant_cases [of fn s]) auto
qed

text \<open>A transaction that fails is rolled back.\<close>

lemma errKeeps_WithTenant: "errKeeps (\<lambda>s. f (db s)) (WithTenant fn)"
  unfolding errKeeps_def by (auto dest: WithTenant_Inl)

section \<open>Programs without effect\<close>

text \<open>
  \<open>quiet P m Q E\<close>: started where the tables satisfy \<open>P\<close>, the program changes nothing but the
  supply of faults, and the value (or error) it returns satisfies \<open>Q\<close> (or \<open>E\<close>) there.
\<close>

definition quiet ::
  "(db \<Rightarrow> bool) \<Rightarrow> (('w, 'z) st_scheme, 'a) M \<Rightarrow> ('a \<Rightarrow> db \<Rightarrow> bool) \<Rightarrow> (goerr \<Rightarrow> db \<Rightarrow> bool) \<Rightarrow> bool" where
  "quiet P m Q E \<longleftrightarrow> (\<forall>s. P (db s) \<longrightarrow> (\<exists>r fs. m s = (r, s\<lparr>faults := fs\<rparr>) \<and>
      (case r of Inl e \<Rightarrow> E e (db s) | Inr x \<Rightarrow> Q x (db s))))"

lemma faults_same [simp]: "(s :: ('w, 'z) net_scheme)\<lparr>faults := faults s\<rparr> = s"
  by (cases s) simp

lemma db_same [simp]: "(s :: ('w, 'z) st_scheme)\<lparr>db := db s\<rparr> = s"
  by (cases s) simp

lemma quietD: "quiet P m Q E \<Longrightarrow> P (db s) \<Longrightarrow> \<exists>r fs. m s = (r, s\<lparr>faults := fs\<rparr>)"
  unfolding quiet_def by blast

lemma quiet_state:
  "quiet P m Q E \<Longrightarrow> P (db s) \<Longrightarrow> db (snd (m s)) = db s \<and> world (snd (m s)) = world s"
  using quietD [of P m Q E s] by auto

lemma quiet_pre: "quiet P m Q E \<Longrightarrow> (\<And>d. P' d \<Longrightarrow> P d) \<Longrightarrow> quiet P' m Q E"
  unfolding quiet_def by blast

lemma quietI:
  fixes m :: "(('w, 'z) st_scheme, 'a) M"
  assumes "\<And>s. P (db s) \<Longrightarrow> \<exists>r fs. m s = (r, s\<lparr>faults := fs\<rparr>) \<and> (\<forall>e. r = Inl e \<longrightarrow> E e (db s)) \<and> (\<forall>x. r = Inr x \<longrightarrow> Q x (db s))"
  shows "quiet P m Q E"
  unfolding quiet_def
proof (intro allI impI)
  fix s :: "('w, 'z) st_scheme"
  assume "P (db s)"
  from assms [OF this] obtain r fs where "m s = (r, s\<lparr>faults := fs\<rparr>)" "\<forall>e. r = Inl e \<longrightarrow> E e (db s)" "\<forall>x. r = Inr x \<longrightarrow> Q x (db s)"
    by blast
  then show "\<exists>r fs. m s = (r, s\<lparr>faults := fs\<rparr>) \<and> (case r of Inl e \<Rightarrow> E e (db s) | Inr x \<Rightarrow> Q x (db s))"
    by (intro exI [of _ r] exI [of _ fs]) (cases r; simp)
qed

lemma quietE:
  assumes "quiet P m Q E" "P (db s)"
  obtains (err) e fs where "m s = (Inl e, s\<lparr>faults := fs\<rparr>)" "E e (db s)"
  | (val) x fs where "m s = (Inr x, s\<lparr>faults := fs\<rparr>)" "Q x (db s)"
proof -
  obtain r fs where r: "m s = (r, s\<lparr>faults := fs\<rparr>)" "case r of Inl e \<Rightarrow> E e (db s) | Inr x \<Rightarrow> Q x (db s)"
    using assms unfolding quiet_def by blast
  then show thesis
    using err val by (cases r) auto
qed

lemma quiet_ret: "(\<And>d. P d \<Longrightarrow> Q x d) \<Longrightarrow> quiet P (ret x) Q E"
  by (rule quietI) (auto simp: ret_def intro: exI [of _ "faults s" for s] faults_same [symmetric])

lemma quiet_throw: "(\<And>d. P d \<Longrightarrow> E e d) \<Longrightarrow> quiet P (throw e) Q E"
  by (rule quietI) (auto simp: throw_def intro: exI [of _ "faults s" for s] faults_same [symmetric])

lemma quiet_bindM:
  fixes m :: "(('w, 'z) st_scheme, 'a) M"
  assumes m: "quiet P m Q E" and f: "\<And>x. quiet (\<lambda>d. P d \<and> Q x d) (f x) R E"
  shows "quiet P (bindM m f) R E"
proof (rule quietI)
  fix s :: "('w, 'z) st_scheme"
  assume s: "P (db s)"
  show "\<exists>r fs. bindM m f s = (r, s\<lparr>faults := fs\<rparr>) \<and> (\<forall>e. r = Inl e \<longrightarrow> E e (db s)) \<and> (\<forall>x. r = Inr x \<longrightarrow> R x (db s))"
    using m s
  proof (cases rule: quietE)
    case (err e fs)
    then show ?thesis
      by (auto simp: bindM_run)
  next
    case (val x fs)
    have "P (db (s\<lparr>faults := fs\<rparr>)) \<and> Q x (db (s\<lparr>faults := fs\<rparr>))"
      using s val by simp
    with f [of x] show ?thesis
      by (cases rule: quietE) (auto simp: bindM_run val(1))
  qed
qed

lemma quiet_thenM: "quiet P m (\<lambda>_. Q) E \<Longrightarrow> quiet (\<lambda>d. P d \<and> Q d) n R E \<Longrightarrow> quiet P (thenM m n) R E"
  unfolding thenM_def by (rule quiet_bindM)

lemma quiet_attempt:
  fixes m :: "(('w, 'z) st_scheme, 'a) M"
  assumes "quiet P m (\<lambda>x. Q (Inr x)) (\<lambda>e. Q (Inl e))"
  shows "quiet P (attempt m) Q E"
proof (rule quietI)
  fix s :: "('w, 'z) st_scheme"
  assume "P (db s)"
  with assms show "\<exists>r fs. attempt m s = (r, s\<lparr>faults := fs\<rparr>) \<and> (\<forall>e. r = Inl e \<longrightarrow> E e (db s)) \<and> (\<forall>x. r = Inr x \<longrightarrow> Q x (db s))"
    by (cases rule: quietE) (auto simp: attempt_run)
qed

lemma quiet_weaken:
  fixes m :: "(('w, 'z) st_scheme, 'a) M"
  assumes q: "quiet P m Q E" and h: "\<And>x d. P d \<Longrightarrow> Q x d \<Longrightarrow> Q' x d" "\<And>e d. P d \<Longrightarrow> E e d \<Longrightarrow> E' e d"
  shows "quiet P m Q' E'"
proof (rule quietI)
  fix s :: "('w, 'z) st_scheme"
  assume s: "P (db s)"
  show "\<exists>r fs. m s = (r, s\<lparr>faults := fs\<rparr>) \<and> (\<forall>e. r = Inl e \<longrightarrow> E' e (db s)) \<and> (\<forall>x. r = Inr x \<longrightarrow> Q' x (db s))"
    using q s by (cases rule: quietE) (use h s in auto)
qed

lemma quiet_bindM_attempt:
  assumes "quiet P m Q E" "\<And>x. quiet (\<lambda>d. P d \<and> Q x d) (f (Inr x)) R E'" "\<And>e. quiet (\<lambda>d. P d \<and> E e d) (f (Inl e)) R E'"
  shows "quiet P (bindM (attempt m) f) R E'"
proof (rule quiet_bindM)
  show "quiet P (attempt m) (\<lambda>r d. case r of Inl e \<Rightarrow> E e d | Inr x \<Rightarrow> Q x d) E'"
    by (rule quiet_attempt) (simp add: assms(1))
  show "quiet (\<lambda>d. P d \<and> (case r of Inl e \<Rightarrow> E e d | Inr x \<Rightarrow> Q x d)) (f r) R E'" for r
    using assms(2,3) by (cases r) simp_all
qed

lemma quiet_if:
  "(b \<Longrightarrow> quiet P m Q E) \<Longrightarrow> (\<not> b \<Longrightarrow> quiet P n Q E) \<Longrightarrow> quiet P (if b then m else n) Q E"
  by simp

lemma quiet_option:
  "(x = None \<Longrightarrow> quiet P m Q E) \<Longrightarrow> (\<And>y. x = Some y \<Longrightarrow> quiet P (f y) Q E) \<Longrightarrow>
   quiet P (case x of None \<Rightarrow> m | Some y \<Rightarrow> f y) Q E"
  by (cases x) simp_all

lemma quiet_sum:
  "(\<And>e. x = Inl e \<Longrightarrow> quiet P (g e) Q E) \<Longrightarrow> (\<And>y. x = Inr y \<Longrightarrow> quiet P (f y) Q E) \<Longrightarrow>
   quiet P (case x of Inl e \<Rightarrow> g e | Inr y \<Rightarrow> f y) Q E"
  by (cases x) simp_all

lemma quiet_false: "(\<And>d. \<not> P d) \<Longrightarrow> quiet P m Q E"
  by (simp add: quiet_def)

lemma quiet_WithTenant:
  assumes same: "\<And>n d. P d \<Longrightarrow> snd (fn n d) = d"
    and val: "\<And>n d x. P d \<Longrightarrow> fst (fn n d) = Inr x \<Longrightarrow> Q x d"
    and err: "\<And>n d e. P d \<Longrightarrow> fst (fn n d) = Inl e \<Longrightarrow> E e d"
    and fault: "\<And>m d. P d \<Longrightarrow> E (PlainErr m) d"
  shows "quiet P (WithTenant fn :: (('w, 'z) st_scheme, 'a) M) Q E"
proof (rule quietI)
  fix s :: "('w, 'z) st_scheme"
  assume s: "P (db s)"
  obtain r d where fn: "fn (now s) (db s) = (r, d)"
    by force
  then have d: "d = db s"
    using same [OF s, of "now s"] by simp
  have ok: "WithTenant fn s = (r, s\<lparr>faults := fs\<rparr>)" if "faultPoint s = (Inr (), s\<lparr>faults := fs\<rparr>)" for fs
    using fn d that db_same [of "s\<lparr>faults := fs\<rparr>"] by (cases r) (simp_all add: WithTenant_run)
  have rv: "(\<forall>e. r = Inl e \<longrightarrow> E e (db s)) \<and> (\<forall>x. r = Inr x \<longrightarrow> Q x (db s))"
    using fn val [OF s, of "now s"] err [OF s, of "now s"] by simp
  consider (plain) "faultPoint s = (Inr (), s)"
    | (skip) fs where "faultPoint s = (Inr (), s\<lparr>faults := fs\<rparr>)"
    | (fault) e fs where "faultPoint s = (Inl (PlainErr e), s\<lparr>faults := fs\<rparr>)"
    using faultPoint_cases [of s] by blast
  then show "\<exists>r fs. WithTenant fn s = (r, s\<lparr>faults := fs\<rparr>) \<and> (\<forall>e. r = Inl e \<longrightarrow> E e (db s)) \<and> (\<forall>x. r = Inr x \<longrightarrow> Q x (db s))"
  proof cases
    case plain
    then show ?thesis
      using ok [of "faults s"] rv by (intro exI [of _ r] exI [of _ "faults s"]) simp
  next
    case (skip fs)
    then show ?thesis
      using ok [of fs] rv by blast
  next
    case (fault e fs)
    then show ?thesis
      using assms(4) [OF s] by (auto simp: WithTenant_run)
  qed
qed

lemma quiet_read:
  "quiet P (WithTenant (\<lambda>n d. rowOr ErrNotFound (f d) d)) (\<lambda>x d. f d = Some x)
     (\<lambda>e d. (e = ErrNotFound \<and> f d = None) \<or> (\<exists>m. e = PlainErr m))"
  by (rule quiet_WithTenant) (auto simp: rowOr_def split: option.splits)

end
