(* ===== verification/Store.thy ===== *)
theory Store
imports Schema
begin

text \<open>
  The statements of \<open>internal/store\<close> that the synchronization engine runs: canonical records,
  loop-prevention ledger and applied operations (\<open>canonical.go\<close>, \<open>outbound.go\<close>,
  \<open>applytx.go\<close>, \<open>audit.go\<close>), idempotency claims (\<open>processed.go\<close>), ingested events
  (\<open>events.go\<close>), retries and dead letters (\<open>retry.go\<close>, \<open>dlq.go\<close>), conflicts
  (\<open>conflicts.go\<close>), policies and connections (\<open>policy.go\<close>, \<open>connections.go\<close>).

  For every statement there is a frame rule (the tables it leaves alone) and, when it writes, an
  isolation rule (the rows of other tenants stay as they are). The tables written by an upsert
  interpret \<open>upsert_table\<close>; the idempotency claims interpret the locale \<open>claim_log\<close>.
\<close>

named_theorems frame_intros \<open>frame rules of the writing statements\<close>
named_theorems iso_intros \<open>tenant isolation of the writing statements\<close>
named_theorems store_ops \<open>definitions of the statements\<close>

section \<open>Canonical records\<close>

definition crKey :: "CanonicalRecord \<Rightarrow> string \<times> string \<times> string" where
  "crKey c = (cr_TenantID c, cr_EntityType c, cr_EntityID c)"

text \<open>The updated row of the upsert: the stored identity and creation time, everything else new.\<close>

definition crMerge :: "int \<Rightarrow> CanonicalRecord \<Rightarrow> CanonicalRecord \<Rightarrow> CanonicalRecord" where
  "crMerge n old c = c\<lparr>cr_SyncID := cr_SyncID old, cr_CreatedAt := cr_CreatedAt old, cr_UpdatedAt := n\<rparr>"

definition GetCanonical :: "string \<Rightarrow> string \<Rightarrow> string \<Rightarrow> (('w, 'z) st_scheme, CanonicalRecord) M" where
  [store_ops]: "GetCanonical t ety eid = WithTenant (\<lambda>n d. rowOr ErrNotFound
     (findRow (\<lambda>c. cr_TenantID c = t \<and> cr_EntityType c = ety \<and> cr_EntityID c = eid) (canonicals d)) d)"

definition GetCanonicalByProvider ::
  "string \<Rightarrow> string \<Rightarrow> string \<Rightarrow> string \<Rightarrow> (('w, 'z) st_scheme, CanonicalRecord) M" where
  [store_ops]: "GetCanonicalByProvider t ety provider pid = WithTenant (\<lambda>n d. rowOr ErrNotFound
     (findRow (\<lambda>c. cr_TenantID c = t \<and> cr_EntityType c = ety \<and>
                   map_of (cr_ProviderIDs c) provider = Some pid) (canonicals d)) d)"

definition GetCanonicalByEmail :: "string \<Rightarrow> string \<Rightarrow> string \<Rightarrow> (('w, 'z) st_scheme, CanonicalRecord) M" where
  [store_ops]: "GetCanonicalByEmail t ety email = WithTenant (\<lambda>n d. rowOr ErrNotFound
     (findRow (\<lambda>c. cr_TenantID c = t \<and> cr_EntityType c = ety \<and> \<not> cr_Tombstone c \<and>
                   map_of (cr_Fields c) ''email'' = Some (GStr email)) (canonicals d)) d)"

definition AddProviderID ::
  "string \<Rightarrow> string \<Rightarrow> string \<Rightarrow> string \<Rightarrow> string \<Rightarrow> (('w, 'z) st_scheme, unit) M" where
  [store_ops]: "AddProviderID t ety eid provider pid = WithTenant (\<lambda>n d. (Inr (),
     d\<lparr>canonicals := updateWhere (\<lambda>c. cr_TenantID c = t \<and> cr_EntityType c = ety \<and> cr_EntityID c = eid)
         (\<lambda>c. c\<lparr>cr_ProviderIDs := gset provider pid (cr_ProviderIDs c), cr_UpdatedAt := n\<rparr>) (canonicals d)\<rparr>))"

definition putCanonical :: "int \<Rightarrow> CanonicalRecord \<Rightarrow> CanonicalRecord list \<Rightarrow> CanonicalRecord list" where
  "putCanonical n c rows = upsertBy crKey (crMerge n) c rows"

definition UpsertCanonical ::
  "('w, 'x) lib_scheme \<Rightarrow> CanonicalRecord \<Rightarrow> (('w, 'z) st_scheme, CanonicalRecord) M" where
  [store_ops]: "UpsertCanonical L c = bindM (newID L) (\<lambda>sid. WithTenant (\<lambda>n d.
     let row = c\<lparr>cr_SyncID := sid, cr_CreatedAt := n, cr_UpdatedAt := n\<rparr>;
         rows = putCanonical n row (canonicals d) in
     rowOr ErrNotFound (getBy crKey (crKey c) rows) (d\<lparr>canonicals := rows\<rparr>)))"

section \<open>Loop-prevention ledger and applied operations\<close>

definition owKey :: "OutboundWrite \<Rightarrow> string \<times> string \<times> string \<times> string" where
  "owKey w = (ow_TenantID w, ow_EntityType w, ow_EntityID w, ow_TargetSource w)"

definition owMerge :: "OutboundWrite \<Rightarrow> OutboundWrite \<Rightarrow> OutboundWrite" where
  "owMerge old w = w"

definition putOutbound :: "int \<Rightarrow> OutboundWrite \<Rightarrow> OutboundWrite list \<Rightarrow> OutboundWrite list" where
  "putOutbound n w rows = upsertBy owKey owMerge (w\<lparr>ow_WrittenAt := n\<rparr>) rows"

definition UpsertOutboundWrite :: "OutboundWrite \<Rightarrow> (('w, 'z) st_scheme, unit) M" where
  [store_ops]: "UpsertOutboundWrite w = WithTenant (\<lambda>n d. (Inr (), d\<lparr>outbounds := putOutbound n w (outbounds d)\<rparr>))"

definition GetOutboundWrite ::
  "string \<Rightarrow> string \<Rightarrow> string \<Rightarrow> string \<Rightarrow> (('w, 'z) st_scheme, OutboundWrite) M" where
  [store_ops]: "GetOutboundWrite t ety eid target = WithTenant (\<lambda>n d. rowOr ErrNotFound
     (getBy owKey (t, ety, eid, target) (outbounds d)) d)"

definition InsertSyncOperation :: "SyncOperation \<Rightarrow> (('w, 'z) st_scheme, SyncOperation) M" where
  [store_ops]: "InsertSyncOperation op' = WithTenant (\<lambda>n d. (Inr op', d\<lparr>operations := operations d @ [op']\<rparr>))"

definition ListSyncOperations ::
  "string \<Rightarrow> string \<Rightarrow> string \<Rightarrow> string \<Rightarrow> int \<Rightarrow> (('w, 'z) st_scheme, SyncOperation list) M" where
  [store_ops]: "ListSyncOperations t ety eid target limit = WithTenant (\<lambda>n d. (Inr
     (take (clampLimit 500 limit) (rev (filter (\<lambda>o'. so_TenantID o' = t \<and>
        (ety = [] \<or> so_EntityType o' = ety) \<and> (eid = [] \<or> so_EntityID o' = eid) \<and>
        (target = [] \<or> so_TargetSource o' = target)) (operations d)))), d))"

text \<open>\<open>PersistApplyState\<close>: all writes at the end of an apply, in one transaction.\<close>

definition PersistApplyState ::
  "('w, 'x) lib_scheme \<Rightarrow> CanonicalRecord \<Rightarrow> OutboundWrite list \<Rightarrow> SyncOperation list \<Rightarrow>
   (('w, 'z) st_scheme, CanonicalRecord) M" where
  [store_ops]: "PersistApplyState L c outbound ops = bindM (newID L) (\<lambda>sid. WithTenant (\<lambda>n d.
     if list_all (\<lambda>w. ow_TenantID w = cr_TenantID c) outbound \<and>
        list_all (\<lambda>o'. so_TenantID o' = cr_TenantID c) ops then
       let row = c\<lparr>cr_SyncID := sid, cr_CreatedAt := n, cr_UpdatedAt := n\<rparr>;
           rows = putCanonical n row (canonicals d) in
       rowOr ErrNotFound (getBy crKey (crKey c) rows)
         (d\<lparr>outbounds := fold (putOutbound n) outbound (outbounds d),
            operations := operations d @ ops, canonicals := rows\<rparr>)
     else (Inl (PlainErr ''new row violates row-level security policy''), d)))"

section \<open>Idempotency claims\<close>

definition peKey :: "ProcessedEvent \<Rightarrow> string \<times> string \<times> string" where
  "peKey p = (pe_TenantID p, pe_Source p, pe_EventID p)"

definition claimRow :: "int \<Rightarrow> string \<times> string \<times> string \<Rightarrow> string \<Rightarrow> string \<Rightarrow> ProcessedEvent" where
  "claimRow n k ety eid = (case k of (t, source, evid) \<Rightarrow>
     \<lparr>pe_TenantID = t, pe_Source = source, pe_EventID = evid, pe_EntityType = ety, pe_EntityID = eid,
      pe_ProcessedAt = n\<rparr>)"

definition claimStmt ::
  "int \<Rightarrow> string \<Rightarrow> string \<Rightarrow> string \<times> string \<times> string \<Rightarrow> ProcessedEvent list \<Rightarrow> bool \<times> ProcessedEvent list" where
  "claimStmt n ety eid k rows = (\<not> hasKey peKey k rows, insertIgnore peKey (claimRow n k ety eid) rows)"

definition releaseStmt :: "string \<times> string \<times> string \<Rightarrow> ProcessedEvent list \<Rightarrow> ProcessedEvent list" where
  "releaseStmt k rows = deleteWhere (\<lambda>p. peKey p = k) rows"

definition ClaimProcessedEvent ::
  "string \<Rightarrow> string \<Rightarrow> string \<Rightarrow> string \<Rightarrow> string \<Rightarrow> (('w, 'z) st_scheme, bool) M" where
  [store_ops]: "ClaimProcessedEvent t source evid ety eid = WithTenant (\<lambda>n d.
     case claimStmt n ety eid (t, source, evid) (processed d) of
       (claimed, rows) \<Rightarrow> (Inr claimed, d\<lparr>processed := rows\<rparr>))"

definition ReleaseProcessedEvent :: "string \<Rightarrow> string \<Rightarrow> string \<Rightarrow> (('w, 'z) st_scheme, unit) M" where
  [store_ops]: "ReleaseProcessedEvent t source evid = WithTenant (\<lambda>n d.
     (Inr (), d\<lparr>processed := releaseStmt (t, source, evid) (processed d)\<rparr>))"

definition ProcessedCount :: "string \<Rightarrow> (('w, 'z) st_scheme, int) M" where
  [store_ops]: "ProcessedCount t = WithTenant (\<lambda>n d.
     (Inr (int (length (filter (\<lambda>p. pe_TenantID p = t) (processed d)))), d))"

section \<open>Ingested events\<close>

definition seKey :: "SourceEvent \<Rightarrow> string \<times> string \<times> string" where
  "seKey e = (se_TenantID e, se_Source e, se_EventID e)"

definition InsertSourceEvent :: "SourceEvent \<Rightarrow> (('w, 'z) st_scheme, SourceEvent) M" where
  [store_ops]: "InsertSourceEvent ev = WithTenant (\<lambda>n d.
     if hasKey seKey (seKey ev) (sourceEvents d) then (Inl ErrDuplicate, d)
     else let row = ev\<lparr>se_ReceivedAt := n, se_Status := ''received''\<rparr> in
          (Inr row, d\<lparr>sourceEvents := sourceEvents d @ [row]\<rparr>))"

definition GetSourceEvent :: "string \<Rightarrow> string \<Rightarrow> (('w, 'z) st_scheme, SourceEvent) M" where
  [store_ops]: "GetSourceEvent t evid = WithTenant (\<lambda>n d. rowOr ErrNotFound
     (findRow (\<lambda>e. se_TenantID e = t \<and> se_EventID e = evid) (sourceEvents d)) d)"

definition ListSourceEvents :: "string \<Rightarrow> int \<Rightarrow> (('w, 'z) st_scheme, SourceEvent list) M" where
  [store_ops]: "ListSourceEvents t limit = WithTenant (\<lambda>n d. (Inr
     (take (clampLimit 1000 limit) (rev (filter (\<lambda>e. se_TenantID e = t) (sourceEvents d)))), d))"

definition SetSourceEventStatus :: "string \<Rightarrow> string \<Rightarrow> string \<Rightarrow> string \<Rightarrow> (('w, 'z) st_scheme, unit) M" where
  [store_ops]: "SetSourceEventStatus t evid frm to' = WithTenant (\<lambda>n d. (Inr (),
     d\<lparr>sourceEvents := updateWhere (\<lambda>e. se_TenantID e = t \<and> se_EventID e = evid \<and> se_Status e = frm)
         (\<lambda>e. e\<lparr>se_Status := to'\<rparr>) (sourceEvents d)\<rparr>))"

definition SetSourceEventStatusTo :: "string \<Rightarrow> string \<Rightarrow> string \<Rightarrow> (('w, 'z) st_scheme, unit) M" where
  [store_ops]: "SetSourceEventStatusTo t evid to' = WithTenant (\<lambda>n d. (Inr (),
     d\<lparr>sourceEvents := updateWhere (\<lambda>e. se_TenantID e = t \<and> se_EventID e = evid)
         (\<lambda>e. e\<lparr>se_Status := to'\<rparr>) (sourceEvents d)\<rparr>))"

definition PendingSourceEvents :: "int \<Rightarrow> (('w, 'z) st_scheme, SourceEvent list) M" where
  [store_ops]: "PendingSourceEvents limit = WithTenant (\<lambda>n d. (Inr
     (take (clampLimit 1000 limit) (filter (\<lambda>e. se_Status e = ''received'') (sourceEvents d))), d))"

section \<open>Retries and dead letters\<close>

definition reKey :: "RetryEntry \<Rightarrow> string \<times> string" where
  "reKey r = (re_TenantID r, re_EventID r)"

definition reMerge :: "RetryEntry \<Rightarrow> RetryEntry \<Rightarrow> RetryEntry" where
  "reMerge old e = e\<lparr>re_Attempt := re_Attempt old + 1, re_MaxAttempts := re_MaxAttempts old\<rparr>"

definition EnqueueRetry :: "RetryEntry \<Rightarrow> int \<Rightarrow> (('w, 'z) st_scheme, RetryEntry) M" where
  [store_ops]: "EnqueueRetry e delay = WithTenant (\<lambda>n d.
     let row = e\<lparr>re_Attempt := 1, re_NextAttemptAt := n + delay\<rparr>;
         rows = upsertBy reKey reMerge row (retryQueue d) in
     rowOr ErrNotFound (getBy reKey (reKey e) rows) (d\<lparr>retryQueue := rows\<rparr>))"

definition ClaimDueRetries :: "int \<Rightarrow> (('w, 'z) st_scheme, RetryEntry list) M" where
  [store_ops]: "ClaimDueRetries limit = WithTenant (\<lambda>n d. (Inr
     (take (clampLimit 1000 limit)
        (sort_key re_NextAttemptAt (filter (\<lambda>r. re_NextAttemptAt r \<le> n) (retryQueue d)))), d))"

definition DeleteRetry :: "string \<Rightarrow> string \<Rightarrow> (('w, 'z) st_scheme, unit) M" where
  [store_ops]: "DeleteRetry t evid = WithTenant (\<lambda>n d.
     (Inr (), d\<lparr>retryQueue := deleteWhere (\<lambda>r. reKey r = (t, evid)) (retryQueue d)\<rparr>))"

definition dlKey :: "DeadLetter \<Rightarrow> string \<times> string" where
  "dlKey r = (dl_TenantID r, dl_EventID r)"

definition dlMerge :: "DeadLetter \<Rightarrow> DeadLetter \<Rightarrow> DeadLetter" where
  "dlMerge old e = e\<lparr>dl_ID := dl_ID old, dl_CreatedAt := dl_CreatedAt old\<rparr>"

definition InsertDeadLetter ::
  "('w, 'x) lib_scheme \<Rightarrow> DeadLetter \<Rightarrow> (('w, 'z) st_scheme, DeadLetter) M" where
  [store_ops]: "InsertDeadLetter L dl = bindM (newID L) (\<lambda>i. WithTenant (\<lambda>n d.
     let row = dl\<lparr>dl_ID := i, dl_Status := ''open'', dl_CreatedAt := n, dl_ResolvedAt := None\<rparr>;
         rows = upsertBy dlKey dlMerge row (deadLetters d) in
     rowOr ErrNotFound (getBy dlKey (dlKey dl) rows) (d\<lparr>deadLetters := rows\<rparr>)))"

definition ListDeadLetters :: "string \<Rightarrow> string \<Rightarrow> int \<Rightarrow> (('w, 'z) st_scheme, DeadLetter list) M" where
  [store_ops]: "ListDeadLetters t status limit = WithTenant (\<lambda>n d. (Inr
     (take (clampLimit 1000 limit) (rev (filter (\<lambda>r. dl_TenantID r = t \<and>
        (status = [] \<or> dl_Status r = status)) (deadLetters d)))), d))"

definition GetDeadLetter :: "string \<Rightarrow> string \<Rightarrow> (('w, 'z) st_scheme, DeadLetter) M" where
  [store_ops]: "GetDeadLetter t i = WithTenant (\<lambda>n d. rowOr ErrNotFound
     (findRow (\<lambda>r. dl_TenantID r = t \<and> dl_ID r = i) (deadLetters d)) d)"

definition SetDeadLetterStatus :: "string \<Rightarrow> string \<Rightarrow> string \<Rightarrow> (('w, 'z) st_scheme, unit) M" where
  [store_ops]: "SetDeadLetterStatus t i status = WithTenant (\<lambda>n d. (Inr (),
     d\<lparr>deadLetters := updateWhere (\<lambda>r. dl_TenantID r = t \<and> dl_ID r = i)
         (\<lambda>r. r\<lparr>dl_Status := status, dl_ResolvedAt := Some n\<rparr>) (deadLetters d)\<rparr>))"

definition ResolveDeadLetterForEvent :: "string \<Rightarrow> string \<Rightarrow> (('w, 'z) st_scheme, unit) M" where
  [store_ops]: "ResolveDeadLetterForEvent t evid = WithTenant (\<lambda>n d. (Inr (),
     d\<lparr>deadLetters := updateWhere (\<lambda>r. dl_TenantID r = t \<and> dl_EventID r = evid \<and> dl_Status r \<noteq> ''discarded'')
         (\<lambda>r. r\<lparr>dl_Status := ''resolved'', dl_ResolvedAt := Some n\<rparr>) (deadLetters d)\<rparr>))"

section \<open>Conflicts\<close>

abbreviation ConflictPending :: string where "ConflictPending \<equiv> ''CONFLICT_PENDING''"
abbreviation ConflictResolved :: string where "ConflictResolved \<equiv> ''RESOLVED''"
abbreviation ConflictAutoResolved :: string where "ConflictAutoResolved \<equiv> ''AUTO_RESOLVED''"
abbreviation ConflictDismissed :: string where "ConflictDismissed \<equiv> ''DISMISSED''"

definition cfKey :: "ConflictRecord \<Rightarrow> string \<times> string \<times> string \<times> string \<times> string \<times> int \<times> int" where
  "cfKey c = (cf_TenantID c, cf_EntityType c, cf_EntityID c, cf_SourceA c, cf_SourceB c, cf_VersionA c, cf_VersionB c)"

definition InsertConflict ::
  "('w, 'x) lib_scheme \<Rightarrow> ConflictRecord \<Rightarrow> (('w, 'z) st_scheme, ConflictRecord) M" where
  [store_ops]: "InsertConflict L c = bindM (newID L) (\<lambda>i. WithTenant (\<lambda>n d.
     let row = c\<lparr>cf_ID := i, cf_DetectedAt := n, cf_ResolvedBy := None, cf_ResolvedAt := None\<rparr>;
         rows = insertIgnore cfKey row (conflicts d) in
     rowOr ErrNotFound (getBy cfKey (cfKey c) rows) (d\<lparr>conflicts := rows\<rparr>)))"

definition ListConflicts :: "string \<Rightarrow> string \<Rightarrow> int \<Rightarrow> (('w, 'z) st_scheme, ConflictRecord list) M" where
  [store_ops]: "ListConflicts t status limit = WithTenant (\<lambda>n d. (Inr
     (take (clampLimit 1000 limit) (rev (filter (\<lambda>r. cf_TenantID r = t \<and>
        (status = [] \<or> cf_Status r = status)) (conflicts d)))), d))"

definition GetConflict :: "string \<Rightarrow> string \<Rightarrow> (('w, 'z) st_scheme, ConflictRecord) M" where
  [store_ops]: "GetConflict t i = WithTenant (\<lambda>n d. rowOr ErrNotFound
     (findRow (\<lambda>r. cf_TenantID r = t \<and> cf_ID r = i) (conflicts d)) d)"

definition SetConflictStatus ::
  "string \<Rightarrow> string \<Rightarrow> string \<Rightarrow> string \<Rightarrow> string \<Rightarrow> (('w, 'z) st_scheme, unit) M" where
  [store_ops]: "SetConflictStatus t i status strategy who = WithTenant (\<lambda>n d. (Inr (),
     d\<lparr>conflicts := updateWhere (\<lambda>r. cf_TenantID r = t \<and> cf_ID r = i \<and> cf_Status r \<noteq> ConflictDismissed)
         (\<lambda>r. r\<lparr>cf_Status := status, cf_ResolutionStrategy := strategy, cf_ResolvedBy := Some who,
              cf_ResolvedAt := Some n\<rparr>) (conflicts d)\<rparr>))"

section \<open>Policies and connections\<close>

definition poKey :: "SyncPolicy \<Rightarrow> string \<times> string \<times> string \<times> string" where
  "poKey p = (po_TenantID p, po_Entity p, po_Source p, po_Destination p)"

definition poMerge :: "SyncPolicy \<Rightarrow> SyncPolicy \<Rightarrow> SyncPolicy" where
  "poMerge old p = p"

definition policyChecks :: "SyncPolicy \<Rightarrow> bool" where
  "policyChecks p \<longleftrightarrow> po_Mode p \<in> {''one_way'', ''bidirectional''} \<and>
     po_ConflictStrategy p \<in> {''last_write_wins'', ''source_priority'', ''field_merge'', ''manual''} \<and>
     po_DeletePolicy p \<in> {''propagate'', ''tombstone_only'', ''ignore''}"

definition UpsertSyncPolicy :: "SyncPolicy \<Rightarrow> (('w, 'z) st_scheme, SyncPolicy) M" where
  [store_ops]: "UpsertSyncPolicy p = WithTenant (\<lambda>n d.
     if policyChecks p then (Inr p, d\<lparr>policies := upsertBy poKey poMerge p (policies d)\<rparr>)
     else (Inl (PlainErr ''check constraint''), d))"

definition GetSyncPolicy :: "string \<Rightarrow> string \<Rightarrow> string \<Rightarrow> string \<Rightarrow> (('w, 'z) st_scheme, SyncPolicy) M" where
  [store_ops]: "GetSyncPolicy t entity source dest = WithTenant (\<lambda>n d. rowOr ErrNotFound
     (findRow (\<lambda>p. poKey p = (t, entity, source, dest) \<and> po_Enabled p) (policies d)) d)"

definition ListPolicies :: "string \<Rightarrow> (('w, 'z) st_scheme, SyncPolicy list) M" where
  [store_ops]: "ListPolicies t = WithTenant (\<lambda>n d.
     (Inr (filter (\<lambda>p. po_TenantID p = t \<and> po_Enabled p) (policies d)), d))"

definition CreateConnection ::
  "('w, 'x) lib_scheme \<Rightarrow> Connection \<Rightarrow> (('w, 'z) st_scheme, Connection) M" where
  [store_ops]: "CreateConnection L c = bindM (newID L) (\<lambda>i. WithTenant (\<lambda>n d.
     if cn_Provider c \<in> {''salesforce'', ''hubspot'', ''postgres''} \<and>
        cn_Status c \<in> {''disconnected'', ''connecting'', ''healthy'', ''unhealthy'', ''error''} then
       let row = c\<lparr>cn_ID := i, cn_LastHealthCheck := None\<rparr> in
       (Inr row, d\<lparr>connections := connections d @ [row]\<rparr>)
     else (Inl (PlainErr ''check constraint''), d)))"

definition ListConnections :: "string \<Rightarrow> (('w, 'z) st_scheme, Connection list) M" where
  [store_ops]: "ListConnections t = WithTenant (\<lambda>n d. (Inr (filter (\<lambda>c. cn_TenantID c = t) (connections d)), d))"

definition GetConnection :: "string \<Rightarrow> string \<Rightarrow> (('w, 'z) st_scheme, Connection) M" where
  [store_ops]: "GetConnection t i = WithTenant (\<lambda>n d. rowOr ErrNotFound
     (findRow (\<lambda>c. cn_TenantID c = t \<and> cn_ID c = i) (connections d)) d)"

definition GetConnectionByProvider :: "string \<Rightarrow> string \<Rightarrow> (('w, 'z) st_scheme, Connection) M" where
  [store_ops]: "GetConnectionByProvider t provider = WithTenant (\<lambda>n d. rowOr ErrNotFound
     (findRow (\<lambda>c. cn_TenantID c = t \<and> cn_Provider c = provider) (connections d)) d)"

definition SetConnectionStatus :: "string \<Rightarrow> string \<Rightarrow> string \<Rightarrow> (('w, 'z) st_scheme, unit) M" where
  [store_ops]: "SetConnectionStatus t i status = WithTenant (\<lambda>n d. (Inr (),
     d\<lparr>connections := updateWhere (\<lambda>c. cn_TenantID c = t \<and> cn_ID c = i)
         (\<lambda>c. c\<lparr>cn_Status := status, cn_LastHealthCheck := Some n\<rparr>) (connections d)\<rparr>))"

section \<open>Frames of the reading statements\<close>

lemma rowOr_snd [simp]: "snd (rowOr e r d) = (case r of Some x \<Rightarrow> d | None \<Rightarrow> d)"
  by (simp add: rowOr_def split: option.split)

lemma case_option_same [simp]: "(case r of Some x \<Rightarrow> d | None \<Rightarrow> d) = d"
  by (cases r) simp_all

lemma rowOr_Inr: "rowOr e r d = (Inr x, d') \<longleftrightarrow> r = Some x \<and> d' = d"
  by (auto simp: rowOr_def split: option.splits)

lemma rowOr_Inl: "rowOr e r d = (Inl e', d') \<longleftrightarrow> r = None \<and> e' = e \<and> d' = d"
  by (auto simp: rowOr_def split: option.splits)

lemma keeps_reads [keeps_intros]:
  "keeps (\<lambda>s. f (db s)) (GetCanonical t a b)"
  "keeps (\<lambda>s. f (db s)) (GetCanonicalByProvider t a b c)"
  "keeps (\<lambda>s. f (db s)) (GetCanonicalByEmail t a b)"
  "keeps (\<lambda>s. f (db s)) (GetOutboundWrite t a b c)"
  "keeps (\<lambda>s. f (db s)) (ListSyncOperations t a b c l)"
  "keeps (\<lambda>s. f (db s)) (ProcessedCount t)"
  "keeps (\<lambda>s. f (db s)) (GetSourceEvent t a)"
  "keeps (\<lambda>s. f (db s)) (ListSourceEvents t l)"
  "keeps (\<lambda>s. f (db s)) (PendingSourceEvents l)"
  "keeps (\<lambda>s. f (db s)) (ClaimDueRetries l)"
  "keeps (\<lambda>s. f (db s)) (ListDeadLetters t a l)"
  "keeps (\<lambda>s. f (db s)) (GetDeadLetter t a)"
  "keeps (\<lambda>s. f (db s)) (ListConflicts t a l)"
  "keeps (\<lambda>s. f (db s)) (GetConflict t a)"
  "keeps (\<lambda>s. f (db s)) (GetSyncPolicy t a b c)"
  "keeps (\<lambda>s. f (db s)) (ListPolicies t)"
  "keeps (\<lambda>s. f (db s)) (ListConnections t)"
  "keeps (\<lambda>s. f (db s)) (GetConnection t a)"
  "keeps (\<lambda>s. f (db s)) (GetConnectionByProvider t a)"
  unfolding store_ops by (rule keeps_WithTenant_db, simp)+

section \<open>Frames of the writing statements\<close>

lemma keeps_newID_then:
  "(\<And>x. keeps (\<lambda>s. f (db s)) (g x)) \<Longrightarrow> keeps (\<lambda>s. f (db s)) (bindM (newID L) g)"
  by (intro keeps_intros)

lemma frame_canonicals [frame_intros]:
  assumes "\<And>d x. f (d\<lparr>canonicals := x\<rparr>) = f d"
  shows "keeps (\<lambda>s. f (db s)) (AddProviderID t a b c e)"
    and "keeps (\<lambda>s. f (db s)) (UpsertCanonical L cr)"
  unfolding store_ops using assms
  by (auto intro!: keeps_newID_then keeps_WithTenant_db simp: Let_def)

lemma frame_outbounds [frame_intros]:
  assumes "\<And>d x. f (d\<lparr>outbounds := x\<rparr>) = f d"
  shows "keeps (\<lambda>s. f (db s)) (UpsertOutboundWrite w)"
  unfolding store_ops using assms by (auto intro!: keeps_WithTenant_db)

lemma frame_operations [frame_intros]:
  assumes "\<And>d x. f (d\<lparr>operations := x\<rparr>) = f d"
  shows "keeps (\<lambda>s. f (db s)) (InsertSyncOperation o')"
  unfolding store_ops using assms by (auto intro!: keeps_WithTenant_db)

lemma frame_PersistApplyState [frame_intros]:
  assumes "\<And>d x y z. f (d\<lparr>outbounds := x, operations := y, canonicals := z\<rparr>) = f d"
  shows "keeps (\<lambda>s. f (db s)) (PersistApplyState L c ws os)"
  unfolding store_ops using assms
  by (auto intro!: keeps_newID_then keeps_WithTenant_db simp: Let_def)

lemma frame_processed [frame_intros]:
  assumes "\<And>d x. f (d\<lparr>processed := x\<rparr>) = f d"
  shows "keeps (\<lambda>s. f (db s)) (ClaimProcessedEvent t a b c e)"
    and "keeps (\<lambda>s. f (db s)) (ReleaseProcessedEvent t a b)"
  unfolding store_ops using assms by (auto intro!: keeps_WithTenant_db simp: claimStmt_def)

lemma frame_sourceEvents [frame_intros]:
  assumes "\<And>d x. f (d\<lparr>sourceEvents := x\<rparr>) = f d"
  shows "keeps (\<lambda>s. f (db s)) (InsertSourceEvent ev)"
    and "keeps (\<lambda>s. f (db s)) (SetSourceEventStatus t a b c)"
    and "keeps (\<lambda>s. f (db s)) (SetSourceEventStatusTo t a b)"
  unfolding store_ops using assms by (auto intro!: keeps_WithTenant_db simp: Let_def)

lemma frame_retryQueue [frame_intros]:
  assumes "\<And>d x. f (d\<lparr>retryQueue := x\<rparr>) = f d"
  shows "keeps (\<lambda>s. f (db s)) (EnqueueRetry e n)"
    and "keeps (\<lambda>s. f (db s)) (DeleteRetry t a)"
  unfolding store_ops using assms by (auto intro!: keeps_WithTenant_db simp: Let_def)

lemma frame_deadLetters [frame_intros]:
  assumes "\<And>d x. f (d\<lparr>deadLetters := x\<rparr>) = f d"
  shows "keeps (\<lambda>s. f (db s)) (InsertDeadLetter L e)"
    and "keeps (\<lambda>s. f (db s)) (SetDeadLetterStatus t a b)"
    and "keeps (\<lambda>s. f (db s)) (ResolveDeadLetterForEvent t a)"
  unfolding store_ops using assms
  by (auto intro!: keeps_newID_then keeps_WithTenant_db simp: Let_def)

lemma frame_conflicts [frame_intros]:
  assumes "\<And>d x. f (d\<lparr>conflicts := x\<rparr>) = f d"
  shows "keeps (\<lambda>s. f (db s)) (InsertConflict L c)"
    and "keeps (\<lambda>s. f (db s)) (SetConflictStatus t a b e g)"
  unfolding store_ops using assms
  by (auto intro!: keeps_newID_then keeps_WithTenant_db simp: Let_def)

lemma frame_policies [frame_intros]:
  assumes "\<And>d x. f (d\<lparr>policies := x\<rparr>) = f d"
  shows "keeps (\<lambda>s. f (db s)) (UpsertSyncPolicy p)"
  unfolding store_ops using assms by (auto intro!: keeps_WithTenant_db)

lemma frame_connections [frame_intros]:
  assumes "\<And>d x. f (d\<lparr>connections := x\<rparr>) = f d"
  shows "keeps (\<lambda>s. f (db s)) (CreateConnection L c)"
    and "keeps (\<lambda>s. f (db s)) (SetConnectionStatus t a b)"
  unfolding store_ops using assms
  by (auto intro!: keeps_newID_then keeps_WithTenant_db simp: Let_def)

section \<open>Statements do not talk to providers\<close>

lemma keeps_world_store [keeps_intros]:
  "keeps world (GetCanonical t a b)" "keeps world (GetCanonicalByProvider t a b c)"
  "keeps world (GetCanonicalByEmail t a b)" "keeps world (AddProviderID t a b c e)"
  "keeps world (UpsertCanonical L cr)" "keeps world (UpsertOutboundWrite w)"
  "keeps world (GetOutboundWrite t a b c)" "keeps world (InsertSyncOperation o')"
  "keeps world (PersistApplyState L cr ws os)" "keeps world (ClaimProcessedEvent t a b c e)"
  "keeps world (ReleaseProcessedEvent t a b)" "keeps world (InsertSourceEvent ev)"
  "keeps world (GetSourceEvent t a)" "keeps world (SetSourceEventStatus t a b c)"
  "keeps world (SetSourceEventStatusTo t a b)" "keeps world (PendingSourceEvents l)"
  "keeps world (EnqueueRetry re n)" "keeps world (ClaimDueRetries l)" "keeps world (DeleteRetry t a)"
  "keeps world (InsertDeadLetter L dl)" "keeps world (GetDeadLetter t a)"
  "keeps world (SetDeadLetterStatus t a b)" "keeps world (ResolveDeadLetterForEvent t a)"
  "keeps world (InsertConflict L cf)" "keeps world (GetConflict t a)"
  "keeps world (SetConflictStatus t a b c e)" "keeps world (UpsertSyncPolicy p)"
  "keeps world (ListPolicies t)" "keeps world (GetConnection t a)"
  "keeps world (GetConnectionByProvider t a)" "keeps world (SetConnectionStatus t a b)"
  unfolding store_ops by (intro keeps_intros)+

section \<open>Tenant isolation of the statements\<close>

lemma iso_updates [iso_intros]:
  "keeps (\<lambda>s. outside t (db s)) (AddProviderID t a b c e)"
  "keeps (\<lambda>s. outside t (db s)) (ReleaseProcessedEvent t a b)"
  "keeps (\<lambda>s. outside t (db s)) (SetSourceEventStatus t a b c)"
  "keeps (\<lambda>s. outside t (db s)) (SetSourceEventStatusTo t a b)"
  "keeps (\<lambda>s. outside t (db s)) (DeleteRetry t a)"
  "keeps (\<lambda>s. outside t (db s)) (SetDeadLetterStatus t a b)"
  "keeps (\<lambda>s. outside t (db s)) (ResolveDeadLetterForEvent t a)"
  "keeps (\<lambda>s. outside t (db s)) (SetConflictStatus t a b c e)"
  "keeps (\<lambda>s. outside t (db s)) (SetConnectionStatus t a b)"
  unfolding store_ops
  by (rule keeps_WithTenant_db, simp add: outside_def releaseStmt_def,
      ((rule filter_updateWhere | rule filter_deleteWhere); auto simp: peKey_def reKey_def))+

lemma outside_canonicals:
  "cr_TenantID c = t \<Longrightarrow> outside t (d\<lparr>canonicals := putCanonical n c (canonicals d)\<rparr>) = outside t d"
  by (simp add: outside_def putCanonical_def) (rule filter_upsertBy, auto simp: crKey_def crMerge_def)

lemma filter_putOutbound:
  "ow_TenantID w = t \<Longrightarrow> filter (\<lambda>r. ow_TenantID r \<noteq> t) (putOutbound n w rows) = filter (\<lambda>r. ow_TenantID r \<noteq> t) rows"
  unfolding putOutbound_def by (rule filter_upsertBy) (auto simp: owKey_def owMerge_def)

lemma filter_fold_putOutbound:
  "list_all (\<lambda>w. ow_TenantID w = t) ws \<Longrightarrow>
   filter (\<lambda>r. ow_TenantID r \<noteq> t) (fold (putOutbound n) ws rows) = filter (\<lambda>r. ow_TenantID r \<noteq> t) rows"
  by (induction ws arbitrary: rows) (simp_all add: filter_putOutbound)

lemma filter_putCanonical:
  "cr_TenantID c = t \<Longrightarrow> filter (\<lambda>r. cr_TenantID r \<noteq> t) (putCanonical n c rows) = filter (\<lambda>r. cr_TenantID r \<noteq> t) rows"
  unfolding putCanonical_def by (rule filter_upsertBy) (auto simp: crKey_def crMerge_def)

lemma filter_enqueue:
  "re_TenantID e = t \<Longrightarrow> filter (\<lambda>r. re_TenantID r \<noteq> t) (upsertBy reKey reMerge e rows) = filter (\<lambda>r. re_TenantID r \<noteq> t) rows"
  by (rule filter_upsertBy) (auto simp: reKey_def reMerge_def)

lemma filter_deadletter:
  "dl_TenantID e = t \<Longrightarrow> filter (\<lambda>r. dl_TenantID r \<noteq> t) (upsertBy dlKey dlMerge e rows) = filter (\<lambda>r. dl_TenantID r \<noteq> t) rows"
  by (rule filter_upsertBy) (auto simp: dlKey_def dlMerge_def)

lemma filter_policy:
  "po_TenantID p = t \<Longrightarrow> filter (\<lambda>r. po_TenantID r \<noteq> t) (upsertBy poKey poMerge p rows) = filter (\<lambda>r. po_TenantID r \<noteq> t) rows"
  by (rule filter_upsertBy) (auto simp: poKey_def poMerge_def)

lemmas filter_writes = filter_putOutbound filter_fold_putOutbound filter_putCanonical filter_enqueue
  filter_deadletter filter_policy filter_insertIgnore

lemma iso_inserts [iso_intros]:
  "cr_TenantID cr = t \<Longrightarrow> keeps (\<lambda>s. outside t (db s)) (UpsertCanonical L cr)"
  "ow_TenantID w = t \<Longrightarrow> keeps (\<lambda>s. outside t (db s)) (UpsertOutboundWrite w)"
  "so_TenantID op' = t \<Longrightarrow> keeps (\<lambda>s. outside t (db s)) (InsertSyncOperation op')"
  "cr_TenantID cr = t \<Longrightarrow> keeps (\<lambda>s. outside t (db s)) (PersistApplyState L cr ws os)"
  "keeps (\<lambda>s. outside t (db s)) (ClaimProcessedEvent t a b c e)"
  "se_TenantID ev = t \<Longrightarrow> keeps (\<lambda>s. outside t (db s)) (InsertSourceEvent ev)"
  "re_TenantID r = t \<Longrightarrow> keeps (\<lambda>s. outside t (db s)) (EnqueueRetry r n)"
  "dl_TenantID dl = t \<Longrightarrow> keeps (\<lambda>s. outside t (db s)) (InsertDeadLetter L dl)"
  "cf_TenantID cf = t \<Longrightarrow> keeps (\<lambda>s. outside t (db s)) (InsertConflict L cf)"
  "po_TenantID p = t \<Longrightarrow> keeps (\<lambda>s. outside t (db s)) (UpsertSyncPolicy p)"
  "cn_TenantID cn = t \<Longrightarrow> keeps (\<lambda>s. outside t (db s)) (CreateConnection L cn)"
  unfolding store_ops
  by (auto intro!: keeps_newID_then keeps_WithTenant_db
      simp: Let_def outside_def filter_writes claimStmt_def claimRow_def list_all_iff filter_id_conv)

section \<open>What the reading statements return\<close>

lemma returns_WithTenant:
  "(\<And>n d x d'. fn n d = (Inr x, d') \<Longrightarrow> R x) \<Longrightarrow> returns (WithTenant fn) R"
proof (rule returnsI)
  fix s x s'
  assume "\<And>n d x d'. fn n d = (Inr x, d') \<Longrightarrow> R x" "WithTenant fn s = (Inr x, s')"
  then show "R x"
    by (cases rule: WithTenant_cases [of fn s]) auto
qed

lemma returns_reads [returns_intros]:
  "returns (GetCanonical t a b) (\<lambda>c. cr_TenantID c = t \<and> cr_EntityType c = a \<and> cr_EntityID c = b)"
  "returns (GetCanonicalByProvider t a b p)
     (\<lambda>c. cr_TenantID c = t \<and> cr_EntityType c = a \<and> map_of (cr_ProviderIDs c) b = Some p)"
  "returns (GetCanonicalByEmail t a b)
     (\<lambda>c. cr_TenantID c = t \<and> cr_EntityType c = a \<and> \<not> cr_Tombstone c \<and> map_of (cr_Fields c) ''email'' = Some (GStr b))"
  "returns (GetOutboundWrite t a b p) (\<lambda>w. owKey w = (t, a, b, p))"
  "returns (GetDeadLetter t a) (\<lambda>r. dl_TenantID r = t \<and> dl_ID r = a)"
  "returns (GetConflict t a) (\<lambda>r. cf_TenantID r = t \<and> cf_ID r = a)"
  "returns (GetConnectionByProvider t a) (\<lambda>c. cn_TenantID c = t \<and> cn_Provider c = a)"
  "returns (ListPolicies t) (\<lambda>ps. \<forall>p \<in> set ps. po_TenantID p = t \<and> po_Enabled p)"
  unfolding store_ops
  by (rule returns_WithTenant, auto simp: rowOr_Inr dest!: findRow_SomeD getBy_key)+

section \<open>The tables as keyed tables\<close>

interpretation ow: upsert_table owKey owMerge "\<lambda>w. (ow_Fingerprint w, ow_AppliedVersion w)"
  by unfold_locales (simp_all add: owKey_def owMerge_def)

interpretation cr: upsert_table crKey "crMerge n"
    "\<lambda>c. (crKey c, cr_Fields c, cr_Version c, cr_SourceVersions c, cr_FieldProvenance c, cr_Tombstone c,
          cr_OriginSource c, cr_OriginEventID c, cr_SyncOperationID c, cr_ProviderIDs c)" for n
  by unfold_locales (simp_all add: crKey_def crMerge_def)

interpretation re: upsert_table reKey reMerge "\<lambda>r. (re_State r, re_NextAttemptAt r, re_LastError r, re_ErrorClass r)"
  by unfold_locales (simp_all add: reKey_def reMerge_def)

interpretation dl: upsert_table dlKey dlMerge "\<lambda>r. (dl_Payload r, dl_Reason r, dl_ErrorClass r, dl_Status r, dl_ResolvedAt r)"
  by unfold_locales (simp_all add: dlKey_def dlMerge_def)

interpretation po: upsert_table poKey poMerge "\<lambda>p. p"
  by unfold_locales (simp_all add: poKey_def poMerge_def)

lemma owKey_written [simp]: "owKey (w\<lparr>ow_WrittenAt := n\<rparr>) = owKey w"
  by (simp add: owKey_def)

interpretation ob: keyed_table owKey "putOutbound n" "\<lambda>w. (ow_Fingerprint w, ow_AppliedVersion w)" for n
proof
  fix row rows k
  have "map_option (\<lambda>w. (ow_Fingerprint w, ow_AppliedVersion w)) (getBy owKey (owKey row) (putOutbound n row rows))
      = Some (ow_Fingerprint (row\<lparr>ow_WrittenAt := n\<rparr>), ow_AppliedVersion (row\<lparr>ow_WrittenAt := n\<rparr>))"
    using ow.kt.put_get [of "row\<lparr>ow_WrittenAt := n\<rparr>" rows] unfolding putOutbound_def owKey_written .
  also have "\<dots> = Some (ow_Fingerprint row, ow_AppliedVersion row)"
    by simp
  finally show "map_option (\<lambda>w. (ow_Fingerprint w, ow_AppliedVersion w)) (getBy owKey (owKey row) (putOutbound n row rows))
      = Some (ow_Fingerprint row, ow_AppliedVersion row)" .
  show "k \<noteq> owKey row \<Longrightarrow> getBy owKey k (putOutbound n row rows) = getBy owKey k rows"
    unfolding putOutbound_def by (rule ow.kt.put_other) simp
  show "keysOk owKey rows \<Longrightarrow> keysOk owKey (putOutbound n row rows)"
    unfolding putOutbound_def by (rule ow.kt.put_keysOk)
qed

section \<open>The contract of the idempotency log\<close>

locale claim_log =
  fixes claim :: "'k \<Rightarrow> 'log \<Rightarrow> bool \<times> 'log"
    and release :: "'k \<Rightarrow> 'log \<Rightarrow> 'log"
    and holds :: "'k \<Rightarrow> 'log \<Rightarrow> bool"
  assumes claim_result: "fst (claim k l) \<longleftrightarrow> \<not> holds k l"
    and claim_holds: "holds k' (snd (claim k l)) \<longleftrightarrow> k' = k \<or> holds k' l"
    and claim_again: "holds k l \<Longrightarrow> snd (claim k l) = l"
    and release_holds: "holds k' (release k l) \<longleftrightarrow> k' \<noteq> k \<and> holds k' l"
begin

text \<open>The keys whose claim succeeds when a list of deliveries is claimed in turn.\<close>

fun winners :: "'k list \<Rightarrow> 'log \<Rightarrow> 'k list \<times> 'log" where
  "winners [] l = ([], l)"
| "winners (k # ks) l = (case claim k l of (b, l') \<Rightarrow>
     case winners ks l' of (ws, l'') \<Rightarrow> (if b then k # ws else ws, l''))"

lemma winners_Cons:
  "winners (k # ks) l =
     (if holds k l then fst (winners ks l) else k # fst (winners ks (snd (claim k l))),
      snd (winners ks (snd (claim k l))))"
  using claim_result [of k l] claim_again [of k l] by (simp add: case_prod_beta)

declare winners.simps(2) [simp del]

lemma winners_holds: "holds k (snd (winners ks l)) \<longleftrightarrow> k \<in> set ks \<or> holds k l"
  by (induction ks arbitrary: l) (auto simp: winners_Cons claim_holds)

lemma winners_unclaimed: "k \<in> set (fst (winners ks l)) \<longleftrightarrow> k \<in> set ks \<and> \<not> holds k l"
  by (induction ks arbitrary: l) (auto simp: winners_Cons claim_holds)

text \<open>However often and in whatever order keys are delivered, each new key wins exactly once.\<close>

lemma winners_distinct: "distinct (fst (winners ks l))"
  by (induction ks arbitrary: l) (simp_all add: winners_Cons winners_unclaimed claim_holds)

end

interpretation pl: claim_log "claimStmt n ety eid" releaseStmt "hasKey peKey" for n ety eid
proof
  fix k k' and l :: "ProcessedEvent list"
  have key: "peKey (claimRow n k ety eid) = k"
    by (cases k) (simp add: claimRow_def peKey_def)
  show "fst (claimStmt n ety eid k l) \<longleftrightarrow> \<not> hasKey peKey k l"
    by (simp add: claimStmt_def)
  show "hasKey peKey k' (snd (claimStmt n ety eid k l)) \<longleftrightarrow> k' = k \<or> hasKey peKey k' l"
    by (simp add: claimStmt_def hasKey_insertIgnore key)
  show "hasKey peKey k l \<Longrightarrow> snd (claimStmt n ety eid k l) = l"
    by (simp add: claimStmt_def insertIgnore_def key)
  show "hasKey peKey k' (releaseStmt k l) \<longleftrightarrow> k' \<noteq> k \<and> hasKey peKey k' l"
    by (simp add: releaseStmt_def hasKey_deleteWhere_key)
qed

end
