(* ===== verification/StoreJobs.thy ===== *)
theory StoreJobs
imports Store
begin

text \<open>
  The statements of \<open>internal/store\<close> for resumable jobs (\<open>syncjobs.go\<close>) and for reconciliation
  runs and findings (\<open>reconcile.go\<close>). Statements the code sends through the administrator pool
  are not restricted to a tenant. \<open>ListReconciliationRuns\<close> orders by the column
  \<open>created_at\<close>, which no migration gives to \<open>reconciliation_runs\<close>, so the statement is one the
  database rejects.

  The lemmas give frame and isolation rules as in \<open>Store\<close>, and the state machine of findings:
  \<open>findingStep\<close> is the relation a status update can take a finding through, and the
  statuses other than pending and failed are final.
\<close>

section \<open>Jobs\<close>

definition CreateSyncJob :: "('w, 'x) lib_scheme \<Rightarrow> SyncJob \<Rightarrow> (('w, 'z) st_scheme, SyncJob) M" where
  [store_ops]: "CreateSyncJob L j = bindM (newID L) (\<lambda>i. WithTenant (\<lambda>n d.
     let ty = (if sj_Type j = [] then ''initial'' else sj_Type j);
         bs = (if sj_BatchSize j \<le> 0 then 1000 else sj_BatchSize j);
         row = j\<lparr>sj_ID := i, sj_Type := ty, sj_Status := ''pending'', sj_Cursor := None, sj_Processed := 0,
                 sj_Failed := 0, sj_Total := 0, sj_BatchSize := bs, sj_StartedAt := None,
                 sj_FinishedAt := None, sj_LastError := None\<rparr> in
     if ty \<in> {''initial'', ''reconcile''} then (Inr row, d\<lparr>syncJobs := syncJobs d @ [row]\<rparr>)
     else (Inl (PlainErr ''check constraint''), d)))"

definition GetSyncJob :: "string \<Rightarrow> string \<Rightarrow> (('w, 'z) st_scheme, SyncJob) M" where
  [store_ops]: "GetSyncJob t i = WithTenant (\<lambda>n d. rowOr ErrNotFound
     (findRow (\<lambda>j. sj_TenantID j = t \<and> sj_ID j = i) (syncJobs d)) d)"

definition ListSyncJobs :: "string \<Rightarrow> int \<Rightarrow> (('w, 'z) st_scheme, SyncJob list) M" where
  [store_ops]: "ListSyncJobs t limit = WithTenant (\<lambda>n d. (Inr
     (take (clampLimit 1000 limit) (rev (filter (\<lambda>j. sj_TenantID j = t) (syncJobs d)))), d))"

definition jobRunnable :: "int \<Rightarrow> SyncJob \<Rightarrow> bool" where
  "jobRunnable n j \<longleftrightarrow> sj_Status j \<in> {''pending'', ''paused''} \<or>
     (sj_Status j = ''running'' \<and> (case sj_StartedAt j of Some t \<Rightarrow> t < n - 60 * 1000000000 | None \<Rightarrow> False))"

text \<open>\<open>ClaimNextSyncJob\<close>: a query and, in a second statement, the update of the row it found.\<close>

definition ClaimNextSyncJob :: "(('w, 'z) st_scheme, SyncJob) M" where
  [store_ops]: "ClaimNextSyncJob =
     bindM (WithTenant (\<lambda>n d. rowOr ErrNotFound (findRow (jobRunnable n) (syncJobs d)) d)) (\<lambda>j.
     bindM (WithTenant (\<lambda>n d. (Inr (), d\<lparr>syncJobs := updateWhere
         (\<lambda>r. sj_ID r = sj_ID j \<and> sj_TenantID r = sj_TenantID j)
         (\<lambda>r. r\<lparr>sj_Status := ''running'',
              sj_StartedAt := (case sj_StartedAt r of Some t \<Rightarrow> Some t | None \<Rightarrow> Some n)\<rparr>) (syncJobs d)\<rparr>))) (\<lambda>_.
     bindM timeNow (\<lambda>n.
     ret (j\<lparr>sj_Status := ''running'',
            sj_StartedAt := (case sj_StartedAt j of Some t \<Rightarrow> Some t | None \<Rightarrow> Some n)\<rparr>))))"

definition UpdateSyncJobProgress ::
  "string \<Rightarrow> string \<Rightarrow> string option \<Rightarrow> int \<Rightarrow> int \<Rightarrow> int \<Rightarrow> (('w, 'z) st_scheme, unit) M" where
  [store_ops]: "UpdateSyncJobProgress i t cursor proc failed tot = WithTenant (\<lambda>n d. (Inr (),
     d\<lparr>syncJobs := updateWhere (\<lambda>r. sj_ID r = i \<and> sj_TenantID r = t)
         (\<lambda>r. r\<lparr>sj_Cursor := cursor, sj_Processed := proc, sj_Failed := failed, sj_Total := tot\<rparr>) (syncJobs d)\<rparr>))"

definition FinishSyncJob ::
  "string \<Rightarrow> string \<Rightarrow> string \<Rightarrow> string option \<Rightarrow> (('w, 'z) st_scheme, unit) M" where
  [store_ops]: "FinishSyncJob i t status lastError = WithTenant (\<lambda>n d. (Inr (),
     d\<lparr>syncJobs := updateWhere (\<lambda>r. sj_ID r = i \<and> sj_TenantID r = t)
         (\<lambda>r. r\<lparr>sj_Status := status, sj_FinishedAt := Some n, sj_LastError := lastError\<rparr>) (syncJobs d)\<rparr>))"

section \<open>Reconciliation runs\<close>

abbreviation ReconcileRunning :: string where "ReconcileRunning \<equiv> ''running''"
abbreviation ReconcileComplete :: string where "ReconcileComplete \<equiv> ''completed''"
abbreviation ReconcileFailed :: string where "ReconcileFailed \<equiv> ''failed''"

definition CreateReconciliationRun ::
  "('w, 'x) lib_scheme \<Rightarrow> ReconciliationRun \<Rightarrow> (('w, 'z) st_scheme, ReconciliationRun) M" where
  [store_ops]: "CreateReconciliationRun L r = bindM (newID L) (\<lambda>i. WithTenant (\<lambda>n d.
     let row = r\<lparr>rr_ID := i, rr_Total := 0, rr_Drift := 0, rr_Missed := 0, rr_Deleted := 0,
                 rr_Error := None, rr_FinishedAt := None\<rparr> in
     if rr_Mode r \<in> {''auto'', ''manual''} \<and> rr_Status r \<in> {''running'', ''completed'', ''failed''}
     then (Inr row, d\<lparr>reconRuns := reconRuns d @ [row]\<rparr>)
     else (Inl (PlainErr ''check constraint''), d)))"

definition GetReconciliationRun :: "string \<Rightarrow> string \<Rightarrow> (('w, 'z) st_scheme, ReconciliationRun) M" where
  [store_ops]: "GetReconciliationRun t i = WithTenant (\<lambda>n d. rowOr ErrNotFound
     (findRow (\<lambda>r. rr_TenantID r = t \<and> rr_ID r = i) (reconRuns d)) d)"

definition GetReconciliationRunByJobID :: "string \<Rightarrow> (('w, 'z) st_scheme, ReconciliationRun) M" where
  [store_ops]: "GetReconciliationRunByJobID jobID = WithTenant (\<lambda>n d. rowOr ErrNotFound
     (findRow (\<lambda>r. rr_JobID r = Some jobID) (reconRuns d)) d)"

definition ListReconciliationRuns :: "string \<Rightarrow> int \<Rightarrow> (('w, 'z) st_scheme, ReconciliationRun list) M" where
  [store_ops]: "ListReconciliationRuns t limit = WithTenant (\<lambda>n d.
     (Inl (PlainErr ''column \"created_at\" does not exist''), d))"

definition UpdateReconciliationCounters ::
  "string \<Rightarrow> int \<Rightarrow> int \<Rightarrow> int \<Rightarrow> int \<Rightarrow> (('w, 'z) st_scheme, unit) M" where
  [store_ops]: "UpdateReconciliationCounters i tot drift missed deleted = WithTenant (\<lambda>n d. (Inr (),
     d\<lparr>reconRuns := updateWhere (\<lambda>r. rr_ID r = i)
         (\<lambda>r. r\<lparr>rr_Total := tot, rr_Drift := drift, rr_Missed := missed, rr_Deleted := deleted\<rparr>) (reconRuns d)\<rparr>))"

definition FinishReconciliationRun ::
  "string \<Rightarrow> string \<Rightarrow> string option \<Rightarrow> (('w, 'z) st_scheme, unit) M" where
  [store_ops]: "FinishReconciliationRun i status lastError = WithTenant (\<lambda>n d. (Inr (),
     d\<lparr>reconRuns := updateWhere (\<lambda>r. rr_ID r = i)
         (\<lambda>r. r\<lparr>rr_Status := status, rr_FinishedAt := Some n, rr_Error := lastError\<rparr>) (reconRuns d)\<rparr>))"

section \<open>Findings\<close>

abbreviation FindingMissed :: string where "FindingMissed \<equiv> ''missed''"
abbreviation FindingDrift :: string where "FindingDrift \<equiv> ''drift''"
abbreviation FindingDeleted :: string where "FindingDeleted \<equiv> ''deleted''"
abbreviation FindingMissing :: string where "FindingMissing \<equiv> ''missing''"

abbreviation FindingPending :: string where "FindingPending \<equiv> ''pending''"
abbreviation FindingApplied :: string where "FindingApplied \<equiv> ''applied''"
abbreviation FindingSkipped :: string where "FindingSkipped \<equiv> ''skipped''"
abbreviation FindingDismissed :: string where "FindingDismissed \<equiv> ''dismissed''"
abbreviation FindingFailed :: string where "FindingFailed \<equiv> ''failed''"

definition reconcileDirection :: "string \<Rightarrow> string" where
  "reconcileDirection kind =
     (if kind = FindingDeleted then ''delete''
      else if kind = FindingMissed then ''adopt_provider''
      else ''push_canonical'')"

definition rfKey :: "ReconciliationFinding \<Rightarrow> string \<times> string \<times> string" where
  "rfKey f = (rf_RunID f, rf_Kind f, rf_ProviderID f)"

definition InsertReconciliationFinding ::
  "('w, 'x) lib_scheme \<Rightarrow> ReconciliationFinding \<Rightarrow> (('w, 'z) st_scheme, ReconciliationFinding) M" where
  [store_ops]: "InsertReconciliationFinding L f = bindM (newID L) (\<lambda>i. WithTenant (\<lambda>n d.
     let row = f\<lparr>rf_ID := i,
           rf_Direction := (if rf_Direction f = [] then reconcileDirection (rf_Kind f) else rf_Direction f),
           rf_Status := (if rf_Status f = [] then FindingPending else rf_Status f),
           rf_Error := None, rf_AppliedAt := None\<rparr>;
         rows = insertIgnore rfKey row (reconFindings d) in
     rowOr ErrNotFound (getBy rfKey (rfKey f) rows) (d\<lparr>reconFindings := rows\<rparr>)))"

definition ListReconciliationFindings ::
  "string \<Rightarrow> string \<Rightarrow> string \<Rightarrow> int \<Rightarrow> (('w, 'z) st_scheme, ReconciliationFinding list) M" where
  [store_ops]: "ListReconciliationFindings t runID status limit = WithTenant (\<lambda>n d. (Inr
     (take (clampLimit 1000 limit) (filter (\<lambda>f. rf_TenantID f = t \<and> rf_RunID f = runID \<and>
        (status = [] \<or> rf_Status f = status)) (reconFindings d))), d))"

definition GetReconciliationFinding ::
  "string \<Rightarrow> string \<Rightarrow> (('w, 'z) st_scheme, ReconciliationFinding) M" where
  [store_ops]: "GetReconciliationFinding t i = WithTenant (\<lambda>n d. rowOr ErrNotFound
     (findRow (\<lambda>f. rf_TenantID f = t \<and> rf_ID f = i) (reconFindings d)) d)"

definition SetReconciliationFindingDirection ::
  "string \<Rightarrow> string \<Rightarrow> string \<Rightarrow> (('w, 'z) st_scheme, unit) M" where
  [store_ops]: "SetReconciliationFindingDirection t i direction = WithTenant (\<lambda>n d. (Inr (),
     d\<lparr>reconFindings := updateWhere (\<lambda>f. rf_TenantID f = t \<and> rf_ID f = i)
         (\<lambda>f. f\<lparr>rf_Direction := direction\<rparr>) (reconFindings d)\<rparr>))"

definition CountReconciliationFindings ::
  "string \<Rightarrow> string \<Rightarrow> (('w, 'z) st_scheme, int \<times> int \<times> int) M" where
  [store_ops]: "CountReconciliationFindings t runID = WithTenant (\<lambda>n d.
     let fs = filter (\<lambda>f. rf_TenantID f = t \<and> rf_RunID f = runID) (reconFindings d);
         count = (\<lambda>ks. int (length (filter (\<lambda>f. rf_Kind f \<in> ks) fs))) in
     (Inr (count {FindingDrift}, count {FindingMissed, FindingMissing}, count {FindingDeleted}), d))"

text \<open>The guard and the assignment of the status update.\<close>

definition findingGuard :: "string \<Rightarrow> ReconciliationFinding \<Rightarrow> bool" where
  "findingGuard status f \<longleftrightarrow> rf_Status f = FindingPending \<or> (rf_Status f = FindingFailed \<and> status = FindingPending)"

definition findingSet :: "int \<Rightarrow> string \<Rightarrow> string option \<Rightarrow> ReconciliationFinding \<Rightarrow> ReconciliationFinding" where
  "findingSet n status err f = f\<lparr>rf_Status := status, rf_Error := err,
     rf_AppliedAt := (case rf_AppliedAt f of Some t \<Rightarrow> Some t | None \<Rightarrow> Some n)\<rparr>"

definition SetReconciliationFindingStatus ::
  "string \<Rightarrow> string \<Rightarrow> string \<Rightarrow> string option \<Rightarrow> (('w, 'z) st_scheme, unit) M" where
  [store_ops]: "SetReconciliationFindingStatus t i status err = WithTenant (\<lambda>n d. (Inr (),
     d\<lparr>reconFindings := updateWhere (\<lambda>f. rf_TenantID f = t \<and> rf_ID f = i \<and> findingGuard status f)
         (findingSet n status err) (reconFindings d)\<rparr>))"

definition ListCanonicalByProvider ::
  "string \<Rightarrow> string \<Rightarrow> string \<Rightarrow> (('w, 'z) st_scheme, CanonicalRecord list) M" where
  [store_ops]: "ListCanonicalByProvider t ety provider = WithTenant (\<lambda>n d. (Inr
     (filter (\<lambda>c. cr_TenantID c = t \<and> cr_EntityType c = ety \<and> map_of (cr_ProviderIDs c) provider \<noteq> None)
        (canonicals d)), d))"

section \<open>Frames\<close>

lemma keeps_job_reads [keeps_intros]:
  "keeps (\<lambda>s. f (db s)) (GetSyncJob t a)"
  "keeps (\<lambda>s. f (db s)) (ListSyncJobs t l)"
  "keeps (\<lambda>s. f (db s)) (GetReconciliationRun t a)"
  "keeps (\<lambda>s. f (db s)) (GetReconciliationRunByJobID a)"
  "keeps (\<lambda>s. f (db s)) (ListReconciliationRuns t l)"
  "keeps (\<lambda>s. f (db s)) (ListReconciliationFindings t a b l)"
  "keeps (\<lambda>s. f (db s)) (GetReconciliationFinding t a)"
  "keeps (\<lambda>s. f (db s)) (CountReconciliationFindings t a)"
  "keeps (\<lambda>s. f (db s)) (ListCanonicalByProvider t a b)"
  unfolding store_ops by (rule keeps_WithTenant_db, simp add: Let_def)+

lemma frame_syncJobs [frame_intros]:
  assumes "\<And>d x. f (d\<lparr>syncJobs := x\<rparr>) = f d"
  shows "keeps (\<lambda>s. f (db s)) (CreateSyncJob L j)"
    and "keeps (\<lambda>s. f (db s)) ClaimNextSyncJob"
    and "keeps (\<lambda>s. f (db s)) (UpdateSyncJobProgress a b c p q r)"
    and "keeps (\<lambda>s. f (db s)) (FinishSyncJob a b e g)"
  unfolding store_ops using assms
  by (auto intro!: keeps_intros keeps_WithTenant_db simp: Let_def)

lemma frame_reconRuns [frame_intros]:
  assumes "\<And>d x. f (d\<lparr>reconRuns := x\<rparr>) = f d"
  shows "keeps (\<lambda>s. f (db s)) (CreateReconciliationRun L j)"
    and "keeps (\<lambda>s. f (db s)) (UpdateReconciliationCounters a p q r u)"
    and "keeps (\<lambda>s. f (db s)) (FinishReconciliationRun a b c)"
  unfolding store_ops using assms
  by (auto intro!: keeps_newID_then keeps_WithTenant_db simp: Let_def)

lemma frame_reconFindings [frame_intros]:
  assumes "\<And>d x. f (d\<lparr>reconFindings := x\<rparr>) = f d"
  shows "keeps (\<lambda>s. f (db s)) (InsertReconciliationFinding L g)"
    and "keeps (\<lambda>s. f (db s)) (SetReconciliationFindingDirection t a b)"
    and "keeps (\<lambda>s. f (db s)) (SetReconciliationFindingStatus t a b c)"
  unfolding store_ops using assms
  by (auto intro!: keeps_newID_then keeps_WithTenant_db simp: Let_def)

lemma keeps_world_jobs [keeps_intros]:
  "keeps world (CreateSyncJob L j)" "keeps world (GetSyncJob t a)" "keeps world ClaimNextSyncJob"
  "keeps world (UpdateSyncJobProgress a b c p q r)" "keeps world (FinishSyncJob a b u v)"
  "keeps world (CreateReconciliationRun L rr)" "keeps world (GetReconciliationRun t a)"
  "keeps world (GetReconciliationRunByJobID a)" "keeps world (UpdateReconciliationCounters a p q r q')"
  "keeps world (FinishReconciliationRun a b u')" "keeps world (InsertReconciliationFinding L g)"
  "keeps world (GetReconciliationFinding t a)" "keeps world (SetReconciliationFindingDirection t a b)"
  "keeps world (SetReconciliationFindingStatus t a b u')" "keeps world (CountReconciliationFindings t a)"
  "keeps world (ListCanonicalByProvider t a b)"
  unfolding store_ops by (intro keeps_intros)+

lemma iso_jobs [iso_intros]:
  "keeps (\<lambda>s. outside t (db s)) (SetReconciliationFindingDirection t a b)"
  "keeps (\<lambda>s. outside t (db s)) (SetReconciliationFindingStatus t a b c)"
  "keeps (\<lambda>s. outside t (db s)) (UpdateSyncJobProgress a t c p q r)"
  "keeps (\<lambda>s. outside t (db s)) (FinishSyncJob a t b c)"
  unfolding store_ops
  by (rule keeps_WithTenant_db, simp add: outside_def,
      (rule filter_updateWhere; auto simp: findingSet_def))+

lemma iso_job_inserts [iso_intros]:
  "sj_TenantID j = t \<Longrightarrow> keeps (\<lambda>s. outside t (db s)) (CreateSyncJob L j)"
  "rr_TenantID r = t \<Longrightarrow> keeps (\<lambda>s. outside t (db s)) (CreateReconciliationRun L r)"
  "rf_TenantID f = t \<Longrightarrow> keeps (\<lambda>s. outside t (db s)) (InsertReconciliationFinding L f)"
  unfolding store_ops
  by (auto intro!: keeps_newID_then keeps_WithTenant_db simp: Let_def outside_def filter_insertIgnore)

lemma returns_job_reads [returns_intros]:
  "returns (GetReconciliationFinding t a) (\<lambda>f. rf_TenantID f = t \<and> rf_ID f = a)"
  "returns (GetReconciliationRun t a) (\<lambda>r. rr_TenantID r = t \<and> rr_ID r = a)"
  "returns (GetSyncJob t a) (\<lambda>j. sj_TenantID j = t \<and> sj_ID j = a)"
  unfolding store_ops
  by (rule returns_WithTenant, auto simp: rowOr_Inr dest!: findRow_SomeD)+

section \<open>The state machine of findings\<close>

inductive findingStep :: "string \<Rightarrow> string \<Rightarrow> bool" where
  pending: "findingStep FindingPending status"
| reopen: "findingStep FindingFailed FindingPending"

inductive_cases findingStep_appliedE: "findingStep FindingApplied s"
inductive_cases findingStep_dismissedE: "findingStep FindingDismissed s"
inductive_cases findingStep_skippedE: "findingStep FindingSkipped s"
inductive_cases findingStep_failedE: "findingStep FindingFailed s"

inductive_simps findingStep_iff: "findingStep a b"

lemma findingGuard_step: "findingGuard status f \<longleftrightarrow> findingStep (rf_Status f) status"
  by (auto simp: findingGuard_def findingStep_iff)

end
