(* ===== verification/Backoff.thy ===== *)
theory Backoff
imports Prelude Complex_Main
begin

text \<open>
  Retry delays (\<open>internal/backoff/backoff.go\<close>). Durations are \<open>int64\<close> nanoseconds; the shift
  and the product wrap around as in Go. The random number of \<open>rand.Float64\<close> is an argument
  \<open>u\<close> in \<open>[0, 1)\<close>, and the product with the jitter factor is taken over the rationals before
  it is truncated (the code rounds it to a \<open>float64\<close> first).

  The main fact is that the wrap-around is harmless for every failure count as long as
  \<open>base * max\<close> fits in \<open>63 + j\<close> bits, where \<open>2 ^ j\<close> divides the base: the exponential
  term saturates at the cap. The defaults of one second and one minute satisfy this with
  \<open>j = 9\<close>.
\<close>

definition second :: int where
  "second = 1000000000"

text \<open>\<open>1 << k\<close> at type \<open>int64\<close>.\<close>

definition shl1 :: "nat \<Rightarrow> int" where
  "shl1 k = (if k < 64 then i64 (2 ^ k) else 0)"

definition delayExp :: "int \<Rightarrow> int \<Rightarrow> int \<Rightarrow> int" where
  "delayExp failures base mx =
     (let e = i64 (base * shl1 (nat (failures - 1))) in
      if e > mx \<or> e \<le> 0 then mx else e)"

definition ComputeDelay :: "rat \<Rightarrow> int \<Rightarrow> int \<Rightarrow> int \<Rightarrow> int" where
  "ComputeDelay u failures0 base0 mx0 =
     (let failures = (if failures0 < 1 then 1 else failures0);
          base = (if base0 \<le> 0 then 1 * second else base0);
          mx = (if mx0 \<le> 0 then 60 * second else mx0);
          e = delayExp failures base mx;
          factor = 7 / 10 + u * (6 / 10);
          delay = \<lfloor>of_int e * factor\<rfloor>
      in if delay > mx then mx else delay)"

section \<open>Saturation of the exponential term\<close>

lemma dvd_i64: "m \<le> 63 \<Longrightarrow> (2 :: int) ^ m dvd x \<Longrightarrow> (2 :: int) ^ m dvd i64 x"
proof -
  assume "m \<le> 63" "(2 :: int) ^ m dvd x"
  moreover have "(2 :: int) ^ m dvd 2 ^ 64" "(2 :: int) ^ m dvd 2 ^ 63"
    using \<open>m \<le> 63\<close> by (auto intro!: le_imp_power_dvd simp del: power_numeral)
  ultimately show ?thesis
    unfolding i64_def by (simp add: dvd_mod dvd_diff)
qed

lemma dvd_i64_shift:
  assumes "k < 64" "2 ^ j dvd b" "m \<le> 63" "m \<le> k + j"
  shows "(2 :: int) ^ m dvd i64 (b * i64 (2 ^ k))"
proof -
  have "(2 :: int) ^ k dvd i64 (2 ^ k)"
  proof (cases "k = 63")
    case True
    then show ?thesis by (simp add: i64_def)
  next
    case False
    then show ?thesis using assms(1) by (intro dvd_i64) auto
  qed
  then have "(2 :: int) ^ (j + k) dvd b * i64 (2 ^ k)"
    using assms(2) by (simp add: power_add mult_dvd_mono)
  moreover have "(2 :: int) ^ m dvd 2 ^ (j + k)"
    using assms(4) by (intro le_imp_power_dvd) simp
  ultimately have "(2 :: int) ^ m dvd b * i64 (2 ^ k)"
    by (metis dvd_trans)
  then show ?thesis
    by (rule dvd_i64 [OF assms(3)])
qed

lemma i64_pow2: "k < 63 \<Longrightarrow> i64 (2 ^ k) = 2 ^ k"
proof -
  assume "k < 63"
  then have "(2 :: int) ^ k < 2 ^ 63"
    by (intro power_strict_increasing) auto
  moreover have "(0 :: int) \<le> 2 ^ k" by simp
  ultimately have "in64 (2 ^ k)"
    unfolding in64_def by linarith
  then show ?thesis by simp
qed

lemma delayExp_saturates:
  assumes "1 \<le> failures" "0 < base" "0 < mx" "mx < 2 ^ 63" "2 ^ j dvd base" "base * mx < 2 ^ (63 + j)"
  shows "delayExp failures base mx = min (base * 2 ^ nat (failures - 1)) mx"
proof -
  define k where "k = nat (failures - 1)"
  show ?thesis
  proof (cases "base * 2 ^ k < 2 ^ 63")
    case True
    then have "(2 :: int) ^ k < 2 ^ 63"
      using assms(2) by (smt (verit) mult_le_cancel_right1 zero_less_power)
    then have k: "k < 63"
      by (rule power_less_imp_less_exp [rotated]) simp
    then have "shl1 k = 2 ^ k"
      by (simp add: shl1_def i64_pow2)
    moreover have "in64 (base * 2 ^ k)"
      using True assms(2) by (simp add: in64_def) (smt (verit) mult_pos_pos zero_less_power)
    moreover have "0 < base * 2 ^ k"
      using assms(2) by simp
    ultimately show ?thesis
      by (simp add: delayExp_def Let_def k_def [symmetric] min_def)
  next
    case False
    then have "2 ^ 63 * 2 ^ j \<le> base * 2 ^ k * (2 :: int) ^ j"
      by (intro mult_right_mono) auto
    then have "base * mx < base * 2 ^ k * 2 ^ j"
      using assms(6) unfolding power_add by linarith
    then have big: "mx < 2 ^ (k + j)"
      using assms(2) by (simp add: power_add mult.assoc)
    have sat: "min (base * 2 ^ k) mx = mx"
      using False assms(4) by simp
    show ?thesis
    proof (cases "k < 64")
      case True
      let ?e = "i64 (base * shl1 k)"
      have "?e \<le> 0 \<or> mx < ?e"
      proof (cases "k + j \<le> 63")
        case le: True
        have "2 ^ (k + j) dvd ?e"
          using True assms(5) le dvd_i64_shift [of k j base "k + j"] by (simp add: shl1_def)
        then show ?thesis
          using big by (smt (verit) zdvd_imp_le)
      next
        case False
        have "2 ^ 63 dvd ?e"
          using True assms(5) False dvd_i64_shift [of k j base 63] by (simp add: shl1_def)
        moreover have "?e < 2 ^ 63"
          using in64_i64 [of "base * shl1 k"] by (simp add: in64_def)
        ultimately show ?thesis
          by (smt (verit) zdvd_imp_le)
      qed
      then show ?thesis
        using sat by (auto simp: delayExp_def Let_def k_def [symmetric])
    next
      case False
      then show ?thesis
        using sat by (simp add: delayExp_def Let_def k_def [symmetric] shl1_def i64_def)
    qed
  qed
qed

lemma delayExp_le: "0 < mx \<Longrightarrow> delayExp failures base mx \<le> mx"
  by (simp add: delayExp_def Let_def)

lemma delayExp_pos: "0 < mx \<Longrightarrow> 0 < delayExp failures base mx"
  by (simp add: delayExp_def Let_def)

section \<open>Properties\<close>



end
