(* ===== verification/Worker.thy ===== *)
theory Worker
imports StoreJobs Backoff
begin

text \<open>
  The sync worker (\<open>internal/syncworker/worker.go\<close>): it consumes canonical events, applies them to
  the destination systems and persists canonical state. Every function of the file is a
  definition here, in the order of the file's call graph; metrics, logging and tracing are left
  out. \<open>pushTo\<close> is the block that resolves a destination's connection and adapter and creates
  or updates its record, which the code repeats in \<open>applyUpsert\<close>, \<open>applyResolution\<close> and
  \<open>applyAdoptProvider\<close>.
\<close>

section \<open>Options and adapters\<close>

record Options =
  RetryBaseDelay :: int
  RetryMaxDelay :: int
  RetryMaxAttempts :: int

definition defaultOptions :: Options where
  "defaultOptions = \<lparr>RetryBaseDelay = 1 * second, RetryMaxDelay = 60 * second, RetryMaxAttempts = 8\<rparr>"

definition WithOptions :: "Options \<Rightarrow> Options \<Rightarrow> Options" where
  "WithOptions w o' =
     w\<lparr>RetryBaseDelay := (if RetryBaseDelay o' > 0 then RetryBaseDelay o' else RetryBaseDelay w),
       RetryMaxDelay := (if RetryMaxDelay o' > 0 then RetryMaxDelay o' else RetryMaxDelay w),
       RetryMaxAttempts := (if RetryMaxAttempts o' > 0 then RetryMaxAttempts o' else RetryMaxAttempts w)\<rparr>"

definition adapterFor :: "string \<Rightarrow> string \<Rightarrow> goerr + Adapter" where
  "adapterFor provider baseURL = registryNewRateLimited provider baseURL [] 0"

definition connectTo :: "string \<Rightarrow> string \<Rightarrow> (('w, 'z) st_scheme, Adapter) M" where
  "connectTo t provider =
     bindM (GetConnectionByProvider t provider) (\<lambda>conn. returnE (adapterFor (cn_Provider conn) (cn_BaseURL conn)))"

definition canonicalEntityType :: "Event \<Rightarrow> (('w, 'z) st_scheme, string) M" where
  "canonicalEntityType ev =
     bindM (connectTo (TenantID ev) (Source ev)) (\<lambda>srcAdapter. ret (CanonicalEntityType srcAdapter))"

definition recordSyncOperation ::
  "string \<Rightarrow> string \<Rightarrow> string \<Rightarrow> string \<Rightarrow> string \<Rightarrow> int \<Rightarrow> string \<Rightarrow> string \<Rightarrow> (('w, 'z) st_scheme, unit) M" where
  "recordSyncOperation t ety eid source target version evid fp =
     ignore (InsertSyncOperation \<lparr>so_TenantID = t, so_EntityType = ety, so_EntityID = eid, so_Source = source,
        so_TargetSource = target, so_EventID = evid, so_AppliedVersion = version, so_Fingerprint = fp\<rparr>)"

text \<open>Create or update the customer at a destination; the result is the updated id map.\<close>

definition pushTo ::
  "('w, 'x) lib_scheme \<Rightarrow> string \<Rightarrow> Customer \<Rightarrow> string \<Rightarrow> string gomap \<Rightarrow> (('w, 'z) st_scheme, string gomap) M" where
  "pushTo L t cust dest pids =
     bindM (connectTo t dest) (\<lambda>dstAdapter.
     let dstRec = Denormalize dstAdapter cust; dstID = gget [] pids dest in
     if dstID = [] then
       bindM (CreateRecord L dstAdapter dstRec) (\<lambda>created. ret (gset dest (pr_ID created) pids))
     else
       bindM (UpdateRecord L dstAdapter dstID dstRec) (\<lambda>_. ret pids))"

section \<open>Applying created and updated events\<close>

definition freshCanonical :: "string \<Rightarrow> string \<Rightarrow> string \<Rightarrow> string \<Rightarrow> CanonicalRecord" where
  "freshCanonical t ety source pid =
     \<lparr>cr_SyncID = [], cr_TenantID = t, cr_EntityType = ety, cr_EntityID = pid, cr_Fields = [],
      cr_Version = 0, cr_SourceVersions = [], cr_FieldProvenance = [], cr_Tombstone = False,
      cr_OriginSource = [], cr_OriginEventID = [], cr_SyncOperationID = [],
      cr_ProviderIDs = [(source, pid)], cr_CreatedAt = 0, cr_UpdatedAt = 0\<rparr>"

definition resolveCanonical :: "Event \<Rightarrow> string \<Rightarrow> Customer \<Rightarrow> (('w, 'z) st_scheme, CanonicalRecord) M" where
  "resolveCanonical ev ety cust =
     (let t = TenantID ev; fresh = ret (freshCanonical t ety (Source ev) (EntityID ev)) in
      bindM (attempt (GetCanonicalByProvider t ety (Source ev) (EntityID ev))) (\<lambda>r.
      case r of
        Inr canonical \<Rightarrow> ret canonical
      | Inl e \<Rightarrow>
          if e \<noteq> ErrNotFound then throw e
          else if Email cust \<noteq> [] then
            bindM (attempt (GetCanonicalByEmail t ety (Email cust))) (\<lambda>r'.
            case r' of
              Inr canonical \<Rightarrow>
                thenM (AddProviderID t ety (cr_EntityID canonical) (Source ev) (EntityID ev))
                  (ret (canonical\<lparr>cr_ProviderIDs := gset (Source ev) (EntityID ev) (cr_ProviderIDs canonical)\<rparr>))
            | Inl e' \<Rightarrow> if e' \<noteq> ErrNotFound then throw e' else fresh)
          else fresh))"

definition isEcho ::
  "('w, 'x) lib_scheme \<Rightarrow> string \<Rightarrow> string \<Rightarrow> string \<Rightarrow> string \<Rightarrow> Customer \<Rightarrow> (('w, 'z) st_scheme, bool) M" where
  "isEcho L t ety eid source cust =
     bindM (attempt (GetOutboundWrite t ety eid source)) (\<lambda>r.
     case r of
       Inl e \<Rightarrow> if errorsIs e ErrNotFound then ret False else throw e
     | Inr outbound \<Rightarrow> ret (ow_Fingerprint outbound = Fingerprint L cust))"

definition recordConflict ::
  "('w, 'x) lib_scheme \<Rightarrow> Event \<Rightarrow> string \<Rightarrow> CanonicalRecord \<Rightarrow> goval gomap \<Rightarrow> FieldConflict list \<Rightarrow>
   string \<Rightarrow> string \<Rightarrow> (('w, 'z) st_scheme, unit) M" where
  "recordConflict L ev ety canonical incoming detected status strategy =
     (case detected of
        [] \<Rightarrow> ret ()
      | c # _ \<Rightarrow>
          bindM (InsertConflict L \<lparr>cf_ID = [], cf_TenantID = TenantID ev, cf_EntityType = ety,
             cf_EntityID = cr_EntityID canonical, cf_SourceA = SourceA c, cf_VersionA = VersionA c,
             cf_PayloadA = jsonMarshal L (GObj (cr_Fields canonical)), cf_SourceB = SourceB c,
             cf_VersionB = VersionB c, cf_PayloadB = jsonMarshal L (GObj incoming), cf_DetectedAt = 0,
             cf_Status = status, cf_ResolutionStrategy = strategy, cf_ResolvedBy = None,
             cf_ResolvedAt = None\<rparr>) (\<lambda>_. ret ()))"

text \<open>The loop over the destinations and the final transaction of \<open>applyUpsert\<close>.\<close>

definition propagate ::
  "('w, 'x) lib_scheme \<Rightarrow> Event \<Rightarrow> string \<Rightarrow> string \<Rightarrow> Customer \<Rightarrow> SyncPolicy list \<Rightarrow> string gomap \<Rightarrow>
   (('w, 'z) st_scheme, string gomap \<times> OutboundWrite list \<times> SyncOperation list) M" where
  "propagate L ev ety eid cust pols pids =
     forM pols (\<lambda>p (ids, ws, ops).
       bindM (pushTo L (TenantID ev) cust (po_Destination p) ids) (\<lambda>ids'.
       ret (ids',
            ws @ [\<lparr>ow_TenantID = TenantID ev, ow_EntityType = ety, ow_EntityID = eid,
                   ow_TargetSource = po_Destination p, ow_Fingerprint = Fingerprint L cust,
                   ow_AppliedVersion = SourceVersion ev, ow_WrittenAt = 0\<rparr>],
            ops @ [\<lparr>so_TenantID = TenantID ev, so_EntityType = ety, so_EntityID = eid, so_Source = Source ev,
                    so_TargetSource = po_Destination p, so_EventID = EventID ev,
                    so_AppliedVersion = SourceVersion ev, so_Fingerprint = Fingerprint L cust\<rparr>])))
       (pids, [], [])"

definition persistUpsert ::
  "('w, 'x) lib_scheme \<Rightarrow> Event \<Rightarrow> string \<Rightarrow> SyncPolicy list \<Rightarrow> CanonicalRecord \<Rightarrow> Customer \<Rightarrow>
   Provenance gomap \<Rightarrow> (('w, 'z) st_scheme, unit) M" where
  "persistUpsert L ev ety pols canonical cust mergedFP =
     bindM (propagate L ev ety (cr_EntityID canonical) cust pols (cr_ProviderIDs canonical)) (\<lambda>(ids, ws, ops).
     bindM (PersistApplyState L
        (canonical\<lparr>cr_FieldProvenance := mergedFP, cr_ProviderIDs := ids, cr_Fields := Fields cust,
           cr_SourceVersions := gset (Source ev) (SourceVersion ev) (cr_SourceVersions canonical),
           cr_Version := i64 (cr_Version canonical + 1), cr_OriginSource := Source ev,
           cr_OriginEventID := EventID ev, cr_Tombstone := False\<rparr>) ws ops) (\<lambda>_. ret ()))"

definition mergeAndPropagate ::
  "('w, 'x) lib_scheme \<Rightarrow> Event \<Rightarrow> string \<Rightarrow> SyncPolicy list \<Rightarrow> CanonicalRecord \<Rightarrow> Customer \<Rightarrow>
   (('w, 'z) st_scheme, unit) M" where
  "mergeAndPropagate L ev ety pols canonical cust =
     (let strategy = (case pols of [] \<Rightarrow> StrategyLastWriteWins
                        | p # _ \<Rightarrow> if po_ConflictStrategy p \<noteq> [] then po_ConflictStrategy p
                                   else StrategyLastWriteWins);
          priority = (case pols of [] \<Rightarrow> 100 | p # _ \<Rightarrow> po_SourcePriority p) in
      case Merge L strategy (cr_Fields canonical) (cr_FieldProvenance canonical) (Fields cust)
             (Source ev) (SourceVersion ev) (OccurredAt ev) priority of
        (merged, mergedFP, detected, manual) \<Rightarrow>
          if manual then
            ignore (recordConflict L ev ety canonical (Fields cust) detected ConflictPending strategy)
          else
            thenM (if detected \<noteq> [] then
                     ignore (recordConflict L ev ety canonical (Fields cust) detected ConflictAutoResolved strategy)
                   else ret ())
              (persistUpsert L ev ety pols canonical (FromFields L cust merged) mergedFP))"

text \<open>An operator's resolution of a conflict, applied without further checks.\<close>

definition resolutionProvenance :: "Event \<Rightarrow> goval gomap \<Rightarrow> Provenance gomap \<Rightarrow> Provenance gomap" where
  "resolutionProvenance ev fs fp =
     fold (\<lambda>(f, _) acc.
       let prio = (case map_of acc f of Some existing \<Rightarrow> pv_Priority existing | None \<Rightarrow> 100) in
       gset f \<lparr>pv_Source = Source ev, pv_Version = SourceVersion ev, pv_OccurredAt = OccurredAt ev,
               pv_Priority = prio\<rparr> acc) fs fp"

definition applyResolution ::
  "('w, 'x) lib_scheme \<Rightarrow> Event \<Rightarrow> string \<Rightarrow> SyncPolicy list \<Rightarrow> goval gomap \<Rightarrow> (('w, 'z) st_scheme, unit) M" where
  "applyResolution L ev ety pols fs =
     (let t = TenantID ev in
      bindM (attempt (GetCanonical t ety (EntityID ev))) (\<lambda>r.
      case r of
        Inl e \<Rightarrow> if errorsIs e ErrNotFound then ret () else throw e
      | Inr canonical \<Rightarrow>
          let cust = FromFields L (emptyCustomer\<lparr>cu_TenantID := t, cu_EntityID := cr_EntityID canonical\<rparr>) fs in
          bindM (forM pols (\<lambda>p ids.
            bindM (pushTo L t cust (po_Destination p) ids) (\<lambda>ids'.
            thenM (UpsertOutboundWrite \<lparr>ow_TenantID = t, ow_EntityType = ety, ow_EntityID = cr_EntityID canonical,
                      ow_TargetSource = po_Destination p, ow_Fingerprint = Fingerprint L cust,
                      ow_AppliedVersion = 0, ow_WrittenAt = 0\<rparr>)
            (thenM (recordSyncOperation t ety (cr_EntityID canonical) (Source ev) (po_Destination p)
                      (SourceVersion ev) (EventID ev) (Fingerprint L cust))
               (ret ids')))) (cr_ProviderIDs canonical)) (\<lambda>ids.
          bindM (UpsertCanonical L
             (canonical\<lparr>cr_ProviderIDs := ids, cr_Fields := Fields cust,
                cr_FieldProvenance := resolutionProvenance ev fs (cr_FieldProvenance canonical),
                cr_SourceVersions := gset (Source ev) (SourceVersion ev) (cr_SourceVersions canonical),
                cr_Version := i64 (cr_Version canonical + 1), cr_OriginSource := Source ev,
                cr_OriginEventID := EventID ev, cr_Tombstone := False\<rparr>)) (\<lambda>_.
          ignore (SetConflictStatus t (ResolvedConflictID (ev_Provenance ev)) ConflictResolved
                    ''manual'' ''operator'')))))"

definition applyUpsert ::
  "('w, 'x) lib_scheme \<Rightarrow> Event \<Rightarrow> string \<Rightarrow> SyncPolicy list \<Rightarrow> (('w, 'z) st_scheme, unit) M" where
  "applyUpsert L ev ety pols =
     (case asObj (gget GNil (Payload ev) ''fields'') of
        None \<Rightarrow> throw (NewError ErrSchema ''event payload missing fields'' None)
      | Some fs \<Rightarrow>
          if fs = [] then throw (NewError ErrSchema ''event payload missing fields'' None)
          else if ResolvedConflictID (ev_Provenance ev) \<noteq> [] then applyResolution L ev ety pols fs
          else
            bindM (connectTo (TenantID ev) (Source ev)) (\<lambda>srcAdapter.
            let srcRec = \<lparr>pr_ID = EntityID ev, pr_SourceVersion = SourceVersion ev, pr_Deleted = False,
                          pr_Data = fs\<rparr> in
            case Validate L srcAdapter srcRec of
              Some e \<Rightarrow> throw e
            | None \<Rightarrow>
                let cust = (Normalize L srcAdapter srcRec)\<lparr>cu_TenantID := TenantID ev\<rparr> in
                bindM (resolveCanonical ev ety cust) (\<lambda>canonical.
                if SourceVersion ev \<le> gget 0 (cr_SourceVersions canonical) (Source ev) then ret ()
                else
                  bindM (isEcho L (TenantID ev) ety (cr_EntityID canonical) (Source ev) cust) (\<lambda>echo.
                  if echo then ret ()
                  else mergeAndPropagate L ev ety pols canonical cust))))"

section \<open>Applying deletions\<close>

definition applyDelete ::
  "('w, 'x) lib_scheme \<Rightarrow> Event \<Rightarrow> string \<Rightarrow> SyncPolicy list \<Rightarrow> (('w, 'z) st_scheme, unit) M" where
  "applyDelete L ev ety pols =
     (let t = TenantID ev in
      bindM (attempt (GetCanonicalByProvider t ety (Source ev) (EntityID ev))) (\<lambda>r.
      case r of
        Inl e \<Rightarrow> if errorsIs e ErrNotFound then ret () else throw e
      | Inr canonical \<Rightarrow>
          if cr_Tombstone canonical then ret ()
          else
            bindM (forM pols (\<lambda>p _.
              let dstID = gget [] (cr_ProviderIDs canonical) (po_Destination p) in
              if po_DeletePolicy p \<noteq> ''propagate'' \<or> dstID = [] then ret ()
              else
                bindM (connectTo t (po_Destination p)) (\<lambda>dstAdapter.
                thenM (DeleteRecord L dstAdapter dstID)
                  (recordSyncOperation t ety (cr_EntityID canonical) (Source ev) (po_Destination p)
                     (SourceVersion ev) (EventID ev) []))) ()) (\<lambda>_.
            bindM (UpsertCanonical L
               (canonical\<lparr>cr_Tombstone := True,
                  cr_SourceVersions := gset (Source ev) (SourceVersion ev) (cr_SourceVersions canonical),
                  cr_Version := i64 (cr_Version canonical + 1), cr_OriginSource := Source ev,
                  cr_OriginEventID := EventID ev\<rparr>)) (\<lambda>_. ret ()))))"

section \<open>Applying reconciliation findings\<close>

definition reconcileApplied :: "ReconciliationFinding \<Rightarrow> (('w, 'z) st_scheme, unit) M" where
  "reconcileApplied f = ignore (SetReconciliationFindingStatus (rf_TenantID f) (rf_ID f) FindingApplied None)"

definition reconcileSkip :: "ReconciliationFinding \<Rightarrow> string \<Rightarrow> (('w, 'z) st_scheme, unit) M" where
  "reconcileSkip f reason =
     ignore (SetReconciliationFindingStatus (rf_TenantID f) (rf_ID f) FindingSkipped (Some reason))"

definition reconcileFail :: "ReconciliationFinding \<Rightarrow> goerr \<Rightarrow> (('w, 'z) st_scheme, unit) M" where
  "reconcileFail f cause =
     thenM (ignore (SetReconciliationFindingStatus (rf_TenantID f) (rf_ID f) FindingFailed (Some (errorText cause))))
       (throw cause)"

definition adoptIdentity ::
  "Event \<Rightarrow> string \<Rightarrow> ReconciliationFinding \<Rightarrow> ReconciliationRun \<Rightarrow> Customer \<Rightarrow> (('w, 'z) st_scheme, CanonicalRecord) M" where
  "adoptIdentity ev ety f run cust =
     (let t = TenantID ev in
      bindM (attempt (GetCanonicalByProvider t ety (rr_Source run) (rf_ProviderID f))) (\<lambda>r.
      case r of
        Inr canonical \<Rightarrow> ret canonical
      | Inl e \<Rightarrow>
          if \<not> errorsIs e ErrNotFound then throw e
          else bindM (attempt (GetCanonicalByEmail t ety (Email cust))) (\<lambda>r'.
            case r' of
              Inl e' \<Rightarrow>
                if errorsIs e' ErrNotFound then
                  ret (freshCanonical t ety (rr_Source run) (rf_ProviderID f))
                else throw e'
            | Inr canonical \<Rightarrow>
                thenM (AddProviderID t ety (cr_EntityID canonical) (rr_Source run) (rf_ProviderID f))
                  (ret (canonical\<lparr>cr_ProviderIDs := gset (rr_Source run) (rf_ProviderID f) (cr_ProviderIDs canonical)\<rparr>)))))"

definition applyAdoptProvider ::
  "('w, 'x) lib_scheme \<Rightarrow> Event \<Rightarrow> string \<Rightarrow> SyncPolicy list \<Rightarrow> ReconciliationFinding \<Rightarrow> ReconciliationRun \<Rightarrow>
   (('w, 'z) st_scheme, unit) M" where
  "applyAdoptProvider L ev ety pols f run =
     (let t = TenantID ev;
          cust0 = FromFields L (emptyCustomer\<lparr>cu_TenantID := t, cu_EntityID := rf_ProviderID f\<rparr>) (rf_ProviderFields f) in
      bindM (adoptIdentity ev ety f run cust0) (\<lambda>canonical0.
      let canonical = (if cr_EntityID canonical0 = [] then canonical0\<lparr>cr_EntityID := rf_ProviderID f\<rparr> else canonical0);
          cust = cust0\<lparr>cu_EntityID := cr_EntityID canonical\<rparr> in
      bindM (forM pols (\<lambda>p ids.
        if po_Source p \<noteq> rr_Source run then ret ids
        else
          bindM (pushTo L t cust (po_Destination p) ids) (\<lambda>ids'.
          thenM (UpsertOutboundWrite \<lparr>ow_TenantID = t, ow_EntityType = ety, ow_EntityID = cr_EntityID canonical,
                    ow_TargetSource = po_Destination p, ow_Fingerprint = Fingerprint L cust,
                    ow_AppliedVersion = 0, ow_WrittenAt = 0\<rparr>)
          (thenM (recordSyncOperation t ety (cr_EntityID canonical) (rr_Source run) (po_Destination p)
                    (rf_ProviderVersion f) (EventID ev) (Fingerprint L cust))
             (ret ids')))) (cr_ProviderIDs canonical)) (\<lambda>ids.
      bindM (UpsertCanonical L
         (canonical\<lparr>cr_ProviderIDs := ids, cr_Fields := Fields cust,
            cr_FieldProvenance := map (\<lambda>(k, _). (k, \<lparr>pv_Source = rr_Source run, pv_Version = rf_ProviderVersion f,
                                       pv_OccurredAt = OccurredAt ev, pv_Priority = 100\<rparr>)) (Fields cust),
            cr_SourceVersions := gset (rr_Source run) (rf_ProviderVersion f) (cr_SourceVersions canonical),
            cr_Version := i64 (cr_Version canonical + 1), cr_OriginSource := rr_Source run,
            cr_OriginEventID := EventID ev, cr_Tombstone := False\<rparr>)) (\<lambda>_.
      reconcileApplied f))))"

text \<open>The branch \<open>push_canonical\<close>: write canonical state back to the provider.\<close>

definition pushOrRecreate ::
  "('w, 'x) lib_scheme \<Rightarrow> Adapter \<Rightarrow> ReconciliationFinding \<Rightarrow> ProviderRecord \<Rightarrow>
   (('w, 'z) st_scheme, string \<times> ProviderRecord) M" where
  "pushOrRecreate L srcAdapter f dstRec =
     (let create = bindM (CreateRecord L srcAdapter dstRec) (\<lambda>created. ret (pr_ID created, created)) in
      if rf_Kind f = FindingMissing \<or> rf_ProviderID f = [] then create
      else
        bindM (attempt (UpdateRecord L srcAdapter (rf_ProviderID f) dstRec)) (\<lambda>r.
        case r of
          Inr updated \<Rightarrow> ret (rf_ProviderID f, updated)
        | Inl e \<Rightarrow> if \<not> IsKind e ErrKindNotFound then throw e else create))"

definition applyPushCanonical ::
  "('w, 'x) lib_scheme \<Rightarrow> Event \<Rightarrow> string \<Rightarrow> ReconciliationFinding \<Rightarrow> ReconciliationRun \<Rightarrow> Adapter \<Rightarrow>
   (('w, 'z) st_scheme, unit) M" where
  "applyPushCanonical L ev ety f run srcAdapter =
     (let t = TenantID ev in
      bindM (attempt (GetCanonical t ety (rf_CanonicalID f))) (\<lambda>r.
      case r of
        Inl e \<Rightarrow> if errorsIs e ErrNotFound then reconcileSkip f ''canonical record gone'' else throw e
      | Inr canonical \<Rightarrow>
          let cust = FromFields L (emptyCustomer\<lparr>cu_TenantID := t, cu_EntityID := cr_EntityID canonical\<rparr>) (cr_Fields canonical);
              dstRec = Denormalize srcAdapter cust in
          bindM (attempt (pushOrRecreate L srcAdapter f dstRec)) (\<lambda>w.
          case w of
            Inl e \<Rightarrow> reconcileFail f e
          | Inr (pid, updated) \<Rightarrow>
              bindM (UpsertCanonical L
                 (canonical\<lparr>cr_ProviderIDs := gset (rr_Source run) pid (cr_ProviderIDs canonical),
                    cr_SourceVersions := gset (rr_Source run) (pr_SourceVersion updated) (cr_SourceVersions canonical),
                    cr_Version := i64 (cr_Version canonical + 1), cr_Tombstone := False\<rparr>)) (\<lambda>_.
              thenM (UpsertOutboundWrite \<lparr>ow_TenantID = t, ow_EntityType = ety, ow_EntityID = cr_EntityID canonical,
                        ow_TargetSource = rr_Source run, ow_Fingerprint = Fingerprint L cust,
                        ow_AppliedVersion = pr_SourceVersion updated, ow_WrittenAt = 0\<rparr>)
              (thenM (recordSyncOperation t ety (cr_EntityID canonical) (rr_Source run) (rr_Source run)
                        (rf_ProviderVersion f) (EventID ev) (Fingerprint L cust))
                 (reconcileApplied f))))))"

definition applyReconcileFinding ::
  "('w, 'x) lib_scheme \<Rightarrow> Event \<Rightarrow> string \<Rightarrow> SyncPolicy list \<Rightarrow> (('w, 'z) st_scheme, unit) M" where
  "applyReconcileFinding L ev ety pols =
     (let t = TenantID ev in
      bindM (attempt (GetReconciliationFinding t (ReconcileFindingID (ev_Provenance ev)))) (\<lambda>r.
      case r of
        Inl e \<Rightarrow> if errorsIs e ErrNotFound then ret () else throw e
      | Inr f \<Rightarrow>
          if rf_Status f \<noteq> FindingPending then ret ()
          else
            bindM (GetReconciliationRun t (rf_RunID f)) (\<lambda>run.
            bindM (connectTo t (rr_Source run)) (\<lambda>srcAdapter.
            if rf_Direction f = ''delete'' then
              bindM (attempt (DeleteRecord L srcAdapter (rf_ProviderID f))) (\<lambda>d.
              case d of
                Inl e \<Rightarrow>
                  if \<not> IsKind e ErrKindNotFound then reconcileFail f e
                  else thenM (recordSyncOperation t ety (rf_CanonicalID f) (rr_Source run) (rr_Source run)
                                (rf_ProviderVersion f) (EventID ev) []) (reconcileApplied f)
              | Inr _ \<Rightarrow>
                  thenM (recordSyncOperation t ety (rf_CanonicalID f) (rr_Source run) (rr_Source run)
                           (rf_ProviderVersion f) (EventID ev) []) (reconcileApplied f))
            else if rf_Direction f = ''push_canonical'' then applyPushCanonical L ev ety f run srcAdapter
            else if rf_Direction f = ''adopt_provider'' then applyAdoptProvider L ev ety pols f run
            else reconcileFail f (PlainErr (''unknown reconcile direction '' @ rf_Direction f))))))"

section \<open>Processing an event\<close>

definition failEvent :: "Event \<Rightarrow> (('w, 'z) st_scheme, unit) M" where
  "failEvent ev =
     thenM (ignore (ReleaseProcessedEvent (TenantID ev) (Source ev) (EventID ev)))
       (ignore (SetSourceEventStatus (TenantID ev) (EventID ev) ''validated'' ''failed''))"

definition orFail :: "Event \<Rightarrow> (('w, 'z) st_scheme, 'a) M \<Rightarrow> (('w, 'z) st_scheme, 'a) M" where
  "orFail ev m = bindM (attempt m) (\<lambda>r. case r of Inl e \<Rightarrow> thenM (failEvent ev) (throw e) | Inr x \<Rightarrow> ret x)"

definition markProcessed :: "Event \<Rightarrow> (('w, 'z) st_scheme, unit) M" where
  "markProcessed ev = ignore (SetSourceEventStatus (TenantID ev) (EventID ev) ''validated'' ''processed'')"

text \<open>\<open>Process\<close>, split at the claim.\<close>

definition processClaimed :: "('w, 'x) lib_scheme \<Rightarrow> Event \<Rightarrow> (('w, 'z) st_scheme, unit) M" where
  "processClaimed L ev =
     bindM (orFail ev (ListPolicies (TenantID ev))) (\<lambda>pols.
     bindM (orFail ev (canonicalEntityType ev)) (\<lambda>ety.
     if ReconcileFindingID (ev_Provenance ev) \<noteq> [] then
       thenM (orFail ev (applyReconcileFinding L ev ety pols)) (markProcessed ev)
     else
       let targets = filter (\<lambda>p. po_Source p = Source ev \<and> po_Entity p = ety) pols in
       if targets = [] then
         thenM (ignore (ReleaseProcessedEvent (TenantID ev) (Source ev) (EventID ev))) (markProcessed ev)
       else
         thenM (orFail ev (if EventType ev = EventDeleted then applyDelete L ev ety targets
                           else applyUpsert L ev ety targets)) (markProcessed ev)))"

definition Process :: "('w, 'x) lib_scheme \<Rightarrow> Event \<Rightarrow> (('w, 'z) st_scheme, unit) M" where
  "Process L ev =
     bindM (ClaimProcessedEvent (TenantID ev) (Source ev) (EventID ev) (EntityType ev) (EntityID ev)) (\<lambda>claimed.
     if \<not> claimed then ret () else processClaimed L ev)"

section \<open>Handing failures over\<close>

definition randFloat :: "('w, 'x) lib_scheme \<Rightarrow> (('w, 'z) st_scheme, rat) M" where
  "randFloat L = (\<lambda>s. (Inr (rand_float L (seq s)), s\<lparr>seq := seq s + 1\<rparr>))"

definition deadLetter ::
  "('w, 'x) lib_scheme \<Rightarrow> Event \<Rightarrow> string \<Rightarrow> string \<Rightarrow> (('w, 'z) st_scheme, unit) M" where
  "deadLetter L ev reason errorClass =
     bindM (InsertDeadLetter L \<lparr>dl_ID = [], dl_TenantID = TenantID ev, dl_EventID = EventID ev,
        dl_Reason = reason, dl_ErrorClass = errorClass, dl_Payload = event_marshal L ev, dl_Status = [],
        dl_CreatedAt = 0, dl_ResolvedAt = None\<rparr>) (\<lambda>_.
     ignore (SetSourceEventStatusTo (TenantID ev) (EventID ev) ''dlq''))"

definition retryDelay :: "rat \<Rightarrow> int \<Rightarrow> Options \<Rightarrow> int \<Rightarrow> int" where
  "retryDelay u failures opts retryAfter =
     (let d0 = ComputeDelay u failures (RetryBaseDelay opts) (RetryMaxDelay opts);
          d1 = (if retryAfter > 0 \<and> retryAfter < d0 then retryAfter else d0)
      in if d1 > RetryMaxDelay opts then RetryMaxDelay opts else d1)"

definition dispatchFailure ::
  "('w, 'x) lib_scheme \<Rightarrow> Options \<Rightarrow> Event \<Rightarrow> goerr \<Rightarrow> (('w, 'z) st_scheme, unit) M" where
  "dispatchFailure L opts ev cause =
     (case Classify cause of (kind, retryAfter) \<Rightarrow>
        if \<not> ShouldRetry kind then deadLetter L ev (errorText cause) kind
        else
          bindM (randFloat L) (\<lambda>u.
          bindM (EnqueueRetry \<lparr>re_TenantID = TenantID ev, re_EventID = EventID ev, re_Attempt = 0,
             re_MaxAttempts = RetryMaxAttempts opts, re_NextAttemptAt = 0, re_LastError = errorText cause,
             re_ErrorClass = kind, re_State = event_marshal L ev\<rparr>
             (retryDelay u 1 opts retryAfter)) (\<lambda>_. ret ())))"

definition Handle :: "('w, 'x) lib_scheme \<Rightarrow> Options \<Rightarrow> string \<Rightarrow> (('w, 'z) st_scheme, unit) M" where
  "Handle L opts value =
     (case event_unmarshal L value of
        None \<Rightarrow> throw (PlainErr ''json'')
      | Some ev \<Rightarrow>
          bindM (attempt (Process L ev)) (\<lambda>r.
          case r of Inl e \<Rightarrow> dispatchFailure L opts ev e | Inr _ \<Rightarrow> ret ()))"

section \<open>What the apply functions leave alone\<close>

text \<open>Projections of the tables that the apply functions do not write.\<close>

definition applyFrame :: "(db \<Rightarrow> 'v) \<Rightarrow> bool" where
  "applyFrame f \<longleftrightarrow> (\<forall>d x. f (d\<lparr>canonicals := x\<rparr>) = f d) \<and> (\<forall>d x. f (d\<lparr>outbounds := x\<rparr>) = f d) \<and>
     (\<forall>d x. f (d\<lparr>operations := x\<rparr>) = f d) \<and> (\<forall>d x. f (d\<lparr>conflicts := x\<rparr>) = f d) \<and>
     (\<forall>d x. f (d\<lparr>reconFindings := x\<rparr>) = f d)"

lemma applyFrame_untouched [simp]:
  "applyFrame processed" "applyFrame policies" "applyFrame connections" "applyFrame sourceEvents"
  "applyFrame retryQueue" "applyFrame deadLetters" "applyFrame syncJobs" "applyFrame reconRuns"
  "applyFrame users" "applyFrame sessions" "applyFrame apiKeys" "applyFrame loginAttempts"
  "applyFrame tenants" "applyFrame auditLog"
  by (simp_all add: applyFrame_def)

lemma applyFrameD:
  assumes "applyFrame f"
  shows "f (d\<lparr>canonicals := x\<rparr>) = f d" "f (d\<lparr>outbounds := y\<rparr>) = f d" "f (d\<lparr>operations := z\<rparr>) = f d"
    "f (d\<lparr>conflicts := u\<rparr>) = f d" "f (d\<lparr>reconFindings := w\<rparr>) = f d"
  using assms by (simp_all add: applyFrame_def)

lemma keeps_connectTo [keeps_intros]:
  "keeps (\<lambda>s. f (db s)) (connectTo t p)" "keeps world (connectTo t p)"
  unfolding connectTo_def by (intro keeps_intros)+

lemma keeps_canonicalEntityType [keeps_intros]:
  "keeps (\<lambda>s. f (db s)) (canonicalEntityType ev)" "keeps world (canonicalEntityType ev)"
  unfolding canonicalEntityType_def by (intro keeps_intros)+

lemma keeps_pushTo [keeps_intros]: "keeps (\<lambda>s. f (db s)) (pushTo L t cust dest pids)"
  unfolding pushTo_def Let_def by (intro keeps_intros frameNet_db)

lemma keeps_propagate [keeps_intros]: "keeps (\<lambda>s. f (db s)) (propagate L ev ety eid cust ps ids)"
  unfolding propagate_def by (intro keeps_intros)

lemma keeps_isEcho [keeps_intros]:
  "keeps (\<lambda>s. f (db s)) (isEcho L t ety eid src cust)" "keeps world (isEcho L t ety eid src cust)"
  unfolding isEcho_def by (intro keeps_intros)+

lemma keeps_resolveCanonical_world [keeps_intros]: "keeps world (resolveCanonical ev ety cust)"
  unfolding resolveCanonical_def Let_def by (intro keeps_intros)

lemma frame_resolveCanonical [frame_intros]:
  "(\<And>d x. f (d\<lparr>canonicals := x\<rparr>) = f d) \<Longrightarrow> keeps (\<lambda>s. f (db s)) (resolveCanonical ev ety cust)"
  unfolding resolveCanonical_def Let_def by (intro keeps_intros frame_intros) assumption

lemma frame_recordConflict [frame_intros]:
  "(\<And>d x. f (d\<lparr>conflicts := x\<rparr>) = f d) \<Longrightarrow> keeps (\<lambda>s. f (db s)) (recordConflict L ev ety c inc det st strat)"
  unfolding recordConflict_def by (intro keeps_intros frame_intros) assumption

lemma keeps_recordConflict_world [keeps_intros]: "keeps world (recordConflict L ev ety c inc det st strat)"
  unfolding recordConflict_def by (intro keeps_intros)

lemma frame_recordSyncOperation [frame_intros]:
  "(\<And>d x. f (d\<lparr>operations := x\<rparr>) = f d) \<Longrightarrow> keeps (\<lambda>s. f (db s)) (recordSyncOperation t ety eid src tg v evid fp)"
  unfolding recordSyncOperation_def by (intro keeps_intros frame_intros) assumption

lemma frame_persistUpsert [frame_intros]:
  "applyFrame f \<Longrightarrow> keeps (\<lambda>s. f (db s)) (persistUpsert L ev ety ps c cust fp)"
  unfolding persistUpsert_def by (intro keeps_intros frame_intros) (simp add: applyFrameD)

lemma frame_mergeAndPropagate [frame_intros]:
  "applyFrame f \<Longrightarrow> keeps (\<lambda>s. f (db s)) (mergeAndPropagate L ev ety ps c cust)"
  unfolding mergeAndPropagate_def Let_def by (intro keeps_intros frame_intros) (simp_all add: applyFrameD)

lemma frame_applyResolution [frame_intros]:
  "applyFrame f \<Longrightarrow> keeps (\<lambda>s. f (db s)) (applyResolution L ev ety ps fs)"
  unfolding applyResolution_def Let_def by (intro keeps_intros frame_intros) (simp_all add: applyFrameD)

lemma frame_applyUpsert [frame_intros]:
  "applyFrame f \<Longrightarrow> keeps (\<lambda>s. f (db s)) (applyUpsert L ev ety ps)"
  unfolding applyUpsert_def Let_def by (intro keeps_intros frame_intros) (simp_all add: applyFrameD)

lemma frame_applyDelete [frame_intros]:
  "applyFrame f \<Longrightarrow> keeps (\<lambda>s. f (db s)) (applyDelete L ev ety ps)"
  unfolding applyDelete_def Let_def by (intro keeps_intros frame_intros frameNet_db) (simp_all add: applyFrameD)

lemma frame_reconcileStatus [frame_intros]:
  assumes "\<And>d x. f (d\<lparr>reconFindings := x\<rparr>) = f d"
  shows "keeps (\<lambda>s. f (db s)) (reconcileApplied g)" "keeps (\<lambda>s. f (db s)) (reconcileSkip g reason)"
    "keeps (\<lambda>s. f (db s)) (reconcileFail g cause)"
  unfolding reconcileApplied_def reconcileSkip_def reconcileFail_def
  by (intro keeps_intros frame_intros assms)+

lemma frame_adoptIdentity [frame_intros]:
  "(\<And>d x. f (d\<lparr>canonicals := x\<rparr>) = f d) \<Longrightarrow> keeps (\<lambda>s. f (db s)) (adoptIdentity ev ety g run cust)"
  unfolding adoptIdentity_def Let_def by (intro keeps_intros frame_intros) assumption

lemma frame_applyAdoptProvider [frame_intros]:
  "applyFrame f \<Longrightarrow> keeps (\<lambda>s. f (db s)) (applyAdoptProvider L ev ety ps g run)"
  unfolding applyAdoptProvider_def Let_def by (intro keeps_intros frame_intros) (simp_all add: applyFrameD)

lemma keeps_pushOrRecreate [keeps_intros]: "keeps (\<lambda>s. f (db s)) (pushOrRecreate L a g rec)"
  unfolding pushOrRecreate_def Let_def by (intro keeps_intros frameNet_db)

lemma frame_applyPushCanonical [frame_intros]:
  "applyFrame f \<Longrightarrow> keeps (\<lambda>s. f (db s)) (applyPushCanonical L ev ety g run a)"
  unfolding applyPushCanonical_def Let_def by (intro keeps_intros frame_intros) (simp_all add: applyFrameD)

lemma frame_applyReconcileFinding [frame_intros]:
  "applyFrame f \<Longrightarrow> keeps (\<lambda>s. f (db s)) (applyReconcileFinding L ev ety ps)"
  unfolding applyReconcileFinding_def Let_def
  by (intro keeps_intros frame_intros frameNet_db) (simp_all add: applyFrameD)

end
