(* ===== verification/Faultless.thy ===== *)
theory Faultless
imports Worker
begin

text \<open>
  Runs without injected faults: when no database statement is going to fail, none is going to
  fail after any part of the worker has run. The predicate \<open>calm\<close> is the precondition of the
  properties that need the database to be reachable while a failure is handed over.
\<close>

abbreviation calm :: "('w, 'z) net_scheme \<Rightarrow> bool" where
  "calm s \<equiv> faults s = []"

section \<open>Provider calls\<close>

lemma calm_faultPoint [pres_intros]: "pres calm faultPoint"
  by (simp add: pres_def faultPoint_def)

lemma calm_sendHttp [pres_intros]: "pres calm (sendHttp L req)"
  by (simp add: pres_def sendHttp_def split: prod.split)

lemma calm_returnE [pres_intros]: "pres calm (returnE r)"
  unfolding returnE_def by (intro pres_intros)

lemma calm_ClientDo [pres_intros]: "pres calm (ClientDo L c m p b d)"
  unfolding ClientDo_def by (intro pres_intros)

lemma calm_adapter [pres_intros]:
  "pres calm (HealthCheck L a)" "pres calm (ListPage L a opts)" "pres calm (GetRecord L a i)"
  "pres calm (CreateRecord L a rec)" "pres calm (UpdateRecord L a i rec)" "pres calm (DeleteRecord L a i)"
  by (cases a; auto simp: sf_HealthCheck_def hs_HealthCheck_def sf_List_def hs_List_def sf_Get_def hs_Get_def
      sf_Create_def hs_Create_def sf_Update_def hs_Update_def sf_Delete_def hs_Delete_def intro!: pres_intros)+

section \<open>Statements\<close>

lemma calm_WithTenant [pres_intros]: "pres calm (WithTenant fn)"
  by (rule presI) (simp add: WithTenant_ok split: prod.split sum.split)

lemma calm_newID [pres_intros]: "pres calm (newID L)"
  by (simp add: pres_def newID_def)

lemma calm_timeNow [pres_intros]: "pres calm timeNow"
  by (simp add: timeNow_def pres_gets)

lemma calm_store [pres_intros]:
  "pres calm (GetCanonical t a b)" "pres calm (GetCanonicalByProvider t a b c)"
  "pres calm (GetCanonicalByEmail t a b)" "pres calm (AddProviderID t a b c e)"
  "pres calm (UpsertCanonical L cr)" "pres calm (UpsertOutboundWrite w)"
  "pres calm (GetOutboundWrite t a b c)" "pres calm (InsertSyncOperation o')"
  "pres calm (PersistApplyState L cr ws os)" "pres calm (ClaimProcessedEvent t a b c e)"
  "pres calm (ReleaseProcessedEvent t a b)" "pres calm (InsertSourceEvent ev)"
  "pres calm (GetSourceEvent t a)" "pres calm (SetSourceEventStatus t a b c)"
  "pres calm (SetSourceEventStatusTo t a b)" "pres calm (PendingSourceEvents l)"
  "pres calm (EnqueueRetry re n)" "pres calm (ClaimDueRetries l)" "pres calm (DeleteRetry t a)"
  "pres calm (InsertDeadLetter L dl)" "pres calm (GetDeadLetter t a)"
  "pres calm (SetDeadLetterStatus t a b)" "pres calm (ResolveDeadLetterForEvent t a)"
  "pres calm (InsertConflict L cf)" "pres calm (GetConflict t a)"
  "pres calm (SetConflictStatus t a b c e)" "pres calm (UpsertSyncPolicy p)"
  "pres calm (ListPolicies t)" "pres calm (GetConnection t a)"
  "pres calm (GetConnectionByProvider t a)" "pres calm (SetConnectionStatus t a b)"
  unfolding store_ops by (intro pres_intros)+

lemma calm_jobs [pres_intros]:
  "pres calm (CreateSyncJob L j)" "pres calm (GetSyncJob t a)" "pres calm ClaimNextSyncJob"
  "pres calm (UpdateSyncJobProgress a b c p q r)" "pres calm (FinishSyncJob a b u v)"
  "pres calm (CreateReconciliationRun L rr)" "pres calm (GetReconciliationRun t a)"
  "pres calm (GetReconciliationRunByJobID a)" "pres calm (UpdateReconciliationCounters a p q r q')"
  "pres calm (FinishReconciliationRun a b u')" "pres calm (InsertReconciliationFinding L g)"
  "pres calm (GetReconciliationFinding t a)" "pres calm (SetReconciliationFindingDirection t a b)"
  "pres calm (SetReconciliationFindingStatus t a b u')" "pres calm (CountReconciliationFindings t a)"
  "pres calm (ListCanonicalByProvider t a b)"
  unfolding store_ops by (intro pres_intros)+

section \<open>The worker\<close>

lemma calm_connectTo [pres_intros]: "pres calm (connectTo t p)"
  unfolding connectTo_def by (intro pres_intros)

lemma calm_canonicalEntityType [pres_intros]: "pres calm (canonicalEntityType ev)"
  unfolding canonicalEntityType_def by (intro pres_intros)

lemma calm_recordSyncOperation [pres_intros]: "pres calm (recordSyncOperation t ety eid src tg v evid fp)"
  unfolding recordSyncOperation_def by (intro pres_intros)

lemma calm_pushTo [pres_intros]: "pres calm (pushTo L t cust dest pids)"
  unfolding pushTo_def by (intro pres_intros)

lemma calm_resolveCanonical [pres_intros]: "pres calm (resolveCanonical ev ety cust)"
  unfolding resolveCanonical_def Let_def by (intro pres_intros)

lemma calm_isEcho [pres_intros]: "pres calm (isEcho L t ety eid src cust)"
  unfolding isEcho_def by (intro pres_intros)

lemma calm_recordConflict [pres_intros]: "pres calm (recordConflict L ev ety c inc det st strat)"
  unfolding recordConflict_def by (intro pres_intros)

lemma calm_propagate [pres_intros]: "pres calm (propagate L ev ety eid cust ps ids)"
  unfolding propagate_def by (intro pres_intros)

lemma calm_persistUpsert [pres_intros]: "pres calm (persistUpsert L ev ety ps c cust fp)"
  unfolding persistUpsert_def by (intro pres_intros)

lemma calm_mergeAndPropagate [pres_intros]: "pres calm (mergeAndPropagate L ev ety ps c cust)"
  unfolding mergeAndPropagate_def by (intro pres_intros)

lemma calm_applyResolution [pres_intros]: "pres calm (applyResolution L ev ety ps fs)"
  unfolding applyResolution_def by (intro pres_intros)

lemma calm_applyUpsert [pres_intros]: "pres calm (applyUpsert L ev ety ps)"
  unfolding applyUpsert_def by (intro pres_intros)

lemma calm_applyDelete [pres_intros]: "pres calm (applyDelete L ev ety ps)"
  unfolding applyDelete_def by (intro pres_intros)

lemma calm_reconcileStatus [pres_intros]:
  "pres calm (reconcileApplied g)" "pres calm (reconcileSkip g reason)" "pres calm (reconcileFail g cause)"
  unfolding reconcileApplied_def reconcileSkip_def reconcileFail_def by (intro pres_intros)+

lemma calm_adoptIdentity [pres_intros]: "pres calm (adoptIdentity ev ety g run cust)"
  unfolding adoptIdentity_def by (intro pres_intros)

lemma calm_applyAdoptProvider [pres_intros]: "pres calm (applyAdoptProvider L ev ety ps g run)"
  unfolding applyAdoptProvider_def by (intro pres_intros)

lemma calm_pushOrRecreate [pres_intros]: "pres calm (pushOrRecreate L a g rec)"
  unfolding pushOrRecreate_def Let_def by (intro pres_intros)

lemma calm_applyPushCanonical [pres_intros]: "pres calm (applyPushCanonical L ev ety g run a)"
  unfolding applyPushCanonical_def by (intro pres_intros)

lemma calm_applyReconcileFinding [pres_intros]: "pres calm (applyReconcileFinding L ev ety ps)"
  unfolding applyReconcileFinding_def by (intro pres_intros)

lemma calm_failEvent [pres_intros]: "pres calm (failEvent ev)"
  unfolding failEvent_def by (intro pres_intros)

lemma calm_orFail [pres_intros]: "pres calm m \<Longrightarrow> pres calm (orFail ev m)"
  unfolding orFail_def by (intro pres_intros)

lemma calm_markProcessed [pres_intros]: "pres calm (markProcessed ev)"
  unfolding markProcessed_def by (intro pres_intros)

lemma calm_processClaimed [pres_intros]: "pres calm (processClaimed L ev)"
  unfolding processClaimed_def by (intro pres_intros)

lemma calm_Process [pres_intros]: "pres calm (Process L ev)"
  unfolding Process_def by (intro pres_intros)

lemma calm_randFloat [pres_intros]: "pres calm (randFloat L)"
  by (simp add: pres_def randFloat_def)

lemma calm_deadLetter [pres_intros]: "pres calm (deadLetter L ev reason cls)"
  unfolding deadLetter_def by (intro pres_intros)

lemma calm_dispatchFailure [pres_intros]: "pres calm (dispatchFailure L opts ev cause)"
  unfolding dispatchFailure_def by (intro pres_intros)

lemma calm_Handle [pres_intros]: "pres calm (Handle L opts v)"
  unfolding Handle_def by (intro pres_intros)

end
