(* ===== verification/WorkerFacts.thy ===== *)
theory WorkerFacts
imports Faultless
begin

text \<open>
  Facts on the worker that its properties rest on: tenant isolation of every function of the
  worker, what is known of the records it reads, the effect-free paths (duplicate, stale and echo
  events), and the state left behind when an apply fails.
\<close>

section \<open>Tenant isolation\<close>

abbreviation foreign :: "Event \<Rightarrow> ('w, 'z) st_scheme \<Rightarrow> db" where
  "foreign ev s \<equiv> outside (TenantID ev) (db s)"

lemma freshCanonical_key [simp]:
  "cr_TenantID (freshCanonical t ety src pid) = t" "cr_EntityType (freshCanonical t ety src pid) = ety"
  "cr_EntityID (freshCanonical t ety src pid) = pid" "cr_SourceVersions (freshCanonical t ety src pid) = []"
  by (simp_all add: freshCanonical_def)

lemma returns_resolveCanonical:
  "returns (resolveCanonical ev ety cust) (\<lambda>c. cr_TenantID c = TenantID ev \<and> cr_EntityType c = ety)"
  unfolding resolveCanonical_def Let_def
  by (rule returns_bindM, rule returns_attempt, rule returns_reads)
    (auto intro!: returns_throw returns_ret returns_thenM returns_bindM [OF returns_attempt [OF returns_reads(3)]]
        split: sum.split sum.splits)

lemma iso_resolveCanonical [iso_intros]: "keeps (foreign ev) (resolveCanonical ev ety cust)"
  unfolding resolveCanonical_def Let_def by (intro keeps_intros iso_intros)

lemma iso_recordConflict [iso_intros]: "keeps (foreign ev) (recordConflict L ev ety c inc det st strat)"
  unfolding recordConflict_def by (intro keeps_intros iso_intros) simp

lemma iso_recordSyncOperation [iso_intros]: "keeps (\<lambda>s. outside t (db s)) (recordSyncOperation t ety eid src tg v evid fp)"
  unfolding recordSyncOperation_def by (intro keeps_intros iso_intros) simp

lemma iso_persistUpsert [iso_intros]:
  "cr_TenantID c = TenantID ev \<Longrightarrow> keeps (foreign ev) (persistUpsert L ev ety ps c cust fp)"
  unfolding persistUpsert_def by (intro keeps_intros iso_intros) simp

lemma iso_mergeAndPropagate [iso_intros]:
  "cr_TenantID c = TenantID ev \<Longrightarrow> keeps (foreign ev) (mergeAndPropagate L ev ety ps c cust)"
  unfolding mergeAndPropagate_def Let_def by (intro keeps_intros iso_intros)

lemma iso_applyResolution [iso_intros]: "keeps (foreign ev) (applyResolution L ev ety ps fs)"
  unfolding applyResolution_def Let_def
  by (rule keeps_bindM_attempt, rule keeps_reads, rule returns_reads)
    (auto intro!: keeps_intros iso_intros)

lemma iso_applyUpsert [iso_intros]: "keeps (foreign ev) (applyUpsert L ev ety ps)"
  unfolding applyUpsert_def Let_def
  by (intro keeps_option keeps_throw keeps_if keeps_bindM [OF keeps_connectTo(1)] iso_applyResolution
      keeps_bindM_returns [OF iso_resolveCanonical returns_resolveCanonical]
      keeps_ret keeps_bindM [OF keeps_isEcho(1)] iso_mergeAndPropagate) auto

lemma iso_applyDelete [iso_intros]: "keeps (foreign ev) (applyDelete L ev ety ps)"
  unfolding applyDelete_def Let_def
  by (rule keeps_bindM_attempt, rule keeps_reads, rule returns_reads)
    (auto intro!: keeps_intros iso_intros)

lemma iso_reconcileStatus [iso_intros]:
  assumes "rf_TenantID g = t"
  shows "keeps (\<lambda>s. outside t (db s)) (reconcileApplied g)"
    "keeps (\<lambda>s. outside t (db s)) (reconcileSkip g reason)"
    "keeps (\<lambda>s. outside t (db s)) (reconcileFail g cause)"
  unfolding reconcileApplied_def reconcileSkip_def reconcileFail_def assms
  by (intro keeps_intros iso_intros)+

lemma returns_adoptIdentity:
  "returns (adoptIdentity ev ety g run cust) (\<lambda>c. cr_TenantID c = TenantID ev \<and> cr_EntityType c = ety)"
  unfolding adoptIdentity_def Let_def
  by (rule returns_bindM, rule returns_attempt, rule returns_reads)
    (auto intro!: returns_throw returns_ret returns_thenM returns_bindM [OF returns_attempt [OF returns_reads(3)]]
        split: sum.split sum.splits)

lemma iso_adoptIdentity [iso_intros]: "keeps (foreign ev) (adoptIdentity ev ety g run cust)"
  unfolding adoptIdentity_def Let_def by (intro keeps_intros iso_intros)

lemma iso_applyAdoptProvider [iso_intros]:
  "rf_TenantID g = TenantID ev \<Longrightarrow> keeps (foreign ev) (applyAdoptProvider L ev ety ps g run)"
  unfolding applyAdoptProvider_def Let_def
  by (rule keeps_bindM_returns, rule iso_adoptIdentity, rule returns_adoptIdentity)
    (auto intro!: keeps_intros iso_intros)

lemma iso_applyPushCanonical [iso_intros]:
  "rf_TenantID g = TenantID ev \<Longrightarrow> keeps (foreign ev) (applyPushCanonical L ev ety g run a)"
  unfolding applyPushCanonical_def Let_def
  by (rule keeps_bindM_attempt, rule keeps_reads, rule returns_reads)
    (auto intro!: keeps_intros iso_intros)

lemma iso_applyReconcileFinding [iso_intros]: "keeps (foreign ev) (applyReconcileFinding L ev ety ps)"
  unfolding applyReconcileFinding_def Let_def
  by (rule keeps_bindM_attempt, rule keeps_job_reads, rule returns_job_reads)
    (auto intro!: keeps_intros iso_intros)

lemma iso_failEvent [iso_intros]: "keeps (foreign ev) (failEvent ev)"
  unfolding failEvent_def by (intro keeps_intros iso_intros)

lemma iso_orFail [iso_intros]: "keeps (foreign ev) m \<Longrightarrow> keeps (foreign ev) (orFail ev m)"
  unfolding orFail_def by (intro keeps_intros iso_intros)

lemma iso_markProcessed [iso_intros]: "keeps (foreign ev) (markProcessed ev)"
  unfolding markProcessed_def by (intro keeps_intros iso_intros)

lemma iso_processClaimed [iso_intros]: "keeps (foreign ev) (processClaimed L ev)"
  unfolding processClaimed_def Let_def by (intro keeps_intros iso_intros)

lemma iso_Process [iso_intros]: "keeps (foreign ev) (Process L ev)"
  unfolding Process_def by (intro keeps_intros iso_intros)

lemma keeps_randFloat [keeps_intros]:
  "keeps (\<lambda>s. f (db s)) (randFloat L)" "keeps world (randFloat L)"
  by (simp_all add: keeps_def randFloat_def)

lemma iso_deadLetter [iso_intros]: "keeps (foreign ev) (deadLetter L ev reason cls)"
  unfolding deadLetter_def by (intro keeps_intros iso_intros) simp

lemma iso_dispatchFailure [iso_intros]: "keeps (foreign ev) (dispatchFailure L opts ev cause)"
  unfolding dispatchFailure_def by (intro keeps_intros iso_intros) simp

section \<open>The idempotency claims during processing\<close>

lemma claims_orFail_apply:
  assumes "keeps (\<lambda>s. processed (db s)) m"
  shows "m s = (Inr x, s') \<Longrightarrow> orFail ev m s = (Inr x, s') \<and> processed (db s') = processed (db s)"
  using keeps_run [OF assms] by (simp add: orFail_def run_simps)

lemma markProcessed_Inr: "fst (markProcessed ev s) = Inr ()"
  by (simp add: markProcessed_def run_simps)

lemma keeps_processed_markProcessed: "keeps (\<lambda>s. processed (db s)) (markProcessed ev)"
  unfolding markProcessed_def by (intro keeps_intros frame_intros) simp

text \<open>A claim is won exactly when the key is new, and it is in the log afterwards either way.\<close>

lemma ClaimProcessedEvent_post:
  assumes "ClaimProcessedEvent t src evid ety eid s = (Inr b, s')"
  shows "b \<longleftrightarrow> \<not> hasKey peKey (t, src, evid) (processed (db s))"
    and "hasKey peKey k (processed (db s')) \<longleftrightarrow> k = (t, src, evid) \<or> hasKey peKey k (processed (db s))"
    and "db s' = (db s)\<lparr>processed := processed (db s')\<rparr>"
proof -
  define cl where "cl = claimStmt (now s) ety eid (t, src, evid) (processed (db s))"
  have b: "b = fst cl" and d: "db s' = (db s)\<lparr>processed := snd cl\<rparr>"
    using WithTenant_Inr [OF assms [unfolded ClaimProcessedEvent_def]] by (simp_all add: cl_def case_prod_beta)
  show "b \<longleftrightarrow> \<not> hasKey peKey (t, src, evid) (processed (db s))"
    using pl.claim_result [of "now s" ety eid "(t, src, evid)" "processed (db s)"] by (simp add: b cl_def)
  show "hasKey peKey k (processed (db s')) \<longleftrightarrow> k = (t, src, evid) \<or> hasKey peKey k (processed (db s))"
    using pl.claim_holds [of k "now s" ety eid "(t, src, evid)" "processed (db s)"] by (simp add: d cl_def)
  show "db s' = (db s)\<lparr>processed := processed (db s')\<rparr>"
    by (simp add: d)
qed

lemma ClaimProcessedEvent_duplicate:
  assumes "hasKey peKey (t, src, evid) (processed (db s))"
  shows "\<exists>fs. ClaimProcessedEvent t src evid ety eid s = (Inr False, s\<lparr>faults := fs\<rparr>) \<or>
              (\<exists>e. faults s \<noteq> [] \<and> hd (faults s) = Some e \<and> ClaimProcessedEvent t src evid ety eid s = (Inl (PlainErr e), s\<lparr>faults := fs\<rparr>))"
proof -
  have same: "snd (claimStmt n ety eid (t, src, evid) (processed (db s))) = processed (db s)" for n
    by (rule pl.claim_again [OF assms])
  have no: "\<not> fst (claimStmt n ety eid (t, src, evid) (processed (db s)))" for n
    using assms by (simp add: pl.claim_result)
  show ?thesis
    using same no
    by (cases "faults s"; cases "hd (faults s)")
      (auto simp: ClaimProcessedEvent_def WithTenant_run faultPoint_def case_prod_beta intro!: exI [of _ "tl (faults s)"])
qed

section \<open>The course of processing\<close>

text \<open>The policies an event is propagated along; both adapters have the entity type customer.\<close>

definition targetsOf :: "Event \<Rightarrow> db \<Rightarrow> SyncPolicy list" where
  "targetsOf ev d = filter (\<lambda>p. po_TenantID p = TenantID ev \<and> po_Enabled p \<and> po_Source p = Source ev \<and>
     po_Entity p = ''customer'') (policies d)"

definition claimedEvent :: "Event \<Rightarrow> db \<Rightarrow> bool" where
  "claimedEvent ev d \<longleftrightarrow> hasKey peKey (Key ev) (processed d)"

definition irrelevant :: "Event \<Rightarrow> db \<Rightarrow> bool" where
  "irrelevant ev d \<longleftrightarrow> targetsOf ev d = [] \<and> ReconcileFindingID (ev_Provenance ev) = []"

lemma CanonicalEntityType_customer [simp]: "CanonicalEntityType a = ''customer''"
  by (cases a) simp_all

lemma canonicalEntityType_customer: "canonicalEntityType ev s = (Inr ety, s') \<Longrightarrow> ety = ''customer''"
  by (auto simp: canonicalEntityType_def bindM_Inr ret_def)

lemma ListPolicies_Inr:
  "ListPolicies t s = (Inr pols, s') \<Longrightarrow>
   pols = filter (\<lambda>p. po_TenantID p = t \<and> po_Enabled p) (policies (db s)) \<and> db s' = db s"
  unfolding ListPolicies_def by (drule WithTenant_Inr) auto

lemma orFail_Inr: "orFail ev m s = (Inr x, s') \<longleftrightarrow> m s = (Inr x, s')"
  by (cases "m s"; cases "fst (m s)") (auto simp: orFail_def run_simps failEvent_def)

lemma orFail_Inl: "orFail ev m s = (Inl e, s') \<longleftrightarrow> (\<exists>s1. m s = (Inl e, s1) \<and> s' = snd (failEvent ev s1))"
  by (cases "m s"; cases "fst (m s)") (auto simp: orFail_def run_simps failEvent_def)

lemma markProcessed_run: "markProcessed ev s = (Inr (), snd (markProcessed ev s))"
  using markProcessed_Inr [of ev s] by (cases "markProcessed ev s") simp

lemma failEvent_calm:
  assumes "calm s"
  shows "processed (db (snd (failEvent ev s))) = releaseStmt (Key ev) (processed (db s))"
  using assms by (simp add: failEvent_def run_simps ReleaseProcessedEvent_def SetSourceEventStatus_def Key_def)

lemma ReleaseProcessedEvent_calm:
  assumes "calm s"
  shows "processed (db (snd (ReleaseProcessedEvent (TenantID ev) (Source ev) (EventID ev) s))) = releaseStmt (Key ev) (processed (db s))"
  using assms by (simp add: run_simps ReleaseProcessedEvent_def Key_def)

text \<open>The work done under a claim, after policies and entity type are known.\<close>

definition applyEvent :: "('w, 'x) lib_scheme \<Rightarrow> Event \<Rightarrow> SyncPolicy list \<Rightarrow> (('w, 'z) st_scheme, unit) M" where
  "applyEvent L ev pols =
     (if ReconcileFindingID (ev_Provenance ev) \<noteq> [] then applyReconcileFinding L ev ''customer'' pols
      else if EventType ev = EventDeleted
        then applyDelete L ev ''customer'' (filter (\<lambda>p. po_Source p = Source ev \<and> po_Entity p = ''customer'') pols)
        else applyUpsert L ev ''customer'' (filter (\<lambda>p. po_Source p = Source ev \<and> po_Entity p = ''customer'') pols))"

lemma frame_applyEvent [frame_intros]: "applyFrame f \<Longrightarrow> keeps (\<lambda>s. f (db s)) (applyEvent L ev pols)"
  unfolding applyEvent_def by (intro keeps_intros frame_intros)

lemma calm_applyEvent [pres_intros]: "pres calm (applyEvent L ev pols)"
  unfolding applyEvent_def by (intro pres_intros)

text \<open>The two ends of the claimed part: it was applied, or there was nothing to do.\<close>

lemma processClaimed_Inr:
  assumes "processClaimed L ev s1 = (Inr u, s')"
  obtains (applied) s3 s2 pols where "db s3 = db s1"
      "pols = filter (\<lambda>p. po_TenantID p = TenantID ev \<and> po_Enabled p) (policies (db s1))"
      "applyEvent L ev pols s3 = (Inr (), s2)" "s' = snd (markProcessed ev s2)"
      "ReconcileFindingID (ev_Provenance ev) \<noteq> [] \<or> targetsOf ev (db s1) \<noteq> []"
  | (idle) "targetsOf ev (db s1) = []" "ReconcileFindingID (ev_Provenance ev) = []"
proof -
  obtain pols s2 ety s3 where lp: "ListPolicies (TenantID ev) s1 = (Inr pols, s2)"
    and ety: "canonicalEntityType ev s2 = (Inr ety, s3)"
    and body: "(if ReconcileFindingID (ev_Provenance ev) \<noteq> [] then
       thenM (orFail ev (applyReconcileFinding L ev ety pols)) (markProcessed ev)
     else
       let targets = filter (\<lambda>p. po_Source p = Source ev \<and> po_Entity p = ety) pols in
       if targets = [] then
         thenM (ignore (ReleaseProcessedEvent (TenantID ev) (Source ev) (EventID ev))) (markProcessed ev)
       else
         thenM (orFail ev (if EventType ev = EventDeleted then applyDelete L ev ety targets
                           else applyUpsert L ev ety targets)) (markProcessed ev)) s3 = (Inr u, s')"
    using assms by (auto simp: processClaimed_def bindM_Inr orFail_Inr)
  have e: "ety = ''customer''"
    using ety by (rule canonicalEntityType_customer)
  have pols: "pols = filter (\<lambda>p. po_TenantID p = TenantID ev \<and> po_Enabled p) (policies (db s1))"
    and d3: "db s3 = db s1"
    using ListPolicies_Inr [OF lp] keeps_run [OF keeps_canonicalEntityType(1) [where f = "\<lambda>d. d"] ety] by simp_all
  have tg: "filter (\<lambda>p. po_Source p = Source ev \<and> po_Entity p = ''customer'') pols = targetsOf ev (db s1)"
    by (auto simp: pols targetsOf_def intro: filter_cong)
  show thesis
  proof (cases "targetsOf ev (db s1) = [] \<and> ReconcileFindingID (ev_Provenance ev) = []")
    case False
    have "thenM (orFail ev (applyEvent L ev pols)) (markProcessed ev) s3 = (Inr u, s')"
      using body False unfolding e Let_def tg applyEvent_def by (simp split: if_splits)
    then obtain s4 where "applyEvent L ev pols s3 = (Inr (), s4)" "markProcessed ev s4 = (Inr u, s')"
      by (auto simp: thenM_def bindM_Inr orFail_Inr)
    then show thesis
      using applied [of s3 pols s4] False d3 pols by auto
  qed (use idle in blast)
qed

text \<open>A successful run: the event was claimed before, or it is applied, or it has no target.\<close>

lemma Process_Inr_cases:
  assumes "Process L ev s = (Inr u, s')"
  obtains (duplicate) "claimedEvent ev (db s)" "db s' = db s" "world s' = world s"
  | (applied) s1 s2 pols where "db s1 = (db s)\<lparr>processed := processed (db s1)\<rparr>" "claimedEvent ev (db s1)"
      "\<not> claimedEvent ev (db s)" "pols = filter (\<lambda>p. po_TenantID p = TenantID ev \<and> po_Enabled p) (policies (db s))"
      "applyEvent L ev pols s1 = (Inr (), s2)" "s' = snd (markProcessed ev s2)"
      "ReconcileFindingID (ev_Provenance ev) \<noteq> [] \<or> targetsOf ev (db s) \<noteq> []"
  | (idle) "targetsOf ev (db s) = []" "ReconcileFindingID (ev_Provenance ev) = []"
proof -
  obtain b s1 where claim: "ClaimProcessedEvent (TenantID ev) (Source ev) (EventID ev) (EntityType ev) (EntityID ev) s = (Inr b, s1)"
    and rest: "(if \<not> b then ret () else processClaimed L ev) s1 = (Inr u, s')"
    using assms unfolding Process_def bindM_Inr by blast
  note post = ClaimProcessedEvent_post [OF claim]
  have d1: "policies (db s1) = policies (db s)"
    by (subst post(3)) simp
  have tg: "targetsOf ev (db s1) = targetsOf ev (db s)"
    by (simp add: targetsOf_def d1)
  show thesis
  proof (cases b)
    case False
    then have "claimedEvent ev (db s)" "s1 = s'"
      using post(1) rest by (simp_all add: claimedEvent_def Key_def run_simps)
    moreover have "processed (db s1) = processed (db s)"
      using claim False post(1) WithTenant_Inr [OF claim [unfolded ClaimProcessedEvent_def]]
        pl.claim_again [of "(TenantID ev, Source ev, EventID ev)" "processed (db s)"]
      by (auto simp: case_prod_beta)
    moreover have "world s1 = world s"
      using keeps_run [OF keeps_world_store(10) claim] .
    ultimately show thesis
      using duplicate post(3) by simp
  next
    case True
    then have "processClaimed L ev s1 = (Inr u, s')"
      using rest by simp
    then show thesis
    proof (cases rule: processClaimed_Inr)
      case (applied s3 s2 pols)
      have "db s3 = (db s)\<lparr>processed := processed (db s3)\<rparr>" "claimedEvent ev (db s3)" "\<not> claimedEvent ev (db s)"
        using post applied(1) True by (simp_all add: claimedEvent_def Key_def)
      then show thesis
        using that(2) [of s3 pols s2] applied tg d1 by simp
    next
      case idle
      then show thesis
        using that(3) tg by simp
    qed
  qed
qed

text \<open>Without faults, a failed run has released its claim.\<close>

lemma released_failEvent:
  "calm s \<Longrightarrow> \<not> claimedEvent ev (db (snd (failEvent ev s)))"
  by (simp add: claimedEvent_def failEvent_calm pl.release_holds)

lemma calm_run: "pres calm m \<Longrightarrow> calm s \<Longrightarrow> m s = (r, s') \<Longrightarrow> calm s'"
  using presD [of calm m s] by simp

lemma valid_orFail:
  fixes m :: "(('w, 'z) st_scheme, 'a) M"
  assumes "pres calm m"
  shows "valid calm (orFail ev m) (\<lambda>_. calm) (\<lambda>_ s. \<not> claimedEvent ev (db s))"
proof (rule validI)
  fix s s' :: "('w, 'z) st_scheme" and x
  assume s: "calm s" and "orFail ev m s = (Inr x, s')"
  then have "m s = (Inr x, s')"
    by (simp only: orFail_Inr)
  then show "calm s'"
    by (rule calm_run [OF assms s])
next
  fix s s' :: "('w, 'z) st_scheme" and e
  assume s: "calm s" and "orFail ev m s = (Inl e, s')"
  then obtain s1 where "m s = (Inl e, s1)" and s': "s' = snd (failEvent ev s1)"
    by (auto simp only: orFail_Inl)
  then have "calm s1"
    by (intro calm_run [OF assms s])
  then show "\<not> claimedEvent ev (db s')"
    unfolding s' by (rule released_failEvent)
qed

lemma valid_markProcessed: "valid P (markProcessed ev) (\<lambda>_ _. True) E"
  by (simp add: valid_def) (subst markProcessed_run, simp)

lemma valid_released: "valid calm (ignore (ReleaseProcessedEvent t a b)) (\<lambda>_ _. True) E"
  by (simp add: valid_def ignore_run)

lemma processClaimed_releases:
  "valid calm (processClaimed L ev) (\<lambda>_ _. True) (\<lambda>_ s. \<not> claimedEvent ev (db s))"
  unfolding processClaimed_def Let_def
proof (rule valid_bindM [OF valid_orFail [OF calm_store(28)]], rule valid_bindM [OF valid_orFail [OF calm_canonicalEntityType]],
    intro valid_if valid_thenM [OF valid_orFail valid_markProcessed])
  show "valid calm (thenM (ignore (ReleaseProcessedEvent (TenantID ev) (Source ev) (EventID ev))) (markProcessed ev))
     (\<lambda>_ _. True) (\<lambda>_ s. \<not> claimedEvent ev (db s))"
    by (rule valid_thenM [OF valid_released valid_markProcessed])
qed (intro pres_intros)+

lemma Process_Inl_calm:
  assumes run: "Process L ev s = (Inl e, s')" and calm: "calm s"
  shows "\<not> claimedEvent ev (db s) \<and> \<not> claimedEvent ev (db s')"
proof -
  obtain b s1 where claim: "ClaimProcessedEvent (TenantID ev) (Source ev) (EventID ev) (EntityType ev) (EntityID ev) s = (Inr b, s1)"
    using calm by (simp add: ClaimProcessedEvent_def run_simps case_prod_beta)
  then have b: b and rest: "processClaimed L ev s1 = (Inl e, s')"
    using run by (auto simp: Process_def bindM_run ret_def split: if_splits)
  then show ?thesis
    using ClaimProcessedEvent_post(1) [OF claim] validD_Inl [OF processClaimed_releases calm_run [OF calm_store(10) calm claim] rest]
    by (simp add: claimedEvent_def Key_def)
qed

end
