(* ===== verification/Demo.thy ===== *)
theory Demo
imports Worker "HOL-Library.Countable"
begin

text \<open>
  A concrete environment to evaluate the engine in: a provider that accepts every request and
  logs it, an encoding of events as decimal numbers, and a tenant with a Salesforce and a HubSpot
  connection and a policy in each direction.
\<close>

section \<open>A provider that logs requests\<close>

definition demoSend :: "HttpRequest \<Rightarrow> HttpRequest list \<Rightarrow> (string + HttpResponse) \<times> HttpRequest list" where
  "demoSend req w = (Inr \<lparr>StatusCode = 200, RetryAfterHdr = [], RespBody = ''{}''\<rparr>, w @ [req])"

definition execLib :: "HttpRequest list lib" where
  "execLib = \<lparr>json_num = (\<lambda>r. Itoa \<lfloor>r\<rfloor>), sprint_num = (\<lambda>r. Itoa \<lfloor>r\<rfloor>),
     json_decode = (\<lambda>s. Some (GObj [(''id'', GStr ''R1''), (''contact_id'', GStr ''R1''), (''version'', GStr ''1'')])),
     sha256_hex = (\<lambda>s. s), hmac_sha256 = (\<lambda>k m. k @ m), hmac_sha1 = (\<lambda>k m. replicate 20 (CHR 0x01)),
     bcrypt_ok = (\<lambda>h p. h = p), rfc3339 = Itoa, parse_rfc3339 = (\<lambda>s. None),
     http_send = demoSend, status_text = Itoa, uuid_of = (\<lambda>n. ''u'' @ digits10 n),
     event_marshal = (\<lambda>e. EventID e), event_unmarshal = (\<lambda>s. None), rand_float = (\<lambda>n. 0)\<rparr>"

section \<open>An encoding of events\<close>

instance goval :: countable
  by countable_datatype

definition eventTuple :: "Event \<Rightarrow> _" where
  "eventTuple e = (EventID e, TenantID e, Source e, EntityType e, EntityID e, EventType e, SourceVersion e,
     OccurredAt e, ReceivedAt e, CorrelationID e,
     (OriginSource (ev_Provenance e), OriginEventID (ev_Provenance e), SyncOperationID (ev_Provenance e),
      ResolvedConflictID (ev_Provenance e), ReconcileFindingID (ev_Provenance e)), Payload e)"

definition untuple :: "_ \<Rightarrow> Event" where
  "untuple x = (case x of (eid, t, src, ety, ent, ty, v, oc, rc, cid, (a, b, c, d, f), p) \<Rightarrow>
     \<lparr>EventID = eid, TenantID = t, Source = src, EntityType = ety, EntityID = ent, EventType = ty,
      SourceVersion = v, OccurredAt = oc, ReceivedAt = rc, CorrelationID = cid,
      ev_Provenance = \<lparr>OriginSource = a, OriginEventID = b, SyncOperationID = c, ResolvedConflictID = d,
        ReconcileFindingID = f\<rparr>, Payload = p\<rparr>)"

definition codecLib :: "HttpRequest list lib" where
  "codecLib = execLib\<lparr>event_marshal := (\<lambda>e. digits10 (to_nat (eventTuple e))),
     event_unmarshal := (\<lambda>s. Some (untuple (from_nat (undigits10 0 s))))\<rparr>"

lemma untuple_eventTuple [simp]: "untuple (eventTuple e) = e"
  by (simp add: untuple_def eventTuple_def)

lemma codecLib_codec: "eventCodec codecLib"
  by (simp add: eventCodec_def codecLib_def)

section \<open>A tenant with two systems\<close>

definition demoPolicy :: "string \<Rightarrow> string \<Rightarrow> SyncPolicy" where
  "demoPolicy src dst = \<lparr>po_TenantID = ''t1'', po_Entity = ''customer'', po_Source = src, po_Destination = dst,
     po_Mode = ''bidirectional'', po_ConflictStrategy = ''last_write_wins'', po_DeletePolicy = ''propagate'',
     po_RetryPolicy = [], po_SourcePriority = 100, po_Enabled = True\<rparr>"

definition demoConnection :: "string \<Rightarrow> string \<Rightarrow> Connection" where
  "demoConnection i p = \<lparr>cn_ID = i, cn_TenantID = ''t1'', cn_Name = p, cn_Provider = p,
     cn_BaseURL = ''http://'' @ p, cn_Status = ''healthy'', cn_WebhookSecret = ''s'', cn_LastHealthCheck = None\<rparr>"

definition demoDb :: db where
  "demoDb = emptyDb\<lparr>policies := [demoPolicy Salesforce HubSpot, demoPolicy HubSpot Salesforce],
     connections := [demoConnection ''c1'' Salesforce, demoConnection ''c2'' HubSpot]\<rparr>"

definition demoSt :: "db \<Rightarrow> HttpRequest list st" where
  "demoSt d = \<lparr>world = [], faults = [], db = d, now = 1000, seq = 0\<rparr>"

definition demoEvent :: Event where
  "demoEvent = \<lparr>EventID = ''e1'', TenantID = ''t1'', Source = Salesforce, EntityType = ''customer'', EntityID = ''sf-1'',
     EventType = EventUpdated, SourceVersion = 2, OccurredAt = 10, ReceivedAt = 11, CorrelationID = [],
     ev_Provenance = noProvenance, Payload = [(''fields'', GObj [(''first_name'', GStr ''Ada''),
       (''last_name'', GStr ''L''), (''email'', GStr ''ada@x'')])]\<rparr>"

end
