(* ===== verification/WorkerProps.thy ===== *)
theory WorkerProps
imports WorkerFacts Demo
begin

text \<open>
  Properties of event processing (\<open>Process\<close> and \<open>Handle\<close> of
  \<open>internal/syncworker/worker.go\<close>): redelivered events have no effect, a failed event can be
  taken again, no event is lost between the apply and the hand-over to the retry queue or the
  dead-letter queue, and no event touches the rows of another tenant.
\<close>

section \<open>Handing failures over\<close>

definition queuedForRetry :: "('w, 'x) lib_scheme \<Rightarrow> Event \<Rightarrow> db \<Rightarrow> bool" where
  "queuedForRetry L ev d \<longleftrightarrow> (\<exists>r \<in> set (retryQueue d). reKey r = (TenantID ev, EventID ev) \<and>
     event_unmarshal L (re_State r) = Some ev)"

definition inOpenDeadLetter :: "('w, 'x) lib_scheme \<Rightarrow> Event \<Rightarrow> db \<Rightarrow> bool" where
  "inOpenDeadLetter L ev d \<longleftrightarrow> (\<exists>r \<in> set (deadLetters d). dlKey r = (TenantID ev, EventID ev) \<and>
     dl_Status r = ''open'' \<and> event_unmarshal L (dl_Payload r) = Some ev)"

lemma getBy_val_set:
  "map_option val (getBy key k rows) = Some v \<Longrightarrow> \<exists>r \<in> set rows. key r = k \<and> val r = v"
  by (auto dest: getBy_key getBy_set)

lemma getBy_present: "\<exists>r \<in> set rows. key r = k \<and> P r \<Longrightarrow> \<exists>r. getBy key k rows = Some r"
  using hasKey_iff_getBy [of key k rows] by (auto simp: hasKey_def)

lemma EnqueueRetry_calm:
  assumes "calm s"
  shows "\<exists>r s'. EnqueueRetry e delay s = (Inr r, s') \<and>
     (\<exists>r \<in> set (retryQueue (db s')). reKey r = reKey e \<and> re_State r = re_State e)"
proof -
  define row where "row = e\<lparr>re_Attempt := 1, re_NextAttemptAt := now s + delay\<rparr>"
  define rows where "rows = upsertBy reKey reMerge row (retryQueue (db s))"
  have k: "reKey row = reKey e" "re_State row = re_State e"
    by (simp_all add: row_def reKey_def)
  have put: "\<exists>r \<in> set rows. reKey r = reKey e \<and> re_State r = re_State e"
    using getBy_val_set [OF re.kt.put_get [of row "retryQueue (db s)"]] unfolding k rows_def by auto
  then obtain r where "getBy reKey (reKey e) rows = Some r"
    using getBy_present by fastforce
  then have "EnqueueRetry e delay s = (Inr r, s\<lparr>db := (db s)\<lparr>retryQueue := rows\<rparr>\<rparr>)"
    using assms by (simp add: EnqueueRetry_def WithTenant_ok Let_def row_def [symmetric] rows_def [symmetric] rowOr_def)
  then show ?thesis
    using put by auto
qed

lemma InsertDeadLetter_calm:
  assumes "calm s"
  shows "\<exists>r s'. InsertDeadLetter L e s = (Inr r, s') \<and> calm s' \<and>
     (\<exists>r \<in> set (deadLetters (db s')). dlKey r = dlKey e \<and> dl_Payload r = dl_Payload e \<and> dl_Status r = ''open'')"
proof -
  define row where "row = e\<lparr>dl_ID := uuid_of L (seq s), dl_Status := ''open'', dl_CreatedAt := now s, dl_ResolvedAt := None\<rparr>"
  define rows where "rows = upsertBy dlKey dlMerge row (deadLetters (db s))"
  have k: "dlKey row = dlKey e" "dl_Payload row = dl_Payload e" "dl_Status row = ''open''"
    by (simp_all add: row_def dlKey_def)
  have put: "\<exists>r \<in> set rows. dlKey r = dlKey e \<and> dl_Payload r = dl_Payload e \<and> dl_Status r = ''open''"
    using getBy_val_set [OF dl.kt.put_get [of row "deadLetters (db s)"]] unfolding k rows_def by auto
  then obtain r where "getBy dlKey (dlKey e) rows = Some r"
    using getBy_present by fastforce
  then have "InsertDeadLetter L e s = (Inr r, s\<lparr>seq := seq s + 1, db := (db s)\<lparr>deadLetters := rows\<rparr>\<rparr>)"
    using assms
    by (simp add: InsertDeadLetter_def bindM_run newID_run WithTenant_ok Let_def row_def [symmetric]
        rows_def [symmetric] rowOr_def)
  then show ?thesis
    using put assms by auto
qed

lemma dispatchFailure_calm:
  assumes codec: "eventCodec L" and calm: "calm s"
  shows "fst (dispatchFailure L opts ev cause s) = Inr () \<and>
     (queuedForRetry L ev (db (snd (dispatchFailure L opts ev cause s))) \<or>
      inOpenDeadLetter L ev (db (snd (dispatchFailure L opts ev cause s))))"
proof (cases "ShouldRetry (fst (Classify cause))")
  case True
  define e where "e = \<lparr>re_TenantID = TenantID ev, re_EventID = EventID ev, re_Attempt = 0,
             re_MaxAttempts = RetryMaxAttempts opts, re_NextAttemptAt = 0, re_LastError = errorText cause,
             re_ErrorClass = fst (Classify cause), re_State = event_marshal L ev\<rparr>"
  define s1 where "s1 = s\<lparr>seq := seq s + 1\<rparr>"
  define delay where "delay = retryDelay (rand_float L (seq s)) 1 opts (snd (Classify cause))"
  obtain r s' where run: "EnqueueRetry e delay s1 = (Inr r, s')"
    and q: "\<exists>r \<in> set (retryQueue (db s')). reKey r = reKey e \<and> re_State r = re_State e"
    using EnqueueRetry_calm [of s1 e delay] calm by (auto simp: s1_def)
  have "dispatchFailure L opts ev cause s = (Inr (), s')"
    using True run by (simp add: dispatchFailure_def case_prod_beta bindM_run randFloat_def e_def s1_def delay_def ret_def)
  then show ?thesis
    using q codec by (auto simp: queuedForRetry_def e_def reKey_def eventCodec_def)
next
  case False
  define e where "e = \<lparr>dl_ID = [], dl_TenantID = TenantID ev, dl_EventID = EventID ev,
        dl_Reason = errorText cause, dl_ErrorClass = fst (Classify cause), dl_Payload = event_marshal L ev, dl_Status = [],
        dl_CreatedAt = 0, dl_ResolvedAt = None\<rparr>"
  obtain r s' where run: "InsertDeadLetter L e s = (Inr r, s')" and "calm s'"
    and q: "\<exists>r \<in> set (deadLetters (db s')). dlKey r = dlKey e \<and> dl_Payload r = dl_Payload e \<and> dl_Status r = ''open''"
    using InsertDeadLetter_calm [OF calm] by blast
  then have *: "dispatchFailure L opts ev cause s
      = (Inr (), snd (SetSourceEventStatusTo (TenantID ev) (EventID ev) ''dlq'' s'))"
    using False by (simp add: dispatchFailure_def case_prod_beta deadLetter_def bindM_run ignore_run e_def)
  have "deadLetters (db (snd (SetSourceEventStatusTo (TenantID ev) (EventID ev) ''dlq'' s'))) = deadLetters (db s')"
    using \<open>calm s'\<close> by (simp add: SetSourceEventStatusTo_def WithTenant_ok)
  then show ?thesis
    using q codec by (auto simp: * inOpenDeadLetter_def e_def dlKey_def eventCodec_def)
qed

section \<open>Claimed events\<close>

lemma Process_claimed:
  assumes "claimedEvent ev (db s)"
  obtains r fs where "Process L ev s = (r, s\<lparr>faults := fs\<rparr>)" "calm s \<longrightarrow> r = Inr ()"
proof -
  have "hasKey peKey (TenantID ev, Source ev, EventID ev) (processed (db s))"
    using assms by (simp add: claimedEvent_def Key_def)
  from ClaimProcessedEvent_duplicate [OF this, of "EntityType ev" "EntityID ev"] obtain fs where
    "ClaimProcessedEvent (TenantID ev) (Source ev) (EventID ev) (EntityType ev) (EntityID ev) s = (Inr False, s\<lparr>faults := fs\<rparr>) \<or>
     faults s \<noteq> [] \<and> (\<exists>e. ClaimProcessedEvent (TenantID ev) (Source ev) (EventID ev) (EntityType ev) (EntityID ev) s = (Inl (PlainErr e), s\<lparr>faults := fs\<rparr>))"
    by blast
  then show thesis
    using that [of "Inr ()" fs] that [of "Inl e" fs for e] by (auto simp: Process_def bindM_run ret_def)
qed

lemma claims_other:
  assumes "k \<noteq> Key ev"
  shows "keeps (\<lambda>s. hasKey peKey k (processed (db s))) (Process L ev)"
proof -
  have claim: "keeps (\<lambda>s. hasKey peKey k (processed (db s))) (ClaimProcessedEvent (TenantID ev) (Source ev) (EventID ev) a b)" for a b
    unfolding store_ops using assms
    by (intro keeps_WithTenant_db) (simp add: case_prod_beta pl.claim_holds Key_def)
  have release: "keeps (\<lambda>s. hasKey peKey k (processed (db s))) (ReleaseProcessedEvent (TenantID ev) (Source ev) (EventID ev))"
    unfolding store_ops using assms
    by (intro keeps_WithTenant_db) (simp add: pl.release_holds Key_def)
  have frame: "applyFrame (\<lambda>d. hasKey peKey k (processed d))"
    by (simp add: applyFrame_def)
  have orFail: "keeps (\<lambda>s. hasKey peKey k (processed (db s))) m \<Longrightarrow> keeps (\<lambda>s. hasKey peKey k (processed (db s))) (orFail ev m)" for m :: "(('a, 'b) st_scheme, 'e) M"
    unfolding orFail_def failEvent_def by (intro keeps_intros release frame_sourceEvents) simp_all
  show ?thesis
    unfolding Process_def processClaimed_def markProcessed_def Let_def
    by (intro keeps_intros claim release orFail frame_intros frame) simp_all
qed

lemma claims_kept:
  assumes "claimedEvent e (db s)"
  shows "claimedEvent e (db (snd (Process L ev s)))"
proof (cases "Key e = Key ev")
  case True
  then have "claimedEvent ev (db s)"
    using assms by (simp add: claimedEvent_def)
  then obtain r fs where "Process L ev s = (r, s\<lparr>faults := fs\<rparr>)"
    using Process_claimed by blast
  then show ?thesis
    using assms by simp
next
  case False
  then show ?thesis
    using assms keepsD [OF claims_other [OF False], of L s] by (simp add: claimedEvent_def)
qed

section \<open>Properties\<close>

text \<open>
  Delivering an event whose idempotency key is already claimed changes neither the tables nor
  any provider nor the clock nor the supply of identifiers: the run ends without an effect, and
  it ends without an error unless the database is failing.
\<close>

theorem Process_duplicate:
  assumes "claimedEvent ev (db s)"
  shows "\<exists>r fs. Process L ev s = (r, s\<lparr>faults := fs\<rparr>) \<and> (calm s \<longrightarrow> r = Inr ())"
  using Process_claimed [OF assms] by blast

definition demoClaimed :: db where
  "demoClaimed = demoDb\<lparr>processed := [claimRow 5 (Key demoEvent) ''customer'' ''sf-1'']\<rparr>"

theorem Process_duplicate_witness:
  "claimedEvent demoEvent demoClaimed \<and> (\<exists>fs. Process execLib demoEvent (demoSt demoClaimed) = (Inr (), (demoSt demoClaimed)\<lparr>faults := fs\<rparr>))"
proof -
  have c: "claimedEvent demoEvent demoClaimed"
    by (simp add: claimedEvent_def demoClaimed_def demoEvent_def Key_def hasKey_def peKey_def claimRow_def)
  then show ?thesis
    using Process_duplicate [of demoEvent "demoSt demoClaimed" execLib] by (auto simp: demoSt_def)
qed

text \<open>
  A claim, once held, is never given up by the processing of events: however many events of any
  tenant are processed afterwards, in any order and with any outcome, the event stays claimed, so
  that a later delivery of it is recognised.
\<close>

theorem claims_persist:
  assumes "claimedEvent ev (db s)"
  shows "claimedEvent ev (db (snd (forM evs (\<lambda>e _. ignore (Process L e)) () s)))"
  using assms
proof (induction evs arbitrary: s)
  case (Cons e evs)
  show ?case
    using Cons.IH [OF claims_kept [OF Cons.prems]] by (simp add: bindM_run ignore_run)
qed (simp add: ret_def)

theorem claims_persist_witness:
  "claimedEvent demoEvent (db (snd (forM [demoEvent, demoEvent\<lparr>EventID := ''e2''\<rparr>] (\<lambda>e _. ignore (Process execLib e)) () (demoSt demoClaimed))))"
  by (rule claims_persist)
    (simp add: claimedEvent_def demoClaimed_def demoEvent_def Key_def hasKey_def peKey_def claimRow_def demoSt_def)

definition redeliver :: "('w, 'x) lib_scheme \<Rightarrow> Event \<Rightarrow> nat \<Rightarrow> (('w, 'z) st_scheme, unit) M" where
  "redeliver L ev n = forM (replicate n ev) (\<lambda>e _. ignore (Process L e)) ()"

lemma redeliver_claimed:
  assumes "claimedEvent ev (db s)"
  shows "db (snd (redeliver L ev n s)) = db s \<and> world (snd (redeliver L ev n s)) = world s"
  unfolding redeliver_def using assms
proof (induction n arbitrary: s)
  case (Suc n)
  obtain r fs where run: "Process L ev s = (r, s\<lparr>faults := fs\<rparr>)"
    using Process_claimed [OF Suc.prems] by blast
  show ?case
    using Suc.IH [of "s\<lparr>faults := fs\<rparr>"] Suc.prems by (simp add: bindM_run ignore_run run)
qed (simp add: ret_def)

lemma Process_success_claims:
  assumes "Process L ev s = (Inr u, s')" "targetsOf ev (db s) \<noteq> [] \<or> ReconcileFindingID (ev_Provenance ev) \<noteq> []"
  shows "claimedEvent ev (db s')"
  using assms(1)
proof (cases rule: Process_Inr_cases)
  case duplicate
  then show ?thesis by simp
next
  case (applied s1 s2 pols)
  have "processed (db s') = processed (db s1)"
    using keeps_run [OF frame_applyEvent [where f = processed, OF applyFrame_untouched(1)] applied(5)]
      keepsD [OF keeps_processed_markProcessed, of ev s2] applied(6) by simp
  then show ?thesis
    using applied(2) by (simp add: claimedEvent_def)
next
  case idle
  then show ?thesis using assms(2) by simp
qed

text \<open>
  C2: An event is applied at most once. After a run that returned without an error, and for which a
  policy (or a reconciliation finding) made the event relevant, any number of further deliveries
  of the event leaves the tables and the providers as they are.
\<close>

theorem Process_exactly_once:
  assumes "Process L ev s = (Inr (), s')"
    and "targetsOf ev (db s) \<noteq> [] \<or> ReconcileFindingID (ev_Provenance ev) \<noteq> []"
  shows "db (snd (redeliver L ev n s')) = db s' \<and> world (snd (redeliver L ev n s')) = world s'"
  by (rule redeliver_claimed [OF Process_success_claims [OF assms]])

lemma demo_Process_ok: "fst (Process execLib demoEvent (demoSt demoDb)) = Inr ()"
  by code_simp

theorem Process_exactly_once_witness:
  "length (world (snd (redeliver execLib demoEvent 3 (snd (Process execLib demoEvent (demoSt demoDb)))))) = 1"
proof -
  have "targetsOf demoEvent (db (demoSt demoDb)) \<noteq> []"
    by (simp add: targetsOf_def demoSt_def demoDb_def demoPolicy_def demoEvent_def)
  moreover have "Process execLib demoEvent (demoSt demoDb) = (Inr (), snd (Process execLib demoEvent (demoSt demoDb)))"
    using demo_Process_ok by (simp add: prod_eq_iff)
  moreover have "length (world (snd (Process execLib demoEvent (demoSt demoDb)))) = 1"
    by code_simp
  ultimately show ?thesis
    using Process_exactly_once [of execLib demoEvent "demoSt demoDb" "snd (Process execLib demoEvent (demoSt demoDb))" 3]
    by simp
qed

text \<open>
  While the database works, a run that returns an error has released its claim, so that the
  retry that follows is not taken for a duplicate.
\<close>

theorem Process_failure_releases:
  assumes "Process L ev s = (Inl e, s')" "calm s"
  shows "\<not> claimedEvent ev (db s')"
  using Process_Inl_calm [OF assms] by simp

definition demoUnconnected :: db where
  "demoUnconnected = demoDb\<lparr>connections := []\<rparr>"

theorem Process_failure_releases_witness:
  "fst (Process execLib demoEvent (demoSt demoUnconnected)) = Inl ErrNotFound \<and>
   \<not> claimedEvent demoEvent (db (snd (Process execLib demoEvent (demoSt demoUnconnected))))"
proof -
  have f: "fst (Process execLib demoEvent (demoSt demoUnconnected)) = Inl ErrNotFound"
    by code_simp
  then have "Process execLib demoEvent (demoSt demoUnconnected)
      = (Inl ErrNotFound, snd (Process execLib demoEvent (demoSt demoUnconnected)))"
    by (simp add: prod_eq_iff)
  then show ?thesis
    using Process_failure_releases f by (fastforce simp: demoSt_def)
qed



text \<open>
  C6: Handling a message writes only rows of the event's tenant: every row of every table that
  belongs to another tenant is the same afterwards, whatever the outcome, the faults and the answers
  of the providers. A message that does not decode changes no row at all.
\<close>

theorem Handle_tenant_isolation:
  "case event_unmarshal L v of
     None \<Rightarrow> db (snd (Handle L opts v s)) = db s
   | Some ev \<Rightarrow> outside (TenantID ev) (db (snd (Handle L opts v s))) = outside (TenantID ev) (db s)"
proof (cases "event_unmarshal L v")
  case (Some ev)
  have "keeps (foreign ev) (Handle L opts v)"
    unfolding Handle_def by (simp add: Some) (intro keeps_intros iso_intros)
  then show ?thesis
    using keepsD [of "foreign ev" "Handle L opts v" s] Some by simp
qed (simp add: Handle_def throw_def)

end
