(* ===== verification/ApplyFacts.thy ===== *)
theory ApplyFacts
imports WorkerFacts
begin

text \<open>
  Facts on applying one event (\<open>applyUpsert\<close>, \<open>applyDelete\<close> and their parts in
  \<open>internal/syncworker/worker.go\<close>): stale events and echoes of the engine's own writes have no
  effect, a failed apply leaves canonical state and ledger alone, a successful one records what it
  wrote, and the versions a canonical record has seen never go back.
\<close>

section \<open>Reads without effect\<close>

text \<open>The canonical record linked to the provider record an event is about.\<close>

definition linked :: "Event \<Rightarrow> db \<Rightarrow> CanonicalRecord option" where
  "linked ev d = findRow (\<lambda>c. cr_TenantID c = TenantID ev \<and> cr_EntityType c = ''customer'' \<and>
     map_of (cr_ProviderIDs c) (Source ev) = Some (EntityID ev)) (canonicals d)"

lemma quiet_linked:
  "quiet P (GetCanonicalByProvider (TenantID ev) ''customer'' (Source ev) (EntityID ev)) (\<lambda>c d. linked ev d = Some c)
     (\<lambda>e d. (e = ErrNotFound \<and> linked ev d = None) \<or> (\<exists>m. e = PlainErr m))"
  unfolding GetCanonicalByProvider_def linked_def by (rule quiet_read)

lemma quiet_connectTo: "quiet P (connectTo t p) (\<lambda>a d. adapterName a = p) (\<lambda>_ _. True)"
  unfolding connectTo_def GetConnectionByProvider_def
proof (rule quiet_bindM [OF quiet_weaken [OF quiet_read, where Q' = "\<lambda>cn d. cn_Provider cn = p"]])
  fix cn
  show "quiet (\<lambda>d. P d \<and> cn_Provider cn = p) (returnE (adapterFor (cn_Provider cn) (cn_BaseURL cn)))
     (\<lambda>a d. adapterName a = p) (\<lambda>_ _. True)"
    by (auto simp: returnE_def adapterFor_def registryNewRateLimited_def intro!: quiet_ret quiet_throw)
qed (auto dest: findRow_SomeD)

lemma quiet_resolve_linked:
  "quiet (\<lambda>d. linked ev d = Some c) (resolveCanonical ev ''customer'' cust) (\<lambda>c' d. c' = c) (\<lambda>_ _. True)"
  unfolding resolveCanonical_def Let_def
  by (rule quiet_bindM_attempt [OF quiet_linked]) (auto intro: quiet_ret quiet_throw quiet_false)

text \<open>An effect-free program in front of a program that is effect-free for its results.\<close>

lemma quiet_bind_any:
  "quiet P m Q E \<Longrightarrow> (\<And>x. quiet (\<lambda>d. P d \<and> Q x d) (f x) (\<lambda>_ _. True) (\<lambda>_ _. True)) \<Longrightarrow>
   quiet P (bindM m f) (\<lambda>_ _. True) (\<lambda>_ _. True)"
  by (rule quiet_bindM [where Q = Q, OF quiet_weaken [where Q = Q and E = E]]) auto

lemma quiet_stale:
  assumes "ResolvedConflictID (ev_Provenance ev) = []" "SourceVersion ev \<le> gget 0 (cr_SourceVersions c) (Source ev)"
  shows "quiet (\<lambda>d. linked ev d = Some c) (applyUpsert L ev ''customer'' ps) (\<lambda>_ _. True) (\<lambda>_ _. True)"
  unfolding applyUpsert_def Let_def
  by (auto simp: assms intro!: quiet_option quiet_throw quiet_bind_any [OF quiet_connectTo] quiet_ret
      quiet_bind_any [OF quiet_resolve_linked [THEN quiet_pre]] quiet_if intro: quiet_false)

lemma quiet_isEcho:
  "quiet P (isEcho L t ety eid src cust)
     (\<lambda>b d. b \<longleftrightarrow> (\<exists>w. getBy owKey (t, ety, eid, src) (outbounds d) = Some w \<and> ow_Fingerprint w = Fingerprint L cust))
     (\<lambda>_ _. True)"
  unfolding isEcho_def GetOutboundWrite_def
  by (rule quiet_bindM_attempt [OF quiet_read]) (auto intro!: quiet_ret quiet_throw quiet_if)

section \<open>What a successful apply records\<close>

definition writtenRow :: "('w, 'x) lib_scheme \<Rightarrow> Event \<Rightarrow> string \<Rightarrow> string \<Rightarrow> Customer \<Rightarrow> SyncPolicy \<Rightarrow> OutboundWrite" where
  "writtenRow L ev ety eid cust p = \<lparr>ow_TenantID = TenantID ev, ow_EntityType = ety, ow_EntityID = eid,
     ow_TargetSource = po_Destination p, ow_Fingerprint = Fingerprint L cust,
     ow_AppliedVersion = SourceVersion ev, ow_WrittenAt = 0\<rparr>"

definition writtenOp :: "('w, 'x) lib_scheme \<Rightarrow> Event \<Rightarrow> string \<Rightarrow> string \<Rightarrow> Customer \<Rightarrow> SyncPolicy \<Rightarrow> SyncOperation" where
  "writtenOp L ev ety eid cust p = \<lparr>so_TenantID = TenantID ev, so_EntityType = ety, so_EntityID = eid,
     so_Source = Source ev, so_TargetSource = po_Destination p, so_EventID = EventID ev,
     so_AppliedVersion = SourceVersion ev, so_Fingerprint = Fingerprint L cust\<rparr>"

lemma propagate_rows_acc:
  "forM pols (\<lambda>p (ids, ws, ops). bindM (pushTo L (TenantID ev) cust (po_Destination p) ids) (\<lambda>ids'.
       ret (ids', ws @ [writtenRow L ev ety eid cust p], ops @ [writtenOp L ev ety eid cust p])))
     (ids0, ws0, ops0) s = (Inr (ids, ws, ops), s') \<Longrightarrow>
   ws = ws0 @ map (writtenRow L ev ety eid cust) pols \<and> ops = ops0 @ map (writtenOp L ev ety eid cust) pols"
proof (induction pols arbitrary: ids0 ws0 ops0 s)
  case (Cons p pols)
  then obtain ids1 s1 where
    "forM pols (\<lambda>p (ids, ws, ops). bindM (pushTo L (TenantID ev) cust (po_Destination p) ids) (\<lambda>ids'.
       ret (ids', ws @ [writtenRow L ev ety eid cust p], ops @ [writtenOp L ev ety eid cust p])))
     (ids1, ws0 @ [writtenRow L ev ety eid cust p], ops0 @ [writtenOp L ev ety eid cust p]) s1 = (Inr (ids, ws, ops), s')"
    by (auto simp: bindM_Inr ret_def)
  then show ?case
    by (drule_tac Cons.IH) simp
qed (simp add: ret_def)

lemma propagate_rows:
  "propagate L ev ety eid cust pols pids s = (Inr (ids, ws, ops), s') \<Longrightarrow>
   ws = map (writtenRow L ev ety eid cust) pols \<and> ops = map (writtenOp L ev ety eid cust) pols"
  using propagate_rows_acc [of pols L ev cust ety eid pids "[]" "[]" s ids ws ops s']
  by (simp add: propagate_def writtenRow_def writtenOp_def)

lemma newID_Inr: "newID L s = (Inr i, s') \<Longrightarrow> db s' = db s \<and> now s' = now s"
  by (auto simp: newID_def)

lemma PersistApplyState_Inr:
  assumes "PersistApplyState L c ws ops s = (Inr r, s')"
  obtains n i where "outbounds (db s') = fold (putOutbound n) ws (outbounds (db s))"
    "operations (db s') = operations (db s) @ ops"
    "canonicals (db s') = putCanonical n (c\<lparr>cr_SyncID := i, cr_CreatedAt := n, cr_UpdatedAt := n\<rparr>) (canonicals (db s))"
proof -
  obtain i s1 where i: "newID L s = (Inr i, s1)"
    and w: "WithTenant (\<lambda>n d.
     if list_all (\<lambda>w. ow_TenantID w = cr_TenantID c) ws \<and>
        list_all (\<lambda>o'. so_TenantID o' = cr_TenantID c) ops then
       let row = c\<lparr>cr_SyncID := i, cr_CreatedAt := n, cr_UpdatedAt := n\<rparr>;
           rows = putCanonical n row (canonicals d) in
       rowOr ErrNotFound (getBy crKey (crKey c) rows)
         (d\<lparr>outbounds := fold (putOutbound n) ws (outbounds d),
            operations := operations d @ ops, canonicals := rows\<rparr>)
     else (Inl (PlainErr ''new row violates row-level security policy''), d)) s1 = (Inr r, s')"
    using assms by (auto simp: PersistApplyState_def bindM_Inr)
  then show thesis
    using WithTenant_Inr [OF w] newID_Inr [OF i] by (intro that [of "now s" i]) (auto simp: Let_def rowOr_Inr split: if_splits)
qed

lemma crKey_stamped [simp]: "crKey (c\<lparr>cr_SyncID := i, cr_CreatedAt := n, cr_UpdatedAt := m\<rparr>) = crKey c"
  by (simp add: crKey_def)

lemma map_option_Some: "map_option f x = Some y \<longleftrightarrow> (\<exists>z. x = Some z \<and> f z = y)"
  by (cases x) auto

lemma ledger_after:
  assumes "p \<in> set pols"
  shows "\<exists>w. getBy owKey (TenantID ev, ety, eid, po_Destination p) (fold (putOutbound n) (map (writtenRow L ev ety eid cust) pols) rows) = Some w \<and>
     ow_Fingerprint w = Fingerprint L cust \<and> ow_AppliedVersion w = SourceVersion ev"
proof -
  have key: "owKey (writtenRow L ev ety eid cust p) = (TenantID ev, ety, eid, po_Destination p)" for p
    by (simp add: owKey_def writtenRow_def)
  have "(TenantID ev, ety, eid, po_Destination p) \<in> owKey ` set (map (writtenRow L ev ety eid cust) pols)"
    using assms by (force simp: key)
  from ob.fold_put_last [OF this, of n rows] show ?thesis
    by (auto simp: map_option_Some writtenRow_def)
qed

lemma persistUpsert_Inr:
  assumes "persistUpsert L ev ety pols canonical cust fp s = (Inr u, s')"
  obtains n i ids where
    "outbounds (db s') = fold (putOutbound n) (map (writtenRow L ev ety (cr_EntityID canonical) cust) pols) (outbounds (db s))"
    "operations (db s') = operations (db s) @ map (writtenOp L ev ety (cr_EntityID canonical) cust) pols"
    "canonicals (db s') = putCanonical n (canonical\<lparr>cr_FieldProvenance := fp, cr_ProviderIDs := ids, cr_Fields := Fields cust,
           cr_SourceVersions := gset (Source ev) (SourceVersion ev) (cr_SourceVersions canonical),
           cr_Version := i64 (cr_Version canonical + 1), cr_OriginSource := Source ev,
           cr_OriginEventID := EventID ev, cr_Tombstone := False,
           cr_SyncID := i, cr_CreatedAt := n, cr_UpdatedAt := n\<rparr>) (canonicals (db s))"
proof -
  obtain ids ws ops s1 r where p: "propagate L ev ety (cr_EntityID canonical) cust pols (cr_ProviderIDs canonical) s = (Inr (ids, ws, ops), s1)"
    and q: "PersistApplyState L (canonical\<lparr>cr_FieldProvenance := fp, cr_ProviderIDs := ids, cr_Fields := Fields cust,
           cr_SourceVersions := gset (Source ev) (SourceVersion ev) (cr_SourceVersions canonical),
           cr_Version := i64 (cr_Version canonical + 1), cr_OriginSource := Source ev,
           cr_OriginEventID := EventID ev, cr_Tombstone := False\<rparr>) ws ops s1 = (Inr r, s')"
    using assms by (auto simp: persistUpsert_def bindM_Inr ret_def)
  have d: "db s1 = db s"
    using keeps_run [OF keeps_propagate [where f = "\<lambda>d. d"] p] .
  from q show thesis
    by (rule PersistApplyState_Inr) (rule that, use d propagate_rows [OF p] in \<open>simp_all\<close>)
qed

section \<open>Echoes\<close>

lemma Denormalize_kind: "adapterName a = adapterName b \<Longrightarrow> Denormalize a cust = Denormalize b cust"
  by (cases a; cases b) simp_all

lemma Fingerprint_tenant [simp]: "Fingerprint L (c\<lparr>cu_TenantID := t\<rparr>) = Fingerprint L c"
  by (simp add: Fingerprint_def fingerprintText_def)

definition inLedger :: "('w, 'x) lib_scheme \<Rightarrow> Event \<Rightarrow> string \<Rightarrow> Customer \<Rightarrow> db \<Rightarrow> bool" where
  "inLedger L ev eid cust d \<longleftrightarrow> (\<exists>w. getBy owKey (TenantID ev, ''customer'', eid, Source ev) (outbounds d) = Some w \<and>
     ow_Fingerprint w = Fingerprint L cust)"

lemma quiet_echo:
  assumes res: "ResolvedConflictID (ev_Provenance ev) = []" and a: "adapterName a = Source ev"
    and fs: "gget GNil (Payload ev) ''fields'' = GObj fs"
    and carries: "\<And>k v. map_of (pr_Data (Denormalize a cust)) k = Some v \<Longrightarrow> k \<noteq> ''deleted'' \<Longrightarrow> map_of fs k = Some v"
  shows "quiet (\<lambda>d. linked ev d = Some c \<and> inLedger L ev (cr_EntityID c) cust d) (applyUpsert L ev ''customer'' ps)
     (\<lambda>_ _. True) (\<lambda>_ _. True)"
proof -
  have fp: "Fingerprint L (Normalize L b \<lparr>pr_ID = EntityID ev, pr_SourceVersion = SourceVersion ev, pr_Deleted = False, pr_Data = fs\<rparr>)
      = Fingerprint L cust" if "adapterName b = Source ev" for b
    using carries a that Denormalize_kind [of a b cust] by (intro ad.echo_fingerprint) auto
  show ?thesis
    unfolding applyUpsert_def Let_def
    by (auto simp: res fs fp inLedger_def
        intro!: quiet_throw quiet_bind_any [OF quiet_connectTo] quiet_option quiet_ret quiet_if
          quiet_bind_any [OF quiet_resolve_linked [THEN quiet_pre]] quiet_bind_any [OF quiet_isEcho] intro: quiet_false)
qed

section \<open>Failed applies\<close>

text \<open>A canonical record without its links to providers.\<close>

definition unlinked :: "CanonicalRecord \<Rightarrow> CanonicalRecord" where
  "unlinked c = c\<lparr>cr_ProviderIDs := [], cr_UpdatedAt := 0\<rparr>"

definition appliedState :: "db \<Rightarrow> OutboundWrite list \<times> SyncOperation list \<times> CanonicalRecord list" where
  "appliedState d = (outbounds d, operations d, map unlinked (canonicals d))"

lemma map_unlinked_AddProviderID:
  "map unlinked (updateWhere P (\<lambda>c. c\<lparr>cr_ProviderIDs := f c, cr_UpdatedAt := n\<rparr>) rows) = map unlinked rows"
  by (induction rows) (simp_all add: unlinked_def)

lemma keeps_applied_AddProviderID: "keeps (\<lambda>s. appliedState (db s)) (AddProviderID t a b c e)"
  unfolding AddProviderID_def by (rule keeps_WithTenant_db) (simp add: appliedState_def map_unlinked_AddProviderID)

lemma keeps_applied_resolveCanonical: "keeps (\<lambda>s. appliedState (db s)) (resolveCanonical ev ety cust)"
  unfolding resolveCanonical_def Let_def by (intro keeps_intros keeps_applied_AddProviderID)

lemma keeps_applied_recordConflict: "keeps (\<lambda>s. appliedState (db s)) (recordConflict L ev ety c inc det st strat)"
  by (rule frame_recordConflict) (simp add: appliedState_def)

lemma errKeeps_persistUpsert: "errKeeps (\<lambda>s. g (db s)) (persistUpsert L ev ety pols c cust fp)"
  unfolding persistUpsert_def PersistApplyState_def
  by (intro errKeeps_bindM keeps_propagate errKeeps_prod errKeeps_bindM_ret keeps_newID errKeeps_WithTenant)

lemma errKeeps_mergeAndPropagate: "errKeeps (\<lambda>s. appliedState (db s)) (mergeAndPropagate L ev ety pols c cust)"
  unfolding mergeAndPropagate_def Let_def
  by (intro errKeeps_prod errKeeps_if errKeeps_thenM errKeeps_persistUpsert errKeeps_keeps [OF keeps_ignore]
      keeps_if keeps_ignore keeps_ret keeps_applied_recordConflict)

lemma errKeeps_applyUpsert:
  "ResolvedConflictID (ev_Provenance ev) = [] \<Longrightarrow> errKeeps (\<lambda>s. appliedState (db s)) (applyUpsert L ev ety pols)"
  unfolding applyUpsert_def Let_def
  by (auto intro!: errKeeps_option errKeeps_if errKeeps_keeps [OF keeps_throw] errKeeps_keeps [OF keeps_ret]
      errKeeps_bindM [OF keeps_connectTo(1)] errKeeps_bindM [OF keeps_applied_resolveCanonical]
      errKeeps_bindM [OF keeps_isEcho(1)] errKeeps_mergeAndPropagate)

section \<open>Versions seen\<close>

text \<open>Every record is still there, and no source version it has seen went back.\<close>

definition seenUpTo :: "CanonicalRecord list \<Rightarrow> CanonicalRecord list \<Rightarrow> bool" where
  "seenUpTo rows rows' \<longleftrightarrow> (\<forall>k c. getBy crKey k rows = Some c \<longrightarrow>
     (\<exists>c'. getBy crKey k rows' = Some c' \<and> (\<forall>src. gget 0 (cr_SourceVersions c) src \<le> gget 0 (cr_SourceVersions c') src)))"

text \<open>A record whose id is the provider's id of the event's record is linked to that record.\<close>

definition noCollision :: "Event \<Rightarrow> CanonicalRecord list \<Rightarrow> bool" where
  "noCollision ev rows \<longleftrightarrow> (\<forall>c \<in> set rows. crKey c = (TenantID ev, ''customer'', EntityID ev) \<longrightarrow>
     map_of (cr_ProviderIDs c) (Source ev) = Some (EntityID ev))"

definition current :: "CanonicalRecord \<Rightarrow> CanonicalRecord list \<Rightarrow> bool" where
  "current c rows \<longleftrightarrow> (case getBy crKey (crKey c) rows of
     None \<Rightarrow> True | Some c0 \<Rightarrow> cr_SourceVersions c0 = cr_SourceVersions c)"

lemma seenUpTo_refl [simp]: "seenUpTo rows rows"
  by (simp add: seenUpTo_def)

lemma seenUpTo_trans: "seenUpTo a b \<Longrightarrow> seenUpTo b c \<Longrightarrow> seenUpTo a c"
  unfolding seenUpTo_def by (meson order_trans)

lemma getBy_updateWhere_same:
  assumes "\<And>c. key (f c) = key c" "\<And>c. val (f c) = val c"
  shows "map_option val (getBy key k (updateWhere P f rows)) = map_option val (getBy key k rows)"
  using assms by (induction rows) (auto simp: getBy_def)

lemma seenUpTo_same:
  assumes "\<And>k. map_option cr_SourceVersions (getBy crKey k rows') = map_option cr_SourceVersions (getBy crKey k rows)"
  shows "seenUpTo rows rows'"
  unfolding seenUpTo_def
proof (intro allI impI)
  fix k c
  assume "getBy crKey k rows = Some c"
  then have "map_option cr_SourceVersions (getBy crKey k rows') = Some (cr_SourceVersions c)"
    using assms by simp
  then show "\<exists>c'. getBy crKey k rows' = Some c' \<and> (\<forall>src. gget 0 (cr_SourceVersions c) src \<le> gget 0 (cr_SourceVersions c') src)"
    by (auto simp: map_option_Some)
qed

lemma linked_versions:
  "map_option cr_SourceVersions (getBy crKey k (updateWhere P (\<lambda>c. c\<lparr>cr_ProviderIDs := f c, cr_UpdatedAt := n\<rparr>) rows))
   = map_option cr_SourceVersions (getBy crKey k rows)"
  by (rule getBy_updateWhere_same) (simp_all add: crKey_def)

lemma current_cong:
  "map_option cr_SourceVersions (getBy crKey (crKey c) rows') = map_option cr_SourceVersions (getBy crKey (crKey c) rows) \<Longrightarrow>
   current c rows \<Longrightarrow> current c rows'"
  by (auto simp: current_def split: option.splits)

lemma current_relinked [simp]: "current (c\<lparr>cr_ProviderIDs := x\<rparr>) rows = current c rows"
  by (simp add: current_def crKey_def split: option.split)

lemma current_member: "keysOk crKey rows \<Longrightarrow> c \<in> set rows \<Longrightarrow> current c rows"
  by (simp add: current_def keysOk_getBy)

lemma current_fresh:
  assumes "noCollision ev rows" "findRow (\<lambda>c. cr_TenantID c = TenantID ev \<and> cr_EntityType c = ''customer'' \<and>
     map_of (cr_ProviderIDs c) (Source ev) = Some (EntityID ev)) rows = None"
  shows "current (freshCanonical (TenantID ev) ''customer'' (Source ev) (EntityID ev)) rows"
proof -
  have "\<not> hasKey crKey (TenantID ev, ''customer'', EntityID ev) rows"
    using assms by (auto simp: hasKey_def noCollision_def findRow_None_iff crKey_def)
  then show ?thesis
    by (simp add: current_def hasKey_iff_getBy crKey_def)
qed

text \<open>A record with newer versions, written over the current one, takes nothing back.\<close>

lemma seenUpTo_put:
  assumes cur: "current c rows" and key: "crKey c' = crKey c"
    and newer: "\<And>src. gget 0 (cr_SourceVersions c) src \<le> gget 0 (cr_SourceVersions c') src"
  shows "seenUpTo rows (putCanonical n c' rows)"
  unfolding seenUpTo_def
proof (intro allI impI)
  fix k c0
  assume k: "getBy crKey k rows = Some c0"
  show "\<exists>c''. getBy crKey k (putCanonical n c' rows) = Some c'' \<and> (\<forall>src. gget 0 (cr_SourceVersions c0) src \<le> gget 0 (cr_SourceVersions c'') src)"
  proof (cases "k = crKey c'")
    case True
    then have "cr_SourceVersions c0 = cr_SourceVersions c"
      using cur k key by (simp add: current_def)
    then show ?thesis
      using cr.kt.put_get [where n = n and row = c' and rows = rows] True newer by (auto simp: putCanonical_def map_option_Some)
  next
    case False
    then show ?thesis
      using cr.kt.put_other [where n = n and row = c' and rows = rows and k = k] k by (auto simp: putCanonical_def)
  qed
qed

lemma resolveCanonical_current:
  assumes ok: "keysOk crKey rows" and col: "noCollision ev rows"
  shows "valid (\<lambda>s. canonicals (db s) = rows) (resolveCanonical ev ''customer'' cust :: (('w, 'z) st_scheme, CanonicalRecord) M)
     (\<lambda>c s. seenUpTo rows (canonicals (db s)) \<and> current c (canonicals (db s)))
     (\<lambda>_ s. seenUpTo rows (canonicals (db s)))"
proof -
  let ?P = "\<lambda>d. canonicals d = rows"
  let ?Q = "\<lambda>c d. seenUpTo rows (canonicals d) \<and> current c (canonicals d)"
  let ?E = "\<lambda>e d. seenUpTo rows (canonicals d)"
  let ?F = "freshCanonical (TenantID ev) ''customer'' (Source ev) (EntityID ev)"
  have link: "valid (\<lambda>s. ?P (db s) \<and> current c rows)
      (thenM (AddProviderID (TenantID ev) ''customer'' eid (Source ev) (EntityID ev)) (ret (c\<lparr>cr_ProviderIDs := x\<rparr>))
        :: (('w, 'z) st_scheme, CanonicalRecord) M)
      (\<lambda>c s. ?Q c (db s)) (\<lambda>e s. ?E e (db s))" for eid c x
    unfolding AddProviderID_def
    by (rule valid_thenM [OF valid_WithTenant [where Q = "\<lambda>_. ?Q c"]])
      (auto intro!: valid_ret seenUpTo_same linked_versions intro: current_cong [OF linked_versions])
  have email: "valid (\<lambda>s. ?P (db s))
      (GetCanonicalByEmail (TenantID ev) ''customer'' (Email cust) :: (('w, 'z) st_scheme, CanonicalRecord) M)
      (\<lambda>c s. ?P (db s) \<and> current c rows) (\<lambda>e s. ?P (db s))"
    unfolding GetCanonicalByEmail_def
    by (rule valid_WithTenant) (use ok in \<open>auto simp: rowOr_Inr intro: current_member dest: findRow_SomeD\<close>)
  have provider: "valid (\<lambda>s. ?P (db s))
      (GetCanonicalByProvider (TenantID ev) ''customer'' (Source ev) (EntityID ev) :: (('w, 'z) st_scheme, CanonicalRecord) M)
      (\<lambda>c s. ?P (db s) \<and> current c rows)
      (\<lambda>e s. ?P (db s) \<and> (e = ErrNotFound \<longrightarrow> current (freshCanonical (TenantID ev) ''customer'' (Source ev) (EntityID ev)) rows))"
  proof (rule validI)
    fix s s' :: "('w, 'z) st_scheme" and c
    assume "canonicals (db s) = rows" "GetCanonicalByProvider (TenantID ev) ''customer'' (Source ev) (EntityID ev) s = (Inr c, s')"
    then show "canonicals (db s') = rows \<and> current c rows"
      unfolding GetCanonicalByProvider_def
      using ok by (auto simp: rowOr_Inr dest!: WithTenant_Inr findRow_SomeD intro: current_member)
  next
    fix s s' :: "('w, 'z) st_scheme" and e
    assume s: "canonicals (db s) = rows" "GetCanonicalByProvider (TenantID ev) ''customer'' (Source ev) (EntityID ev) s = (Inl e, s')"
    then have "canonicals (db s') = rows"
      unfolding GetCanonicalByProvider_def by (auto dest!: WithTenant_Inl)
    moreover have "e = ErrNotFound \<longrightarrow> current (freshCanonical (TenantID ev) ''customer'' (Source ev) (EntityID ev)) rows"
      using quiet_linked [of "\<lambda>_. True" ev, THEN quietE, of s] s col
      by (auto simp: linked_def intro: current_fresh)
    ultimately show "canonicals (db s') = rows \<and> (e = ErrNotFound \<longrightarrow> current (freshCanonical (TenantID ev) ''customer'' (Source ev) (EntityID ev)) rows)" ..
  qed
  have tail: "valid (\<lambda>s. ?P (db s))
      (if Email cust \<noteq> [] then
         bindM (attempt (GetCanonicalByEmail (TenantID ev) ''customer'' (Email cust))) (\<lambda>r'. case r' of
             Inl e' \<Rightarrow> if e' \<noteq> ErrNotFound then throw e' else ret ?F
           | Inr canonical \<Rightarrow>
               thenM (AddProviderID (TenantID ev) ''customer'' (cr_EntityID canonical) (Source ev) (EntityID ev))
                 (ret (canonical\<lparr>cr_ProviderIDs := gset (Source ev) (EntityID ev) (cr_ProviderIDs canonical)\<rparr>)))
       else ret ?F :: (('w, 'z) st_scheme, CanonicalRecord) M) (\<lambda>c s. ?Q c (db s)) (\<lambda>e s. ?E e (db s))"
    if "current ?F rows"
    by (intro valid_if valid_ret valid_bindM_attempt [OF email])
      (use that in \<open>auto intro!: link valid_if valid_ret valid_throw\<close>)
  show ?thesis
    unfolding resolveCanonical_def Let_def
  proof (rule valid_bindM_attempt [OF provider], goal_cases)
    case (1 c)
    show ?case
      by (auto intro: valid_ret)
  next
    case (2 e)
    show ?case
    proof (cases "e = ErrNotFound \<and> current ?F rows")
      case True
      then show ?thesis
        using tail by simp
    qed (auto simp: valid_def throw_def)
  qed
qed

lemma persistUpsert_seen:
  assumes "current c rows" "gget 0 (cr_SourceVersions c) (Source ev) < SourceVersion ev"
  shows "valid (\<lambda>s. canonicals (db s) = rows) (persistUpsert L ev ety pols c cust fp :: (('w, 'z) st_scheme, unit) M)
     (\<lambda>_ s. seenUpTo rows (canonicals (db s))) (\<lambda>_ s. seenUpTo rows (canonicals (db s)))"
proof (rule validI)
  fix s s' :: "('w, 'z) st_scheme" and u
  assume s: "canonicals (db s) = rows" and run: "persistUpsert L ev ety pols c cust fp s = (Inr u, s')"
  from run show "seenUpTo rows (canonicals (db s'))"
  proof (cases rule: persistUpsert_Inr)
    case (1 n i ids)
    then show ?thesis
      unfolding 1(3) s by (intro seenUpTo_put [OF assms(1)]) (use assms(2) in \<open>auto simp: crKey_def\<close>)
  qed
next
  fix s s' :: "('w, 'z) st_scheme" and e
  assume s: "canonicals (db s) = rows" and "persistUpsert L ev ety pols c cust fp s = (Inl e, s')"
  then show "seenUpTo rows (canonicals (db s'))"
    using errKeepsD [OF errKeeps_persistUpsert [where g = canonicals]] by fastforce
qed

lemma mergeAndPropagate_seen:
  assumes "current c rows" "gget 0 (cr_SourceVersions c) (Source ev) < SourceVersion ev"
  shows "valid (\<lambda>s. canonicals (db s) = rows) (mergeAndPropagate L ev ety pols c cust :: (('w, 'z) st_scheme, unit) M)
     (\<lambda>_ s. seenUpTo rows (canonicals (db s))) (\<lambda>_ s. seenUpTo rows (canonicals (db s)))"
proof -
  have conflict: "valid (\<lambda>s. canonicals (db s) = rows) (ignore (recordConflict L ev ety c inc det st strat) :: (('w, 'z) st_scheme, unit) M)
      (\<lambda>_ s. canonicals (db s) = rows) (\<lambda>_ s. seenUpTo rows (canonicals (db s)))" for inc det st strat
    using valid_keeps [OF keeps_ignore [OF frame_recordConflict [where f = canonicals]], where P = "\<lambda>x. x = rows"]
    by (rule valid_weaken) auto
  show ?thesis
    unfolding mergeAndPropagate_def Let_def
    by (intro valid_prod valid_if valid_thenM [OF _ persistUpsert_seen [OF assms]] conflict valid_ret
        valid_weaken [OF conflict]) auto
qed

lemma applyUpsert_seen:
  assumes ok: "keysOk crKey rows" "noCollision ev rows" and res: "ResolvedConflictID (ev_Provenance ev) = []"
  shows "valid (\<lambda>s. canonicals (db s) = rows) (applyUpsert L ev ''customer'' pols :: (('w, 'z) st_scheme, unit) M)
     (\<lambda>_ s. seenUpTo rows (canonicals (db s))) (\<lambda>_ s. seenUpTo rows (canonicals (db s)))"
proof -
  let ?S = "\<lambda>s :: ('w, 'z) st_scheme. seenUpTo rows (canonicals (db s))"
  have body: "valid (\<lambda>s. ?S s \<and> current c (canonicals (db s)))
      (if SourceVersion ev \<le> gget 0 (cr_SourceVersions c) (Source ev) then ret ()
       else bindM (isEcho L (TenantID ev) ''customer'' (cr_EntityID c) (Source ev) cust) (\<lambda>echo.
         if echo then ret () else mergeAndPropagate L ev ''customer'' pols c cust)) (\<lambda>_. ?S) (\<lambda>_. ?S)" for c cust
  proof (rule valid_if, rule valid_ret, simp,
      rule valid_bindM [where Q = "\<lambda>_ s. ?S s \<and> current c (canonicals (db s))"], goal_cases)
    case 1
    show ?case
      using valid_keeps [OF keeps_isEcho(1) [where f = canonicals], where P = "\<lambda>x. seenUpTo rows x \<and> current c x"]
      by (rule valid_weaken) auto
  next
    case (2 echo)
    have "valid (\<lambda>s. ?S s \<and> current c (canonicals (db s))) (mergeAndPropagate L ev ''customer'' pols c cust) (\<lambda>_. ?S) (\<lambda>_. ?S)"
      unfolding valid_def
    proof (intro allI impI)
      fix s :: "('w, 'z) st_scheme"
      assume s: "?S s \<and> current c (canonicals (db s))"
      then have "valid (\<lambda>s'. canonicals (db s') = canonicals (db s)) (mergeAndPropagate L ev ''customer'' pols c cust) (\<lambda>_. ?S) (\<lambda>_. ?S)"
        using 2 by (intro valid_weaken [OF mergeAndPropagate_seen [where rows = "canonicals (db s)"]])
          (auto intro: seenUpTo_trans)
      then show "case mergeAndPropagate L ev ''customer'' pols c cust s of (Inl e, s') \<Rightarrow> ?S s' | (Inr x, s') \<Rightarrow> ?S s'"
        unfolding valid_def by simp
    qed
    then show ?case
      by (auto intro!: valid_if valid_ret)
  qed
  have connect: "valid (\<lambda>s. canonicals (db s) = rows) (connectTo t src) (\<lambda>_ s. canonicals (db s) = rows) (\<lambda>_. ?S)" for t src
    using valid_keeps [OF keeps_connectTo(1) [where f = canonicals], where P = "\<lambda>x. x = rows"]
    by (rule valid_weaken) auto
  show ?thesis
    unfolding applyUpsert_def Let_def
    by (auto simp: res intro!: valid_option valid_throw valid_bindM [OF connect]
        valid_bindM [OF resolveCanonical_current [OF ok]] body)
qed

section \<open>Deletions\<close>

lemma findRow_updated:
  assumes "findRow P rows = Some c" "key c = k" "\<And>r. key r = k \<Longrightarrow> P (f r)"
  shows "\<exists>r. findRow P (updateWhere (\<lambda>r. key r = k) f rows) = Some (f r)"
  using assms by (induction rows) (auto split: if_splits)

lemma linked_put:
  assumes l: "linked ev d = Some c" and c': "crKey c' = crKey c" "cr_ProviderIDs c' = cr_ProviderIDs c"
  shows "\<exists>old. linked ev (d'\<lparr>canonicals := putCanonical n c' (canonicals d)\<rparr>) = Some (crMerge n old c')"
proof -
  have c: "c \<in> set (canonicals d)" and t: "cr_TenantID c = TenantID ev" "cr_EntityType c = ''customer''"
      "map_of (cr_ProviderIDs c) (Source ev) = Some (EntityID ev)"
    using l by (auto simp: linked_def dest: findRow_SomeD)
  then have "hasKey crKey (crKey c') (canonicals d)"
    using c' by (auto simp: hasKey_def)
  moreover have "cr_TenantID c' = TenantID ev" "cr_EntityType c' = ''customer''"
    using c' t by (simp_all add: crKey_def)
  ultimately show ?thesis
    using findRow_updated [OF l [unfolded linked_def], of crKey "crKey c'" "\<lambda>r. crMerge n r c'"] c' t
    by (simp add: linked_def putCanonical_def upsertBy_def crMerge_def)
qed

lemma UpsertCanonical_Inr:
  assumes "UpsertCanonical L c s = (Inr r, s')"
  obtains n i where "db s' = (db s)\<lparr>canonicals := putCanonical n (c\<lparr>cr_SyncID := i, cr_CreatedAt := n, cr_UpdatedAt := n\<rparr>) (canonicals (db s))\<rparr>"
proof -
  obtain i s1 where i: "newID L s = (Inr i, s1)"
    and w: "WithTenant (\<lambda>n d. let row = c\<lparr>cr_SyncID := i, cr_CreatedAt := n, cr_UpdatedAt := n\<rparr>;
         rows = putCanonical n row (canonicals d) in
     rowOr ErrNotFound (getBy crKey (crKey c) rows) (d\<lparr>canonicals := rows\<rparr>)) s1 = (Inr r, s')"
    using assms by (auto simp: UpsertCanonical_def bindM_Inr)
  then show thesis
    using WithTenant_Inr [OF w] newID_Inr [OF i] by (intro that [of "now s" i]) (auto simp: Let_def rowOr_Inr)
qed

definition deleted :: "Event \<Rightarrow> CanonicalRecord \<Rightarrow> CanonicalRecord" where
  "deleted ev c = c\<lparr>cr_Tombstone := True,
     cr_SourceVersions := gset (Source ev) (SourceVersion ev) (cr_SourceVersions c),
     cr_Version := i64 (cr_Version c + 1), cr_OriginSource := Source ev, cr_OriginEventID := EventID ev\<rparr>"

lemma applyDelete_Inr:
  assumes run: "applyDelete L ev ''customer'' pols s = (Inr u, s')" and l: "linked ev (db s) = Some c" and t: "\<not> cr_Tombstone c"
  obtains n i where "canonicals (db s') = putCanonical n ((deleted ev c)\<lparr>cr_SyncID := i, cr_CreatedAt := n, cr_UpdatedAt := n\<rparr>) (canonicals (db s))"
proof -
  let ?loop = "forM pols (\<lambda>p _.
              let dstID = gget [] (cr_ProviderIDs c) (po_Destination p) in
              if po_DeletePolicy p \<noteq> ''propagate'' \<or> dstID = [] then ret ()
              else
                bindM (connectTo (TenantID ev) (po_Destination p)) (\<lambda>dstAdapter.
                thenM (DeleteRecord L dstAdapter dstID)
                  (recordSyncOperation (TenantID ev) ''customer'' (cr_EntityID c) (Source ev) (po_Destination p)
                     (SourceVersion ev) (EventID ev) []))) ()"
  from quiet_linked [of "\<lambda>_. True" ev] TrueI show thesis
  proof (cases rule: quietE [where s = s])
    case (err e fs)
    then have "\<exists>e'. fst (applyDelete L ev ''customer'' pols s) = Inl e'"
      using l by (auto simp: applyDelete_def Let_def bindM_run attempt_run throw_def)
    then show thesis
      using run by simp
  next
    case (val c' fs)
    then have c': "c' = c"
      using l by simp
    have "bindM ?loop (\<lambda>_. bindM (UpsertCanonical L (deleted ev c)) (\<lambda>_. ret ())) (s\<lparr>faults := fs\<rparr>) = (Inr u, s')"
      using run val(1) t unfolding c' by (simp add: applyDelete_def Let_def bindM_run attempt_run deleted_def)
    then obtain s2 r where loop: "?loop (s\<lparr>faults := fs\<rparr>) = (Inr (), s2)" and up: "UpsertCanonical L (deleted ev c) s2 = (Inr r, s')"
      by (auto simp: bindM_Inr ret_def)
    have "keeps (\<lambda>s. canonicals (db s)) ?loop"
      unfolding Let_def by (intro keeps_intros frame_intros) simp_all
    from keeps_run [OF this loop] have "canonicals (db s2) = canonicals (db s)"
      by simp
    then show thesis
      using up by (elim UpsertCanonical_Inr) (auto intro!: that)
  qed
qed

lemma quiet_applyDelete_tombstone:
  "quiet (\<lambda>d. \<exists>c. linked ev d = Some c \<and> cr_Tombstone c) (applyDelete L ev ''customer'' pols) (\<lambda>_ _. True) (\<lambda>_ _. True)"
  unfolding applyDelete_def Let_def
  by (rule quiet_bindM_attempt [OF quiet_linked]) (auto intro!: quiet_if quiet_ret quiet_throw intro: quiet_false)

section \<open>Recording conflicts\<close>

lemma InsertConflict_calm:
  assumes "calm s"
  shows "\<exists>r s'. InsertConflict L cf s = (Inr r, s') \<and> hasKey cfKey (cfKey cf) (conflicts (db s'))"
proof -
  define row where "row = cf\<lparr>cf_ID := uuid_of L (seq s), cf_DetectedAt := now s, cf_ResolvedBy := None, cf_ResolvedAt := None\<rparr>"
  define rows where "rows = insertIgnore cfKey row (conflicts (db s))"
  have "hasKey cfKey (cfKey cf) rows"
    by (simp add: rows_def hasKey_insertIgnore) (simp add: row_def cfKey_def)
  then obtain r where "getBy cfKey (cfKey cf) rows = Some r"
    by (auto simp: hasKey_iff_getBy)
  then have "InsertConflict L cf s = (Inr r, s\<lparr>seq := seq s + 1, db := (db s)\<lparr>conflicts := rows\<rparr>\<rparr>)"
    using assms by (simp add: InsertConflict_def bindM_run newID_run WithTenant_ok Let_def row_def [symmetric]
        rows_def [symmetric] rowOr_def)
  then show ?thesis
    using \<open>hasKey cfKey (cfKey cf) rows\<close> by simp
qed

lemma recordConflict_calm:
  assumes "calm s"
  shows "hasKey cfKey (TenantID ev, ety, cr_EntityID c, SourceA f, SourceB f, VersionA f, VersionB f)
     (conflicts (db (snd (recordConflict L ev ety c inc (f # fs) status strategy s))))"
proof -
  define cf where "cf = \<lparr>cf_ID = [], cf_TenantID = TenantID ev, cf_EntityType = ety,
             cf_EntityID = cr_EntityID c, cf_SourceA = SourceA f, cf_VersionA = VersionA f,
             cf_PayloadA = jsonMarshal L (GObj (cr_Fields c)), cf_SourceB = SourceB f,
             cf_VersionB = VersionB f, cf_PayloadB = jsonMarshal L (GObj inc), cf_DetectedAt = 0,
             cf_Status = status, cf_ResolutionStrategy = strategy, cf_ResolvedBy = None,
             cf_ResolvedAt = None\<rparr>"
  obtain r s' where "InsertConflict L cf s = (Inr r, s')" "hasKey cfKey (cfKey cf) (conflicts (db s'))"
    using InsertConflict_calm [OF assms] by blast
  then show ?thesis
    by (simp add: recordConflict_def cf_def [symmetric] bindM_run ret_def del: jsonMarshal.simps)
      (simp add: cf_def cfKey_def)
qed

end
