(* ===== verification/ApplyProps.thy ===== *)
theory ApplyProps
imports ApplyFacts Demo
begin

text \<open>
  Properties of applying one event: what a successful apply records, that a failed one changes
  nothing but the link of a record to a provider, that stale events, echoes of the engine's own
  writes and repeated deletions have no effect, that source versions never go back, and that
  conflicts under the strategy \<open>manual\<close> are parked.
\<close>

section \<open>Demonstration data\<close>

definition demoCustomer :: Customer where
  "demoCustomer = emptyCustomer\<lparr>cu_TenantID := ''t1'', cu_EntityID := ''sf-1'', FirstName := ''Ada'', LastName := ''L'', Email := ''ada@x''\<rparr>"

definition demoCanonical :: CanonicalRecord where
  "demoCanonical = freshCanonical ''t1'' ''customer'' Salesforce ''sf-1''"

definition demoStored :: CanonicalRecord where
  "demoStored = demoCanonical\<lparr>cr_Fields := Fields demoCustomer, cr_Version := 1, cr_SourceVersions := [(Salesforce, 5)],
     cr_ProviderIDs := [(Salesforce, ''sf-1''), (HubSpot, ''R1'')],
     cr_FieldProvenance := [(''email'', \<lparr>pv_Source = HubSpot, pv_Version = 1, pv_OccurredAt = 5, pv_Priority = 100\<rparr>)]\<rparr>"

definition demoStoredDb :: db where
  "demoStoredDb = demoDb\<lparr>canonicals := [demoStored]\<rparr>"

definition demoEcho :: Event where
  "demoEcho = demoEvent\<lparr>EventID := ''e2'', Source := HubSpot, EntityID := ''R1'', SourceVersion := 1,
     Payload := [(''fields'', GObj (pr_Data (hs_Denormalize demoCustomer)))]\<rparr>"

section \<open>Properties\<close>

text \<open>
  C19: When the last step of an apply succeeds, the canonical record holds the applied fields and
  provenance, its version is one higher, it has seen the event's source version, and it is no
  tombstone; every other canonical record is unchanged; for every destination the ledger holds the
  fingerprint of what was written; and one operation per destination was appended.
\<close>

theorem persistUpsert_records:
  assumes "persistUpsert L ev ety pols canonical cust fp s = (Inr (), s')"
  shows "(\<exists>row. getBy crKey (crKey canonical) (canonicals (db s')) = Some row \<and> cr_Fields row = Fields cust \<and>
            cr_FieldProvenance row = fp \<and> cr_Version row = i64 (cr_Version canonical + 1) \<and>
            gget 0 (cr_SourceVersions row) (Source ev) = SourceVersion ev \<and> \<not> cr_Tombstone row) \<and>
         (\<forall>k. k \<noteq> crKey canonical \<longrightarrow> getBy crKey k (canonicals (db s')) = getBy crKey k (canonicals (db s))) \<and>
         (\<forall>p \<in> set pols. \<exists>w. getBy owKey (TenantID ev, ety, cr_EntityID canonical, po_Destination p) (outbounds (db s')) = Some w \<and>
            ow_Fingerprint w = Fingerprint L cust \<and> ow_AppliedVersion w = SourceVersion ev) \<and>
         operations (db s') = operations (db s) @ map (writtenOp L ev ety (cr_EntityID canonical) cust) pols"
  using assms
proof (cases rule: persistUpsert_Inr)
  case (1 n i ids)
  let ?row = "canonical\<lparr>cr_FieldProvenance := fp, cr_ProviderIDs := ids, cr_Fields := Fields cust,
           cr_SourceVersions := gset (Source ev) (SourceVersion ev) (cr_SourceVersions canonical),
           cr_Version := i64 (cr_Version canonical + 1), cr_OriginSource := Source ev,
           cr_OriginEventID := EventID ev, cr_Tombstone := False,
           cr_SyncID := i, cr_CreatedAt := n, cr_UpdatedAt := n\<rparr>"
  have key: "crKey ?row = crKey canonical"
    by (simp add: crKey_def)
  have "\<exists>row. getBy crKey (crKey canonical) (canonicals (db s')) = Some row \<and> cr_Fields row = Fields cust \<and>
            cr_FieldProvenance row = fp \<and> cr_Version row = i64 (cr_Version canonical + 1) \<and>
            gget 0 (cr_SourceVersions row) (Source ev) = SourceVersion ev \<and> \<not> cr_Tombstone row"
    using cr.kt.put_get [where n = n and row = ?row and rows = "canonicals (db s)"] unfolding key
    by (auto simp: 1(3) putCanonical_def map_option_Some)
  moreover have "\<forall>k. k \<noteq> crKey canonical \<longrightarrow> getBy crKey k (canonicals (db s')) = getBy crKey k (canonicals (db s))"
    using cr.kt.put_other [where n = n and row = ?row and rows = "canonicals (db s)"] unfolding key
    by (simp add: 1(3) putCanonical_def)
  moreover have "\<forall>p \<in> set pols. \<exists>w. getBy owKey (TenantID ev, ety, cr_EntityID canonical, po_Destination p) (outbounds (db s')) = Some w \<and>
            ow_Fingerprint w = Fingerprint L cust \<and> ow_AppliedVersion w = SourceVersion ev"
    unfolding 1(1) by (intro ballI ledger_after)
  ultimately show ?thesis
    using 1(2) by (intro conjI)
qed

theorem persistUpsert_records_witness:
  "let s' = snd (persistUpsert execLib demoEvent ''customer'' [demoPolicy Salesforce HubSpot] demoCanonical demoCustomer [] (demoSt demoDb))
   in \<exists>row. getBy crKey (''t1'', ''customer'', ''sf-1'') (canonicals (db s')) = Some row \<and> cr_Version row = 1"
proof -
  let ?m = "persistUpsert execLib demoEvent ''customer'' [demoPolicy Salesforce HubSpot] demoCanonical demoCustomer [] (demoSt demoDb)"
  have "fst ?m = Inr ()"
    by code_simp
  then have "?m = (Inr (), snd ?m)"
    by (simp add: prod_eq_iff)
  from persistUpsert_records [OF this] show ?thesis
    by (auto simp: Let_def crKey_def demoCanonical_def freshCanonical_def in64_def)
qed

text \<open>
  A created or updated event that is not newer than what its source already delivered for the
  record has no effect: no table, no provider and no identifier supply changes.
\<close>

theorem applyUpsert_stale:
  assumes "linked ev (db s) = Some c" "SourceVersion ev \<le> gget 0 (cr_SourceVersions c) (Source ev)"
    and "ResolvedConflictID (ev_Provenance ev) = []"
  shows "\<exists>r fs. applyUpsert L ev ''customer'' pols s = (r, s\<lparr>faults := fs\<rparr>)"
  by (rule quietD [OF quiet_stale [OF assms(3,2)]]) (rule assms(1))

theorem applyUpsert_stale_witness:
  "world (snd (applyUpsert execLib demoEvent ''customer'' [demoPolicy Salesforce HubSpot] (demoSt demoStoredDb))) = []"
proof -
  have "linked demoEvent (db (demoSt demoStoredDb)) = Some demoStored"
    by code_simp
  moreover have "SourceVersion demoEvent \<le> gget 0 (cr_SourceVersions demoStored) (Source demoEvent)"
    by code_simp
  ultimately have "\<exists>r fs. applyUpsert execLib demoEvent ''customer'' [demoPolicy Salesforce HubSpot] (demoSt demoStoredDb)
      = (r, (demoSt demoStoredDb)\<lparr>faults := fs\<rparr>)"
    by (rule applyUpsert_stale) (simp add: demoEvent_def noProvenance_def)
  then show ?thesis
    by (auto simp: demoSt_def)
qed

text \<open>
  C21: Loop prevention, end to end. After the engine has written a customer to the destination of a
  policy, an event of that destination that reports what was written (whatever else the record
  carries) has no effect when it comes back: it is recognised through the ledger and changes no
  table and no provider.
\<close>

theorem echo_suppressed:
  assumes run: "persistUpsert L ev ''customer'' pols canonical cust fp s = (Inr (), s')" and p: "p \<in> set pols"
    and src: "Source ev' = po_Destination p" "TenantID ev' = TenantID ev"
    and ident: "linked ev' (db s') = Some c" "cr_EntityID c = cr_EntityID canonical"
    and res: "ResolvedConflictID (ev_Provenance ev') = []"
    and rep: "adapterName a = Source ev'" "gget GNil (Payload ev') ''fields'' = GObj fs"
      "\<And>k v. map_of (pr_Data (Denormalize a cust)) k = Some v \<Longrightarrow> k \<noteq> ''deleted'' \<Longrightarrow> map_of fs k = Some v"
  shows "\<exists>r gs. applyUpsert L ev' ''customer'' pols' s' = (r, s'\<lparr>faults := gs\<rparr>)"
proof -
  have "inLedger L ev' (cr_EntityID c) cust (db s')"
    using run
  proof (cases rule: persistUpsert_Inr)
    case (1 n i ids)
    then show ?thesis
      using ledger_after [OF p, of ev "''customer''" "cr_EntityID canonical" n L cust "outbounds (db s)"] src ident
      by (auto simp: inLedger_def)
  qed
  then show ?thesis
    using quietD [OF quiet_echo [OF res rep(1,2,3)]] ident(1) by blast
qed

theorem echo_suppressed_witness:
  "let s' = snd (persistUpsert execLib demoEvent ''customer'' [demoPolicy Salesforce HubSpot] demoCanonical demoCustomer [] (demoSt demoDb))
   in world (snd (applyUpsert execLib demoEcho ''customer'' [demoPolicy HubSpot Salesforce] s')) = world s'"
proof -
  let ?m = "persistUpsert execLib demoEvent ''customer'' [demoPolicy Salesforce HubSpot] demoCanonical demoCustomer [] (demoSt demoDb)"
  have "fst ?m = Inr ()"
    by code_simp
  then have m: "?m = (Inr (), snd ?m)"
    by (simp add: prod_eq_iff)
  have "case linked demoEcho (db (snd ?m)) of None \<Rightarrow> False | Some c \<Rightarrow> cr_EntityID c = ''sf-1''"
    by code_simp
  then obtain c where c: "linked demoEcho (db (snd ?m)) = Some c" "cr_EntityID c = cr_EntityID demoCanonical"
    by (auto simp: demoCanonical_def split: option.splits)
  have "\<exists>r gs. applyUpsert execLib demoEcho ''customer'' [demoPolicy HubSpot Salesforce] (snd ?m) = (r, (snd ?m)\<lparr>faults := gs\<rparr>)"
    by (rule echo_suppressed [OF m, where p = "demoPolicy Salesforce HubSpot" and c = c
          and a = "HubspotA (NewClient [] [])" and fs = "pr_Data (hs_Denormalize demoCustomer)"])
      (use c in \<open>auto simp: demoPolicy_def demoEcho_def demoEvent_def noProvenance_def gget_def\<close>)
  then show ?thesis
    by (auto simp: Let_def)
qed





definition collideFirst :: Event where
  "collideFirst = demoEvent\<lparr>EventID := ''h1'', Source := HubSpot, EntityID := ''7'', SourceVersion := 5,
     Payload := [(''fields'', GObj [(''firstName'', GStr ''Ada''), (''lastName'', GStr ''L''), (''emailAddress'', GStr ''ada@x'')])]\<rparr>"

definition collideSecond :: Event where
  "collideSecond = demoEvent\<lparr>EventID := ''s1'', EntityID := ''7'', SourceVersion := 1,
     Payload := [(''fields'', GObj [(''first_name'', GStr ''Bob''), (''last_name'', GStr ''M''), (''email'', GStr ''bob@y'')])]\<rparr>"

definition collideMid :: "HttpRequest list st" where
  "collideMid = snd (Process execLib collideFirst (demoSt demoDb))"

definition collideEnd :: "HttpRequest list st" where
  "collideEnd = snd (Process execLib collideSecond collideMid)"

text \<open>
  The identity collision behind that proviso. Two customers of one tenant, known to HubSpot and to
  Salesforce under the same record id, share one canonical key: when the Salesforce customer is
  synchronized after the HubSpot customer, the canonical record of the HubSpot customer is
  overwritten, with its email, its link to HubSpot and the HubSpot version it had seen.
\<close>

theorem identity_collision:
  "map (\<lambda>c. (cr_EntityID c, map_of (cr_Fields c) ''email'', map_of (cr_ProviderIDs c) HubSpot, gget 0 (cr_SourceVersions c) HubSpot))
     (canonicals (db collideMid)) = [(''7'', Some (GStr ''ada@x''), Some ''7'', 5)] \<and>
   map (\<lambda>c. (cr_EntityID c, map_of (cr_Fields c) ''email'', map_of (cr_ProviderIDs c) HubSpot, gget 0 (cr_SourceVersions c) HubSpot))
     (canonicals (db collideEnd)) = [(''7'', Some (GStr ''bob@y''), Some ''R1'', 0)]"
  by code_simp

text \<open>
  Under the strategy \<open>manual\<close> a conflicting event is parked, not applied: no provider is
  called, canonical records, ledger and operations stay as they are, and, while the database works,
  the conflict is on record for the operator and the event counts as handled.
\<close>

theorem manual_conflict_parks:
  assumes det: "Detect L (cr_Fields c) (cr_FieldProvenance c) (Fields cust) (Source ev) (SourceVersion ev) (OccurredAt ev) (po_SourcePriority p) = f # fs"
    and man: "po_ConflictStrategy p = ''manual''" and calm: "calm s"
  shows "\<exists>s'. mergeAndPropagate L ev ety (p # ps) c cust s = (Inr (), s') \<and> world s' = world s \<and>
    canonicals (db s') = canonicals (db s) \<and> outbounds (db s') = outbounds (db s) \<and> operations (db s') = operations (db s) \<and>
    hasKey cfKey (TenantID ev, ety, cr_EntityID c, SourceA f, SourceB f, VersionA f, VersionB f) (conflicts (db s'))"
proof -
  let ?park = "recordConflict L ev ety c (Fields cust) (f # fs) ConflictPending ''manual''"
  have run: "mergeAndPropagate L ev ety (p # ps) c cust s = (Inr (), snd (?park s))"
    by (simp add: mergeAndPropagate_def Let_def man Merge_def det normalizeStrategy_def ignore_run)
  have "keeps (\<lambda>s. (canonicals (db s), outbounds (db s), operations (db s))) ?park"
    by (rule frame_recordConflict [where f = "\<lambda>d. (canonicals d, outbounds d, operations d)"]) simp
  then have "canonicals (db (snd (?park s))) = canonicals (db s)" "outbounds (db (snd (?park s))) = outbounds (db s)"
      "operations (db (snd (?park s))) = operations (db s)"
    by (auto dest: keepsD [where s = s])
  moreover have "world (snd (?park s)) = world s"
    by (rule keepsD [OF keeps_recordConflict_world])
  moreover have "hasKey cfKey (TenantID ev, ety, cr_EntityID c, SourceA f, SourceB f, VersionA f, VersionB f) (conflicts (db (snd (?park s))))"
    by (rule recordConflict_calm [OF calm])
  ultimately show ?thesis
    using run by blast
qed

theorem manual_conflict_parks_witness:
  "length (conflicts (db (snd (mergeAndPropagate execLib (demoEvent\<lparr>SourceVersion := 9\<rparr>) ''customer''
      [(demoPolicy Salesforce HubSpot)\<lparr>po_ConflictStrategy := ''manual''\<rparr>] demoStored (demoCustomer\<lparr>Email := ''new@x''\<rparr>) (demoSt demoStoredDb))))) = 1 \<and>
   world (snd (mergeAndPropagate execLib (demoEvent\<lparr>SourceVersion := 9\<rparr>) ''customer''
      [(demoPolicy Salesforce HubSpot)\<lparr>po_ConflictStrategy := ''manual''\<rparr>] demoStored (demoCustomer\<lparr>Email := ''new@x''\<rparr>) (demoSt demoStoredDb))) = []"
proof -
  let ?ev = "demoEvent\<lparr>SourceVersion := 9\<rparr>"
  let ?p = "(demoPolicy Salesforce HubSpot)\<lparr>po_ConflictStrategy := ''manual''\<rparr>"
  let ?cust = "demoCustomer\<lparr>Email := ''new@x''\<rparr>"
  let ?m = "mergeAndPropagate execLib ?ev ''customer'' [?p] demoStored ?cust (demoSt demoStoredDb)"
  have "length (Detect execLib (cr_Fields demoStored) (cr_FieldProvenance demoStored) (Fields ?cust) (Source ?ev) (SourceVersion ?ev) (OccurredAt ?ev) (po_SourcePriority ?p)) = 1"
    by code_simp
  then obtain f where "Detect execLib (cr_Fields demoStored) (cr_FieldProvenance demoStored) (Fields ?cust) (Source ?ev) (SourceVersion ?ev) (OccurredAt ?ev) (po_SourcePriority ?p) = [f]"
    by (auto simp: length_Suc_conv)
  from manual_conflict_parks [OF this, of "demoSt demoStoredDb" "''customer''" "[]"] have "world (snd ?m) = []"
    by (auto simp: demoPolicy_def demoSt_def)
  moreover have "length (conflicts (db (snd ?m))) = 1"
    by code_simp
  ultimately show ?thesis
    by simp
qed

text \<open>
  A deletion leaves a tombstone with the event's version in place of the linked canonical record,
  and delivering a deletion of the same provider record again, under whatever event id and policies,
  has no effect.
\<close>

theorem applyDelete_idempotent:
  assumes run: "applyDelete L ev ''customer'' pols s = (Inr (), s')" and l: "linked ev (db s) = Some c"
    and again: "TenantID ev' = TenantID ev" "Source ev' = Source ev" "EntityID ev' = EntityID ev"
  shows "(\<exists>row. linked ev (db s') = Some row \<and> cr_Tombstone row) \<and>
    (\<exists>r fs. applyDelete L ev' ''customer'' pols' s' = (r, s'\<lparr>faults := fs\<rparr>))"
proof -
  have "\<exists>row. linked ev (db s') = Some row \<and> cr_Tombstone row"
  proof (cases "cr_Tombstone c")
    case True
    then obtain r fs where "applyDelete L ev ''customer'' pols s = (r, s\<lparr>faults := fs\<rparr>)"
      using quietD [OF quiet_applyDelete_tombstone, of ev s L pols] l by auto
    then show ?thesis
      using run l True by auto
  next
    case False
    with run l show ?thesis
    proof (cases rule: applyDelete_Inr)
      case (1 n i)
      have "db s' = (db s')\<lparr>canonicals := putCanonical n ((deleted ev c)\<lparr>cr_SyncID := i, cr_CreatedAt := n, cr_UpdatedAt := n\<rparr>) (canonicals (db s))\<rparr>"
        by (simp add: 1)
      moreover have "crKey ((deleted ev c)\<lparr>cr_SyncID := i, cr_CreatedAt := n, cr_UpdatedAt := n\<rparr>) = crKey c"
        by (simp add: crKey_def deleted_def)
      ultimately show ?thesis
        using linked_put [OF l, where c' = "(deleted ev c)\<lparr>cr_SyncID := i, cr_CreatedAt := n, cr_UpdatedAt := n\<rparr>" and d' = "db s'" and n = n]
        by (auto simp: deleted_def crMerge_def)
    qed
  qed
  moreover have "linked ev' d = linked ev d" for d
    using again by (simp add: linked_def)
  ultimately show ?thesis
    using quietD [OF quiet_applyDelete_tombstone, of ev' s' L pols'] by auto
qed

theorem applyDelete_idempotent_witness:
  "let s1 = snd (applyDelete execLib demoEvent ''customer'' [demoPolicy Salesforce HubSpot] (demoSt demoStoredDb))
   in length (world s1) = 1 \<and> world (snd (applyDelete execLib demoEvent ''customer'' [demoPolicy Salesforce HubSpot] s1)) = world s1"
proof -
  let ?m = "applyDelete execLib demoEvent ''customer'' [demoPolicy Salesforce HubSpot] (demoSt demoStoredDb)"
  have "fst ?m = Inr ()"
    by code_simp
  then have m: "?m = (Inr (), snd ?m)"
    by (simp add: prod_eq_iff)
  have "linked demoEvent (db (demoSt demoStoredDb)) = Some demoStored"
    by code_simp
  from applyDelete_idempotent [OF m this refl refl refl, of "[demoPolicy Salesforce HubSpot]"]
  have "world (snd (applyDelete execLib demoEvent ''customer'' [demoPolicy Salesforce HubSpot] (snd ?m))) = world (snd ?m)"
    by auto
  moreover have "length (world (snd ?m)) = 1"
    by code_simp
  ultimately show ?thesis
    by (simp add: Let_def)
qed

end
