(* ===== verification/RetryEngine.thy ===== *)
theory RetryEngine
imports WorkerProps
begin

text \<open>
  The retry engine (\<open>internal/retry/engine.go\<close>): it drains the due rows of the retry queue, runs
  each event through the worker again, and moves events that cannot succeed, or have failed too
  often, to the dead-letter queue. \<open>processRetry\<close> and \<open>drain\<close> log their errors and go on, so they
  never fail. The polling loop runs \<open>drain\<close> at each tick of the clock.

  The properties: an entry that is processed is either gone or has one attempt more and attempts
  left, so it leaves the queue after finitely many rounds; and it never leaves the queue without
  its event being applied, irrelevant or in an open dead letter.
\<close>

section \<open>Options\<close>

record RetryOptions =
  BaseDelay :: int
  MaxDelay :: int
  MaxAttempts :: int
  PollEvery :: int
  BatchSize :: int

definition retryDefaults :: RetryOptions where
  "retryDefaults = \<lparr>BaseDelay = 1 * second, MaxDelay = 60 * second, MaxAttempts = 8,
     PollEvery = 250 * 1000000, BatchSize = 100\<rparr>"

definition retryWithOptions :: "RetryOptions \<Rightarrow> RetryOptions \<Rightarrow> RetryOptions" where
  "retryWithOptions e o' =
     e\<lparr>BaseDelay := (if BaseDelay o' > 0 then BaseDelay o' else BaseDelay e),
       MaxDelay := (if MaxDelay o' > 0 then MaxDelay o' else MaxDelay e),
       MaxAttempts := (if MaxAttempts o' > 0 then MaxAttempts o' else MaxAttempts e),
       PollEvery := (if PollEvery o' > 0 then PollEvery o' else PollEvery e),
       BatchSize := (if BatchSize o' > 0 then BatchSize o' else BatchSize e)\<rparr>"

section \<open>Processing an entry\<close>

definition retryDeadLetter ::
  "('w, 'x) lib_scheme \<Rightarrow> RetryEntry \<Rightarrow> string \<Rightarrow> string \<Rightarrow> string \<Rightarrow> (('w, 'z) st_scheme, unit) M" where
  "retryDeadLetter L r reason errorClass state =
     bindM (attempt (InsertDeadLetter L \<lparr>dl_ID = [], dl_TenantID = re_TenantID r, dl_EventID = re_EventID r,
        dl_Reason = reason, dl_ErrorClass = errorClass, dl_Payload = state, dl_Status = [],
        dl_CreatedAt = 0, dl_ResolvedAt = None\<rparr>)) (\<lambda>x.
     case x of
       Inl _ \<Rightarrow> ret ()
     | Inr _ \<Rightarrow> ignore (SetSourceEventStatusTo (re_TenantID r) (re_EventID r) ''dlq''))"

definition discard :: "RetryEntry \<Rightarrow> (('w, 'z) st_scheme, unit) M" where
  "discard r = ignore (DeleteRetry (re_TenantID r) (re_EventID r))"

definition engineDelay :: "rat \<Rightarrow> int \<Rightarrow> RetryOptions \<Rightarrow> int \<Rightarrow> int" where
  "engineDelay u failureCount opts retryAfter =
     (let d0 = ComputeDelay u failureCount (BaseDelay opts) (MaxDelay opts);
          d1 = (if retryAfter > 0 \<and> retryAfter < d0 then retryAfter else d0)
      in if d1 > MaxDelay opts then MaxDelay opts else d1)"

definition processRetry ::
  "('w, 'x) lib_scheme \<Rightarrow> RetryOptions \<Rightarrow> RetryEntry \<Rightarrow> (('w, 'z) st_scheme, unit) M" where
  "processRetry L opts r =
     (case event_unmarshal L (re_State r) of
        None \<Rightarrow>
          thenM (retryDeadLetter L r ''corrupt retry state'' ErrSchema (re_State r)) (discard r)
      | Some ev \<Rightarrow>
          bindM (attempt (Process L ev)) (\<lambda>x.
          case x of
            Inr _ \<Rightarrow>
              thenM (ignore (DeleteRetry (re_TenantID r) (re_EventID r)))
                (ignore (ResolveDeadLetterForEvent (re_TenantID r) (re_EventID r)))
          | Inl err \<Rightarrow>
              (case Classify err of (kind, retryAfter) \<Rightarrow>
                 if \<not> ShouldRetry kind then
                   thenM (retryDeadLetter L r (errorText err) kind (re_State r)) (discard r)
                 else
                   let failureCount = re_Attempt r + 1 in
                   if failureCount \<ge> re_MaxAttempts r then
                     thenM (retryDeadLetter L r (errorText err) kind (re_State r)) (discard r)
                   else
                     bindM (randFloat L) (\<lambda>u.
                     ignore (EnqueueRetry \<lparr>re_TenantID = re_TenantID r, re_EventID = re_EventID r,
                        re_Attempt = 0, re_MaxAttempts = re_MaxAttempts r, re_NextAttemptAt = 0,
                        re_LastError = errorText err, re_ErrorClass = kind, re_State = re_State r\<rparr>
                        (engineDelay u failureCount opts retryAfter))))))"

definition drain :: "('w, 'x) lib_scheme \<Rightarrow> RetryOptions \<Rightarrow> (('w, 'z) st_scheme, int) M" where
  "drain L opts =
     bindM (attempt (ClaimDueRetries (BatchSize opts))) (\<lambda>x.
     case x of
       Inl _ \<Rightarrow> ret 0
     | Inr due \<Rightarrow>
         thenM (forM due (\<lambda>r _. processRetry L opts r) ()) (ret (int (length due))))"

text \<open>The polling loop over the ticks of its ticker, until the context is cancelled.\<close>

definition retryRun :: "('w, 'x) lib_scheme \<Rightarrow> RetryOptions \<Rightarrow> int list \<Rightarrow> (('w, 'z) st_scheme, unit) M" where
  "retryRun L opts ticks =
     forM ticks (\<lambda>t _. thenM (\<lambda>s. (Inr (), s\<lparr>now := t\<rparr>)) (ignore (drain L opts))) ()"

section \<open>Frames\<close>

text \<open>Tables that processing an event does not write.\<close>

definition processFrame :: "(db \<Rightarrow> 'v) \<Rightarrow> bool" where
  "processFrame f \<longleftrightarrow> applyFrame f \<and> (\<forall>d x. f (d\<lparr>processed := x\<rparr>) = f d) \<and> (\<forall>d x. f (d\<lparr>sourceEvents := x\<rparr>) = f d)"

lemma processFrame_untouched [simp]:
  "processFrame retryQueue" "processFrame deadLetters" "processFrame policies" "processFrame connections"
  by (simp_all add: processFrame_def)

lemma frame_failEvent: "processFrame f \<Longrightarrow> keeps (\<lambda>s. f (db s)) (failEvent ev)"
  unfolding failEvent_def by (intro keeps_intros frame_intros) (simp_all add: processFrame_def)

lemma frame_orFail:
  "processFrame f \<Longrightarrow> keeps (\<lambda>s. f (db s)) m \<Longrightarrow> keeps (\<lambda>s. f (db s)) (orFail ev m)"
  unfolding orFail_def by (intro keeps_intros frame_failEvent)

lemma frame_markProcessed: "processFrame f \<Longrightarrow> keeps (\<lambda>s. f (db s)) (markProcessed ev)"
  unfolding markProcessed_def by (intro keeps_intros frame_intros) (simp_all add: processFrame_def)

lemma frame_Process: "processFrame f \<Longrightarrow> keeps (\<lambda>s. f (db s)) (Process L ev)"
  unfolding Process_def processClaimed_def Let_def
  by (intro keeps_intros frame_orFail frame_markProcessed frame_intros) (simp_all add: processFrame_def)

lemma frame_retryDeadLetter:
  "(\<And>d x. f (d\<lparr>deadLetters := x\<rparr>) = f d) \<Longrightarrow> (\<And>d x. f (d\<lparr>sourceEvents := x\<rparr>) = f d) \<Longrightarrow>
   keeps (\<lambda>s. f (db s)) (retryDeadLetter L r reason cls state)"
  unfolding retryDeadLetter_def by (intro keeps_intros frame_intros) simp_all

lemma calm_retryDeadLetter [pres_intros]: "pres calm (retryDeadLetter L r reason cls state)"
  unfolding retryDeadLetter_def by (intro pres_intros)

lemma calm_discard [pres_intros]: "pres calm (discard r)"
  unfolding discard_def by (intro pres_intros)

lemma calm_processRetry [pres_intros]: "pres calm (processRetry L opts r)"
  unfolding processRetry_def Let_def by (intro pres_intros)

lemma calm_drain [pres_intros]: "pres calm (drain L opts)"
  unfolding drain_def by (intro pres_intros)

lemma processRetry_ok: "fst (processRetry L opts r s) = Inr ()"
  by (auto simp: processRetry_def retryDeadLetter_def discard_def run_simps randFloat_def Let_def
      split: option.split sum.split prod.split)

section \<open>What becomes of an entry\<close>

definition parked :: "RetryEntry \<Rightarrow> db \<Rightarrow> bool" where
  "parked r d \<longleftrightarrow> (\<exists>x \<in> set (deadLetters d). dlKey x = reKey r \<and> dl_Payload x = re_State r \<and> dl_Status x = ''open'')"

lemma DeleteRetry_calm:
  "calm s \<Longrightarrow> DeleteRetry t evid s =
     (Inr (), s\<lparr>db := (db s)\<lparr>retryQueue := deleteWhere (\<lambda>r. reKey r = (t, evid)) (retryQueue (db s))\<rparr>\<rparr>)"
  by (simp add: DeleteRetry_def WithTenant_ok)

lemma retryDeadLetter_discard:
  fixes s :: "('w, 'z) st_scheme" and L :: "('w, 'x) lib_scheme" and r reason cls
  assumes "calm s"
  defines "s' \<equiv> snd (thenM (retryDeadLetter L r reason cls (re_State r)) (discard r) s)"
  shows "parked r (db s') \<and> retryQueue (db s') = deleteWhere (\<lambda>x. reKey x = reKey r) (retryQueue (db s))"
proof -
  define e where "e = \<lparr>dl_ID = [], dl_TenantID = re_TenantID r, dl_EventID = re_EventID r,
        dl_Reason = reason, dl_ErrorClass = cls, dl_Payload = re_State r, dl_Status = [],
        dl_CreatedAt = 0, dl_ResolvedAt = None\<rparr>"
  obtain x s1 where run: "InsertDeadLetter L e s = (Inr x, s1)" and c: "calm s1"
    and q: "\<exists>x \<in> set (deadLetters (db s1)). dlKey x = dlKey e \<and> dl_Payload x = dl_Payload e \<and> dl_Status x = ''open''"
    using InsertDeadLetter_calm [OF assms(1)] by blast
  have q1: "retryQueue (db s1) = retryQueue (db s)"
    using keepsD [OF frame_deadLetters(1) [where f = retryQueue], of L e s] run by simp
  have "retryDeadLetter L r reason cls (re_State r) s
      = (Inr (), snd (SetSourceEventStatusTo (re_TenantID r) (re_EventID r) ''dlq'' s1))"
    using run by (simp add: retryDeadLetter_def e_def bindM_run attempt_run ignore_run)
  then have "s' = snd (discard r (snd (SetSourceEventStatusTo (re_TenantID r) (re_EventID r) ''dlq'' s1)))"
    by (simp add: s'_def thenM_run)
  then show ?thesis
    using q q1 c
    by (simp add: parked_def discard_def ignore_run SetSourceEventStatusTo_def WithTenant_ok DeleteRetry_def
        reKey_def dlKey_def e_def)
qed

lemma EnqueueRetry_present:
  assumes "calm s" "hasKey reKey (reKey e) (retryQueue (db s))"
  shows "retryQueue (db (snd (EnqueueRetry e delay s))) =
     updateWhere (\<lambda>x. reKey x = reKey e) (\<lambda>x. reMerge x (e\<lparr>re_Attempt := 1, re_NextAttemptAt := now s + delay\<rparr>)) (retryQueue (db s))"
proof -
  define row where "row = e\<lparr>re_Attempt := 1, re_NextAttemptAt := now s + delay\<rparr>"
  define rows where "rows = upsertBy reKey reMerge row (retryQueue (db s))"
  have k: "reKey row = reKey e"
    by (simp add: row_def reKey_def)
  then have "hasKey reKey (reKey e) rows"
    using re.kt.put_hasKey [of "reKey e" row "retryQueue (db s)"] by (simp add: rows_def)
  then obtain x where "getBy reKey (reKey e) rows = Some x"
    by (auto simp: hasKey_iff_getBy)
  then have "retryQueue (db (snd (EnqueueRetry e delay s))) = rows"
    using assms(1) by (simp add: EnqueueRetry_def WithTenant_ok Let_def row_def [symmetric] rows_def [symmetric] rowOr_def)
  then show ?thesis
    using assms(2) k by (simp add: rows_def upsertBy_def row_def [symmetric])
qed

text \<open>The three outcomes of an entry while the database works.\<close>

lemma processRetry_cases:
  fixes s :: "('w, 'z) st_scheme" and L :: "('w, 'x) lib_scheme" and r opts
  assumes calm: "calm s" and row: "hasKey reKey (reKey r) (retryQueue (db s))"
  defines "s' \<equiv> snd (processRetry L opts r s)"
  obtains
    (applied) ev s1 where "event_unmarshal L (re_State r) = Some ev" "Process L ev s = (Inr (), s1)"
      "retryQueue (db s') = deleteWhere (\<lambda>x. reKey x = reKey r) (retryQueue (db s))"
      "processed (db s') = processed (db s1)"
  | (dead) "parked r (db s')"
      "retryQueue (db s') = deleteWhere (\<lambda>x. reKey x = reKey r) (retryQueue (db s))"
  | (again) e delay where "re_Attempt r + 1 < re_MaxAttempts r" "reKey e = reKey r" "re_State e = re_State r"
      "retryQueue (db s') = updateWhere (\<lambda>x. reKey x = reKey r) (\<lambda>x. reMerge x (e\<lparr>re_Attempt := 1, re_NextAttemptAt := delay\<rparr>)) (retryQueue (db s))"
proof (cases "event_unmarshal L (re_State r)")
  case None
  then show thesis
    using retryDeadLetter_discard [OF calm, where L = L and r = r and reason = "''corrupt retry state''" and cls = ErrSchema]
    by (intro dead) (simp_all add: s'_def processRetry_def)
next
  case (Some ev)
  obtain x s1 where run: "Process L ev s = (x, s1)"
    by force
  have c1: "calm s1"
    by (rule calm_run [OF calm_Process calm run])
  have q1: "retryQueue (db s1) = retryQueue (db s)"
    using keepsD [OF frame_Process [OF processFrame_untouched(1)], of L ev s] run by simp
  show thesis
  proof (cases x)
    case (Inr u)
    then have "s' = snd (ResolveDeadLetterForEvent (re_TenantID r) (re_EventID r)
        (snd (DeleteRetry (re_TenantID r) (re_EventID r) s1)))"
      using Some run by (simp add: s'_def processRetry_def bindM_run attempt_run thenM_run ignore_run)
    then have "retryQueue (db s') = deleteWhere (\<lambda>x. reKey x = reKey r) (retryQueue (db s))"
      "processed (db s') = processed (db s1)"
      using c1 q1 by (simp_all add: DeleteRetry_def ResolveDeadLetterForEvent_def WithTenant_ok reKey_def)
    with Some run Inr show thesis
      by (intro applied) simp_all
  next
    case (Inl e)
    have D: "thesis" if "processRetry L opts r s = thenM (retryDeadLetter L r (errorText e) (fst (Classify e)) (re_State r)) (discard r) s1"
      using retryDeadLetter_discard [OF c1, where L = L and r = r and reason = "errorText e" and cls = "fst (Classify e)"] q1 that
      by (intro dead) (simp_all add: s'_def)
    show thesis
    proof (cases "ShouldRetry (fst (Classify e)) \<and> re_Attempt r + 1 < re_MaxAttempts r")
      case False
      then show thesis
        using Some run Inl by (intro D) (auto simp: processRetry_def bindM_run attempt_run case_prod_beta Let_def)
    next
      case True
      define en where "en = \<lparr>re_TenantID = re_TenantID r, re_EventID = re_EventID r,
                        re_Attempt = 0, re_MaxAttempts = re_MaxAttempts r, re_NextAttemptAt = 0,
                        re_LastError = errorText e, re_ErrorClass = fst (Classify e), re_State = re_State r\<rparr>"
      define delay where "delay = engineDelay (rand_float L (seq s1)) (re_Attempt r + 1) opts (snd (Classify e))"
      have k: "reKey en = reKey r" "re_State en = re_State r"
        by (simp_all add: en_def reKey_def)
      have "s' = snd (EnqueueRetry en delay (s1\<lparr>seq := seq s1 + 1\<rparr>))"
        using Some run Inl True
        by (simp add: s'_def processRetry_def bindM_run attempt_run case_prod_beta Let_def randFloat_def ignore_run
            en_def delay_def)
      then show thesis
        using EnqueueRetry_present [of "s1\<lparr>seq := seq s1 + 1\<rparr>" en delay] c1 q1 row True k
        by (intro again [of en "now s1 + delay"]) simp_all
    qed
  qed
qed

section \<open>Entries do not disturb each other\<close>

text \<open>Everything the tables say of the event with a given key.\<close>

definition entryView ::
  "string \<times> string \<Rightarrow> db \<Rightarrow> RetryEntry option \<times> DeadLetter list \<times> ProcessedEvent list \<times> SyncPolicy list" where
  "entryView k d = (getBy reKey k (retryQueue d), filter (\<lambda>x. dlKey x = k) (deadLetters d),
     filter (\<lambda>p. (pe_TenantID p, pe_EventID p) = k) (processed d), policies d)"

lemma entryView_frames [simp]:
  "entryView k (d\<lparr>sourceEvents := a\<rparr>) = entryView k d" "applyFrame (entryView k)"
  by (simp_all add: entryView_def applyFrame_def)

lemma view_retryQueue:
  "reKey e \<noteq> k \<Longrightarrow> keeps (\<lambda>s. entryView k (db s)) (EnqueueRetry e n)"
  "(t, a) \<noteq> k \<Longrightarrow> keeps (\<lambda>s. entryView k (db s)) (DeleteRetry t a)"
proof -
  assume "reKey e \<noteq> k"
  then have "getBy reKey k (upsertBy reKey reMerge (e\<lparr>re_Attempt := 1, re_NextAttemptAt := m\<rparr>) rows) = getBy reKey k rows" for m rows
    using re.kt.put_other [of k "e\<lparr>re_Attempt := 1, re_NextAttemptAt := m\<rparr>" rows] by (auto simp: reKey_def)
  then show "keeps (\<lambda>s. entryView k (db s)) (EnqueueRetry e n)"
    unfolding store_ops by (intro keeps_WithTenant_db) (simp add: Let_def entryView_def)
next
  assume "(t, a) \<noteq> k"
  then have "getBy reKey k (deleteWhere (\<lambda>r. reKey r = (t, a)) rows) = getBy reKey k rows" for rows
    by (induction rows) (auto simp: getBy_def deleteWhere_def)
  then show "keeps (\<lambda>s. entryView k (db s)) (DeleteRetry t a)"
    unfolding store_ops by (intro keeps_WithTenant_db) (simp add: entryView_def)
qed

lemma view_deadLetters:
  "dlKey e \<noteq> k \<Longrightarrow> keeps (\<lambda>s. entryView k (db s)) (InsertDeadLetter L e)"
  "(t, a) \<noteq> k \<Longrightarrow> keeps (\<lambda>s. entryView k (db s)) (ResolveDeadLetterForEvent t a)"
  unfolding store_ops
  by (intro keeps_newID_then keeps_WithTenant_db,
      subst Let_def, subst Let_def, simp add: entryView_def, intro filter_upsertBy;
      auto simp: dlKey_def dlMerge_def)
    (intro keeps_WithTenant_db, simp add: entryView_def, intro filter_updateWhere; auto simp: dlKey_def)

lemma view_processed:
  "(t, a) \<noteq> k \<Longrightarrow> keeps (\<lambda>s. entryView k (db s)) (ClaimProcessedEvent t src a ety eid)"
  "(t, a) \<noteq> k \<Longrightarrow> keeps (\<lambda>s. entryView k (db s)) (ReleaseProcessedEvent t src a)"
  unfolding store_ops
  by (intro keeps_WithTenant_db; simp add: entryView_def claimStmt_def filter_insertIgnore claimRow_def)
    (intro keeps_WithTenant_db, simp add: entryView_def releaseStmt_def, intro filter_deleteWhere; auto simp: peKey_def)

lemmas view_intros = view_retryQueue view_deadLetters view_processed

lemma view_failEvent: "(TenantID ev, EventID ev) \<noteq> k \<Longrightarrow> keeps (\<lambda>s. entryView k (db s)) (failEvent ev)"
  unfolding failEvent_def by (intro keeps_intros view_intros frame_intros) simp_all

lemma view_orFail:
  "(TenantID ev, EventID ev) \<noteq> k \<Longrightarrow> keeps (\<lambda>s. entryView k (db s)) m \<Longrightarrow> keeps (\<lambda>s. entryView k (db s)) (orFail ev m)"
  unfolding orFail_def by (intro keeps_intros view_failEvent)

lemma view_Process: "(TenantID ev, EventID ev) \<noteq> k \<Longrightarrow> keeps (\<lambda>s. entryView k (db s)) (Process L ev)"
  unfolding Process_def processClaimed_def markProcessed_def Let_def
  by (intro keeps_intros view_orFail view_intros frame_intros) simp_all

definition stateKeyed :: "('w, 'x) lib_scheme \<Rightarrow> RetryEntry \<Rightarrow> bool" where
  "stateKeyed L r \<longleftrightarrow> (\<forall>ev. event_unmarshal L (re_State r) = Some ev \<longrightarrow> (TenantID ev, EventID ev) = reKey r)"

lemma view_retryDeadLetter:
  "reKey r \<noteq> k \<Longrightarrow> keeps (\<lambda>s. entryView k (db s)) (retryDeadLetter L r reason cls state)"
  unfolding retryDeadLetter_def by (intro keeps_intros view_intros frame_intros) (simp_all add: reKey_def dlKey_def)

lemma view_discard: "reKey r \<noteq> k \<Longrightarrow> keeps (\<lambda>s. entryView k (db s)) (discard r)"
  unfolding discard_def by (intro keeps_intros view_intros) (simp add: reKey_def)

lemma frame_randFloat [keeps_intros]: "(\<And>s n. f (s\<lparr>seq := n\<rparr>) = f s) \<Longrightarrow> keeps f (randFloat L)"
  by (simp add: keeps_def randFloat_def)

lemma view_processRetry:
  assumes "stateKeyed L r" "reKey r \<noteq> k"
  shows "keeps (\<lambda>s. entryView k (db s)) (processRetry L opts r)"
  using assms unfolding processRetry_def Let_def stateKeyed_def
  by (intro keeps_intros view_retryDeadLetter view_discard view_Process view_intros) (simp_all add: reKey_def)

section \<open>A pass over the due entries\<close>

definition settled :: "('w, 'x) lib_scheme \<Rightarrow> RetryEntry \<Rightarrow> db \<Rightarrow> bool" where
  "settled L r d \<longleftrightarrow> (\<exists>r'. getBy reKey (reKey r) (retryQueue d) = Some r' \<and> re_State r' = re_State r) \<or> parked r d \<or>
     (\<exists>ev. event_unmarshal L (re_State r) = Some ev \<and> (claimedEvent ev d \<or> irrelevant ev d))"

definition advanced :: "RetryEntry \<Rightarrow> db \<Rightarrow> bool" where
  "advanced r d \<longleftrightarrow> (case getBy reKey (reKey r) (retryQueue d) of None \<Rightarrow> True
     | Some r' \<Rightarrow> re_Attempt r' = re_Attempt r + 1 \<and> re_MaxAttempts r' = re_MaxAttempts r \<and>
         re_Attempt r' < re_MaxAttempts r' \<and> re_State r' = re_State r)"

lemma parked_view: "parked r d \<longleftrightarrow> (\<exists>x \<in> set (fst (snd (entryView (reKey r) d))). dl_Payload x = re_State r \<and> dl_Status x = ''open'')"
  by (auto simp: parked_def entryView_def)

lemma claimed_view:
  "(TenantID ev, EventID ev) = k \<Longrightarrow> claimedEvent ev d \<longleftrightarrow> Key ev \<in> peKey ` set (fst (snd (snd (entryView k d))))"
  by (auto simp: claimedEvent_def entryView_def hasKey_def peKey_def Key_def image_iff)

lemma settled_view:
  assumes "entryView (reKey r) d' = entryView (reKey r) d" "stateKeyed L r"
  shows "settled L r d' = settled L r d" "advanced r d' = advanced r d"
proof -
  have "getBy reKey (reKey r) (retryQueue d') = getBy reKey (reKey r) (retryQueue d)" "policies d' = policies d"
    using assms(1) by (simp_all add: entryView_def)
  moreover have "parked r d' = parked r d"
    by (simp add: parked_view assms(1))
  moreover have "claimedEvent ev d' = claimedEvent ev d" if "event_unmarshal L (re_State r) = Some ev" for ev
    using assms(2) that claimed_view [of ev "reKey r"] assms(1) by (simp add: stateKeyed_def)
  ultimately show "settled L r d' = settled L r d" "advanced r d' = advanced r d"
    by (auto simp: settled_def advanced_def irrelevant_def targetsOf_def)
qed

lemma getBy_updateWhere_key:
  "getBy key k rows = Some r \<Longrightarrow> (\<And>x. key x = k \<Longrightarrow> key (f x) = k) \<Longrightarrow>
   getBy key k (updateWhere (\<lambda>x. key x = k) f rows) = Some (f r)"
  by (induction rows) (auto simp: getBy_def split: if_splits)

lemma getBy_deleteWhere_key: "getBy key k (deleteWhere (\<lambda>x. key x = k) rows) = None"
  by (induction rows) (auto simp: getBy_def deleteWhere_def)

lemma policies_processRetry: "keeps (\<lambda>s. policies (db s)) (processRetry L opts r)"
  unfolding processRetry_def retryDeadLetter_def discard_def Let_def
  by (intro keeps_intros frame_Process frame_intros) simp_all

lemma processRetry_settles:
  assumes calm: "calm s" and row: "getBy reKey (reKey r) (retryQueue (db s)) = Some r"
  shows "settled L r (db (snd (processRetry L opts r s))) \<and> advanced r (db (snd (processRetry L opts r s)))"
proof -
  define s' where "s' = snd (processRetry L opts r s)"
  have "hasKey reKey (reKey r) (retryQueue (db s))"
    using row by (simp add: hasKey_iff_getBy)
  from calm this show ?thesis
  proof (cases rule: processRetry_cases [where L = L and opts = opts])
    case (applied ev s1)
    have "targetsOf ev (db s') = targetsOf ev (db s)"
      using keepsD [OF policies_processRetry, of L opts r s] by (simp add: targetsOf_def s'_def)
    then have "claimedEvent ev (db s') \<or> irrelevant ev (db s')"
      using Process_success_claims [OF applied(2)] applied(4) by (auto simp: s'_def claimedEvent_def irrelevant_def)
    then show ?thesis
      using applied(1,3) by (auto simp: s'_def settled_def advanced_def getBy_deleteWhere_key)
  next
    case dead
    then show ?thesis by (simp add: settled_def advanced_def getBy_deleteWhere_key)
  next
    case (again e delay)
    then have "getBy reKey (reKey r) (retryQueue (db s')) = Some (reMerge r (e\<lparr>re_Attempt := 1, re_NextAttemptAt := delay\<rparr>))"
      using getBy_updateWhere_key [OF row] by (simp add: s'_def reMerge_def reKey_def)
    then show ?thesis
      using again(1,3) by (simp add: s'_def settled_def advanced_def reMerge_def)
  qed
qed

abbreviation retryPass ::
  "('w, 'x) lib_scheme \<Rightarrow> RetryOptions \<Rightarrow> RetryEntry list \<Rightarrow> (('w, 'z) st_scheme, unit) M" where
  "retryPass L opts rs \<equiv> forM rs (\<lambda>r _. processRetry L opts r) ()"

lemma retryPass_ok: "fst (retryPass L opts rs s) = Inr ()"
proof (induction rs arbitrary: s)
  case (Cons r rs)
  obtain s1 where "processRetry L opts r s = (Inr (), s1)"
    using processRetry_ok [of L opts r s] by (cases "processRetry L opts r s") auto
  with Cons show ?case by (simp add: bindM_run)
qed (simp add: ret_def)

lemma retryPass_Cons: "snd (retryPass L opts (r # rs) s) = snd (retryPass L opts rs (snd (processRetry L opts r s)))"
proof -
  obtain s1 where "processRetry L opts r s = (Inr (), s1)"
    using processRetry_ok [of L opts r s] by (cases "processRetry L opts r s") auto
  then show ?thesis by (simp add: bindM_run)
qed

lemma retryPass_view:
  assumes "\<forall>r \<in> set rs. stateKeyed L r" "k \<notin> reKey ` set rs"
  shows "keeps (\<lambda>s. entryView k (db s)) (retryPass L opts rs)"
  using assms
proof (induction rs)
  case (Cons r rs)
  then show ?case
    by (auto intro!: keeps_bindM view_processRetry)
qed (simp add: keeps_ret)

lemma pass_settles:
  fixes s :: "('w, 'z) st_scheme"
  assumes "calm s" "distinct (map reKey rs)" "\<forall>r \<in> set rs. stateKeyed L r"
    and "\<forall>r \<in> set rs. getBy reKey (reKey r) (retryQueue (db s)) = Some r" "r \<in> set rs"
  shows "settled L r (db (snd (retryPass L opts rs s))) \<and> advanced r (db (snd (retryPass L opts rs s)))"
  using assms
proof (induction rs arbitrary: s)
  case (Cons x rs)
  define s1 where "s1 = snd (processRetry L opts x s)"
  have c: "calm s1"
    using presD [OF calm_processRetry Cons.prems(1)] by (simp add: s1_def)
  have rest: "getBy reKey (reKey y) (retryQueue (db s1)) = Some y" if "y \<in> set rs" for y
  proof -
    have "reKey x \<noteq> reKey y"
      using Cons.prems(2) that by force
    then have "entryView (reKey y) (db s1) = entryView (reKey y) (db s)"
      using keepsD [OF view_processRetry, of L x "reKey y" opts s] Cons.prems(3) by (simp add: s1_def)
    then show ?thesis
      using Cons.prems(4) that by (simp add: entryView_def)
  qed
  show ?case
  proof (cases "r = x")
    case True
    have "reKey r \<notin> reKey ` set rs" "stateKeyed L r"
      using Cons.prems(2,3) True by auto
    then have "entryView (reKey r) (db (snd (retryPass L opts rs s1))) = entryView (reKey r) (db s1)"
      using keepsD [OF retryPass_view, of rs L "reKey r" opts s1] Cons.prems(3) by simp
    from settled_view [OF this \<open>stateKeyed L r\<close>] show ?thesis
      using processRetry_settles [OF Cons.prems(1), of r L opts] Cons.prems(4) True
      by (simp add: retryPass_Cons s1_def del: forM.simps)
  next
    case False
    then have "settled L r (db (snd (retryPass L opts rs s1))) \<and> advanced r (db (snd (retryPass L opts rs s1)))"
      using Cons.prems c rest by (intro Cons.IH) simp_all
    then show ?thesis
      by (simp add: retryPass_Cons s1_def del: forM.simps)
  qed
qed simp

definition dueEntries :: "RetryOptions \<Rightarrow> int \<Rightarrow> db \<Rightarrow> RetryEntry list" where
  "dueEntries opts n d = take (clampLimit 1000 (BatchSize opts))
     (sort_key re_NextAttemptAt (filter (\<lambda>r. re_NextAttemptAt r \<le> n) (retryQueue d)))"

lemma dueEntries_rows:
  assumes "keysOk reKey (retryQueue d)"
  shows "set (dueEntries opts n d) \<subseteq> set (retryQueue d)" "distinct (map reKey (dueEntries opts n d))"
proof -
  show "set (dueEntries opts n d) \<subseteq> set (retryQueue d)"
    by (auto simp: dueEntries_def dest: in_set_takeD)
  have "distinct (map reKey (filter (\<lambda>r. re_NextAttemptAt r \<le> n) (retryQueue d)))"
    using assms by (simp add: keysOk_def distinct_map_filter)
  then have "distinct (map reKey (sort_key re_NextAttemptAt (filter (\<lambda>r. re_NextAttemptAt r \<le> n) (retryQueue d))))"
    by (simp add: distinct_map)
  then show "distinct (map reKey (dueEntries opts n d))"
    by (simp add: dueEntries_def take_map [symmetric])
qed

lemma drain_run:
  assumes "calm s"
  shows "drain L opts s = (Inr (int (length (dueEntries opts (now s) (db s)))),
     snd (retryPass L opts (dueEntries opts (now s) (db s)) s))"
proof -
  have "ClaimDueRetries (BatchSize opts) s = (Inr (dueEntries opts (now s) (db s)), s)"
    using assms by (simp add: ClaimDueRetries_def WithTenant_ok dueEntries_def)
  moreover obtain s1 where "retryPass L opts (dueEntries opts (now s) (db s)) s = (Inr (), s1)"
    using retryPass_ok [where L = L and opts = opts and rs = "dueEntries opts (now s) (db s)" and s = s]
    by (cases "retryPass L opts (dueEntries opts (now s) (db s)) s") auto
  ultimately show ?thesis
    by (simp add: drain_def bindM_run attempt_run thenM_run ret_def)
qed

lemma drain_due:
  assumes "calm s" "keysOk reKey (retryQueue (db s))" "\<forall>r \<in> set (retryQueue (db s)). stateKeyed L r"
    and "r \<in> set (dueEntries opts (now s) (db s))"
  shows "settled L r (db (snd (drain L opts s))) \<and> advanced r (db (snd (drain L opts s)))"
  using pass_settles [OF assms(1) dueEntries_rows(2) [OF assms(2)] _ _ assms(4), of L opts]
    dueEntries_rows(1) [OF assms(2), of opts "now s"] assms(2,3) keysOk_getBy [OF assms(2)]
  by (simp add: drain_run [OF assms(1)] subset_iff)

lemma drain_rest:
  assumes "calm s" "keysOk reKey (retryQueue (db s))" "\<forall>r \<in> set (retryQueue (db s)). stateKeyed L r"
    and r: "r \<in> set (retryQueue (db s))" "r \<notin> set (dueEntries opts (now s) (db s))"
  shows "entryView (reKey r) (db (snd (drain L opts s))) = entryView (reKey r) (db s)"
proof -
  have "x = r" if "x \<in> set (dueEntries opts (now s) (db s))" "reKey x = reKey r" for x
    using dueEntries_rows(1) [OF assms(2), of opts "now s"] that keysOk_getBy [OF assms(2) r(1)]
      keysOk_getBy [OF assms(2), of x] by auto
  with r(2) have "reKey r \<notin> reKey ` set (dueEntries opts (now s) (db s))"
    by auto
  moreover have "\<forall>x \<in> set (dueEntries opts (now s) (db s)). stateKeyed L x"
    using dueEntries_rows(1) [OF assms(2), of opts "now s"] assms(3) by auto
  ultimately show ?thesis
    using keepsD [OF retryPass_view, of "dueEntries opts (now s) (db s)" L "reKey r" opts s]
    by (simp add: drain_run [OF assms(1)])
qed

section \<open>Properties\<close>


definition demoEntry :: "string \<Rightarrow> int \<Rightarrow> RetryEntry" where
  "demoEntry state n = \<lparr>re_TenantID = TenantID demoEvent, re_EventID = EventID demoEvent, re_Attempt = n,
     re_MaxAttempts = 8, re_NextAttemptAt = 0, re_LastError = ''timeout'', re_ErrorClass = ErrTransient, re_State = state\<rparr>"

definition demoQueued :: "string \<Rightarrow> int \<Rightarrow> db" where
  "demoQueued state n = demoDb\<lparr>retryQueue := [demoEntry state n]\<rparr>"

lemma demoEntry_keyed: "stateKeyed codecLib (demoEntry (event_marshal codecLib demoEvent) n)"
  using codecLib_codec by (simp add: stateKeyed_def demoEntry_def reKey_def eventCodec_def)


text \<open>
  Every entry a pass takes up either leaves the queue or comes back with one attempt more than
  before, the same event, and attempts left; an entry it does not take up is not touched.
\<close>

theorem drain_advances:
  assumes "calm s" "keysOk reKey (retryQueue (db s))" "\<forall>r \<in> set (retryQueue (db s)). stateKeyed L r"
  shows "\<forall>r \<in> set (retryQueue (db s)).
     if r \<in> set (dueEntries opts (now s) (db s)) then advanced r (db (snd (drain L opts s)))
     else getBy reKey (reKey r) (retryQueue (db (snd (drain L opts s)))) = Some r"
proof
  fix r assume r: "r \<in> set (retryQueue (db s))"
  show "if r \<in> set (dueEntries opts (now s) (db s)) then advanced r (db (snd (drain L opts s)))
     else getBy reKey (reKey r) (retryQueue (db (snd (drain L opts s)))) = Some r"
    using drain_due [OF assms, of r opts] drain_rest [OF assms r, of opts] keysOk_getBy [OF assms(2) r]
    by (simp add: entryView_def)
qed

theorem drain_advances_witness:
  "advanced (demoEntry (event_marshal codecLib demoEvent) 1)
     (db (snd (drain codecLib retryDefaults (demoSt (demoQueued (event_marshal codecLib demoEvent) 1)))))"
proof -
  define d where "d = demoQueued (event_marshal codecLib demoEvent) 1"
  have d: "retryQueue (db (demoSt d)) = [demoEntry (event_marshal codecLib demoEvent) 1]" "calm (demoSt d)" "db (demoSt d) = d"
    by (simp_all add: d_def demoSt_def demoQueued_def)
  have "0 \<le> now (demoSt d)"
    by (simp add: demoSt_def)
  then have "dueEntries retryDefaults (now (demoSt d)) d = [demoEntry (event_marshal codecLib demoEvent) 1]"
    using d by (simp add: dueEntries_def demoEntry_def retryDefaults_def clampLimit_def)
  then show ?thesis
    using drain_advances [of "demoSt d" codecLib retryDefaults] d
    by (simp add: d_def [symmetric] demoEntry_keyed keysOk_def)
qed

text \<open>The engine's work on one entry: look its row up, process it if it is there.\<close>

definition retryRound :: "('w, 'x) lib_scheme \<Rightarrow> RetryOptions \<Rightarrow> string \<times> string \<Rightarrow> ('w, 'z) st_scheme \<Rightarrow> ('w, 'z) st_scheme" where
  "retryRound L opts k s = (case getBy reKey k (retryQueue (db s)) of None \<Rightarrow> s | Some r \<Rightarrow> snd (processRetry L opts r s))"

lemma retryRound_calm: "calm s \<Longrightarrow> calm (retryRound L opts k s)"
  using presD [OF calm_processRetry] by (auto simp: retryRound_def split: option.split)

lemma retryRounds_gone:
  "getBy reKey k (retryQueue (db s)) = None \<Longrightarrow> (retryRound L opts k ^^ n) s = s"
  by (induction n) (simp_all add: retryRound_def)

text \<open>
  C11: Retrying an event ends. While the database works, an entry of the retry queue that is
  processed again and again is out of the queue after as many rounds as it has attempts left (one
  round if it has none), whatever the providers answer.
\<close>

theorem retry_terminates:
  assumes "calm s" "getBy reKey k (retryQueue (db s)) = Some r" "n > 0" "int n \<ge> re_MaxAttempts r - re_Attempt r"
  shows "\<not> hasKey reKey k (retryQueue (db ((retryRound L opts k ^^ n) s)))"
  using assms
proof (induction n arbitrary: s r)
  case (Suc n)
  define s1 where "s1 = retryRound L opts k s"
  have k: "reKey r = k"
    by (rule getBy_key [OF Suc.prems(2)])
  have s1: "s1 = snd (processRetry L opts r s)"
    using Suc.prems(2) by (simp add: s1_def retryRound_def)
  have c: "calm s1"
    using retryRound_calm [OF Suc.prems(1)] by (simp add: s1_def)
  have adv: "advanced r (db s1)"
    using processRetry_settles [OF Suc.prems(1), of r L opts] Suc.prems(2) k s1 by simp
  have step: "(retryRound L opts k ^^ Suc n) s = (retryRound L opts k ^^ n) s1"
    by (simp add: funpow_swap1 s1_def)
  show ?case
  proof (cases "getBy reKey k (retryQueue (db s1))")
    case None
    then show ?thesis
      unfolding step retryRounds_gone [OF None] by (simp add: hasKey_iff_getBy)
  next
    case (Some r')
    then have "re_Attempt r' = re_Attempt r + 1" "re_MaxAttempts r' = re_MaxAttempts r" "re_Attempt r' < re_MaxAttempts r'"
      using adv k by (simp_all add: advanced_def)
    then have "n > 0" "int n \<ge> re_MaxAttempts r' - re_Attempt r'"
      using Suc.prems(4) by auto
    then show ?thesis
      unfolding step by (rule Suc.IH [OF c Some])
  qed
qed simp

theorem retry_terminates_witness:
  "\<not> hasKey reKey (TenantID demoEvent, EventID demoEvent)
     (retryQueue (db ((retryRound execLib retryDefaults (TenantID demoEvent, EventID demoEvent) ^^ 7) (demoSt (demoQueued ''{}'' 1)))))"
  by (rule retry_terminates [where r = "demoEntry ''{}'' 1"])
    (simp_all add: demoSt_def demoQueued_def demoEntry_def getBy_def reKey_def)

end
