(* ===== verification/Reconcile.thy ===== *)
theory Reconcile
imports WorkerProps
begin

text \<open>
  Reconciliation (\<open>internal/reconcile/classify.go\<close>, \<open>engine.go\<close>): a sweep over the records of a
  provider that compares each with the canonical model, files every divergence as a finding and, in
  auto mode, repairs it through the worker as far as the delete policy allows.

  The loop over the pages of the provider may go on for as long as the provider announces another
  page, so it takes fuel, and a run that uses it up returns \<open>None\<close>. \<open>seen\<close>, the set of
  provider identifiers met on the sweep, is a list.
\<close>

section \<open>Classification\<close>

definition businessFields :: "string list" where
  "businessFields = [''first_name'', ''last_name'', ''email'', ''phone'', ''company'']"

definition sameFields :: "('x) golib_scheme \<Rightarrow> goval gomap \<Rightarrow> goval gomap \<Rightarrow> bool" where
  "sameFields L a b \<longleftrightarrow> list_all (\<lambda>k. sprint L (gget GNil a k) = sprint L (gget GNil b k)) businessFields"

definition classify :: "('x) golib_scheme \<Rightarrow> CanonicalRecord option \<Rightarrow> goval gomap \<Rightarrow> string" where
  "classify L canonical providerFields =
     (case canonical of
        None \<Rightarrow> FindingMissed
      | Some c \<Rightarrow>
          if cr_Tombstone c then FindingDeleted
          else if \<not> sameFields L (cr_Fields c) providerFields then FindingDrift
          else [])"

definition shouldRecreateMissing :: "string \<Rightarrow> bool" where
  "shouldRecreateMissing deletePolicy \<longleftrightarrow> deletePolicy = ''tombstone_only'' \<or> deletePolicy = ''ignore''"

section \<open>Findings and repairs\<close>

definition repairable :: "ReconciliationFinding \<Rightarrow> string \<Rightarrow> bool" where
  "repairable f deletePolicy =
     (if rf_Kind f = FindingDeleted then deletePolicy = ''propagate''
      else if rf_Kind f = FindingMissing then shouldRecreateMissing deletePolicy
      else True)"

definition policyGateReason :: "string \<Rightarrow> string \<Rightarrow> string" where
  "policyGateReason kind deletePolicy =
     (if kind = FindingDeleted then ''delete_policy='' @ deletePolicy @ '': deletes do not propagate''
      else ''delete_policy='' @ deletePolicy @ '': external deletions are respected'')"

definition repairEvent ::
  "ReconciliationRun \<Rightarrow> SyncJob \<Rightarrow> string \<Rightarrow> ReconciliationFinding \<Rightarrow> int \<Rightarrow> Event" where
  "repairEvent run job ety f n =
     \<lparr>EventID = ''reconcile:'' @ rf_ID f, TenantID = sj_TenantID job, Source = rr_Source run,
      EntityType = ety, EntityID = rf_ProviderID f, EventType = EventUpdated,
      SourceVersion = rf_ProviderVersion f, OccurredAt = n, ReceivedAt = n, CorrelationID = [],
      ev_Provenance = noProvenance\<lparr>ReconcileFindingID := rf_ID f\<rparr>, Payload = []\<rparr>"

definition repair ::
  "('w, 'x) lib_scheme \<Rightarrow> ReconciliationRun \<Rightarrow> SyncJob \<Rightarrow> string \<Rightarrow> ReconciliationFinding \<Rightarrow>
   (('w, 'z) st_scheme, unit) M" where
  "repair L run job ety f = bindM timeNow (\<lambda>n. Process L (repairEvent run job ety f n))"

definition newFinding ::
  "ReconciliationRun \<Rightarrow> SyncJob \<Rightarrow> string \<Rightarrow> ProviderRecord \<Rightarrow> CanonicalRecord option \<Rightarrow> goval gomap \<Rightarrow> ReconciliationFinding" where
  "newFinding run job kind rec canonical providerFields =
     \<lparr>rf_ID = [], rf_RunID = rr_ID run, rf_TenantID = sj_TenantID job, rf_Kind = kind, rf_ProviderID = pr_ID rec,
      rf_CanonicalID = (case canonical of Some c \<Rightarrow> cr_EntityID c | None \<Rightarrow> []),
      rf_CanonicalFields = (case canonical of Some c \<Rightarrow> cr_Fields c | None \<Rightarrow> []),
      rf_ProviderFields = providerFields, rf_ProviderVersion = pr_SourceVersion rec,
      rf_Direction = [], rf_Status = [], rf_Error = None, rf_AppliedAt = None\<rparr>"

definition recordFinding ::
  "('w, 'x) lib_scheme \<Rightarrow> ReconciliationRun \<Rightarrow> SyncJob \<Rightarrow> string \<Rightarrow> string \<Rightarrow> ProviderRecord \<Rightarrow> CanonicalRecord option \<Rightarrow>
   goval gomap \<Rightarrow> string \<Rightarrow> (('w, 'z) st_scheme, ReconciliationFinding) M" where
  "recordFinding L run job ety kind rec canonical providerFields deletePolicy =
     bindM (InsertReconciliationFinding L (newFinding run job kind rec canonical providerFields)) (\<lambda>stored.
     thenM
       (if rr_Mode run = ''auto'' \<and> rf_Status stored = FindingPending \<and> repairable stored deletePolicy then
          ignore (repair L run job ety stored)
        else if rr_Mode run = ''auto'' \<and> rf_Status stored = FindingPending then
          ignore (SetReconciliationFindingStatus (sj_TenantID job) (rf_ID stored) FindingSkipped
                    (Some (policyGateReason (rf_Kind stored) deletePolicy)))
        else ret ())
       (ret stored))"

section \<open>The sweep\<close>

definition reconAbort :: "SyncJob \<Rightarrow> goerr \<Rightarrow> (('w, 'z) st_scheme, 'a) M" where
  "reconAbort job cause =
     bindM (attempt (GetReconciliationRunByJobID (sj_ID job))) (\<lambda>r.
     thenM (case r of
              Inr run \<Rightarrow> ignore (FinishReconciliationRun (rr_ID run) ReconcileFailed (Some (errorText cause)))
            | Inl _ \<Rightarrow> ret ())
     (thenM (ignore (FinishSyncJob (sj_ID job) (sj_TenantID job) ''failed'' (Some (errorText cause))))
       (throw cause)))"

definition orAbort :: "SyncJob \<Rightarrow> (('w, 'z) st_scheme, 'a) M \<Rightarrow> (('w, 'z) st_scheme, 'a) M" where
  "orAbort job m = bindM (attempt m) (\<lambda>r. case r of Inl e \<Rightarrow> reconAbort job e | Inr x \<Rightarrow> ret x)"

definition deletePolicyFor :: "SyncPolicy list \<Rightarrow> string \<Rightarrow> string" where
  "deletePolicyFor pols source =
     (case findRow (\<lambda>p. po_Source p = source) pols of
        Some p \<Rightarrow> po_DeletePolicy p
      | None \<Rightarrow> (case findRow (\<lambda>p. po_Destination p = source) pols of
            Some p \<Rightarrow> po_DeletePolicy p
          | None \<Rightarrow> ''propagate''))"

record sweepState =
  sw_Processed :: int
  sw_Failed :: int
  sw_Total :: int
  sw_Seen :: "string list"

definition sweepRecord ::
  "('w, 'x) lib_scheme \<Rightarrow> ReconciliationRun \<Rightarrow> SyncJob \<Rightarrow> Adapter \<Rightarrow> string \<Rightarrow> ProviderRecord \<Rightarrow> sweepState \<Rightarrow>
   (('w, 'z) st_scheme, sweepState) M" where
  "sweepRecord L run job adapter deletePolicy rec w0 =
     (if pr_Deleted rec then ret w0
      else
        let w = w0\<lparr>sw_Total := sw_Total w0 + 1, sw_Seen := pr_ID rec # sw_Seen w0\<rparr>;
            ety = CanonicalEntityType adapter in
        if Validate L adapter rec \<noteq> None then ret (w\<lparr>sw_Failed := sw_Failed w + 1\<rparr>)
        else
          let providerFields = Fields ((Normalize L adapter rec)\<lparr>cu_TenantID := sj_TenantID job\<rparr>) in
          bindM (attempt (GetCanonicalByProvider (sj_TenantID job) ety (rr_Source run) (pr_ID rec))) (\<lambda>r.
          case r of
            Inl e \<Rightarrow>
              if \<not> errorsIs e ErrNotFound then reconAbort job e
              else
                bindM (attempt (recordFinding L run job ety FindingMissed rec None providerFields deletePolicy)) (\<lambda>x.
                case x of
                  Inl _ \<Rightarrow> ret (w\<lparr>sw_Failed := sw_Failed w + 1\<rparr>)
                | Inr _ \<Rightarrow> ret (w\<lparr>sw_Processed := sw_Processed w + 1\<rparr>))
          | Inr c \<Rightarrow>
              let kind = classify L (Some c) providerFields in
              if kind = [] then ret (w\<lparr>sw_Processed := sw_Processed w + 1\<rparr>)
              else
                bindM (attempt (recordFinding L run job ety kind rec (Some c) providerFields deletePolicy)) (\<lambda>x.
                case x of
                  Inl _ \<Rightarrow> ret (w\<lparr>sw_Failed := sw_Failed w + 1\<rparr>)
                | Inr _ \<Rightarrow> ret (w\<lparr>sw_Processed := sw_Processed w + 1\<rparr>))))"

definition nullablePtr :: "string \<Rightarrow> string option" where
  "nullablePtr v = (if v = [] then None else Some v)"

fun sweepPages ::
  "nat \<Rightarrow> ('w, 'x) lib_scheme \<Rightarrow> ReconciliationRun \<Rightarrow> SyncJob \<Rightarrow> Adapter \<Rightarrow> string \<Rightarrow> string \<Rightarrow> sweepState \<Rightarrow>
   (('w, 'z) st_scheme, sweepState option) M" where
  "sweepPages 0 L run job adapter deletePolicy cursor w = ret None"
| "sweepPages (Suc fuel) L run job adapter deletePolicy cursor w =
     bindM (orAbort job (ListPage L adapter \<lparr>lo_Cursor = cursor, lo_Limit = sj_BatchSize job, lo_Since = None\<rparr>)) (\<lambda>page.
     bindM (forM (pg_Records page) (sweepRecord L run job adapter deletePolicy) w) (\<lambda>w'.
     let nextCursor = (if pg_HasMore page then pg_NextCursor page else []) in
     thenM (orAbort job (UpdateSyncJobProgress (sj_ID job) (sj_TenantID job) (nullablePtr nextCursor)
              (sw_Processed w') (sw_Failed w') (sw_Total w')))
       (if \<not> pg_HasMore page \<or> nextCursor = [] then ret (Some w')
        else sweepPages fuel L run job adapter deletePolicy nextCursor w')))"

text \<open>Canonical records that name a provider record the sweep did not meet.\<close>

definition sweepMissing ::
  "('w, 'x) lib_scheme \<Rightarrow> ReconciliationRun \<Rightarrow> SyncJob \<Rightarrow> string \<Rightarrow> string \<Rightarrow> string list \<Rightarrow> CanonicalRecord \<Rightarrow> (('w, 'z) st_scheme, unit) M" where
  "sweepMissing L run job ety deletePolicy seen c =
     (let providerID = gget [] (cr_ProviderIDs c) (rr_Source run) in
      if cr_Tombstone c then ret ()
      else if providerID = [] \<or> providerID \<in> set seen then ret ()
      else ignore (recordFinding L run job ety FindingMissing
             \<lparr>pr_ID = providerID, pr_SourceVersion = gget 0 (cr_SourceVersions c) (rr_Source run),
              pr_Deleted = False, pr_Data = []\<rparr> (Some c) (cr_Fields c) deletePolicy))"

definition sweepFinish ::
  "('w, 'x) lib_scheme \<Rightarrow> ReconciliationRun \<Rightarrow> SyncJob \<Rightarrow> string \<Rightarrow> string \<Rightarrow> sweepState \<Rightarrow> (('w, 'z) st_scheme, unit) M" where
  "sweepFinish L run job ety deletePolicy w =
     bindM (orAbort job (ListCanonicalByProvider (sj_TenantID job) ety (rr_Source run))) (\<lambda>cs.
     thenM (forM cs (\<lambda>c _. sweepMissing L run job ety deletePolicy (sw_Seen w) c) ())
     (bindM (orAbort job (CountReconciliationFindings (sj_TenantID job) (rr_ID run))) (\<lambda>(drift, missed, deleted).
      thenM (orAbort job (UpdateReconciliationCounters (rr_ID run) (sw_Total w) drift missed deleted))
     (thenM (orAbort job (FinishReconciliationRun (rr_ID run) ReconcileComplete None))
       (FinishSyncJob (sj_ID job) (sj_TenantID job) ''completed'' None)))))"

definition jobCursor :: "SyncJob \<Rightarrow> string" where
  "jobCursor job = (case sj_Cursor job of Some c \<Rightarrow> c | None \<Rightarrow> [])"

text \<open>\<open>Run\<close>, split where the run of the job is known.\<close>

definition sweepRun ::
  "nat \<Rightarrow> ('w, 'x) lib_scheme \<Rightarrow> SyncJob \<Rightarrow> ReconciliationRun \<Rightarrow> (('w, 'z) st_scheme, unit option) M" where
  "sweepRun fuel L job run =
     (if rr_Status run = ReconcileComplete \<or> rr_Status run = ReconcileFailed then ret (Some ())
      else
        bindM (orAbort job (GetConnectionByProvider (sj_TenantID job) (rr_Source run))) (\<lambda>srcConn.
        bindM (orAbort job (returnE (registryNew (cn_Provider srcConn) (cn_BaseURL srcConn) []))) (\<lambda>adapter.
        bindM (orAbort job (ListPolicies (sj_TenantID job))) (\<lambda>pols.
        let deletePolicy = deletePolicyFor pols (rr_Source run) in
        bindM (sweepPages fuel L run job adapter deletePolicy (jobCursor job)
                 \<lparr>sw_Processed = sj_Processed job, sw_Failed = sj_Failed job, sw_Total = sj_Total job, sw_Seen = []\<rparr>) (\<lambda>w.
        case w of
          None \<Rightarrow> ret None
        | Some w' \<Rightarrow>
            thenM (sweepFinish L run job (CanonicalEntityType adapter) deletePolicy w') (ret (Some ())))))))"

definition reconcileRun :: "nat \<Rightarrow> ('w, 'x) lib_scheme \<Rightarrow> SyncJob \<Rightarrow> (('w, 'z) st_scheme, unit option) M" where
  "reconcileRun fuel L job =
     bindM (attempt (GetReconciliationRunByJobID (sj_ID job))) (\<lambda>r.
     case r of
       Inl e \<Rightarrow> if errorsIs e ErrNotFound then reconAbort job (PlainErr ''reconciliation run not found'') else throw e
     | Inr run \<Rightarrow> sweepRun fuel L job run)"

section \<open>Requests that only read\<close>

text \<open>A view of the providers that \<open>GET\<close> requests do not change, such as the records they hold.\<close>

definition unchangedByGet :: "('w, 'x) netlib_scheme \<Rightarrow> ('w \<Rightarrow> 'v) \<Rightarrow> bool" where
  "unchangedByGet L f \<longleftrightarrow> (\<forall>req w. rq_Method req = ''GET'' \<longrightarrow> f (snd (http_send L req w)) = f w)"

lemma passive_ClientDo:
  assumes "unchangedByGet L f"
  shows "keeps (\<lambda>s. f (world s)) (ClientDo L c ''GET'' path body decode)"
proof -
  have fp: "keeps (\<lambda>s. f (world s)) faultPoint"
    by (rule keepsI) (auto simp: faultPoint_def split: list.splits option.splits)
  have get: "keeps (\<lambda>s. f (world s)) (sendHttp L req)" if "rq_Method req = ''GET''" for req
    using assms that by (auto intro!: keepsI simp: sendHttp_def unchangedByGet_def case_prod_beta)
  show ?thesis
    unfolding ClientDo_def
    by (intro keeps_bindM keeps_attempt keeps_if keeps_sum keeps_option keeps_ret keeps_throw fp get) simp
qed

lemma passive_ListPage: "unchangedByGet L f \<Longrightarrow> keeps (\<lambda>s. f (world s)) (ListPage L a opts)"
  by (cases a) (auto simp: sf_List_def hs_List_def intro!: keeps_intros passive_ClientDo)

lemma passive_HealthCheck: "unchangedByGet L f \<Longrightarrow> keeps (\<lambda>s. f (world s)) (HealthCheck L a)"
  by (cases a) (auto simp: sf_HealthCheck_def hs_HealthCheck_def intro!: passive_ClientDo)

lemma passive_GetRecord: "unchangedByGet L f \<Longrightarrow> keeps (\<lambda>s. f (world s)) (GetRecord L a i)"
  by (cases a) (auto simp: sf_Get_def hs_Get_def intro!: keeps_intros passive_ClientDo)

section \<open>What a finding may do\<close>

lemma InsertFinding_returns:
  "returns (InsertReconciliationFinding L f) (\<lambda>g. rfKey g = rfKey f)"
  unfolding InsertReconciliationFinding_def
  by (rule returns_bindM_any, rule returns_WithTenant) (auto simp: Let_def rowOr_Inr dest!: getBy_key)

text \<open>The views a sweep without repairs leaves alone: it only files findings and keeps the books.\<close>

definition gated :: "ReconciliationRun \<Rightarrow> string \<Rightarrow> string \<Rightarrow> bool" where
  "gated run kind deletePolicy \<longleftrightarrow> rr_Mode run \<noteq> ''auto'' \<or>
     \<not> (if kind = FindingDeleted then deletePolicy = ''propagate''
        else kind = FindingMissing \<longrightarrow> deletePolicy \<in> {''tombstone_only'', ''ignore''})"

lemma gated_repairable: "gated run (rf_Kind f) p \<longleftrightarrow> \<not> (rr_Mode run = ''auto'' \<and> repairable f p)"
  by (auto simp: gated_def repairable_def shouldRecreateMissing_def)

lemma recordFinding_frame:
  fixes L :: "('w, 'x) lib_scheme"
  assumes g: "gated run kind deletePolicy"
    and "keeps v (InsertReconciliationFinding L (newFinding run job kind rec c pf))"
    and "\<And>t i st e. keeps v (SetReconciliationFindingStatus t i st e)"
  shows "keeps v (recordFinding L run job ety kind rec c pf deletePolicy :: (('w, 'z) st_scheme, ReconciliationFinding) M)"
  unfolding recordFinding_def
proof (rule keeps_bindM_returns [OF assms(2) InsertFinding_returns])
  fix stored
  assume "rfKey stored = rfKey (newFinding run job kind rec c pf)"
  then have "rf_Kind stored = kind"
    by (simp add: rfKey_def newFinding_def)
  with g have "\<not> (rr_Mode run = ''auto'' \<and> repairable stored deletePolicy)"
    using gated_repairable by metis
  then show "keeps v (thenM (if rr_Mode run = ''auto'' \<and> rf_Status stored = FindingPending \<and> repairable stored deletePolicy
         then ignore (repair L run job ety stored)
         else if rr_Mode run = ''auto'' \<and> rf_Status stored = FindingPending
           then ignore (SetReconciliationFindingStatus (sj_TenantID job) (rf_ID stored) FindingSkipped
                 (Some (policyGateReason (rf_Kind stored) deletePolicy)))
           else ret ()) (ret stored))"
    by (intro keeps_intros assms(3)) auto
qed

section \<open>Sweeps that only observe\<close>

lemma GetRunByJob_row:
  "GetReconciliationRunByJobID i s = (Inr run, s') \<Longrightarrow> run \<in> set (reconRuns (db s)) \<and> rr_JobID run = Some i"
  by (cases rule: WithTenant_cases [of "\<lambda>n d. rowOr ErrNotFound (findRow (\<lambda>r. rr_JobID r = Some i) (reconRuns d)) d" s])
    (auto simp: GetReconciliationRunByJobID_def rowOr_Inr dest!: findRow_SomeD)

text \<open>
  A view of the state that neither reading from a provider nor the bookkeeping of a run changes. A
  run in manual mode leaves every such view alone.
\<close>

locale observed_view =
  fixes L :: "('w, 'x) lib_scheme" and v :: "('w, 'z) st_scheme \<Rightarrow> 'v"
  assumes list_page: "keeps v (ListPage L a opts)"
    and reads: "keeps v (GetReconciliationRunByJobID i)" "keeps v (GetConnectionByProvider t p)" "keeps v (ListPolicies t)"
      "keeps v (GetCanonicalByProvider t e p i)" "keeps v (ListCanonicalByProvider t e p)" "keeps v (CountReconciliationFindings t i)"
    and findings: "keeps v (InsertReconciliationFinding L f)" "keeps v (SetReconciliationFindingStatus t i st er)"
    and books: "keeps v (UpdateSyncJobProgress i t cur np nf nt)" "keeps v (FinishSyncJob i t st er)"
      "keeps v (UpdateReconciliationCounters i nt na nb nc)" "keeps v (FinishReconciliationRun i st er)"
begin

lemma abort: "keeps v (reconAbort job e)"
  unfolding reconAbort_def by (intro keeps_intros reads books)

lemma or_abort: "keeps v m \<Longrightarrow> keeps v (orAbort job m)"
  unfolding orAbort_def by (intro keeps_intros abort)

lemma record_gate: "gated run kind p \<Longrightarrow> keeps v (recordFinding L run job ety kind rec c pf p)"
  by (rule recordFinding_frame) (auto intro: findings)

lemma record_manual: "rr_Mode run \<noteq> ''auto'' \<Longrightarrow> keeps v (recordFinding L run job ety kind rec c pf p)"
  by (rule record_gate) (simp add: gated_def)

lemma sweep_record: "rr_Mode run \<noteq> ''auto'' \<Longrightarrow> keeps v (sweepRecord L run job a p rec w)"
  unfolding sweepRecord_def Let_def by (intro keeps_intros reads abort record_manual)

lemma sweep_pages: "rr_Mode run \<noteq> ''auto'' \<Longrightarrow> keeps v (sweepPages n L run job a p cur w)"
proof (induction n arbitrary: cur w)
  case (Suc n)
  then show ?case
    unfolding sweepPages.simps Let_def
    by (intro keeps_bindM keeps_thenM keeps_if keeps_ret keeps_forM or_abort list_page books sweep_record Suc.IH)
qed (simp add: keeps_ret)

lemma sweep_finish: "rr_Mode run \<noteq> ''auto'' \<Longrightarrow> keeps v (sweepFinish L run job ety p w)"
  unfolding sweepFinish_def sweepMissing_def Let_def
  by (intro keeps_intros reads books or_abort record_manual)

lemma manual_sweep: "rr_Mode run \<noteq> ''auto'' \<Longrightarrow> keeps v (sweepRun n L job run)"
  unfolding sweepRun_def Let_def
  by (intro keeps_intros or_abort reads sweep_pages sweep_finish)

lemma manual_run:
  assumes manual: "\<forall>run \<in> set (reconRuns (db s)). rr_JobID run = Some (sj_ID job) \<longrightarrow> rr_Mode run \<noteq> ''auto''"
  shows "v (snd (reconcileRun n L job s)) = v s"
proof -
  obtain r s1 where run1: "GetReconciliationRunByJobID (sj_ID job) s = (r, s1)"
    by force
  have s1: "v s1 = v s"
    by (rule keeps_run [OF reads(1) run1])
  show ?thesis
  proof (cases r)
    case (Inl e)
    then have "v (snd (reconcileRun n L job s)) = v s1"
      using run1 unfolding reconcileRun_def bindM_run attempt_run
      by simp (intro conjI impI keepsD keeps_intros abort)
    then show ?thesis
      using s1 by simp
  next
    case (Inr run)
    have "rr_Mode run \<noteq> ''auto''"
      using GetRunByJob_row [of "sj_ID job" s] run1 manual Inr by auto
    from keepsD [OF manual_sweep [OF this]] have "v (snd (reconcileRun n L job s)) = v s1"
      using run1 by (simp add: reconcileRun_def bindM_run attempt_run Inr)
    with s1 show ?thesis by simp
  qed
qed

end

definition businessTables :: "db \<Rightarrow> db" where
  "businessTables d = d\<lparr>syncJobs := [], reconRuns := [], reconFindings := []\<rparr>"

lemma businessTables_books [simp]:
  "businessTables (d\<lparr>syncJobs := a\<rparr>) = businessTables d" "businessTables (d\<lparr>reconRuns := b\<rparr>) = businessTables d"
  "businessTables (d\<lparr>reconFindings := c\<rparr>) = businessTables d"
  by (simp_all add: businessTables_def)

interpretation tablesView: observed_view L "\<lambda>s. businessTables (db s)" for L
  by unfold_locales
    (rule keeps_ListPage keeps_job_reads keeps_reads frame_syncJobs(3,4) frame_reconRuns(2,3) frame_reconFindings(1,3);
     simp add: frameNet_def)+

lemma providers_observed: "unchangedByGet L f \<Longrightarrow> observed_view L (\<lambda>s. f (world s))"
  by (unfold_locales, erule passive_ListPage)
    (rule keeps_comp [where f = world], rule keeps_world_store keeps_world_jobs)+

section \<open>Properties\<close>

text \<open>
  C32: A reconciliation run in manual mode only observes. Whatever the providers answer, whatever
  statements fail and wherever the run stops, it leaves every part of the providers that \<open>GET\<close>
  requests do not change, and every table except those of jobs, runs and findings, as they were.
\<close>

theorem manual_run_observes:
  assumes "\<forall>run \<in> set (reconRuns (db s)). rr_JobID run = Some (sj_ID job) \<longrightarrow> rr_Mode run \<noteq> ''auto''"
    and "unchangedByGet L f"
  shows "f (world (snd (reconcileRun fuel L job s))) = f (world s) \<and>
     businessTables (db (snd (reconcileRun fuel L job s))) = businessTables (db s)"
  using observed_view.manual_run [OF providers_observed [OF assms(2)] assms(1)]
    tablesView.manual_run [OF assms(1)] by blast

definition demoJob :: SyncJob where
  "demoJob = \<lparr>sj_ID = ''j1'', sj_TenantID = ''t1'', sj_Entity = ''customer'', sj_Source = Salesforce, sj_Destination = HubSpot,
     sj_Type = ''reconcile'', sj_Status = ''running'', sj_Cursor = None, sj_Processed = 0, sj_Failed = 0, sj_Total = 0,
     sj_BatchSize = 100, sj_StartedAt = Some 0, sj_FinishedAt = None, sj_LastError = None\<rparr>"

definition demoRun :: "string \<Rightarrow> ReconciliationRun" where
  "demoRun mode = \<lparr>rr_ID = ''r1'', rr_TenantID = ''t1'', rr_Entity = ''customer'', rr_Source = Salesforce, rr_Mode = mode,
     rr_Status = ReconcileRunning, rr_JobID = Some ''j1'', rr_Total = 0, rr_Drift = 0, rr_Missed = 0, rr_Deleted = 0,
     rr_Error = None, rr_FinishedAt = None\<rparr>"

definition demoWrites :: "HttpRequest list \<Rightarrow> HttpRequest list" where
  "demoWrites w = filter (\<lambda>r. rq_Method r \<noteq> ''GET'') w"

theorem manual_run_observes_witness:
  "demoWrites (world (snd (reconcileRun 3 execLib demoJob (demoSt (demoDb\<lparr>reconRuns := [demoRun ''manual'']\<rparr>))))) = []"
proof -
  have "unchangedByGet execLib demoWrites"
    by (simp add: unchangedByGet_def execLib_def demoSend_def demoWrites_def)
  then show ?thesis
    using manual_run_observes [of "demoSt (demoDb\<lparr>reconRuns := [demoRun ''manual'']\<rparr>)" demoJob execLib demoWrites 3]
    by (simp add: demoSt_def demoRun_def) (simp add: demoWrites_def)
qed

lemma getBy_insertIgnore:
  "getBy key (key row) (insertIgnore key row rows) =
     (case getBy key (key row) rows of Some g \<Rightarrow> Some g | None \<Rightarrow> Some row)"
  by (cases "getBy key (key row) rows")
    (auto simp: insertIgnore_def hasKey_iff_getBy, simp add: getBy_def findRow_append)

definition pendingFinding :: "string \<Rightarrow> ReconciliationFinding \<Rightarrow> ReconciliationFinding" where
  "pendingFinding i f = f\<lparr>rf_ID := i, rf_Direction := reconcileDirection (rf_Kind f), rf_Status := FindingPending,
     rf_Error := None, rf_AppliedAt := None\<rparr>"

lemma pendingFinding_simps [simp]:
  "rfKey (pendingFinding i f) = rfKey f" "rf_Kind (pendingFinding i f) = rf_Kind f"
  "rf_Status (pendingFinding i f) = FindingPending" "rf_TenantID (pendingFinding i f) = rf_TenantID f"
  "rf_ID (pendingFinding i f) = i"
  by (simp_all add: pendingFinding_def rfKey_def)

lemma newFinding_simps [simp]:
  "rfKey (newFinding run job kind rec c pf) = (rr_ID run, kind, pr_ID rec)" "rf_Kind (newFinding run job kind rec c pf) = kind"
  "rf_TenantID (newFinding run job kind rec c pf) = sj_TenantID job" "rf_Direction (newFinding run job kind rec c pf) = []"
  "rf_Status (newFinding run job kind rec c pf) = []"
  by (simp_all add: newFinding_def rfKey_def)

lemma insertFinding_calm:
  fixes L :: "('w, 'x) lib_scheme" and s :: "('w, 'z) st_scheme"
  assumes "calm s" "rf_Status f = []" "rf_Direction f = []"
  defines "rows \<equiv> insertIgnore rfKey (pendingFinding (uuid_of L (seq s)) f) (reconFindings (db s))"
  shows "InsertReconciliationFinding L f s =
     (Inr (case getBy rfKey (rfKey f) (reconFindings (db s)) of Some g \<Rightarrow> g | None \<Rightarrow> pendingFinding (uuid_of L (seq s)) f),
      s\<lparr>seq := seq s + 1, db := (db s)\<lparr>reconFindings := rows\<rparr>\<rparr>)"
proof -
  have "getBy rfKey (rfKey f) rows
      = Some (case getBy rfKey (rfKey f) (reconFindings (db s)) of Some g \<Rightarrow> g | None \<Rightarrow> pendingFinding (uuid_of L (seq s)) f)"
    using getBy_insertIgnore [of rfKey "pendingFinding (uuid_of L (seq s)) f" "reconFindings (db s)"]
    by (simp add: rows_def split: option.split)
  then show ?thesis
    using assms(1-3)
    by (simp add: InsertReconciliationFinding_def bindM_run newID_run WithTenant_ok Let_def rowOr_def
        pendingFinding_def [symmetric] rows_def [symmetric])
qed

lemma getBy_updateWhere_last:
  assumes "\<And>x. key (f x) = key x" "getBy key (key row) rows = None" "P row"
  shows "getBy key (key row) (updateWhere P f (rows @ [row])) = Some (f row)"
  using assms by (induction rows) (auto simp: getBy_def split: if_splits)

lemma record_skips:
  assumes "gated run kind deletePolicy" "calm s" "rr_Mode run = ''auto''"
    and "getBy rfKey (rr_ID run, kind, pr_ID rec) (reconFindings (db s)) = None"
  shows "\<exists>g. getBy rfKey (rr_ID run, kind, pr_ID rec)
       (reconFindings (db (snd (recordFinding L run job ety kind rec c pf deletePolicy s)))) = Some g \<and>
     rf_Status g = FindingSkipped \<and> rf_Error g = Some (policyGateReason kind deletePolicy)"
proof -
  define row where "row = pendingFinding (uuid_of L (seq s)) (newFinding run job kind rec c pf)"
  define s1 where "s1 = s\<lparr>seq := seq s + 1, db := (db s)\<lparr>reconFindings := reconFindings (db s) @ [row]\<rparr>\<rparr>"
  define set' where "set' = findingSet (now s) FindingSkipped (Some (policyGateReason kind deletePolicy))"
  have row: "rf_Kind row = kind" "rf_Status row = FindingPending" "rf_TenantID row = sj_TenantID job" "rfKey row = (rr_ID run, kind, pr_ID rec)"
    by (simp_all add: row_def)
  have "\<not> repairable row deletePolicy"
    using assms(1,3) row(1) gated_repairable [of run row deletePolicy] by simp
  moreover have "InsertReconciliationFinding L (newFinding run job kind rec c pf) s = (Inr row, s1)"
    using assms(4) by (simp add: insertFinding_calm [OF assms(2)] row_def s1_def insertIgnore_def hasKey_iff_getBy)
  ultimately have "snd (recordFinding L run job ety kind rec c pf deletePolicy s) =
      snd (SetReconciliationFindingStatus (sj_TenantID job) (rf_ID row) FindingSkipped (Some (policyGateReason kind deletePolicy)) s1)"
    using assms(3) row by (simp add: recordFinding_def bindM_run thenM_run ignore_run ret_def)
  then have fs: "reconFindings (db (snd (recordFinding L run job ety kind rec c pf deletePolicy s))) =
      updateWhere (\<lambda>f. rf_TenantID f = sj_TenantID job \<and> rf_ID f = rf_ID row \<and> findingGuard FindingSkipped f) set' (reconFindings (db s) @ [row])"
    using assms(2) by (simp add: s1_def set'_def SetReconciliationFindingStatus_def WithTenant_ok)
  have "getBy rfKey (rfKey row) (updateWhere (\<lambda>f. rf_TenantID f = sj_TenantID job \<and> rf_ID f = rf_ID row \<and> findingGuard FindingSkipped f) set' (reconFindings (db s) @ [row])) = Some (set' row)"
    by (rule getBy_updateWhere_last) (use assms(4) row in \<open>simp_all add: set'_def findingSet_def rfKey_def findingGuard_def\<close>)
  then show ?thesis
    unfolding fs row(4) by (simp add: set'_def findingSet_def)
qed

text \<open>
  C33: The delete policy gates repairs. A divergence that auto mode may not repair under the delete
  policy (and every divergence in manual mode) causes no request to a provider and no change of any
  table but that of the findings. In auto mode, while the database works, a newly found divergence of
  this sort is on record as skipped, with the reason, when the sweep goes on.
\<close>

theorem record_gated:
  assumes "gated run kind deletePolicy"
  shows "let s' = snd (recordFinding L run job ety kind rec c pf deletePolicy s) in
    world s' = world s \<and> (db s')\<lparr>reconFindings := []\<rparr> = (db s)\<lparr>reconFindings := []\<rparr> \<and>
    (calm s \<and> rr_Mode run = ''auto'' \<and> getBy rfKey (rr_ID run, kind, pr_ID rec) (reconFindings (db s)) = None \<longrightarrow>
       (\<exists>g. getBy rfKey (rr_ID run, kind, pr_ID rec) (reconFindings (db s')) = Some g \<and>
          rf_Status g = FindingSkipped \<and> rf_Error g = Some (policyGateReason kind deletePolicy)))"
proof -
  have "world (snd (recordFinding L run job ety kind rec c pf deletePolicy s)) = world s"
    by (rule keepsD [OF recordFinding_frame [OF assms(1)]]) (intro keeps_intros)+
  moreover have "(db (snd (recordFinding L run job ety kind rec c pf deletePolicy s)))\<lparr>reconFindings := []\<rparr> = (db s)\<lparr>reconFindings := []\<rparr>"
    by (rule keepsD [where f = "\<lambda>s. (db s)\<lparr>reconFindings := []\<rparr>"], rule recordFinding_frame [OF assms(1)])
      (rule frame_reconFindings; simp)+
  ultimately show ?thesis
    using record_skips [OF assms] by (auto simp: Let_def)
qed

definition demoRec :: ProviderRecord where
  "demoRec = \<lparr>pr_ID = ''sf-9'', pr_SourceVersion = 3, pr_Deleted = False, pr_Data = []\<rparr>"

theorem record_gated_witness:
  "let s = demoSt demoDb; s' = snd (recordFinding execLib (demoRun ''auto'') demoJob ''customer'' FindingMissing demoRec None [] ''propagate'' s) in
   world s' = [] \<and> (\<exists>g. getBy rfKey (''r1'', FindingMissing, ''sf-9'') (reconFindings (db s')) = Some g \<and> rf_Status g = FindingSkipped)"
proof -
  have "gated (demoRun ''auto'') FindingMissing ''propagate''"
    by (simp add: gated_def demoRun_def)
  moreover have "getBy rfKey (rr_ID (demoRun ''auto''), FindingMissing, pr_ID demoRec) (reconFindings (db (demoSt demoDb))) = None"
    by (simp add: demoSt_def demoDb_def emptyDb_def getBy_def)
  ultimately show ?thesis
    using record_gated [of "demoRun ''auto''" FindingMissing "''propagate''" execLib demoJob "''customer''" demoRec None "[]" "demoSt demoDb"]
    by (auto simp: Let_def) (simp_all add: demoSt_def demoRun_def demoRec_def)
qed

text \<open>
  A sweep respects decisions already taken. When the divergence is on record and no longer
  pending (applied, skipped, dismissed or failed), meeting it again changes no table and sends no
  request, in either mode; while the database works the existing finding is returned.
\<close>

theorem record_keeps_decision:
  assumes "getBy rfKey (rr_ID run, kind, pr_ID rec) (reconFindings (db s)) = Some g" "rf_Status g \<noteq> FindingPending"
  shows "let (r, s') = recordFinding L run job ety kind rec c pf deletePolicy s in
     db s' = db s \<and> world s' = world s \<and> (calm s \<longrightarrow> r = Inr g)"
proof -
  define f where "f = newFinding run job kind rec c pf"
  define s0 where "s0 = s\<lparr>seq := seq s + 1\<rparr>"
  define stmt where "stmt = (\<lambda>(n :: int) d.
     let row = f\<lparr>rf_ID := uuid_of L (seq s),
           rf_Direction := (if rf_Direction f = [] then reconcileDirection (rf_Kind f) else rf_Direction f),
           rf_Status := (if rf_Status f = [] then FindingPending else rf_Status f),
           rf_Error := None, rf_AppliedAt := None\<rparr>;
         rows = insertIgnore rfKey row (reconFindings d) in
     rowOr ErrNotFound (getBy rfKey (rfKey f) rows) (d\<lparr>reconFindings := rows\<rparr>))"
  have "hasKey rfKey (rfKey f) (reconFindings (db s))"
    using assms(1) by (simp add: hasKey_iff_getBy f_def)
  then have stmt: "stmt n (db s) = (Inr g, db s)" for n
    using assms(1) by (simp add: stmt_def Let_def insertIgnore_def rowOr_def f_def rfKey_def) (simp add: newFinding_def)
  have ins: "InsertReconciliationFinding L f s = WithTenant stmt s0"
    by (simp add: InsertReconciliationFinding_def bindM_run newID_run s0_def stmt_def)
  have rest: "recordFinding L run job ety kind rec c pf deletePolicy s = (Inr g, s1)" if "WithTenant stmt s0 = (Inr g, s1)" for s1
    using that assms(2) ins by (simp add: recordFinding_def f_def bindM_run thenM_run ret_def)
  show ?thesis
  proof (cases rule: WithTenant_cases [of stmt s0])
    case (fail e s1)
    then have "recordFinding L run job ety kind rec c pf deletePolicy s = (Inl e, s1)"
      using ins by (simp add: recordFinding_def f_def bindM_run)
    moreover have "\<not> calm s"
      using fail(1) stmt by (auto simp: s0_def WithTenant_ok)
    ultimately show ?thesis
      using fail by (simp add: s0_def)
  next
    case (ok x d s1)
    then have "x = g" "d = db s"
      using stmt by (simp_all add: s0_def)
    then show ?thesis
      using rest ok by (simp add: s0_def)
  qed
qed

theorem record_keeps_decision_witness:
  "let f = (newFinding (demoRun ''auto'') demoJob FindingMissed demoRec None [])\<lparr>rf_Status := FindingDismissed\<rparr>;
       s = demoSt (demoDb\<lparr>reconFindings := [f]\<rparr>) in
   db (snd (recordFinding execLib (demoRun ''auto'') demoJob ''customer'' FindingMissed demoRec None [] ''propagate'' s)) = db s"
proof -
  define f where "f = (newFinding (demoRun ''auto'') demoJob FindingMissed demoRec None [])\<lparr>rf_Status := FindingDismissed\<rparr>"
  have "getBy rfKey (rr_ID (demoRun ''auto''), FindingMissed, pr_ID demoRec) (reconFindings (db (demoSt (demoDb\<lparr>reconFindings := [f]\<rparr>)))) = Some f"
    by (simp add: f_def demoSt_def getBy_def rfKey_def newFinding_def)
  moreover have "rf_Status f \<noteq> FindingPending"
    by (simp add: f_def)
  ultimately show ?thesis
    using record_keeps_decision [of "demoRun ''auto''" FindingMissed demoRec "demoSt (demoDb\<lparr>reconFindings := [f]\<rparr>)" f]
    by (force simp: Let_def f_def case_prod_beta)
qed

text \<open>
  Classification agrees with the schema mapping. Against a canonical record that holds the fields
  of a customer, a provider record counts as in sync exactly when the canonical record is live and
  the provider record normalizes to the same five business fields; and it does so once the provider
  carries what a repair pushes to it, so a repaired divergence is not reported again.
\<close>

theorem classify_in_sync:
  assumes "cr_Fields c = Fields cu"
  shows "(classify L (Some c) (Fields (Normalize L a rec)) = [] \<longleftrightarrow>
            \<not> cr_Tombstone c \<and> sameFields5 (Normalize L a rec) cu) \<and>
    (\<not> cr_Tombstone c \<and> (\<forall>k v. map_of (pr_Data (Denormalize a (FromFields L base (cr_Fields c)))) k = Some v \<and> k \<noteq> ''deleted'' \<longrightarrow>
         map_of (pr_Data rec) k = Some v) \<longrightarrow>
       classify L (Some c) (Fields (Normalize L a rec)) = [])"
proof -
  have *: "sameFields L (Fields x) (Fields y) \<longleftrightarrow> sameFields5 y x" for x y
    by (auto simp: sameFields_def businessFields_def Fields_def gget_def sameFields5_def)
  have "sameFields5 (Normalize L a rec) cu"
    if "\<forall>k v. map_of (pr_Data (Denormalize a (FromFields L base (Fields cu)))) k = Some v \<and> k \<noteq> ''deleted'' \<longrightarrow> map_of (pr_Data rec) k = Some v"
  proof -
    have "sameFields5 (Normalize L a rec) (FromFields L base (Fields cu))"
      by (rule ad.carries) (use that in blast)
    then show ?thesis
      using FromFields_Fields [of L base cu] by (simp add: sameFields5_def)
  qed
  then show ?thesis
    by (simp add: classify_def assms *)
qed

theorem classify_in_sync_witness:
  "let c = (freshCanonical ''t1'' ''customer'' Salesforce ''sf-1'')\<lparr>cr_Fields := Fields (emptyCustomer\<lparr>Email := ''a@x''\<rparr>)\<rparr> in
   classify execLib (Some c) (Fields (Normalize execLib (HubspotA (NewClient [] []))
      (Denormalize (HubspotA (NewClient [] [])) (emptyCustomer\<lparr>Email := ''a@x''\<rparr>)))) = []"
  using classify_in_sync [of "(freshCanonical ''t1'' ''customer'' Salesforce ''sf-1'')\<lparr>cr_Fields := Fields (emptyCustomer\<lparr>Email := ''a@x''\<rparr>)\<rparr>"
      "emptyCustomer\<lparr>Email := ''a@x''\<rparr>" execLib "HubspotA (NewClient [] [])"
      "Denormalize (HubspotA (NewClient [] [])) (emptyCustomer\<lparr>Email := ''a@x''\<rparr>)"]
    ad.roundtrip [of execLib "HubspotA (NewClient [] [])" "emptyCustomer\<lparr>Email := ''a@x''\<rparr>"]
  by (simp add: freshCanonical_def Let_def)

section \<open>The sweep ends\<close>

text \<open>
  A provider whose cursors lead somewhere: the cursor of a further page is nearer to the end of
  the listing than the one the page was asked for with.
\<close>

fun listURL :: "('x) golib_scheme \<Rightarrow> Adapter \<Rightarrow> ListOptions \<Rightarrow> string" where
  "listURL L (SalesforceA c) opts = BaseURL c @ listQuery L sfListPath opts"
| "listURL L (HubspotA c) opts = BaseURL c @ listQuery L hsListPath opts"

definition cursorsAdvance :: "('w, 'x) netlib_scheme \<Rightarrow> Adapter \<Rightarrow> int \<Rightarrow> (string \<Rightarrow> nat) \<Rightarrow> bool" where
  "cursorsAdvance L a limit rank \<longleftrightarrow> (\<forall>cursor req w resp w' recs next.
     rq_URL req = listURL L a \<lparr>lo_Cursor = cursor, lo_Limit = limit, lo_Since = None\<rparr> \<and>
     http_send L req w = (Inr resp, w') \<and> decodeList L (RespBody resp) = Some (recs, next, True) \<and> next \<noteq> [] \<longrightarrow>
     rank next < rank cursor)"

lemma ClientDo_Inr:
  assumes "ClientDo L c meth path body decode s = (Inr x, s')"
  obtains req w resp w' where "rq_URL req = BaseURL c @ path" "http_send L req w = (Inr resp, w')" "decode (RespBody resp) = Some x"
proof -
  define req where "req = \<lparr>rq_Method = meth, rq_URL = BaseURL c @ path,
     rq_Auth = (if HeaderAuth c \<noteq> [] \<and> Token c \<noteq> [] then Some (HeaderAuth c @ '' '' @ Token c) else None), rq_Body = body\<rparr>"
  obtain u s1 where "attempt (if Limited c then faultPoint else ret ()) s = (Inr u, s1)"
    by (simp add: attempt_run)
  with assms obtain r s2 where send: "sendHttp L req s1 = (Inr r, s2)"
    and r: "(case r of Inl e \<Rightarrow> throw (NewError ErrTransient ''http request'' (Some (PlainErr e)))
         | Inr resp \<Rightarrow> if 200 \<le> StatusCode resp \<and> StatusCode resp < 300 then
               (case decode (RespBody resp) of Some v \<Rightarrow> ret v
                | None \<Rightarrow> throw (NewError ErrSchema ''decode response body'' (Some (PlainErr ''json''))))
             else throw (classifyError L resp)) s2 = (Inr x, s')"
    unfolding ClientDo_def bindM_Inr req_def by (cases u) (auto simp: throw_run bindM_Inr)
  then obtain resp where "r = Inr resp" "decode (RespBody resp) = Some x"
    by (auto simp: throw_def ret_def split: sum.splits if_splits option.splits)
  moreover have "http_send L req (world s1) = (r, snd (http_send L req (world s1)))"
    using send by (auto simp: sendHttp_def case_prod_beta prod_eq_iff)
  ultimately show thesis
    using that [of req "world s1" resp] by (simp add: req_def)
qed

lemma returnE_Inr: "returnE r s = (Inr x, s') \<longleftrightarrow> r = Inr x \<and> s' = s"
  by (cases r) (auto simp: returnE_def ret_run throw_run)

lemma ListPage_advances:
  assumes "cursorsAdvance L a limit rank"
  shows "returns (ListPage L a \<lparr>lo_Cursor = cursor, lo_Limit = limit, lo_Since = None\<rparr>)
     (\<lambda>page. pg_HasMore page \<and> pg_NextCursor page \<noteq> [] \<longrightarrow> rank (pg_NextCursor page) < rank cursor)"
proof (rule returnsI)
  fix s page s'
  define opts where "opts = \<lparr>lo_Cursor = cursor, lo_Limit = limit, lo_Since = None\<rparr>"
  assume "ListPage L a opts s = (Inr page, s')"
  then obtain c path recs where *: "ClientDo L c ''GET'' path None (decodeList L) s = (Inr (recs, pg_NextCursor page, pg_HasMore page), s')"
    and "BaseURL c @ path = listURL L a opts"
    by (cases a) (auto simp: sf_List_def hs_List_def bindM_Inr returnE_Inr ret_run)
  from * obtain req w resp w' where "rq_URL req = BaseURL c @ path" "http_send L req w = (Inr resp, w')"
    "decodeList L (RespBody resp) = Some (recs, pg_NextCursor page, pg_HasMore page)"
    by (rule ClientDo_Inr)
  with assms \<open>BaseURL c @ path = listURL L a opts\<close>
  show "pg_HasMore page \<and> pg_NextCursor page \<noteq> [] \<longrightarrow> rank (pg_NextCursor page) < rank cursor"
    unfolding cursorsAdvance_def opts_def by auto
qed

lemma returns_abort: "returns (reconAbort job e) R"
  unfolding reconAbort_def by (intro returns_intros)

lemma returns_orAbort: "returns m R \<Longrightarrow> returns (orAbort job m) R"
  unfolding orAbort_def
  by (rule returns_bindM [OF returns_attempt], assumption) (auto split: sum.split intro: returns_abort returns_ret)

lemma sweepPages_ends:
  assumes "cursorsAdvance L a (sj_BatchSize job) rank" "rank cursor < fuel"
  shows "returns (sweepPages fuel L run job a p cursor w) (\<lambda>x. x \<noteq> None)"
  using assms(2)
proof (induction fuel arbitrary: cursor w)
  case (Suc fuel)
  show ?case
    unfolding sweepPages.simps
  proof (rule returns_bindM [OF returns_orAbort [OF ListPage_advances [OF assms(1)]]], rule returns_bindM_any,
      unfold Let_def, rule returns_thenM, goal_cases)
    case (1 page w')
    then show ?case
      using Suc.prems Suc.IH [of "pg_NextCursor page" w'] by (auto intro!: returns_ret)
  qed
qed simp

lemma reconcileRun_returns:
  assumes "\<forall>a. cursorsAdvance L a (sj_BatchSize job) rank" "rank (jobCursor job) < fuel"
  shows "returns (reconcileRun fuel L job) (\<lambda>x. x \<noteq> None)"
proof -
  have "returns (sweepRun fuel L job run) (\<lambda>x. x \<noteq> None)" for run
    unfolding sweepRun_def Let_def
    by (auto intro!: returns_bindM_any returns_ret returns_bindM [OF sweepPages_ends [OF assms(1) [rule_format] assms(2)]]
        returns_thenM)
  then show ?thesis
    unfolding reconcileRun_def
    by (intro returns_bindM_any) (auto split: sum.split intro: returns_abort returns_throw)
qed



end
