(* ===== verification/SyncJob.thy ===== *)
theory SyncJob
imports RetryEngine Reconcile
begin

text \<open>
  Resumable jobs (\<open>internal/syncjob/runner.go\<close>): a full sync walks the pages of the source
  provider and runs every live record through the worker as an event with an identifier made from
  the job and the record, and writes a checkpoint after every page; a reconcile job is handed to
  the reconciliation engine. The loop over the pages takes fuel, as in \<open>Reconcile\<close>.

  The properties: a page that is walked again after a crash has no effect, every record of a page is
  accounted for, a job touches only its tenant, and it ends if the cursors of the provider
  advance.
\<close>

section \<open>The runner\<close>

definition jobEventID :: "string \<Rightarrow> string \<Rightarrow> string" where
  "jobEventID jobID recordID = ''jobsync:'' @ jobID @ '':'' @ recordID"

definition jobEvent :: "SyncJob \<Rightarrow> Adapter \<Rightarrow> ProviderRecord \<Rightarrow> int \<Rightarrow> Event" where
  "jobEvent job adapter rec n =
     \<lparr>EventID = jobEventID (sj_ID job) (pr_ID rec), TenantID = sj_TenantID job, Source = sj_Source job,
      EntityType = CanonicalEntityType adapter, EntityID = pr_ID rec, EventType = EventCreated,
      SourceVersion = pr_SourceVersion rec, OccurredAt = n, ReceivedAt = n, CorrelationID = [],
      ev_Provenance = noProvenance\<lparr>OriginSource := sj_Source job, SyncOperationID := sj_ID job\<rparr>,
      Payload = [(''fields'', GObj (pr_Data rec))]\<rparr>"

definition deadLetterProviderRecord ::
  "('w, 'x) lib_scheme \<Rightarrow> SyncJob \<Rightarrow> ProviderRecord \<Rightarrow> goerr \<Rightarrow> (('w, 'z) st_scheme, unit) M" where
  "deadLetterProviderRecord L job rec cause =
     bindM timeNow (\<lambda>n.
     let ev = \<lparr>EventID = jobEventID (sj_ID job) (pr_ID rec), TenantID = sj_TenantID job, Source = sj_Source job,
               EntityType = ''customer'', EntityID = pr_ID rec, EventType = EventCreated,
               SourceVersion = pr_SourceVersion rec, OccurredAt = 0, ReceivedAt = n, CorrelationID = [],
               ev_Provenance = noProvenance, Payload = [(''fields'', GObj (pr_Data rec))]\<rparr> in
     ignore (InsertDeadLetter L \<lparr>dl_ID = [], dl_TenantID = sj_TenantID job, dl_EventID = EventID ev,
        dl_Reason = errorText cause, dl_ErrorClass = ErrSchema, dl_Payload = event_marshal L ev, dl_Status = [],
        dl_CreatedAt = 0, dl_ResolvedAt = None\<rparr>))"

definition syncAbort :: "SyncJob \<Rightarrow> goerr \<Rightarrow> (('w, 'z) st_scheme, 'a) M" where
  "syncAbort job cause =
     thenM (ignore (FinishSyncJob (sj_ID job) (sj_TenantID job) ''failed'' (Some (errorText cause)))) (throw cause)"

definition orSyncAbort :: "SyncJob \<Rightarrow> (('w, 'z) st_scheme, 'a) M \<Rightarrow> (('w, 'z) st_scheme, 'a) M" where
  "orSyncAbort job m = bindM (attempt m) (\<lambda>r. case r of Inl e \<Rightarrow> syncAbort job e | Inr x \<Rightarrow> ret x)"

text \<open>One record of a page; the accumulator holds the counters of applied and failed records.\<close>

definition syncRecord ::
  "('w, 'x) lib_scheme \<Rightarrow> SyncJob \<Rightarrow> Adapter \<Rightarrow> ProviderRecord \<Rightarrow> int \<times> int \<Rightarrow> (('w, 'z) st_scheme, int \<times> int) M" where
  "syncRecord L job adapter rec acc =
     (case acc of (proc, failed) \<Rightarrow>
      if pr_Deleted rec then ret (proc, failed)
      else case Validate L adapter rec of
        Some err \<Rightarrow> thenM (deadLetterProviderRecord L job rec err) (ret (proc, failed + 1))
      | None \<Rightarrow>
          bindM timeNow (\<lambda>n.
          bindM (attempt (Process L (jobEvent job adapter rec n))) (\<lambda>r.
          case r of Inl _ \<Rightarrow> ret (proc, failed + 1) | Inr _ \<Rightarrow> ret (proc + 1, failed))))"

abbreviation syncPage ::
  "('w, 'x) lib_scheme \<Rightarrow> SyncJob \<Rightarrow> Adapter \<Rightarrow> ProviderRecord list \<Rightarrow> int \<times> int \<Rightarrow> (('w, 'z) st_scheme, int \<times> int) M" where
  "syncPage L job adapter recs acc \<equiv> forM recs (syncRecord L job adapter) acc"

fun syncPages ::
  "nat \<Rightarrow> ('w, 'x) lib_scheme \<Rightarrow> SyncJob \<Rightarrow> Adapter \<Rightarrow> int \<Rightarrow> string \<Rightarrow> int \<times> int \<Rightarrow>
   (('w, 'z) st_scheme, unit option) M" where
  "syncPages 0 L job adapter tot cursor acc = ret None"
| "syncPages (Suc fuel) L job adapter tot cursor acc =
     bindM (orSyncAbort job (ListPage L adapter \<lparr>lo_Cursor = cursor, lo_Limit = sj_BatchSize job, lo_Since = None\<rparr>)) (\<lambda>page.
     bindM (syncPage L job adapter (pg_Records page) acc) (\<lambda>(proc, failed).
     let nextCursor = (if pg_HasMore page then pg_NextCursor page else []) in
     thenM (orSyncAbort job (UpdateSyncJobProgress (sj_ID job) (sj_TenantID job) (nullablePtr nextCursor) proc failed tot))
       (if \<not> pg_HasMore page then ret (Some ())
        else if nextCursor = [] then ret (Some ())
        else syncPages fuel L job adapter tot nextCursor (proc, failed))))"

definition execute ::
  "nat \<Rightarrow> ('w, 'x) lib_scheme \<Rightarrow> bool \<Rightarrow> SyncJob \<Rightarrow> (('w, 'z) st_scheme, unit option) M" where
  "execute fuel L reconciler job =
     (if sj_Type job = ''reconcile'' then
        if \<not> reconciler then syncAbort job (PlainErr ''reconcile engine not configured'')
        else reconcileRun fuel L job
      else
        bindM (orSyncAbort job (GetConnectionByProvider (sj_TenantID job) (sj_Source job))) (\<lambda>srcConn.
        bindM (orSyncAbort job (returnE (registryNew (cn_Provider srcConn) (cn_BaseURL srcConn) []))) (\<lambda>adapter.
        bindM (orSyncAbort job (GetConnectionByProvider (sj_TenantID job) (sj_Destination job))) (\<lambda>dstConn.
        bindM (orSyncAbort job (returnE (registryNew (cn_Provider dstConn) (cn_BaseURL dstConn) []))) (\<lambda>_.
        bindM (attempt (HealthCheck L adapter)) (\<lambda>h.
        let tot = (case h of Inr x \<Rightarrow> if he_Records x > 0 then he_Records x else sj_Total job | Inl _ \<Rightarrow> sj_Total job) in
        bindM (syncPages fuel L job adapter tot (jobCursor job) (sj_Processed job, sj_Failed job)) (\<lambda>r.
        case r of
          None \<Rightarrow> ret None
        | Some _ \<Rightarrow> thenM (FinishSyncJob (sj_ID job) (sj_TenantID job) ''completed'' None) (ret (Some ())))))))))"

text \<open>One turn of the polling loop.\<close>

definition runnerTick :: "nat \<Rightarrow> ('w, 'x) lib_scheme \<Rightarrow> bool \<Rightarrow> (('w, 'z) st_scheme, unit) M" where
  "runnerTick fuel L reconciler =
     bindM (attempt ClaimNextSyncJob) (\<lambda>r.
     case r of Inl _ \<Rightarrow> ret () | Inr job \<Rightarrow> ignore (execute fuel L reconciler job))"

section \<open>Pages\<close>

definition live :: "ProviderRecord list \<Rightarrow> ProviderRecord list" where
  "live recs = filter (\<lambda>r. \<not> pr_Deleted r) recs"

text \<open>The claim under which a job applies a record, and whether a policy concerns the job.\<close>

definition jobClaimed :: "SyncJob \<Rightarrow> ProviderRecord \<Rightarrow> db \<Rightarrow> bool" where
  "jobClaimed job rec d \<longleftrightarrow> hasKey peKey (sj_TenantID job, sj_Source job, jobEventID (sj_ID job) (pr_ID rec)) (processed d)"

definition jobRelevant :: "SyncJob \<Rightarrow> db \<Rightarrow> bool" where
  "jobRelevant job d \<longleftrightarrow> (\<exists>p \<in> set (policies d). po_TenantID p = sj_TenantID job \<and> po_Enabled p \<and>
     po_Source p = sj_Source job \<and> po_Entity p = ''customer'')"

lemma claimed_jobEvent: "claimedEvent (jobEvent job a rec n) d \<longleftrightarrow> jobClaimed job rec d"
  by (simp add: claimedEvent_def jobClaimed_def Key_def jobEvent_def)

lemma relevant_jobEvent: "targetsOf (jobEvent job a rec n) d \<noteq> [] \<longleftrightarrow> jobRelevant job d"
  by (auto simp: targetsOf_def jobRelevant_def jobEvent_def filter_empty_conv)

lemma syncRecord_cases:
  obtains
    (skipped) "pr_Deleted rec" "syncRecord L job a rec (p, f) s = (Inr (p, f), s)"
  | (invalid) e where "\<not> pr_Deleted rec" "Validate L a rec = Some e"
      "syncRecord L job a rec (p, f) s = (Inr (p, f + 1), snd (deadLetterProviderRecord L job rec e s))"
  | (failed) e s1 where "\<not> pr_Deleted rec" "Validate L a rec = None" "Process L (jobEvent job a rec (now s)) s = (Inl e, s1)"
      "syncRecord L job a rec (p, f) s = (Inr (p, f + 1), s1)"
  | (applied) s1 where "\<not> pr_Deleted rec" "Validate L a rec = None" "Process L (jobEvent job a rec (now s)) s = (Inr (), s1)"
      "syncRecord L job a rec (p, f) s = (Inr (p + 1, f), s1)"
proof (cases "pr_Deleted rec")
  case True
  then show thesis by (intro skipped) (simp_all add: syncRecord_def ret_run)
next
  case False
  show thesis
  proof (cases "Validate L a rec")
    case None
    obtain r s1 where run: "Process L (jobEvent job a rec (now s)) s = (r, s1)"
      by force
    show thesis
      by (cases r) (use False None run in \<open>(intro failed applied; simp add: syncRecord_def bindM_run timeNow_run attempt_run ret_run)\<close>)+
  next
    case (Some e)
    have "fst (deadLetterProviderRecord L job rec e s) = Inr ()"
      by (simp add: deadLetterProviderRecord_def bindM_run timeNow_run Let_def ignore_run)
    then obtain s1 where "deadLetterProviderRecord L job rec e s = (Inr (), s1)"
      by (cases "deadLetterProviderRecord L job rec e s") auto
    then show thesis
      using False Some by (intro invalid [of e]) (simp_all add: syncRecord_def thenM_run ret_run)
  qed
qed

lemma processed_deadLetter: "keeps (\<lambda>s. processed (db s)) (deadLetterProviderRecord L job rec e)"
  "keeps (\<lambda>s. policies (db s)) (deadLetterProviderRecord L job rec e)"
  unfolding deadLetterProviderRecord_def timeNow_def Let_def
  by (intro keeps_intros frame_intros; simp)+

lemma syncRecord_keeps_claims:
  assumes "claimedEvent e (db s)"
  shows "claimedEvent e (db (snd (syncRecord L job a rec (p, f) s)))"
proof (cases rule: syncRecord_cases [where L = L and job = job and a = a and rec = rec and p = p and f = f and s = s])
  case (invalid er)
  then show ?thesis
    using assms keepsD [OF processed_deadLetter(1), of L job rec er s] by (simp add: claimedEvent_def)
qed (use assms claims_kept [OF assms, of L "jobEvent job a rec (now s)"] in auto)

lemma syncRecord_policies: "policies (db (snd (syncRecord L job a rec acc s))) = policies (db s)"
proof (cases acc)
  case (Pair p f)
  have "processFrame policies" by simp
  note k = keepsD [OF frame_Process [OF this], of L "jobEvent job a rec (now s)" s]
  show ?thesis
    unfolding Pair
    by (cases rule: syncRecord_cases [where L = L and job = job and a = a and rec = rec and p = p and f = f and s = s])
      (use k keepsD [OF processed_deadLetter(2), of L job rec _ s] in auto)
qed

lemma live_Cons [simp]: "live (r # rs) = (if pr_Deleted r then live rs else r # live rs)"
  by (simp add: live_def)

lemma syncRecord_counts:
  obtains p' f' s1 where "syncRecord L job a rec (p, f) s = (Inr (p', f'), s1)" "p \<le> p'" "f \<le> f'"
    "p' + f' = p + f + int (length (live [rec]))"
proof (cases rule: syncRecord_cases [where L = L and job = job and a = a and rec = rec and p = p and f = f and s = s])
qed (use that in \<open>auto simp: live_def\<close>)

lemma page_counts:
  "\<exists>p' f'. fst (syncPage L job a recs (p, f) s) = Inr (p', f') \<and> p \<le> p' \<and> f \<le> f' \<and>
     p' + f' = p + f + int (length (live recs))"
proof (induction recs arbitrary: p f s)
  case (Cons rec recs)
  obtain p1 f1 s1 where step: "syncRecord L job a rec (p, f) s = (Inr (p1, f1), s1)" "p \<le> p1" "f \<le> f1"
    "p1 + f1 = p + f + int (length (live [rec]))"
    by (rule syncRecord_counts)
  from Cons.IH [of p1 f1 s1] obtain p' f' where "fst (syncPage L job a recs (p1, f1) s1) = Inr (p', f')"
    "p1 \<le> p'" "f1 \<le> f'" "p' + f' = p1 + f1 + int (length (live recs))"
    by blast
  with step show ?case
    by (intro exI [of _ p'] exI [of _ f']) (auto simp: bindM_run live_def)
qed (simp add: ret_run live_def)

lemma syncPage_Cons:
  assumes "syncRecord L job a rec acc s = (Inr acc1, s1)"
  shows "syncPage L job a (rec # recs) acc s = syncPage L job a recs acc1 s1"
  using assms by (simp add: bindM_run)

lemma page_claims:
  assumes "syncPage L job a recs (p, f) s = (Inr (p', f), s')" "jobRelevant job (db s)"
  shows "(\<forall>rec \<in> set (live recs). Validate L a rec = None \<and> jobClaimed job rec (db s')) \<and>
    (\<forall>e. claimedEvent e (db s) \<longrightarrow> claimedEvent e (db s'))"
  using assms
proof (induction recs arbitrary: p s)
  case (Cons rec recs)
  obtain p1 f1 s1 where step: "syncRecord L job a rec (p, f) s = (Inr (p1, f1), s1)" "f \<le> f1"
    by (rule syncRecord_counts)
  have rest: "syncPage L job a recs (p1, f1) s1 = (Inr (p', f), s')"
    using Cons.prems(1) syncPage_Cons [OF step(1)] by simp
  have "f1 \<le> f"
    using page_counts [where L = L and job = job and a = a and recs = recs and p = p1 and f = f1 and s = s1] rest by auto
  then have "f1 = f"
    using step(2) by simp
  have "jobRelevant job (db s1)"
    using Cons.prems(2) syncRecord_policies [of L job a rec "(p, f)" s] step(1) by (simp add: jobRelevant_def)
  note IH = Cons.IH [OF rest [unfolded \<open>f1 = f\<close>] this]
  have keep: "claimedEvent e (db s1)" if "claimedEvent e (db s)" for e
    using syncRecord_keeps_claims [OF that, of L job a rec p f] step(1) by simp
  have "pr_Deleted rec \<or> Validate L a rec = None \<and> jobClaimed job rec (db s1)"
  proof (cases rule: syncRecord_cases [where L = L and job = job and a = a and rec = rec and p = p and f = f and s = s])
    case (applied s2)
    then have "claimedEvent (jobEvent job a rec (now s)) (db s2)"
      using Process_success_claims relevant_jobEvent Cons.prems(2) by blast
    with applied step(1) show ?thesis
      by (simp add: claimed_jobEvent)
  qed (use step(1) \<open>f1 = f\<close> in auto)
  then have "pr_Deleted rec \<or> Validate L a rec = None \<and> jobClaimed job rec (db s')"
    using IH claimed_jobEvent [of job a rec 0] by blast
  then show ?case
    using IH keep by auto
qed (auto simp: ret_run live_def)

lemma page_replay:
  assumes "\<forall>rec \<in> set (live recs). Validate L a rec = None \<and> jobClaimed job rec (db s)"
  shows "db (snd (syncPage L job a recs acc s)) = db s \<and> world (snd (syncPage L job a recs acc s)) = world s"
  using assms
proof (induction recs arbitrary: acc s)
  case (Cons rec recs)
  obtain p f where acc: "acc = (p, f)"
    by (cases acc)
  show ?case
  proof (cases "pr_Deleted rec")
    case True
    then have "syncRecord L job a rec acc s = (Inr acc, s)"
      by (simp add: syncRecord_def acc ret_run)
    from syncPage_Cons [OF this] show ?thesis
      using Cons True by simp
  next
    case False
    then have "claimedEvent (jobEvent job a rec (now s)) (db s)" "Validate L a rec = None"
      using Cons.prems by (simp_all add: claimed_jobEvent)
    then obtain r fs where "Process L (jobEvent job a rec (now s)) s = (r, s\<lparr>faults := fs\<rparr>)"
      using Process_claimed by blast
    then obtain acc1 where "syncRecord L job a rec acc s = (Inr acc1, s\<lparr>faults := fs\<rparr>)"
      using False \<open>Validate L a rec = None\<close>
      by (cases r) (simp_all add: syncRecord_def acc bindM_run timeNow_run attempt_run ret_run)
    from syncPage_Cons [OF this] show ?thesis
      using Cons.IH [of "s\<lparr>faults := fs\<rparr>" acc1] Cons.prems False by simp
  qed
qed (simp add: ret_run)

section \<open>Properties\<close>

text \<open>
  A page of a full sync is accounted for record by record. Whatever the providers answer and
  whatever statements fail, walking a page ends without an error, and the counters of applied and of
  failed records together grow by exactly the number of records of the page that are not deleted;
  neither counter ever decreases.
\<close>

theorem syncPage_counts:
  "\<exists>p' f'. fst (syncPage L job a recs (p, f) s) = Inr (p', f') \<and> p \<le> p' \<and> f \<le> f' \<and>
     p' + f' = p + f + int (length (live recs))"
  by (rule page_counts)


definition demoPage :: "ProviderRecord list" where
  "demoPage = [\<lparr>pr_ID = ''sf-1'', pr_SourceVersion = 2, pr_Deleted = False,
     pr_Data = [(''first_name'', GStr ''Ada''), (''last_name'', GStr ''L''), (''email'', GStr ''ada@x'')]\<rparr>]"

definition demoAdapter :: Adapter where
  "demoAdapter = SalesforceA (NewClient ''http://sf'' [])"


section \<open>Whole jobs\<close>

lemma iso_jobProcess:
  fixes L :: "('w, 'x) lib_scheme"
  shows "keeps (\<lambda>s :: ('w, 'z) st_scheme. outside (sj_TenantID job) (db s)) (Process L (jobEvent job a rec n))"
  using iso_Process [where L = L and ev = "jobEvent job a rec n"] by (simp add: jobEvent_def)

lemma iso_syncAbort: "keeps (\<lambda>s. outside (sj_TenantID job) (db s)) (syncAbort job e)"
  unfolding syncAbort_def by (intro keeps_intros iso_intros)

lemma iso_orSyncAbort:
  "keeps (\<lambda>s. outside (sj_TenantID job) (db s)) m \<Longrightarrow> keeps (\<lambda>s. outside (sj_TenantID job) (db s)) (orSyncAbort job m)"
  unfolding orSyncAbort_def by (intro keeps_intros iso_syncAbort)

lemma iso_syncRecord: "keeps (\<lambda>s. outside (sj_TenantID job) (db s)) (syncRecord L job a rec acc)"
  unfolding syncRecord_def deadLetterProviderRecord_def timeNow_def Let_def
  by (intro keeps_intros iso_jobProcess iso_intros) simp_all

lemma iso_syncPages: "keeps (\<lambda>s. outside (sj_TenantID job) (db s)) (syncPages n L job a tot cursor acc)"
proof (induction n arbitrary: cursor acc)
  case (Suc n)
  show ?case
    unfolding syncPages.simps Let_def
    by (intro keeps_bindM keeps_thenM keeps_if keeps_ret keeps_prod keeps_forM iso_orSyncAbort keeps_ListPage
        iso_jobs iso_syncRecord Suc.IH) (simp add: frameNet_def)
qed (simp add: keeps_ret)

lemma returns_syncAbort: "returns (syncAbort job e) R"
  unfolding syncAbort_def by (intro returns_intros)

lemma returns_orSyncAbort: "returns m R \<Longrightarrow> returns (orSyncAbort job m) R"
  unfolding orSyncAbort_def
  by (rule returns_bindM [OF returns_attempt], assumption) (auto split: sum.split intro: returns_syncAbort returns_ret)

lemma syncPages_ends:
  assumes "cursorsAdvance L a (sj_BatchSize job) rank" "rank cursor < fuel"
  shows "returns (syncPages fuel L job a tot cursor acc) (\<lambda>x. x \<noteq> None)"
  using assms(2)
proof (induction fuel arbitrary: cursor acc)
  case (Suc fuel)
  show ?case
    unfolding syncPages.simps
  proof (rule returns_bindM [OF returns_orSyncAbort [OF ListPage_advances [OF assms(1)]]], rule returns_bindM_any,
      unfold Let_def, simp only: split_beta, rule returns_thenM, goal_cases)
    case (1 page c)
    then show ?case
      using Suc.prems Suc.IH [of "pg_NextCursor page" "(fst c, snd c)"] by (auto intro!: returns_ret)
  qed
qed simp

text \<open>
  A full sync touches only its tenant: every row of every table that belongs to another tenant
  is the same afterwards, whatever the outcome, the faults and the answers of the providers.
\<close>

theorem execute_isolation:
  assumes "sj_Type job \<noteq> ''reconcile''"
  shows "outside (sj_TenantID job) (db (snd (execute fuel L r job s))) = outside (sj_TenantID job) (db s)"
proof -
  have "keeps (\<lambda>s. outside (sj_TenantID job) (db s)) (execute fuel L r job)"
    unfolding execute_def Let_def
    by (intro keeps_if keeps_bindM keeps_thenM keeps_attempt keeps_ret keeps_option keeps_returnE keeps_reads
        iso_orSyncAbort iso_syncAbort keeps_HealthCheck iso_syncPages iso_jobs) (use assms in \<open>simp_all add: frameNet_def\<close>)
  then show ?thesis
    by (rule keepsD)
qed

theorem execute_isolation_witness:
  "outside ''t1'' (db (snd (execute 1 execLib True (demoJob\<lparr>sj_Type := ''initial''\<rparr>) (demoSt demoDb)))) = outside ''t1'' demoDb"
  using execute_isolation [of "demoJob\<lparr>sj_Type := ''initial''\<rparr>" 1 execLib True "demoSt demoDb"]
  by (simp add: demoJob_def) (simp add: demoSt_def)

text \<open>
  A job ends. If the cursors of the provider advance, a job whose loop may turn as often as the
  listing has pages left does not use up its fuel: it finishes or returns an error.
\<close>

theorem execute_ends:
  assumes "\<forall>a. cursorsAdvance L a (sj_BatchSize job) rank" "rank (jobCursor job) < fuel"
  shows "fst (execute fuel L r job s) \<noteq> Inr None"
proof -
  have "returns (execute fuel L r job) (\<lambda>x. x \<noteq> None)"
    unfolding execute_def Let_def
    by (auto intro!: returns_syncAbort reconcileRun_returns [OF assms, simplified] returns_bindM_any returns_ret returns_thenM
        returns_bindM [OF syncPages_ends [OF assms(1) [rule_format] assms(2)]])
  then show ?thesis
    using returnsD [of "execute fuel L r job" "\<lambda>x. x \<noteq> None" s None "snd (execute fuel L r job s)"]
    by (cases "execute fuel L r job s") auto
qed

theorem execute_ends_witness:
  "fst (execute 1 execLib True (demoJob\<lparr>sj_Type := ''initial''\<rparr>) (demoSt demoDb)) \<noteq> Inr None"
proof (rule execute_ends [where rank = "\<lambda>_. 0"])
  have "decodeList execLib body = Some (recs, nxt, True) \<Longrightarrow> False" for body recs nxt
    by (simp add: decodeList_def decodeMap_def execLib_def decodeListFields_def gget_def)
  then show "\<forall>a. cursorsAdvance execLib a (sj_BatchSize (demoJob\<lparr>sj_Type := ''initial''\<rparr>)) (\<lambda>_. 0)"
    unfolding cursorsAdvance_def by blast
qed simp

end
