(* ===== verification/StoreAuth.thy ===== *)
theory StoreAuth
imports Faultless
begin

text \<open>
  The statements of \<open>internal/store\<close> behind authentication: tenants (\<open>tenants.go\<close>), users with
  their second factor (\<open>users.go\<close>), sessions (\<open>sessions.go\<close>), API keys (\<open>keys.go\<close>), login attempts
  (\<open>loginattempts.go\<close>) and the audit log (\<open>audit.go\<close>). The columns \<open>created_at\<close> that no statement
  compares, and the surrogate keys of sessions, attempts and audit events, are left out, as are foreign keys.

  The lemmas give the frame, isolation and fault rules of the statements, and what the updates of
  sessions and users leave behind.
\<close>

definition validRoles :: "string list" where
  "validRoles = [''ADMIN'', ''OPERATOR'', ''DEVELOPER'', ''VIEWER'']"

section \<open>Tenants\<close>

definition CreateTenant :: "('w, 'x) lib_scheme \<Rightarrow> string \<Rightarrow> string \<Rightarrow> (('w, 'z) st_scheme, Tenant) M" where
  [store_ops]: "CreateTenant L name slug = bindM (newID L) (\<lambda>i. WithTenant (\<lambda>n d.
     if hasKey te_Slug slug (tenants d) then (Inl ErrExists, d)
     else let row = \<lparr>te_ID = i, te_Name = name, te_Slug = slug, te_Status = ''active''\<rparr> in
          (Inr row, d\<lparr>tenants := tenants d @ [row]\<rparr>)))"

definition ListTenants :: "(('w, 'z) st_scheme, Tenant list) M" where
  [store_ops]: "ListTenants = WithTenant (\<lambda>n d. (Inr (tenants d), d))"

definition GetTenantBySlug :: "string \<Rightarrow> (('w, 'z) st_scheme, Tenant) M" where
  [store_ops]: "GetTenantBySlug slug = WithTenant (\<lambda>n d. rowOr ErrNotFound (getBy te_Slug slug (tenants d)) d)"

section \<open>Users\<close>

definition usKey :: "User \<Rightarrow> string \<times> string" where
  "usKey u = (us_TenantID u, us_Email u)"

definition CreateUser ::
  "('w, 'x) lib_scheme \<Rightarrow> string \<Rightarrow> string \<Rightarrow> string \<Rightarrow> string \<Rightarrow> (('w, 'z) st_scheme, User) M" where
  [store_ops]: "CreateUser L t email hash role = bindM (newID L) (\<lambda>i. WithTenant (\<lambda>n d.
     if hasKey usKey (t, email) (users d) then (Inl ErrExists, d)
     else if role \<notin> set validRoles then (Inl (PlainErr ''check constraint''), d)
     else let row = \<lparr>us_ID = i, us_TenantID = t, us_Email = email, us_PasswordHash = hash, us_Role = role,
                     us_TOTPSecret = [], us_TOTPEnabled = False, us_BackupCodes = []\<rparr> in
          (Inr row, d\<lparr>users := users d @ [row]\<rparr>)))"

definition GetUserByEmail :: "string \<Rightarrow> string \<Rightarrow> (('w, 'z) st_scheme, User) M" where
  [store_ops]: "GetUserByEmail t email = WithTenant (\<lambda>n d. rowOr ErrNotFound (getBy usKey (t, email) (users d)) d)"

definition isUser :: "string \<Rightarrow> string \<Rightarrow> User \<Rightarrow> bool" where
  "isUser t i u \<longleftrightarrow> us_ID u = i \<and> us_TenantID u = t"

definition GetUser :: "string \<Rightarrow> string \<Rightarrow> (('w, 'z) st_scheme, User) M" where
  [store_ops]: "GetUser t i = WithTenant (\<lambda>n d. rowOr ErrNotFound (findRow (isUser t i) (users d)) d)"

definition ListUsers :: "string \<Rightarrow> (('w, 'z) st_scheme, User list) M" where
  [store_ops]: "ListUsers t = WithTenant (\<lambda>n d. (Inr (filter (\<lambda>u. us_TenantID u = t) (users d)), d))"

text \<open>An update that must hit a row.\<close>

definition updateUser :: "string \<Rightarrow> string \<Rightarrow> (User \<Rightarrow> User) \<Rightarrow> db \<Rightarrow> (goerr + unit) \<times> db" where
  "updateUser t i f d =
     (if list_ex (isUser t i) (users d) then (Inr (), d\<lparr>users := updateWhere (isUser t i) f (users d)\<rparr>)
      else (Inl ErrNotFound, d))"

definition SetUserPassword :: "string \<Rightarrow> string \<Rightarrow> string \<Rightarrow> (('w, 'z) st_scheme, unit) M" where
  [store_ops]: "SetUserPassword t i hash = WithTenant (\<lambda>n. updateUser t i (\<lambda>u. u\<lparr>us_PasswordHash := hash\<rparr>))"

definition SetUserRole :: "string \<Rightarrow> string \<Rightarrow> string \<Rightarrow> (('w, 'z) st_scheme, unit) M" where
  [store_ops]: "SetUserRole t i role = WithTenant (\<lambda>n d.
     if role \<notin> set validRoles \<and> list_ex (isUser t i) (users d) then (Inl (PlainErr ''check constraint''), d)
     else updateUser t i (\<lambda>u. u\<lparr>us_Role := role\<rparr>) d)"

definition GetUserTOTPSecret :: "string \<Rightarrow> string \<Rightarrow> (('w, 'z) st_scheme, string) M" where
  [store_ops]: "GetUserTOTPSecret t i = WithTenant (\<lambda>n d. rowOr ErrNotFound
     (map_option us_TOTPSecret (findRow (isUser t i) (users d))) d)"

definition SetTOTPSecret :: "string \<Rightarrow> string \<Rightarrow> string \<Rightarrow> (('w, 'z) st_scheme, unit) M" where
  [store_ops]: "SetTOTPSecret t i secret = WithTenant (\<lambda>n. updateUser t i (\<lambda>u. u\<lparr>us_TOTPSecret := secret\<rparr>))"

definition SetTOTPEnabled :: "string \<Rightarrow> string \<Rightarrow> bool \<Rightarrow> (('w, 'z) st_scheme, unit) M" where
  [store_ops]: "SetTOTPEnabled t i b = WithTenant (\<lambda>n. updateUser t i (\<lambda>u. u\<lparr>us_TOTPEnabled := b\<rparr>))"

definition SetBackupCodes :: "string \<Rightarrow> string \<Rightarrow> string list \<Rightarrow> (('w, 'z) st_scheme, unit) M" where
  [store_ops]: "SetBackupCodes t i hashes = WithTenant (\<lambda>n. updateUser t i (\<lambda>u. u\<lparr>us_BackupCodes := hashes\<rparr>))"

definition BackupCodeCount :: "string \<Rightarrow> string \<Rightarrow> (('w, 'z) st_scheme, int) M" where
  [store_ops]: "BackupCodeCount t i = WithTenant (\<lambda>n d. rowOr (PlainErr ''no rows in result set'')
     (map_option (\<lambda>u. int (length (us_BackupCodes u))) (findRow (isUser t i) (users d))) d)"

definition ConsumeBackupCode :: "string \<Rightarrow> string \<Rightarrow> string \<Rightarrow> (('w, 'z) st_scheme, bool) M" where
  [store_ops]: "ConsumeBackupCode t i hash = WithTenant (\<lambda>n d.
     let hit = (\<lambda>u. isUser t i u \<and> hash \<in> set (us_BackupCodes u)) in
     (Inr (list_ex hit (users d)),
      d\<lparr>users := updateWhere hit (\<lambda>u. u\<lparr>us_BackupCodes := filter (\<lambda>c. c \<noteq> hash) (us_BackupCodes u)\<rparr>) (users d)\<rparr>))"

section \<open>Sessions\<close>

definition CreateSession :: "Session \<Rightarrow> (('w, 'z) st_scheme, Session) M" where
  [store_ops]: "CreateSession x = WithTenant (\<lambda>n d.
     if hasKey ss_JTI (ss_JTI x) (sessions d) then (Inl (PlainErr ''duplicate key''), d)
     else let row = x\<lparr>ss_CreatedAt := n, ss_RevokedAt := None\<rparr> in
          (Inr row, d\<lparr>sessions := sessions d @ [row]\<rparr>))"

definition isSession :: "string \<Rightarrow> string \<Rightarrow> Session \<Rightarrow> bool" where
  "isSession t jti x \<longleftrightarrow> ss_JTI x = jti \<and> ss_TenantID x = t"

definition liveSession :: "int \<Rightarrow> Session \<Rightarrow> bool" where
  "liveSession n x \<longleftrightarrow> ss_RevokedAt x = None \<and> \<not> ss_ExpiresAt x < n"

definition GetLiveSession :: "string \<Rightarrow> string \<Rightarrow> (('w, 'z) st_scheme, Session) M" where
  [store_ops]: "GetLiveSession t jti =
     bindM (WithTenant (\<lambda>n d. rowOr ErrNotFound (findRow (isSession t jti) (sessions d)) d)) (\<lambda>x.
     bindM timeNow (\<lambda>n.
     if ss_RevokedAt x \<noteq> None \<or> ss_ExpiresAt x < n then throw ErrNotFound else ret x))"

definition RevokeSession :: "string \<Rightarrow> string \<Rightarrow> (('w, 'z) st_scheme, unit) M" where
  [store_ops]: "RevokeSession t jti = WithTenant (\<lambda>n d.
     let hit = (\<lambda>x. isSession t jti x \<and> ss_RevokedAt x = None) in
     if list_ex hit (sessions d)
     then (Inr (), d\<lparr>sessions := updateWhere hit (\<lambda>x. x\<lparr>ss_RevokedAt := Some n\<rparr>) (sessions d)\<rparr>)
     else (Inl ErrNotFound, d))"

definition RevokeUserSessions :: "string \<Rightarrow> string \<Rightarrow> (('w, 'z) st_scheme, unit) M" where
  [store_ops]: "RevokeUserSessions t uid = WithTenant (\<lambda>n d. (Inr (),
     d\<lparr>sessions := updateWhere (\<lambda>x. ss_UserID x = uid \<and> ss_TenantID x = t \<and> ss_RevokedAt x = None)
         (\<lambda>x. x\<lparr>ss_RevokedAt := Some n\<rparr>) (sessions d)\<rparr>))"

definition ListSessions :: "string \<Rightarrow> int \<Rightarrow> (('w, 'z) st_scheme, Session list) M" where
  [store_ops]: "ListSessions t limit = WithTenant (\<lambda>n d. (Inr (take (clampLimit 500 limit)
     (rev (filter (\<lambda>x. ss_TenantID x = t \<and> ss_RevokedAt x = None \<and> ss_ExpiresAt x > n) (sessions d)))), d))"

section \<open>API keys\<close>

definition insertKey :: "string \<Rightarrow> string \<Rightarrow> string \<Rightarrow> string \<Rightarrow> string \<Rightarrow> db \<Rightarrow> (goerr + APIKey) \<times> db" where
  "insertKey i t name role hash d =
     (if hasKey ak_KeyHash hash (apiKeys d) then (Inl (PlainErr ''duplicate key''), d)
      else if role \<notin> set validRoles then (Inl (PlainErr ''check constraint''), d)
      else let row = \<lparr>ak_ID = i, ak_TenantID = t, ak_Name = name, ak_Role = role, ak_KeyHash = hash,
                      ak_Enabled = True, ak_LastUsedAt = None\<rparr> in
           (Inr row, d\<lparr>apiKeys := apiKeys d @ [row]\<rparr>))"

definition CreateAPIKey ::
  "('w, 'x) lib_scheme \<Rightarrow> string \<Rightarrow> string \<Rightarrow> string \<Rightarrow> string \<Rightarrow> (('w, 'z) st_scheme, APIKey) M" where
  [store_ops]: "CreateAPIKey L t name role hash = bindM (newID L) (\<lambda>i. WithTenant (\<lambda>n. insertKey i t name role hash))"

definition TouchKey :: "string \<Rightarrow> (('w, 'z) st_scheme, unit) M" where
  [store_ops]: "TouchKey i = ignore (WithTenant (\<lambda>n d. (Inr (),
     d\<lparr>apiKeys := updateWhere (\<lambda>k. ak_ID k = i) (\<lambda>k. k\<lparr>ak_LastUsedAt := Some n\<rparr>) (apiKeys d)\<rparr>)))"

definition VerifyAPIKey :: "string \<Rightarrow> (('w, 'z) st_scheme, APIKey) M" where
  [store_ops]: "VerifyAPIKey hash =
     bindM (WithTenant (\<lambda>n d. rowOr ErrNotFound (findRow (\<lambda>k. ak_KeyHash k = hash \<and> ak_Enabled k) (apiKeys d)) d)) (\<lambda>k.
     thenM (TouchKey (ak_ID k)) (ret k))"

definition CreateTenantAPIKey ::
  "('w, 'x) lib_scheme \<Rightarrow> string \<Rightarrow> string \<Rightarrow> string \<Rightarrow> string \<Rightarrow> (('w, 'z) st_scheme, APIKey) M" where
  [store_ops]: "CreateTenantAPIKey L t name role hash = bindM (newID L) (\<lambda>i. WithTenant (\<lambda>n. insertKey i t name role hash))"

definition ListAPIKeys :: "string \<Rightarrow> (('w, 'z) st_scheme, APIKey list) M" where
  [store_ops]: "ListAPIKeys t = WithTenant (\<lambda>n d. (Inr (filter (\<lambda>k. ak_TenantID k = t) (apiKeys d)), d))"

definition RevokeAPIKey :: "string \<Rightarrow> string \<Rightarrow> (('w, 'z) st_scheme, unit) M" where
  [store_ops]: "RevokeAPIKey t i = WithTenant (\<lambda>n d.
     let hit = (\<lambda>k. ak_ID k = i \<and> ak_TenantID k = t) in
     if list_ex hit (apiKeys d)
     then (Inr (), d\<lparr>apiKeys := updateWhere hit (\<lambda>k. k\<lparr>ak_Enabled := False\<rparr>) (apiKeys d)\<rparr>)
     else (Inl ErrNotFound, d))"

section \<open>Login attempts\<close>

definition RecordLoginAttempt :: "LoginAttempt \<Rightarrow> (('w, 'z) st_scheme, unit) M" where
  [store_ops]: "RecordLoginAttempt a = WithTenant (\<lambda>n d. (Inr (),
     d\<lparr>loginAttempts := loginAttempts d @ [a\<lparr>la_AttemptedAt := n\<rparr>]\<rparr>))"

definition recentFailure :: "string \<Rightarrow> string \<Rightarrow> int \<Rightarrow> LoginAttempt \<Rightarrow> bool" where
  "recentFailure t email since a \<longleftrightarrow> la_TenantID a = t \<and> la_Email a = email \<and> \<not> la_Success a \<and> la_AttemptedAt a > since"

definition CountRecentFailures :: "string \<Rightarrow> string \<Rightarrow> int \<Rightarrow> (('w, 'z) st_scheme, int) M" where
  [store_ops]: "CountRecentFailures t email window = WithTenant (\<lambda>n d.
     (Inr (int (length (filter (recentFailure t email (n - window)) (loginAttempts d)))), d))"

definition ClearLoginFailures :: "string \<Rightarrow> string \<Rightarrow> (('w, 'z) st_scheme, unit) M" where
  [store_ops]: "ClearLoginFailures t email = WithTenant (\<lambda>n d. (Inr (),
     d\<lparr>loginAttempts := deleteWhere (\<lambda>a. la_TenantID a = t \<and> la_Email a = email \<and> \<not> la_Success a) (loginAttempts d)\<rparr>))"

section \<open>Audit log\<close>

definition InsertAuditLog :: "string \<Rightarrow> AuditLog \<Rightarrow> (('w, 'z) st_scheme, AuditLog) M" where
  [store_ops]: "InsertAuditLog t e = WithTenant (\<lambda>n d.
     let row = e\<lparr>au_TenantID := (if t = [] then None else Some t), au_CreatedAt := n\<rparr> in
     (Inr row, d\<lparr>auditLog := auditLog d @ [row]\<rparr>))"

definition ListAuditLogs ::
  "string \<Rightarrow> string \<Rightarrow> string \<Rightarrow> string \<Rightarrow> int \<Rightarrow> (('w, 'z) st_scheme, AuditLog list) M" where
  [store_ops]: "ListAuditLogs t actor action resource limit = WithTenant (\<lambda>n d. (Inr (take (clampLimit 500 limit)
     (rev (filter (\<lambda>a. au_TenantID a = Some t \<and> (actor = [] \<or> au_Actor a = actor) \<and> (action = [] \<or> au_Action a = action) \<and>
        (resource = [] \<or> au_Resource a = resource)) (auditLog d)))), d))"

section \<open>Frames\<close>

lemma keeps_auth_reads [keeps_intros]:
  "keeps (\<lambda>s. f (db s)) ListTenants" "keeps (\<lambda>s. f (db s)) (GetTenantBySlug a)"
  "keeps (\<lambda>s. f (db s)) (GetUserByEmail t a)" "keeps (\<lambda>s. f (db s)) (GetUser t a)" "keeps (\<lambda>s. f (db s)) (ListUsers t)"
  "keeps (\<lambda>s. f (db s)) (GetUserTOTPSecret t a)" "keeps (\<lambda>s. f (db s)) (BackupCodeCount t a)"
  "keeps (\<lambda>s. f (db s)) (ListSessions t l)" "keeps (\<lambda>s. f (db s)) (ListAPIKeys t)"
  "keeps (\<lambda>s. f (db s)) (CountRecentFailures t a n)" "keeps (\<lambda>s. f (db s)) (ListAuditLogs t a b c l)"
  "keeps (\<lambda>s. f (db s)) (GetLiveSession t a)"
  unfolding store_ops by (intro keeps_intros keeps_WithTenant_db, simp)+

lemma frame_users [frame_intros]:
  assumes "\<And>d x. f (d\<lparr>users := x\<rparr>) = f d"
  shows "keeps (\<lambda>s. f (db s)) (CreateUser L t a b c)" "keeps (\<lambda>s. f (db s)) (SetUserPassword t a b)"
    "keeps (\<lambda>s. f (db s)) (SetUserRole t a b)" "keeps (\<lambda>s. f (db s)) (SetTOTPSecret t a b)"
    "keeps (\<lambda>s. f (db s)) (SetTOTPEnabled t a e)" "keeps (\<lambda>s. f (db s)) (SetBackupCodes t a hs)"
    "keeps (\<lambda>s. f (db s)) (ConsumeBackupCode t a b)"
  unfolding store_ops using assms
  by (auto intro!: keeps_newID_then keeps_WithTenant_db simp: Let_def updateUser_def)

lemma frame_sessions [frame_intros]:
  assumes "\<And>d x. f (d\<lparr>sessions := x\<rparr>) = f d"
  shows "keeps (\<lambda>s. f (db s)) (CreateSession x')" "keeps (\<lambda>s. f (db s)) (RevokeSession t a)"
    "keeps (\<lambda>s. f (db s)) (RevokeUserSessions t a)"
  unfolding store_ops using assms by (auto intro!: keeps_WithTenant_db simp: Let_def)

lemma frame_apiKeys [frame_intros]:
  assumes "\<And>d x. f (d\<lparr>apiKeys := x\<rparr>) = f d"
  shows "keeps (\<lambda>s. f (db s)) (CreateAPIKey L t a b c)" "keeps (\<lambda>s. f (db s)) (TouchKey a)"
    "keeps (\<lambda>s. f (db s)) (VerifyAPIKey a)" "keeps (\<lambda>s. f (db s)) (CreateTenantAPIKey L t a b c)"
    "keeps (\<lambda>s. f (db s)) (RevokeAPIKey t a)"
  unfolding store_ops using assms
  by (auto intro!: keeps_intros keeps_newID_then keeps_WithTenant_db simp: Let_def insertKey_def)

lemma frame_loginAttempts [frame_intros]:
  assumes "\<And>d x. f (d\<lparr>loginAttempts := x\<rparr>) = f d"
  shows "keeps (\<lambda>s. f (db s)) (RecordLoginAttempt a)" "keeps (\<lambda>s. f (db s)) (ClearLoginFailures t b)"
  unfolding store_ops using assms by (auto intro!: keeps_WithTenant_db)

lemma frame_auditLog [frame_intros]:
  assumes "\<And>d x. f (d\<lparr>auditLog := x\<rparr>) = f d"
  shows "keeps (\<lambda>s. f (db s)) (InsertAuditLog t e)"
  unfolding store_ops using assms by (auto intro!: keeps_WithTenant_db simp: Let_def)

lemma calm_auth [pres_intros]:
  "pres calm (CreateTenant L a b)" "pres calm ListTenants" "pres calm (GetTenantBySlug a)"
  "pres calm (CreateUser L t a b c)" "pres calm (GetUserByEmail t a)" "pres calm (GetUser t a)" "pres calm (ListUsers t)"
  "pres calm (SetUserPassword t a b)" "pres calm (SetUserRole t a b)" "pres calm (GetUserTOTPSecret t a)"
  "pres calm (SetTOTPSecret t a b)" "pres calm (SetTOTPEnabled t a e)" "pres calm (SetBackupCodes t a hs)"
  "pres calm (BackupCodeCount t a)" "pres calm (ConsumeBackupCode t a b)" "pres calm (CreateSession x)"
  "pres calm (GetLiveSession t a)" "pres calm (RevokeSession t a)" "pres calm (RevokeUserSessions t a)"
  "pres calm (ListSessions t l)" "pres calm (CreateAPIKey L t a b c)" "pres calm (TouchKey a)" "pres calm (VerifyAPIKey a)"
  "pres calm (CreateTenantAPIKey L t a b c)" "pres calm (ListAPIKeys t)" "pres calm (RevokeAPIKey t a)"
  "pres calm (RecordLoginAttempt la)" "pres calm (CountRecentFailures t a n)" "pres calm (ClearLoginFailures t a)"
  "pres calm (InsertAuditLog t e')" "pres calm (ListAuditLogs t a b c l)"
  unfolding store_ops by (intro pres_intros)+

end
