(* ===== verification/Codecs.thy ===== *)
theory Codecs
imports GoValues "HOL-Library.Word"
begin

text \<open>
  The byte encodings the services use from the Go standard library: lower-case hexadecimal
  (\<open>encoding/hex\<close>), unpadded URL-safe base64 (\<open>base64.RawURLEncoding\<close>) and base32
  (\<open>base32.StdEncoding\<close>), and \<open>strings.Split\<close> at a character. A byte string is a
  \<^typ>\<open>string\<close>. The lemmas are the round trips, and that encoded text is free of the separator
  of session tokens.
\<close>

section \<open>Hexadecimal\<close>

definition hexVal :: "char \<Rightarrow> nat option" where
  "hexVal c = (let n = of_char c in
     if 48 \<le> n \<and> n \<le> 57 then Some (n - 48)
     else if 97 \<le> n \<and> n \<le> 102 then Some (n - 87)
     else if 65 \<le> n \<and> n \<le> 70 then Some (n - 55)
     else None)"

definition hexEncode :: "string \<Rightarrow> string" where
  "hexEncode s = concat (map (\<lambda>c. [hexDigit (of_char c div 16), hexDigit (of_char c mod 16)]) s)"

fun hexDecode :: "string \<Rightarrow> string option" where
  "hexDecode [] = Some []"
| "hexDecode [c] = None"
| "hexDecode (a # b # r) =
     (case (hexVal a, hexVal b, hexDecode r) of
        (Some x, Some y, Some t) \<Rightarrow> Some (char_of (16 * x + y) # t)
      | _ \<Rightarrow> None)"

lemma hexVal_hexDigit: "n < 16 \<Longrightarrow> hexVal (hexDigit n) = Some n"
  by (auto simp: hexVal_def hexDigit_def)

lemma hexDecode_hexEncode [simp]: "hexDecode (hexEncode s) = Some s"
proof (induction s)
  case (Cons c s)
  have "(of_char c :: nat) div 16 < 16"
    by (simp add: less_mult_imp_div_less)
  with Cons show ?case
    by (simp add: hexEncode_def hexVal_hexDigit)
qed (simp add: hexEncode_def)

section \<open>Base64\<close>

text \<open>The alphabet \<open>A-Za-z0-9-_\<close>.\<close>

definition b64Char :: "nat \<Rightarrow> char" where
  "b64Char n =
     (if n < 26 then char_of (65 + n) else if n < 52 then char_of (71 + n) else if n < 62 then char_of (n - 4)
      else if n = 62 then CHR ''-'' else CHR ''_'')"

definition b64Val :: "char \<Rightarrow> nat option" where
  "b64Val c = (let n = of_char c in
     if 65 \<le> n \<and> n \<le> 90 then Some (n - 65)
     else if 97 \<le> n \<and> n \<le> 122 then Some (n - 71)
     else if 48 \<le> n \<and> n \<le> 57 then Some (n + 4)
     else if n = 45 then Some 62
     else if n = 95 then Some 63
     else None)"

fun b64Pack :: "nat list \<Rightarrow> nat list" where
  "b64Pack [] = []"
| "b64Pack [a] = [a div 4, a mod 4 * 16]"
| "b64Pack [a, b] = [a div 4, a mod 4 * 16 + b div 16, b mod 16 * 4]"
| "b64Pack (a # b # c # r) = a div 4 # (a mod 4 * 16 + b div 16) # (b mod 16 * 4 + c div 64) # c mod 64 # b64Pack r"

fun b64Unpack :: "nat list \<Rightarrow> nat list option" where
  "b64Unpack [] = Some []"
| "b64Unpack [w] = None"
| "b64Unpack [w, x] = Some [w * 4 + x div 16]"
| "b64Unpack [w, x, y] = Some [w * 4 + x div 16, x mod 16 * 16 + y div 4]"
| "b64Unpack (w # x # y # z # r) =
     map_option (\<lambda>t. (w * 4 + x div 16) # (x mod 16 * 16 + y div 4) # (y mod 4 * 64 + z) # t) (b64Unpack r)"

fun allSome :: "'a option list \<Rightarrow> 'a list option" where
  "allSome [] = Some []"
| "allSome (None # xs) = None"
| "allSome (Some x # xs) = map_option (\<lambda>t. x # t) (allSome xs)"

definition b64Encode :: "string \<Rightarrow> string" where
  "b64Encode s = map b64Char (b64Pack (map of_char s))"

definition noNewlines :: "string \<Rightarrow> string" where
  "noNewlines s = filter (\<lambda>c. c \<noteq> CHR 0x0A \<and> c \<noteq> CHR 0x0D) s"

definition b64Decode :: "string \<Rightarrow> string option" where
  "b64Decode s = (case allSome (map b64Val (noNewlines s)) of
     None \<Rightarrow> None
   | Some vs \<Rightarrow> map_option (map char_of) (b64Unpack vs))"

lemma b64Val_Char: "n < 64 \<Longrightarrow> b64Val (b64Char n) = Some n"
  by (auto simp: b64Val_def b64Char_def Let_def)

lemma b64Char_neq: "b64Val c = None \<Longrightarrow> n < 64 \<Longrightarrow> b64Char n \<noteq> c"
  using b64Val_Char by force

lemma mixed_radix:
  fixes x y k m :: nat
  assumes "y < k"
  shows "(x * k + y) div k = x" "(x * k + y) mod k = y" "x < m \<Longrightarrow> x * k + y < m * k"
proof -
  show "x * k + y < m * k" if "x < m"
  proof -
    have "x * k + y < Suc x * k" using assms by simp
    also have "\<dots> \<le> m * k" using that by (intro mult_le_mono1) simp
    finally show ?thesis .
  qed
qed (use assms in auto)

lemma b64_digits:
  assumes "b < (256::nat)"
  shows "a mod 4 * 16 + b div 16 < (64::nat)" "(a mod 4 * 16 + b div 16) div 16 = a mod 4"
    "(a mod 4 * 16 + b div 16) mod 16 = b div 16" "a mod 16 * 4 + b div 64 < 64"
    "(a mod 16 * 4 + b div 64) div 4 = a mod 16" "(a mod 16 * 4 + b div 64) mod 4 = b div 64"
proof -
  have b: "b div 16 < 16" "b div 64 < 4" using assms by (auto simp: less_mult_imp_div_less)
  show "a mod 4 * 16 + b div 16 < 64" using mixed_radix(3) [OF b(1), of "a mod 4" 4] by simp
  show "a mod 16 * 4 + b div 64 < 64" using mixed_radix(3) [OF b(2), of "a mod 16" 16] by simp
qed (use assms in \<open>simp_all only: mixed_radix less_mult_imp_div_less\<close>)

lemma b64Pack_range: "\<forall>x \<in> set xs. x < 256 \<Longrightarrow> y \<in> set (b64Pack xs) \<Longrightarrow> y < 64"
proof (induction xs rule: b64Pack.induct)
  case (4 a b c r)
  then show ?case using b64_digits [of b a] b64_digits [of c b] by (auto simp: less_mult_imp_div_less)
next
  case (3 a b)
  then show ?case using b64_digits [of b a] by (auto simp: less_mult_imp_div_less)
qed (auto simp: less_mult_imp_div_less)

lemma b64Unpack_Pack: "\<forall>x \<in> set xs. x < 256 \<Longrightarrow> b64Unpack (b64Pack xs) = Some xs"
proof (induction xs rule: b64Pack.induct)
  case (4 a b c r)
  moreover from 4 have "b div 16 < 16" by (simp add: less_mult_imp_div_less)
  ultimately show ?case using b64_digits [of b a] b64_digits [of c b] by simp
next
  case (3 a b)
  moreover from 3 have "b div 16 < 16" by (simp add: less_mult_imp_div_less)
  ultimately show ?case using b64_digits [of b a] by simp
qed simp_all

lemma allSome_map: "(\<And>x. x \<in> set xs \<Longrightarrow> f (g x) = Some x) \<Longrightarrow> allSome (map f (map g xs)) = Some xs"
  by (induction xs) simp_all

lemma b64Encode_free: "b64Val c = None \<Longrightarrow> c \<notin> set (b64Encode s)"
  using b64Pack_range [of "map of_char s"] b64Char_neq [of c] by (auto simp: b64Encode_def)

lemma b64Decode_b64Encode [simp]: "b64Decode (b64Encode s) = Some s"
proof -
  have "noNewlines (b64Encode s) = b64Encode s"
    using b64Encode_free [of "CHR 0x0A" s] b64Encode_free [of "CHR 0x0D" s]
    by (auto simp: noNewlines_def filter_id_conv b64Val_def)
  moreover have "allSome (map b64Val (b64Encode s)) = Some (b64Pack (map of_char s))"
    unfolding b64Encode_def by (rule allSome_map) (use b64Pack_range [of "map of_char s"] b64Val_Char in auto)
  moreover have "b64Unpack (b64Pack (map of_char s)) = Some (map of_char s)"
    by (rule b64Unpack_Pack) auto
  ultimately show ?thesis
    by (simp add: b64Decode_def comp_def)
qed

section \<open>Splitting\<close>

fun splitOn :: "char \<Rightarrow> string \<Rightarrow> string list" where
  "splitOn c [] = [[]]"
| "splitOn c (x # xs) =
     (if x = c then [] # splitOn c xs
      else case splitOn c xs of p # ps \<Rightarrow> (x # p) # ps | [] \<Rightarrow> [[x]])"

lemma splitOn_free: "c \<notin> set xs \<Longrightarrow> splitOn c xs = [xs]"
  by (induction xs) auto

lemma splitOn_join: "c \<notin> set xs \<Longrightarrow> splitOn c (xs @ c # ys) = xs # splitOn c ys"
  by (induction xs) auto

section \<open>Base32\<close>

definition b32Val :: "char \<Rightarrow> nat option" where
  "b32Val c = (let n = of_char c in
     if 65 \<le> n \<and> n \<le> 90 then Some (n - 65)
     else if 50 \<le> n \<and> n \<le> 55 then Some (n - 24)
     else None)"

definition b32Char :: "nat \<Rightarrow> char" where
  "b32Char n = (if n < 26 then char_of (65 + n) else char_of (24 + n))"

text \<open>The bits of bytes and of five-bit digits, most significant first, and back; decoding drops the bits that
  do not fill a byte, encoding fills the last digit with zero bits.\<close>

definition bitsOfBytes :: "string \<Rightarrow> bool list" where
  "bitsOfBytes s =
     concat (map (\<lambda>c. [digit7 c, digit6 c, digit5 c, digit4 c, digit3 c, digit2 c, digit1 c, digit0 c]) s)"

fun bytesOfBits :: "bool list \<Rightarrow> string" where
  "bytesOfBits (a # b # c # d # e # f # g # h # r) = Char h g f e d c b a # bytesOfBits r"
| "bytesOfBits _ = []"

definition b32Bits :: "nat list \<Rightarrow> bool list" where
  "b32Bits vs = concat (map (\<lambda>v. [odd (v div 16), odd (v div 8), odd (v div 4), odd (v div 2), odd v]) vs)"

definition b32Digit :: "bool \<Rightarrow> bool \<Rightarrow> bool \<Rightarrow> bool \<Rightarrow> bool \<Rightarrow> nat" where
  "b32Digit a b c d e = 16 * of_bool a + 8 * of_bool b + 4 * of_bool c + 2 * of_bool d + of_bool e"

fun b32Digits :: "bool list \<Rightarrow> nat list" where
  "b32Digits [] = []"
| "b32Digits [a] = [b32Digit a False False False False]"
| "b32Digits [a, b] = [b32Digit a b False False False]"
| "b32Digits [a, b, c] = [b32Digit a b c False False]"
| "b32Digits [a, b, c, d] = [b32Digit a b c d False]"
| "b32Digits (a # b # c # d # e # r) = b32Digit a b c d e # b32Digits r"

definition padTo8 :: "string \<Rightarrow> string" where
  "padTo8 s = s @ replicate ((8 - length s mod 8) mod 8) (CHR ''='')"

definition b32Encode :: "string \<Rightarrow> string" where
  "b32Encode s = padTo8 (map b32Char (b32Digits (bitsOfBytes s)))"

definition b32Decode :: "string \<Rightarrow> string option" where
  "b32Decode s0 =
     (let s = noNewlines s0;
          digits = takeWhile (\<lambda>c. c \<noteq> CHR ''='') s;
          pads = dropWhile (\<lambda>c. c \<noteq> CHR ''='') s in
      if length s mod 8 \<noteq> 0 \<or> length pads \<ge> 8 \<or> list_ex (\<lambda>c. c \<noteq> CHR ''='') pads \<or>
         length digits mod 8 \<in> {1, 3, 6} then None
      else map_option (\<lambda>vs. bytesOfBits (b32Bits vs)) (allSome (map b32Val digits)))"

lemma bytesOfBits_bitsOfBytes [simp]: "bytesOfBits (bitsOfBytes s) = s"
  by (induction s) (simp_all add: bitsOfBytes_def)

lemma length_bitsOfBytes [simp]: "length (bitsOfBytes s) = 8 * length s"
  by (induction s) (simp_all add: bitsOfBytes_def)

lemma b32Val_Char: "n < 32 \<Longrightarrow> b32Val (b32Char n) = Some n"
  by (auto simp: b32Val_def b32Char_def Let_def)

lemma b32Char_neq: "b32Val c = None \<Longrightarrow> n < 32 \<Longrightarrow> b32Char n \<noteq> c"
  using b32Val_Char by force

lemma b32Digit_range: "b32Digit a b c d e < 32"
  by (cases a; cases b; cases c; cases d; cases e) (simp_all add: b32Digit_def)

lemma b32Digits_range: "v \<in> set (b32Digits bs) \<Longrightarrow> v < 32"
  by (induction bs rule: b32Digits.induct) (auto simp: b32Digit_range)

lemma b32Bits_Digit: "b32Bits (b32Digit a b c d e # vs) = [a, b, c, d, e] @ b32Bits vs"
  by (cases a; cases b; cases c; cases d; cases e) (simp_all add: b32Digit_def b32Bits_def)

lemma b32Bits_Digits: "5 dvd length bs \<Longrightarrow> b32Bits (b32Digits bs) = bs"
proof (induction bs rule: b32Digits.induct)
  case (6 a b c d e r)
  then have "5 dvd length r" by (simp add: dvd_def) presburger
  with 6 show ?case by (simp add: b32Bits_Digit)
qed (simp_all add: b32Bits_def, presburger+)

lemma length_b32Digits: "5 dvd length bs \<Longrightarrow> 5 * length (b32Digits bs) = length bs"
proof (induction bs rule: b32Digits.induct)
  case (6 a b c d e r)
  then have "5 dvd length r" by (simp add: dvd_def) presburger
  with 6 show ?case by simp
qed (simp_all, presburger+)

lemma b32Encode_free: "b32Val c = None \<Longrightarrow> c \<noteq> CHR ''='' \<Longrightarrow> c \<notin> set (b32Encode s)"
  using b32Digits_range b32Char_neq [of c] by (fastforce simp: b32Encode_def padTo8_def)

text \<open>Whole groups of five bytes need no padding, and decode to themselves.\<close>

lemma b32Encode_group:
  assumes "5 dvd length s"
  shows "b32Encode s = map b32Char (b32Digits (bitsOfBytes s))" "8 dvd length (b32Encode s)"
    "CHR ''='' \<notin> set (b32Encode s)"
proof -
  have "5 * length (b32Digits (bitsOfBytes s)) = 8 * length s"
    using assms length_b32Digits [of "bitsOfBytes s"] by simp
  then have len: "length (b32Digits (bitsOfBytes s)) mod 8 = 0"
    using assms by presburger
  then show *: "b32Encode s = map b32Char (b32Digits (bitsOfBytes s))"
    by (simp add: b32Encode_def padTo8_def)
  show "8 dvd length (b32Encode s)" using len by (simp add: * mod_eq_0_iff_dvd)
  have "b32Char n \<noteq> CHR ''=''" if "n < 32" for n
    by (rule b32Char_neq) (use that in \<open>simp_all add: b32Val_def\<close>)
  then show "CHR ''='' \<notin> set (b32Encode s)" using b32Digits_range by (fastforce simp: *)
qed

lemma b32Decode_b32Encode:
  assumes "5 dvd length s"
  shows "b32Decode (b32Encode s) = Some s"
proof -
  note enc = b32Encode_group [OF assms]
  have nl: "noNewlines (b32Encode s) = b32Encode s"
    using b32Encode_free [of "CHR 0x0A" s] b32Encode_free [of "CHR 0x0D" s]
    by (auto simp: noNewlines_def filter_id_conv b32Val_def)
  have digits: "takeWhile (\<lambda>c. c \<noteq> CHR ''='') (b32Encode s) = b32Encode s"
    "dropWhile (\<lambda>c. c \<noteq> CHR ''='') (b32Encode s) = []"
    using enc(3) by (auto simp: takeWhile_eq_all_conv)
  have vals: "allSome (map b32Val (b32Encode s)) = Some (b32Digits (bitsOfBytes s))"
    unfolding enc(1) by (rule allSome_map) (use b32Digits_range b32Val_Char in blast)
  show ?thesis
    using enc(2) assms by (simp add: b32Decode_def Let_def nl digits vals b32Bits_Digits mod_eq_0_iff_dvd)
qed

end
