(* ===== verification/Totp.thy ===== *)
theory Totp
imports Codecs Backoff
begin

text \<open>
  Time-based one-time passwords (\<open>internal/totp/totp.go\<close>). A time is an \<open>int\<close> of nanoseconds since
  1970; the counter is a 64-bit word and the truncated hash a 32-bit word, as in the code.
  HMAC-SHA1 is a function of the library record; what is used of it is that a digest has 20
  bytes, which makes every index of the truncation valid. Secrets are ASCII text.

  The lemmas: a generated secret decodes to the random bytes it was made from, a code has six
  decimal digits, and validation accepts exactly the codes of the instants at most one period away.
\<close>

unbundle bit_operations_syntax

section \<open>Secrets\<close>

definition DefaultPeriod :: int where
  "DefaultPeriod = 30 * second"

definition isSpace :: "char \<Rightarrow> bool" where
  "isSpace c \<longleftrightarrow> c \<in> {CHR 0x09, CHR 0x0A, CHR 0x0B, CHR 0x0C, CHR 0x0D, CHR 0x20}"

definition TrimSpace :: "string \<Rightarrow> string" where
  "TrimSpace s = rev (dropWhile isSpace (rev (dropWhile isSpace s)))"

definition upperChar :: "char \<Rightarrow> char" where
  "upperChar c = (let n = of_char c :: nat in if 97 \<le> n \<and> n \<le> 122 then char_of (n - 32) else c)"

definition ToUpper :: "string \<Rightarrow> string" where
  "ToUpper s = map upperChar s"

definition NewSecret :: "string \<Rightarrow> string" where
  "NewSecret raw = rev (dropWhile (\<lambda>c. c = CHR ''='') (rev (b32Encode raw)))"

definition decodeSecret :: "string \<Rightarrow> string option" where
  "decodeSecret secret = b32Decode (padTo8 (ToUpper (TrimSpace secret)))"

section \<open>Codes\<close>

definition itoa :: "nat \<Rightarrow> string" where
  "itoa n = digits10 n"

definition pad6 :: "nat \<Rightarrow> string" where
  "pad6 n = (let s = itoa n in if length s \<ge> 6 then s else replicate (6 - length s) (CHR ''0'') @ s)"

text \<open>\<open>t.Unix()\<close> and the truncating division of \<open>int64\<close>.\<close>

definition Unix :: "int \<Rightarrow> int" where
  "Unix t = t div second"

definition quot64 :: "int \<Rightarrow> int \<Rightarrow> int" where
  "quot64 a b = (if a < 0 then - ((- a) div b) else a div b)"

definition PutUint64 :: "64 word \<Rightarrow> string" where
  "PutUint64 v = map (\<lambda>i. char_of (unat (drop_bit (8 * i) v))) [7, 6, 5, 4, 3, 2, 1, 0]"

definition truncate31 :: "string \<Rightarrow> 32 word" where
  "truncate31 dgst =
     (let offset = of_char (last dgst) mod 16;
          b = (\<lambda>i. of_char (dgst ! (offset + i)) :: 32 word) in
      push_bit 24 (b 0 AND 0x7f) OR push_bit 16 (b 1) OR push_bit 8 (b 2) OR b 3)"

definition counterCode :: "('x) golib_scheme \<Rightarrow> string \<Rightarrow> 64 word \<Rightarrow> string" where
  "counterCode L key counter = pad6 (unat (truncate31 (hmac_sha1 L key (PutUint64 counter)) mod 1000000))"

definition codeAt :: "('x) golib_scheme \<Rightarrow> string \<Rightarrow> int \<Rightarrow> string" where
  "codeAt L key t = counterCode L key (word_of_int (quot64 (Unix t) 30))"

definition Code :: "('x) golib_scheme \<Rightarrow> string \<Rightarrow> int \<Rightarrow> string option" where
  "Code L secret t = map_option (\<lambda>key. codeAt L key t) (decodeSecret secret)"

definition totpValidate :: "('x) golib_scheme \<Rightarrow> string \<Rightarrow> string \<Rightarrow> int \<Rightarrow> bool option" where
  "totpValidate L secret code t =
     map_option (\<lambda>key. list_ex (\<lambda>offset. codeAt L key (t + offset * DefaultPeriod) = code) [0, -1, 1])
       (decodeSecret secret)"

definition URI :: "string \<Rightarrow> string \<Rightarrow> string \<Rightarrow> string" where
  "URI issuer account secret =
     ''otpauth://totp/'' @ issuer @ '':'' @ account @ ''?secret='' @ secret @ ''&issuer='' @ issuer @
     ''&algorithm=SHA1&digits=6&period=30''"

section \<open>Secrets decode to the bytes they were made from\<close>

lemma b32Char_upper: "n < 32 \<Longrightarrow> upperChar (b32Char n) = b32Char n \<and> \<not> isSpace (b32Char n)"
  by (auto simp: upperChar_def b32Char_def isSpace_def Let_def char_of_eq_iff take_bit_eq_mod)

lemma trimmed:
  assumes "\<forall>c \<in> set s. \<not> P c"
  shows "rev (dropWhile P (rev s)) = s" "dropWhile P s = s"
proof -
  have keep: "dropWhile P xs = xs" if "\<forall>c \<in> set xs. \<not> P c" for xs
    using that by (cases xs) simp_all
  show "dropWhile P s = s" "rev (dropWhile P (rev s)) = s"
    using keep [of s] keep [of "rev s"] assms by simp_all
qed

lemma NewSecret_chars:
  assumes "5 dvd length raw"
  shows "NewSecret raw = b32Encode raw" "TrimSpace (b32Encode raw) = b32Encode raw" "ToUpper (b32Encode raw) = b32Encode raw"
proof -
  note enc = b32Encode_group [OF assms]
  have c: "upperChar c = c \<and> \<not> isSpace c \<and> c \<noteq> CHR ''=''" if "c \<in> set (b32Encode raw)" for c
    using that b32Char_upper b32Digits_range enc by fastforce
  then show "NewSecret raw = b32Encode raw" "TrimSpace (b32Encode raw) = b32Encode raw"
    unfolding NewSecret_def TrimSpace_def using trimmed [of "b32Encode raw"] by simp_all
  show "ToUpper (b32Encode raw) = b32Encode raw"
    unfolding ToUpper_def by (rule map_idI) (use c in blast)
qed

lemma decodeSecret_NewSecret: "length raw = 20 \<Longrightarrow> decodeSecret (NewSecret raw) = Some raw"
  using NewSecret_chars [of raw] b32Encode_group [of raw] b32Decode_b32Encode [of raw]
  by (simp add: decodeSecret_def padTo8_def mod_eq_0_iff_dvd)

section \<open>Codes have six digits\<close>

lemma length_digits10: "n < 10 ^ Suc k \<Longrightarrow> length (digits10 n) \<le> Suc k"
proof (induction k arbitrary: n)
  case 0
  then show ?case by (subst digits10.simps) simp
next
  case (Suc k)
  then have "n div 10 < 10 ^ Suc k" by (simp add: less_mult_imp_div_less)
  from Suc.IH [OF this] show ?case by (subst digits10.simps) simp
qed

lemma length_pad6: "n < 1000000 \<Longrightarrow> length (pad6 n) = 6"
  using length_digits10 [of n 5] by (simp add: pad6_def itoa_def Let_def)

lemma pad6_digits: "c \<in> set (pad6 n) \<Longrightarrow> 48 \<le> (of_char c :: nat) \<and> of_char c < (58 :: nat)"
  using digits10_digit [of c n] by (auto simp: pad6_def itoa_def Let_def split: if_splits)

lemma counterCode_six: "length (counterCode L key n) = 6"
proof -
  have "unat (w mod 1000000) < 1000000" for w :: "32 word"
    by (simp add: unat_mod)
  then show ?thesis
    by (simp add: counterCode_def length_pad6)
qed

text \<open>Every index the truncation reads lies inside a 20-byte digest.\<close>

lemma truncate_in_range:
  assumes "length dgst = 20" "i \<le> 3"
  shows "of_char (last dgst) mod 16 + i < length dgst"
proof -
  have "of_char (last dgst) mod (16 :: nat) < 16" by simp
  with assms show ?thesis by linarith
qed

section \<open>Clock drift\<close>

lemma Unix_shift: "Unix (t + k * DefaultPeriod) = Unix t + k * 30"
proof -
  have "(t + (k * 30) * second) div second = k * 30 + t div second"
    by (rule div_mult_self1) (simp add: second_def)
  then show ?thesis by (simp add: Unix_def DefaultPeriod_def mult.assoc)
qed

lemma counter_near:
  assumes "\<bar>t' - t\<bar> \<le> DefaultPeriod"
  shows "Unix t' div 30 - Unix t div 30 \<in> {-1, 0, 1}"
proof -
  have "Unix (t + (-1) * DefaultPeriod) \<le> Unix t'" "Unix t' \<le> Unix (t + 1 * DefaultPeriod)"
    using assms unfolding Unix_def second_def DefaultPeriod_def by (intro zdiv_mono1; linarith)+
  then have "(Unix t - 30) div 30 \<le> Unix t' div 30" "Unix t' div 30 \<le> (Unix t + 30) div 30"
    unfolding Unix_shift by (intro zdiv_mono1; simp)+
  moreover have "(Unix t - 30) div 30 = Unix t div 30 - 1" "(Unix t + 30) div 30 = Unix t div 30 + 1"
    by simp_all
  ultimately have "-1 \<le> Unix t' div 30 - Unix t div 30" "Unix t' div 30 - Unix t div 30 \<le> 1"
    by linarith+
  then show ?thesis by (simp only: insert_iff empty_iff) linarith
qed

lemma codeAt_counter: "0 \<le> t \<Longrightarrow> codeAt L key t = counterCode L key (word_of_int (Unix t div 30))"
  by (simp add: codeAt_def quot64_def Unix_def second_def div_less_dividend pos_imp_zdiv_neg_iff)

lemma codeAt_shift:
  assumes "0 \<le> t + k * DefaultPeriod"
  shows "codeAt L key (t + k * DefaultPeriod) = counterCode L key (word_of_int (Unix t div 30 + k))"
  using assms by (simp add: codeAt_counter Unix_shift add.commute)

lemma totpValidate_iff:
  assumes "decodeSecret secret = Some key" "DefaultPeriod \<le> t"
  shows "totpValidate L secret code t = Some True \<longleftrightarrow> (\<exists>t'. \<bar>t' - t\<bar> \<le> DefaultPeriod \<and> Code L secret t' = Some code)"
proof -
  have p: "0 < DefaultPeriod" by (simp add: DefaultPeriod_def second_def)
  have "totpValidate L secret code t = Some True \<longleftrightarrow>
      (\<exists>k \<in> {-1, 0, 1}. counterCode L key (word_of_int (Unix t div 30 + k)) = code)"
    using assms p codeAt_shift [of t 0 L key] codeAt_shift [of t "-1" L key] codeAt_shift [of t 1 L key]
    by (auto simp: totpValidate_def)
  also have "\<dots> \<longleftrightarrow> (\<exists>t'. \<bar>t' - t\<bar> \<le> DefaultPeriod \<and> codeAt L key t' = code)" (is "?L \<longleftrightarrow> ?R")
  proof
    assume ?L
    then obtain k :: int where "k \<in> {-1, 0, 1}" "counterCode L key (word_of_int (Unix t div 30 + k)) = code"
      by blast
    then show ?R
      using codeAt_shift [of t k L key] assms(2) p by (intro exI [of _ "t + k * DefaultPeriod"]) auto
  next
    assume ?R
    then obtain t' where t': "\<bar>t' - t\<bar> \<le> DefaultPeriod" "codeAt L key t' = code"
      by blast
    then have "codeAt L key t' = counterCode L key (word_of_int (Unix t div 30 + (Unix t' div 30 - Unix t div 30)))"
      using assms(2) by (simp add: codeAt_counter)
    with counter_near [OF t'(1)] t'(2) show ?L by metis
  qed
  finally show ?thesis
    using assms(1) by (simp add: Code_def)
qed

end
