(* ===== verification/ApiBase.thy ===== *)
theory ApiBase
imports StoreAuth Totp Config
begin

text \<open>
  What the handlers of \<open>internal/api\<close> share: a request with the headers, path values and query they
  read, the identity the authentication middleware puts into its context, the value handed to
  \<open>writeJSON\<close>, decoding of request bodies, and the library functions that only the API uses.

  A handler is a program that returns its reply; every early return of the code is the reply of
  that branch, so a handler never ends in an error. Logging, metrics, tracing and CORS headers are
  left out. The outside functions are members of the record \<open>apilib\<close>: random bytes, bcrypt, the
  JSON text of typed structs with numbers and times, the first JSON value of a text, the Redis
  counter of the login throttle, RSA signature verification and publishing on the event bus. \<open>json_first\<close> and \<open>json_decode\<close> give the members of an
  object in the order of the text. Field names and header schemes are compared as ASCII.
\<close>

section \<open>Requests and replies\<close>

record Request =
  rq_Authorization :: string
  rq_APIKey :: string
  rq_Signature :: string
  rq_Content :: string
  rq_RemoteAddr :: string
  rq_PathValue :: "string gomap"
  rq_Query :: "string gomap"

abbreviation PathValue :: "Request \<Rightarrow> string \<Rightarrow> string" where
  "PathValue r k \<equiv> gget [] (rq_PathValue r) k"

abbreviation QueryGet :: "Request \<Rightarrow> string \<Rightarrow> string" where
  "QueryGet r k \<equiv> gget [] (rq_Query r) k"

text \<open>The context values \<open>tenant_id\<close>, \<open>role\<close>, \<open>actor\<close>, \<open>key_id\<close> and \<open>user_id\<close>; empty when absent.\<close>

record Ctx =
  tenantIDFrom :: string
  roleFrom :: string
  actorFrom :: string
  actorKeyID :: string
  userIDFrom :: string

datatype jval =
    JVal goval
  | JObj "(string \<times> jval) list"
  | JList "jval list"
  | JTime int
  | JUser User
  | JTenant Tenant
  | JKey APIKey
  | JSession Session
  | JAudit AuditLog
  | JOperation SyncOperation
  | JConnection Connection
  | JEvent SourceEvent
  | JJob SyncJob
  | JDead DeadLetter

abbreviation jstr :: "string \<Rightarrow> jval" where "jstr s \<equiv> JVal (GStr s)"
abbreviation jint :: "int \<Rightarrow> jval" where "jint n \<equiv> JVal (GNum (of_int n))"
abbreviation jbool :: "bool \<Rightarrow> jval" where "jbool b \<equiv> JVal (GBool b)"

definition jopt :: "('a \<Rightarrow> jval) \<Rightarrow> 'a option \<Rightarrow> jval" where
  "jopt f x = (case x of Some y \<Rightarrow> f y | None \<Rightarrow> JVal GNil)"

record reply =
  rp_Status :: int
  rp_Body :: jval

definition writeJSON :: "int \<Rightarrow> jval \<Rightarrow> ('s, reply) M" where
  "writeJSON status v = ret \<lparr>rp_Status = status, rp_Body = v\<rparr>"

definition writeError :: "int \<Rightarrow> string \<Rightarrow> ('s, reply) M" where
  "writeError status msg = writeJSON status (JObj [(''error'', jstr msg)])"

text \<open>\<open>x, err := m; if err != nil { ... return }\<close>\<close>

definition orReply :: "('s, 'a) M \<Rightarrow> (goerr \<Rightarrow> ('s, reply) M) \<Rightarrow> ('a \<Rightarrow> ('s, reply) M) \<Rightarrow> ('s, reply) M" where
  "orReply m h k = bindM (attempt m) (\<lambda>r. case r of Inl e \<Rightarrow> h e | Inr x \<Rightarrow> k x)"

section \<open>Outside functions\<close>

record sessionClaims =
  JTI :: string
  UserID :: string
  cl_TenantID :: string
  Role :: string
  Exp :: int

text \<open>The claims of an OpenID Connect ID token, and the webhook of a provider.\<close>

record IDClaims =
  Sub :: string
  id_Email :: string
  EmailVerified :: bool
  id_Name :: string
  Issuer :: string
  Audience :: goval
  ExpiresAt :: int
  IssuedAt :: int

record providerWebhook =
  wh_EventID :: string
  wh_Source :: string
  wh_EntityType :: string
  wh_EntityID :: string
  wh_EventType :: string
  wh_SourceVersion :: int
  wh_OccurredAt :: int
  wh_CorrelationID :: string
  wh_Provenance :: "goval gomap"

record 'w apilib = "'w lib" +
  rand_bytes :: "nat \<Rightarrow> nat \<Rightarrow> string"
  bcrypt_hash :: "nat \<Rightarrow> string \<Rightarrow> string option"
  claims_marshal :: "sessionClaims \<Rightarrow> string"
  claims_unmarshal :: "string \<Rightarrow> sessionClaims option"
  json_first :: "string \<Rightarrow> goval option"
  redis_incr :: "string \<Rightarrow> 'w \<Rightarrow> (string + int) \<times> 'w"
  redis_expire :: "string \<Rightarrow> int \<Rightarrow> 'w \<Rightarrow> 'w"
  rsa_verify :: "nat \<Rightarrow> int \<Rightarrow> string \<Rightarrow> string \<Rightarrow> bool"
  idclaims_unmarshal :: "string \<Rightarrow> IDClaims option"
  webhook_unmarshal :: "string \<Rightarrow> providerWebhook option"
  bus_publish :: "string \<Rightarrow> string \<Rightarrow> string \<Rightarrow> 'w \<Rightarrow> (string + unit) \<times> 'w"

text \<open>What the code relies on: encoding claims and decoding them again gives the claims.\<close>

definition claimsCodec :: "('w, 'x) apilib_scheme \<Rightarrow> bool" where
  "claimsCodec L \<longleftrightarrow> (\<forall>c. claims_unmarshal L (claims_marshal L c) = Some c)"

text \<open>\<open>rand.Read\<close> into a buffer of \<open>n\<close> bytes, and \<open>bcrypt.GenerateFromPassword\<close> with its random salt.\<close>

definition randRead :: "('w, 'x) apilib_scheme \<Rightarrow> nat \<Rightarrow> (('w, 'z) st_scheme, string) M" where
  "randRead L n = thenM faultPoint (\<lambda>s. (Inr (rand_bytes L (seq s) n), s\<lparr>seq := seq s + 1\<rparr>))"

definition GenerateFromPassword :: "('w, 'x) apilib_scheme \<Rightarrow> string \<Rightarrow> (('w, 'z) st_scheme, string) M" where
  "GenerateFromPassword L pw = (\<lambda>s. case bcrypt_hash L (seq s) pw of
      None \<Rightarrow> (Inl (PlainErr ''bcrypt''), s\<lparr>seq := seq s + 1\<rparr>)
    | Some h \<Rightarrow> (Inr h, s\<lparr>seq := seq s + 1\<rparr>))"

section \<open>Request bodies\<close>

definition lowerChar :: "char \<Rightarrow> char" where
  "lowerChar c = (let n = of_char c :: nat in if 65 \<le> n \<and> n \<le> 90 then char_of (n + 32) else c)"

definition EqualFold :: "string \<Rightarrow> string \<Rightarrow> bool" where
  "EqualFold a b \<longleftrightarrow> map lowerChar a = map lowerChar b"

text \<open>
  \<open>Decode\<close> into a struct of string fields: every member whose name matches a field sets it, a null
  leaves it, any other type makes the call fail; a null document leaves the struct empty.
\<close>

definition structStr :: "goval gomap \<Rightarrow> string \<Rightarrow> string option" where
  "structStr kvs k = fold (\<lambda>(n, v) acc.
     if EqualFold n k then
       (case v of GStr s \<Rightarrow> (if acc = None then None else Some s) | GNil \<Rightarrow> acc | _ \<Rightarrow> None)
     else acc) kvs (Some [])"

definition structOf :: "goval option \<Rightarrow> goval gomap option" where
  "structOf v = (case v of Some (GObj kvs) \<Rightarrow> Some kvs | Some GNil \<Rightarrow> Some [] | _ \<Rightarrow> None)"

definition decodeReq :: "('w, 'x) apilib_scheme \<Rightarrow> Request \<Rightarrow> string list \<Rightarrow> (string \<Rightarrow> string) option" where
  "decodeReq L r names =
     (case structOf (json_first L (rq_Content r)) of
        None \<Rightarrow> None
      | Some kvs \<Rightarrow>
          if list_all (\<lambda>k. structStr kvs k \<noteq> None) names
          then Some (\<lambda>k. case structStr kvs k of Some s \<Rightarrow> s | None \<Rightarrow> [])
          else None)"

text \<open>The \<open>limit\<close> query parameter of the listing endpoints.\<close>

definition limitParam :: "Request \<Rightarrow> int" where
  "limitParam r =
     (let v = QueryGet r ''limit'' in
      if v = [] then 100
      else case ParseInt v of Some n \<Rightarrow> if n > 0 then n else 100 | None \<Rightarrow> 100)"

section \<open>Roles\<close>

definition roleTable :: "int gomap" where
  "roleTable = [(''VIEWER'', 0), (''DEVELOPER'', 1), (''OPERATOR'', 2), (''ADMIN'', 3)]"

definition roleRank :: "string \<Rightarrow> int" where
  "roleRank role = gget 0 roleTable role"

definition knownRole :: "string \<Rightarrow> bool" where
  "knownRole role \<longleftrightarrow> map_of roleTable role \<noteq> None"

lemma roleRank_range: "0 \<le> roleRank r \<and> roleRank r \<le> 3"
  by (auto simp: roleRank_def roleTable_def gget_def)

lemma knownRole_valid: "knownRole r \<longleftrightarrow> r \<in> set validRoles"
  by (auto simp: knownRole_def roleTable_def validRoles_def)

section \<open>Rules for handlers\<close>

lemma writeJSON_run [run_simps]: "writeJSON st v s = (Inr \<lparr>rp_Status = st, rp_Body = v\<rparr>, s)"
  by (simp add: writeJSON_def ret_def)

lemma writeError_run [run_simps]: "writeError st m s = (Inr \<lparr>rp_Status = st, rp_Body = JObj [(''error'', jstr m)]\<rparr>, s)"
  by (simp add: writeError_def writeJSON_run)

lemma orReply_run [run_simps]:
  "orReply m h k s = (case m s of (Inl e, s') \<Rightarrow> h e s' | (Inr x, s') \<Rightarrow> k x s')"
  by (simp add: orReply_def bindM_run attempt_run case_prod_beta split: sum.split)

lemma pres_writeJSON [pres_intros]: "pres P (writeJSON st v)"
  and pres_writeError [pres_intros]: "pres P (writeError st m)"
  by (simp_all add: pres_def run_simps)

lemma pres_orReply [pres_intros]:
  "pres P m \<Longrightarrow> (\<And>e. pres P (h e)) \<Longrightarrow> (\<And>x. pres P (k x)) \<Longrightarrow> pres P (orReply m h k)"
  unfolding orReply_def by (intro pres_intros)

lemma keeps_writeJSON [keeps_intros]: "keeps v (writeJSON st b)"
  and keeps_writeError [keeps_intros]: "keeps v (writeError st m)"
  by (simp_all add: keeps_def run_simps)

lemma keeps_orReply [keeps_intros]:
  "keeps v m \<Longrightarrow> (\<And>e. keeps v (h e)) \<Longrightarrow> (\<And>x. keeps v (k x)) \<Longrightarrow> keeps v (orReply m h k)"
  unfolding orReply_def by (intro keeps_intros)

lemma keeps_orReply_returns:
  "keeps v m \<Longrightarrow> returns m R \<Longrightarrow> (\<And>e. keeps v (h e)) \<Longrightarrow> (\<And>x. R x \<Longrightarrow> keeps v (k x)) \<Longrightarrow> keeps v (orReply m h k)"
  unfolding orReply_def by (rule keeps_bindM_attempt [where R = R]) simp_all

lemma keeps_randRead [keeps_intros]: "keeps (\<lambda>s. f (db s)) (randRead L n)"
  and keeps_GenerateFromPassword [keeps_intros]: "keeps (\<lambda>s. f (db s)) (GenerateFromPassword L pw)"
proof -
  show "keeps (\<lambda>s. f (db s)) (randRead L n)"
    unfolding randRead_def by (rule keeps_thenM) (simp_all add: keeps_def)
  show "keeps (\<lambda>s. f (db s)) (GenerateFromPassword L pw)"
    by (rule keepsI) (simp add: GenerateFromPassword_def split: option.split)
qed

lemma calm_randRead [pres_intros]: "pres calm (randRead L n)"
  and calm_GenerateFromPassword [pres_intros]: "pres calm (GenerateFromPassword L pw)"
  by (simp_all add: pres_def randRead_def thenM_run GenerateFromPassword_def split: option.split)

lemma randRead_run [run_simps]:
  "faults s = [] \<Longrightarrow> randRead L n s = (Inr (rand_bytes L (seq s) n), s\<lparr>seq := seq s + 1\<rparr>)"
  by (simp add: randRead_def thenM_run)

lemma GenerateFromPassword_run [run_simps]:
  "GenerateFromPassword L pw s = ((case bcrypt_hash L (seq s) pw of None \<Rightarrow> Inl (PlainErr ''bcrypt'') | Some h \<Rightarrow> Inr h),
     s\<lparr>seq := seq s + 1\<rparr>)"
  by (simp add: GenerateFromPassword_def split: option.split)

end
