(* ===== verification/Auth.thy ===== *)
theory Auth
imports ApiBase
begin

text \<open>
  Authentication (\<open>internal/api/auth.go\<close> and \<open>sessions.go\<close>): signed session tokens backed by rows
  of the sessions table, API keys, the middleware that resolves the caller of a request and gates
  it by role, and the handlers of login, logout and refresh with brute-force protection.

  A middleware takes the rest of the request as a function of the caller's context. A panic is an
  error value. The time of a request is one instant: the several calls of \<open>time.Now\<close> in a handler
  give the same value.
\<close>

record Server =
  cfg :: Config
  cache :: bool

definition minute :: int where
  "minute = 60 * second"

definition sessionTTL :: int where
  "sessionTTL = 12 * 60 * minute"

definition hashAPIKey :: "('w, 'x) apilib_scheme \<Rightarrow> string \<Rightarrow> string" where
  "hashAPIKey L key = sha256_hex L key"

definition backupCodeHash :: "('w, 'x) apilib_scheme \<Rightarrow> string \<Rightarrow> string" where
  "backupCodeHash L raw = sha256_hex L raw"

section \<open>Tokens\<close>

definition mintSessionToken ::
  "('w, 'x) apilib_scheme \<Rightarrow> Server \<Rightarrow> sessionClaims \<Rightarrow> (('w, 'z) st_scheme, string) M" where
  "mintSessionToken L sv u = bindM timeNow (\<lambda>n.
     let b64 = b64Encode (claims_marshal L (u\<lparr>Exp := Unix (n + sessionTTL)\<rparr>)) in
     ret (b64 @ ''.'' @ b64Encode (hmac_sha256 L (AuthSecret (cfg sv)) b64)))"

text \<open>The checks that need no database: form, signature and completeness.\<close>

definition openToken :: "('w, 'x) apilib_scheme \<Rightarrow> Server \<Rightarrow> string \<Rightarrow> string + sessionClaims" where
  "openToken L sv token =
     (case splitOn (CHR ''.'') token of
        [part0, part1] \<Rightarrow>
          (case b64Decode part0 of
             None \<Rightarrow> Inl ''malformed token''
           | Some claimsRaw \<Rightarrow>
               if b64Decode part1 \<noteq> Some (hmac_sha256 L (AuthSecret (cfg sv)) part0)
               then Inl ''invalid token signature''
               else case claims_unmarshal L claimsRaw of
                 None \<Rightarrow> Inl ''invalid token claims''
               | Some c \<Rightarrow>
                   if JTI c = [] \<or> UserID c = [] \<or> cl_TenantID c = [] \<or> Role c = []
                   then Inl ''incomplete token claims'' else Inr c)
      | _ \<Rightarrow> Inl ''malformed token'')"

definition verifySessionToken ::
  "('w, 'x) apilib_scheme \<Rightarrow> Server \<Rightarrow> string \<Rightarrow> (('w, 'z) st_scheme, sessionClaims) M" where
  "verifySessionToken L sv token =
     (case openToken L sv token of
        Inl e \<Rightarrow> throw (PlainErr e)
      | Inr c \<Rightarrow> bindM timeNow (\<lambda>n.
          if Exp c < Unix n then throw (PlainErr ''token expired'')
          else bindM (attempt (GetLiveSession (cl_TenantID c) (JTI c))) (\<lambda>r.
            case r of Inl e \<Rightarrow> throw (PlainErr ''session revoked or expired'') | Inr _ \<Rightarrow> ret c)))"

section \<open>Credentials of a request\<close>

definition actorFromRequest :: "Request \<Rightarrow> string" where
  "actorFromRequest r =
     (let h = rq_Authorization r in
      if length h > 7 \<and> take 7 h = ''Bearer '' then drop 7 h else rq_APIKey r)"

definition bearerTokenFrom :: "Request \<Rightarrow> string" where
  "bearerTokenFrom r =
     (let h = rq_Authorization r in
      if length h > 7 \<and> EqualFold (take 7 h) ''Bearer '' then drop 7 h else [])"

definition clientIP :: "Request \<Rightarrow> string" where
  "clientIP r = rq_RemoteAddr r"

section \<open>Middleware\<close>

definition keyCtx :: "APIKey \<Rightarrow> Ctx" where
  "keyCtx k = \<lparr>tenantIDFrom = ak_TenantID k, roleFrom = ak_Role k, actorFrom = ''key:'' @ ak_Name k,
     actorKeyID = ak_ID k, userIDFrom = []\<rparr>"

definition userCtx :: "sessionClaims \<Rightarrow> Ctx" where
  "userCtx c = \<lparr>tenantIDFrom = cl_TenantID c, roleFrom = Role c, actorFrom = ''user:'' @ UserID c,
     actorKeyID = [], userIDFrom = UserID c\<rparr>"

definition requireAPIKey ::
  "('w, 'x) apilib_scheme \<Rightarrow> Request \<Rightarrow> (Ctx \<Rightarrow> (('w, 'z) st_scheme, reply) M) \<Rightarrow> (('w, 'z) st_scheme, reply) M" where
  "requireAPIKey L r nxt =
     (let key = actorFromRequest r in
      if key = [] then writeError 401 ''missing api key''
      else orReply (VerifyAPIKey (hashAPIKey L key))
        (\<lambda>e. if e = ErrNotFound then writeError 401 ''invalid api key'' else writeError 500 ''auth backend error'')
        (\<lambda>k. nxt (keyCtx k)))"

definition requireUser ::
  "('w, 'x) apilib_scheme \<Rightarrow> Server \<Rightarrow> Request \<Rightarrow> (Ctx \<Rightarrow> (('w, 'z) st_scheme, reply) M) \<Rightarrow> (('w, 'z) st_scheme, reply) M" where
  "requireUser L sv r nxt =
     (let token = bearerTokenFrom r in
      if token = [] then writeError 401 ''missing bearer token''
      else orReply (verifySessionToken L sv token)
        (\<lambda>e. writeError 401 ''invalid or expired session token'') (\<lambda>c. nxt (userCtx c)))"

definition authenticate ::
  "('w, 'x) apilib_scheme \<Rightarrow> Server \<Rightarrow> Request \<Rightarrow> (Ctx \<Rightarrow> (('w, 'z) st_scheme, reply) M) \<Rightarrow> (('w, 'z) st_scheme, reply) M" where
  "authenticate L sv r nxt =
     (if bearerTokenFrom r \<noteq> [] then requireUser L sv r nxt else requireAPIKey L r nxt)"

definition requireRole ::
  "('w, 'x) apilib_scheme \<Rightarrow> Server \<Rightarrow> string \<Rightarrow> Request \<Rightarrow> (Ctx \<Rightarrow> (('w, 'z) st_scheme, reply) M) \<Rightarrow>
   (('w, 'z) st_scheme, reply) M" where
  "requireRole L sv minRole r nxt =
     (if \<not> knownRole minRole then throw (PlainErr (''requireRole: unknown role '' @ minRole))
      else authenticate L sv r (\<lambda>cx.
        if roleRank (roleFrom cx) < roleRank minRole then writeError 403 ''insufficient role'' else nxt cx))"

section \<open>Audit\<close>

definition auditRow :: "string \<Rightarrow> string \<Rightarrow> string \<Rightarrow> string \<Rightarrow> goval gomap \<Rightarrow> AuditLog" where
  "auditRow actor action resource rid meta = \<lparr>au_TenantID = None, au_Actor = actor, au_Action = action,
     au_Resource = resource, au_ResourceID = rid, au_Metadata = meta, au_CreatedAt = 0\<rparr>"

definition audit :: "Ctx \<Rightarrow> string \<Rightarrow> string \<Rightarrow> string \<Rightarrow> goval gomap \<Rightarrow> (('w, 'z) st_scheme, unit) M" where
  "audit cx action resource rid meta = ignore (InsertAuditLog (tenantIDFrom cx)
     (auditRow (if actorFrom cx \<noteq> [] then actorFrom cx else ''unknown'') action resource rid meta))"

definition auditLogin :: "string \<Rightarrow> string \<Rightarrow> string \<Rightarrow> goval gomap \<Rightarrow> (('w, 'z) st_scheme, unit) M" where
  "auditLogin tenantID action email meta = ignore (InsertAuditLog tenantID (auditRow email action ''auth'' [] meta))"

section \<open>Login\<close>

definition redisIncr :: "('w, 'x) apilib_scheme \<Rightarrow> string \<Rightarrow> (('w, 'z) st_scheme, string + int) M" where
  "redisIncr L key = (\<lambda>s. case redis_incr L key (world s) of (r, w) \<Rightarrow> (Inr r, s\<lparr>world := w\<rparr>))"

definition redisExpire :: "('w, 'x) apilib_scheme \<Rightarrow> string \<Rightarrow> int \<Rightarrow> (('w, 'z) st_scheme, unit) M" where
  "redisExpire L key d = (\<lambda>s. (Inr (), s\<lparr>world := redis_expire L key d (world s)\<rparr>))"

definition loginThrottled :: "('w, 'x) apilib_scheme \<Rightarrow> Server \<Rightarrow> Request \<Rightarrow> (('w, 'z) st_scheme, bool) M" where
  "loginThrottled L sv r =
     (if LoginThrottlePerMin (cfg sv) \<le> 0 \<or> \<not> cache sv then ret False
      else let key = ''login:throttle:'' @ clientIP r in
        bindM (redisIncr L key) (\<lambda>n. case n of
          Inl e \<Rightarrow> ret False
        | Inr n \<Rightarrow> thenM (if n = 1 then redisExpire L key minute else ret ())
                    (ret (n > LoginThrottlePerMin (cfg sv)))))"

definition loginFailure ::
  "Request \<Rightarrow> string \<Rightarrow> string \<Rightarrow> string \<Rightarrow> string \<Rightarrow> (('w, 'z) st_scheme, unit) M" where
  "loginFailure r tenantID tenantSlug email reason =
     thenM (if tenantID \<noteq> [] then ignore (RecordLoginAttempt \<lparr>la_TenantID = tenantID, la_Email = email,
              la_IP = clientIP r, la_Success = False, la_AttemptedAt = 0\<rparr>) else ret ())
     (auditLogin tenantID ''auth.login_failed'' email
       [(''tenant_slug'', GStr tenantSlug), (''reason'', GStr reason)])"

definition newSession :: "string \<Rightarrow> string \<Rightarrow> string \<Rightarrow> string \<Rightarrow> int \<Rightarrow> Session" where
  "newSession jti uid tid role n = \<lparr>ss_JTI = jti, ss_UserID = uid, ss_TenantID = tid, ss_Role = role,
     ss_CreatedAt = n, ss_ExpiresAt = n + sessionTTL, ss_RevokedAt = None\<rparr>"

definition newClaims :: "string \<Rightarrow> string \<Rightarrow> string \<Rightarrow> string \<Rightarrow> sessionClaims" where
  "newClaims jti uid tid role = \<lparr>JTI = jti, UserID = uid, cl_TenantID = tid, Role = role, Exp = 0\<rparr>"

text \<open>A session row and the token that references it, with the reply of a failure at either step.\<close>

definition openSession ::
  "('w, 'x) apilib_scheme \<Rightarrow> Server \<Rightarrow> string \<Rightarrow> string \<Rightarrow> string \<Rightarrow> string \<Rightarrow>
   (string \<Rightarrow> (('w, 'z) st_scheme, reply) M) \<Rightarrow> (('w, 'z) st_scheme, reply) M" where
  "openSession L sv uid tid role failed k =
     bindM (newID L) (\<lambda>jti. bindM timeNow (\<lambda>n.
     orReply (CreateSession (newSession jti uid tid role n)) (\<lambda>e. writeError 500 failed) (\<lambda>sess.
     orReply (mintSessionToken L sv (newClaims (ss_JTI sess) uid tid role)) (\<lambda>e. writeError 500 failed) k)))"

definition loggedIn ::
  "('w, 'x) apilib_scheme \<Rightarrow> Server \<Rightarrow> User \<Rightarrow> goval gomap \<Rightarrow> (('w, 'z) st_scheme, reply) M" where
  "loggedIn L sv user meta =
     openSession L sv (us_ID user) (us_TenantID user) (us_Role user) ''failed to issue session'' (\<lambda>token.
     thenM (auditLogin (us_TenantID user) ''auth.login'' (us_Email user) meta)
     (writeJSON 200 (JObj [(''token'', jstr token), (''token_type'', jstr ''Bearer''),
        (''expires_in'', jint (sessionTTL div second)),
        (''user'', JObj [(''id'', jstr (us_ID user)), (''email'', jstr (us_Email user)), (''role'', jstr (us_Role user))])])))"

definition checkMFA ::
  "('w, 'x) apilib_scheme \<Rightarrow> Request \<Rightarrow> string \<Rightarrow> string \<Rightarrow> string \<Rightarrow> User \<Rightarrow> string \<Rightarrow>
   (('w, 'z) st_scheme, reply) M \<Rightarrow> (('w, 'z) st_scheme, reply) M" where
  "checkMFA L r tenantID slug email user code k =
     (if \<not> us_TOTPEnabled user then k
      else if code = [] then
        thenM (loginFailure r tenantID slug email ''mfa_code_required'') (writeError 401 ''mfa code required'')
      else bindM timeNow (\<lambda>n.
        if totpValidate L (us_TOTPSecret user) code n = Some True then k
        else bindM (attempt (ConsumeBackupCode (us_TenantID user) (us_ID user) (backupCodeHash L code))) (\<lambda>c.
          if c = Inr True then k
          else thenM (loginFailure r tenantID slug email ''bad_mfa_code'') (writeError 401 ''invalid mfa code''))))"

definition loginUser ::
  "('w, 'x) apilib_scheme \<Rightarrow> Server \<Rightarrow> Request \<Rightarrow> Tenant \<Rightarrow> string \<Rightarrow> string \<Rightarrow> string \<Rightarrow> string \<Rightarrow>
   (('w, 'z) st_scheme, reply) M" where
  "loginUser L sv r tenant slug email pw code =
     orReply (GetUserByEmail (te_ID tenant) email)
       (\<lambda>e. thenM (loginFailure r (te_ID tenant) slug email ''unknown_user'') (writeError 401 ''invalid credentials''))
       (\<lambda>user.
     if \<not> bcrypt_ok L (us_PasswordHash user) pw then
       thenM (loginFailure r (te_ID tenant) slug email ''bad_password'') (writeError 401 ''invalid credentials'')
     else checkMFA L r (te_ID tenant) slug email user code (
       thenM (ignore (ClearLoginFailures (us_TenantID user) email))
       (loggedIn L sv user [(''role'', GStr (us_Role user))])))"

definition handleLogin ::
  "('w, 'x) apilib_scheme \<Rightarrow> Server \<Rightarrow> Request \<Rightarrow> (('w, 'z) st_scheme, reply) M" where
  "handleLogin L sv r =
     (case decodeReq L r [''tenant_slug'', ''email'', ''password'', ''code''] of
        None \<Rightarrow> writeError 400 ''tenant_slug, email and password are required''
      | Some req \<Rightarrow>
          let slug = req ''tenant_slug''; email = req ''email''; pw = req ''password'' in
          if slug = [] \<or> email = [] \<or> pw = [] then writeError 400 ''tenant_slug, email and password are required''
          else bindM (loginThrottled L sv r) (\<lambda>throttled.
            if throttled then writeError 429 ''too many login attempts, try again later''
            else orReply (GetTenantBySlug slug)
              (\<lambda>e. thenM (loginFailure r [] slug email ''unknown_tenant'') (writeError 401 ''invalid credentials''))
              (\<lambda>tenant.
            bindM (attempt (CountRecentFailures (te_ID tenant) email (LoginLockoutMin (cfg sv) * minute))) (\<lambda>failures.
            if (case failures of Inr n \<Rightarrow> n \<ge> LoginMaxFailures (cfg sv) | Inl _ \<Rightarrow> False) then
              thenM (auditLogin (te_ID tenant) ''auth.login_failed'' email
                [(''tenant_slug'', GStr slug), (''reason'', GStr ''account_locked'')])
              (writeError 429 ''account temporarily locked after too many failed attempts'')
            else loginUser L sv r tenant slug email pw (req ''code'')))))"

section \<open>Logout and refresh\<close>

definition handleLogout ::
  "('w, 'x) apilib_scheme \<Rightarrow> Server \<Rightarrow> Request \<Rightarrow> (('w, 'z) st_scheme, reply) M" where
  "handleLogout L sv r =
     orReply (verifySessionToken L sv (bearerTokenFrom r))
       (\<lambda>e. writeJSON 200 (JObj [(''status'', jstr ''logged_out'')])) (\<lambda>c.
     orReply (RevokeSession (cl_TenantID c) (JTI c)) (\<lambda>e. writeError 500 ''failed to log out'') (\<lambda>_.
     thenM (auditLogin (cl_TenantID c) ''auth.logout'' (''user:'' @ UserID c) [])
     (writeJSON 200 (JObj [(''status'', jstr ''logged_out'')]))))"

definition handleRefresh ::
  "('w, 'x) apilib_scheme \<Rightarrow> Server \<Rightarrow> Request \<Rightarrow> (('w, 'z) st_scheme, reply) M" where
  "handleRefresh L sv r =
     orReply (verifySessionToken L sv (bearerTokenFrom r))
       (\<lambda>e. writeError 401 ''invalid or expired session token'') (\<lambda>c.
     orReply (RevokeSession (cl_TenantID c) (JTI c)) (\<lambda>e. writeError 500 ''failed to refresh session'') (\<lambda>_.
     openSession L sv (UserID c) (cl_TenantID c) (Role c) ''failed to refresh session'' (\<lambda>token.
     thenM (auditLogin (cl_TenantID c) ''auth.refresh'' (''user:'' @ UserID c) [])
     (writeJSON 200 (JObj [(''token'', jstr token), (''token_type'', jstr ''Bearer''),
        (''expires_in'', jint (sessionTTL div second))])))))"

definition handleListSessions :: "Request \<Rightarrow> Ctx \<Rightarrow> (('w, 'z) st_scheme, reply) M" where
  "handleListSessions r cx =
     orReply (ListSessions (tenantIDFrom cx) (limitParam r)) (\<lambda>e. writeError 500 ''failed to list sessions'') (\<lambda>xs.
     writeJSON 200 (JObj [(''sessions'', JList (map JSession xs)), (''count'', jint (int (length xs)))]))"

definition handleRevokeUserSessions :: "Request \<Rightarrow> Ctx \<Rightarrow> (('w, 'z) st_scheme, reply) M" where
  "handleRevokeUserSessions r cx =
     (let tenant = tenantIDFrom cx; targetID = PathValue r ''id'' in
      orReply (GetUser tenant targetID) (\<lambda>e. writeError 404 ''user not found'') (\<lambda>_.
      orReply (RevokeUserSessions tenant targetID) (\<lambda>e. writeError 500 ''failed to revoke sessions'') (\<lambda>_.
      thenM (audit cx ''user.revoke_sessions'' ''user'' targetID [])
      (writeJSON 200 (JObj [(''status'', jstr ''sessions_revoked''), (''id'', jstr targetID)])))))"

end
