(* ===== verification/AccountApi.thy ===== *)
theory AccountApi
imports Auth
begin

text \<open>
  The handlers that manage accounts: the second factor (\<open>internal/api/mfa.go\<close>), users
  (\<open>users.go\<close>), API keys (\<open>keys.go\<close>), tenants (\<open>tenants.go\<close>) and the audit views (\<open>audit.go\<close>).
  Creation times are left out of the replies, as they are of the tables.
\<close>

section \<open>Second factor\<close>

definition newSecret :: "('w, 'x) apilib_scheme \<Rightarrow> (('w, 'z) st_scheme, string) M" where
  "newSecret L = bindM (randRead L 20) (\<lambda>raw. ret (NewSecret raw))"

definition backupCode :: "string \<Rightarrow> string" where
  "backupCode buf = (let s = filter (\<lambda>c. c \<noteq> CHR ''='') (b32Encode buf) in take 4 s @ ''-'' @ take 4 (drop 4 s))"

definition newBackupCodes :: "('w, 'x) apilib_scheme \<Rightarrow> (('w, 'z) st_scheme, string list \<times> string list) M" where
  "newBackupCodes L = forM [0..<10] (\<lambda>i (raw, hashed). bindM (randRead L 5) (\<lambda>buf.
     let code = backupCode buf in ret (raw @ [code], hashed @ [backupCodeHash L code]))) ([], [])"

definition handleMFAEnroll ::
  "('w, 'x) apilib_scheme \<Rightarrow> Request \<Rightarrow> Ctx \<Rightarrow> (('w, 'z) st_scheme, reply) M" where
  "handleMFAEnroll L r cx =
     (let tenant = tenantIDFrom cx; userID = userIDFrom cx in
      if userID = [] then writeError 401 ''user session required''
      else orReply (newSecret L) (\<lambda>e. writeError 500 ''failed to enroll mfa'') (\<lambda>secret.
        orReply (SetTOTPSecret tenant userID secret) (\<lambda>e. writeError 500 ''failed to enroll mfa'') (\<lambda>_.
        thenM (ignore (SetTOTPEnabled tenant userID False)) (
        let email = (if actorFrom cx \<noteq> [] then actorFrom cx else ''user:'' @ userID) in
        thenM (audit cx ''mfa.enroll'' ''user'' userID [])
        (writeJSON 200 (JObj [(''secret'', jstr secret), (''otpauth'', jstr (URI ''SyncForge'' email secret)),
           (''enabled'', jbool False), (''confirmed'', jbool False)]))))))"

text \<open>Confirming and disabling share their checks: a code for the stored secret.\<close>

definition withTOTP ::
  "('w, 'x) apilib_scheme \<Rightarrow> Request \<Rightarrow> Ctx \<Rightarrow> string \<Rightarrow> (('w, 'z) st_scheme, reply) M \<Rightarrow>
   (('w, 'z) st_scheme, reply) M \<Rightarrow> (('w, 'z) st_scheme, reply) M" where
  "withTOTP L r cx failed wrong k =
     (let tenant = tenantIDFrom cx; userID = userIDFrom cx in
      if userID = [] then writeError 401 ''user session required''
      else case decodeReq L r [''code''] of
        None \<Rightarrow> writeError 400 ''code is required''
      | Some req \<Rightarrow>
          let code = req ''code'' in
          if code = [] then writeError 400 ''code is required''
          else orReply (GetUserTOTPSecret tenant userID) (\<lambda>e. writeError 400 ''mfa not enrolled'') (\<lambda>secret.
            if secret = [] then writeError 400 ''mfa not enrolled''
            else bindM timeNow (\<lambda>n. case totpValidate L secret code n of
              None \<Rightarrow> writeError 500 failed
            | Some ok \<Rightarrow> if \<not> ok then wrong else k)))"

definition handleMFAConfirm ::
  "('w, 'x) apilib_scheme \<Rightarrow> Request \<Rightarrow> Ctx \<Rightarrow> (('w, 'z) st_scheme, reply) M" where
  "handleMFAConfirm L r cx = withTOTP L r cx ''failed to confirm mfa''
     (thenM (audit cx ''mfa.confirm_failed'' ''user'' (userIDFrom cx) []) (writeError 401 ''invalid code''))
     (orReply (SetTOTPEnabled (tenantIDFrom cx) (userIDFrom cx) True) (\<lambda>e. writeError 500 ''failed to confirm mfa'') (\<lambda>_.
      thenM (audit cx ''mfa.confirm'' ''user'' (userIDFrom cx) [])
      (writeJSON 200 (JObj [(''enabled'', jbool True), (''confirmed'', jbool True)]))))"

definition handleMFADisable ::
  "('w, 'x) apilib_scheme \<Rightarrow> Request \<Rightarrow> Ctx \<Rightarrow> (('w, 'z) st_scheme, reply) M" where
  "handleMFADisable L r cx = withTOTP L r cx ''failed to disable mfa''
     (writeError 401 ''invalid code'')
     (orReply (SetTOTPEnabled (tenantIDFrom cx) (userIDFrom cx) False) (\<lambda>e. writeError 500 ''failed to disable mfa'') (\<lambda>_.
      thenM (audit cx ''mfa.disable'' ''user'' (userIDFrom cx) [])
      (writeJSON 200 (JObj [(''enabled'', jbool False)]))))"

definition handleMFABackupCodes ::
  "('w, 'x) apilib_scheme \<Rightarrow> Request \<Rightarrow> Ctx \<Rightarrow> (('w, 'z) st_scheme, reply) M" where
  "handleMFABackupCodes L r cx =
     (let tenant = tenantIDFrom cx; userID = userIDFrom cx in
      if userID = [] then writeError 401 ''user session required''
      else orReply (newBackupCodes L) (\<lambda>e. writeError 500 ''failed to generate backup codes'') (\<lambda>(raw, hashed).
        orReply (SetBackupCodes tenant userID hashed) (\<lambda>e. writeError 500 ''failed to generate backup codes'') (\<lambda>_.
        thenM (audit cx ''mfa.backup_codes'' ''user'' userID [(''count'', GNum (of_nat (length raw)))])
        (writeJSON 200 (JObj [(''codes'', JList (map jstr raw)), (''shown_once'', jbool True),
           (''single_use'', jbool True), (''expires_never'', jbool True)])))))"

section \<open>Users\<close>

definition handleCreateUser ::
  "('w, 'x) apilib_scheme \<Rightarrow> Request \<Rightarrow> Ctx \<Rightarrow> (('w, 'z) st_scheme, reply) M" where
  "handleCreateUser L r cx =
     (case decodeReq L r [''email'', ''password'', ''role''] of
        None \<Rightarrow> writeError 400 ''email and password are required''
      | Some req \<Rightarrow>
          let email = req ''email''; role = req ''role'' in
          if email = [] \<or> req ''password'' = [] then writeError 400 ''email and password are required''
          else if \<not> knownRole role then writeError 400 ''role must be ADMIN, OPERATOR, DEVELOPER, or VIEWER''
          else if roleRank role > roleRank (roleFrom cx) then writeError 403 ''cannot create a user above your own role''
          else orReply (GenerateFromPassword L (req ''password'')) (\<lambda>e. writeError 500 ''failed to create user'') (\<lambda>hash.
            orReply (CreateUser L (tenantIDFrom cx) email hash role)
              (\<lambda>e. if e = ErrExists then writeError 409 ''user already exists'' else writeError 500 ''failed to create user'')
              (\<lambda>u. thenM (audit cx ''user.create'' ''user'' (us_ID u) [(''email'', GStr (us_Email u)), (''role'', GStr (us_Role u))])
              (writeJSON 201 (JUser u)))))"

definition handleListUsers :: "Request \<Rightarrow> Ctx \<Rightarrow> (('w, 'z) st_scheme, reply) M" where
  "handleListUsers r cx =
     orReply (ListUsers (tenantIDFrom cx)) (\<lambda>e. writeError 500 ''failed to list users'') (\<lambda>us.
     writeJSON 200 (JObj [(''users'', JList (map JUser us))]))"

definition handleChangePassword ::
  "('w, 'x) apilib_scheme \<Rightarrow> Server \<Rightarrow> Request \<Rightarrow> Ctx \<Rightarrow> (('w, 'z) st_scheme, reply) M" where
  "handleChangePassword L sv r cx =
     (let tenant = tenantIDFrom cx; userID = userIDFrom cx in
      if userID = [] then writeError 401 ''user session required''
      else case decodeReq L r [''current_password'', ''new_password''] of
        None \<Rightarrow> writeError 400 ''current_password and new_password are required''
      | Some req \<Rightarrow>
          if req ''current_password'' = [] \<or> req ''new_password'' = [] then
            writeError 400 ''current_password and new_password are required''
          else orReply (GetUser tenant userID) (\<lambda>e. writeError 404 ''user not found'') (\<lambda>user.
            if \<not> bcrypt_ok L (us_PasswordHash user) (req ''current_password'') then
              writeError 401 ''current password is incorrect''
            else orReply (GenerateFromPassword L (req ''new_password'')) (\<lambda>e. writeError 500 ''failed to change password'') (\<lambda>hash.
            orReply (SetUserPassword tenant userID hash) (\<lambda>e. writeError 500 ''failed to change password'') (\<lambda>_.
            bindM (attempt (verifySessionToken L sv (bearerTokenFrom r))) (\<lambda>claims.
            thenM (case claims of Inr c \<Rightarrow> ignore (RevokeSession tenant (JTI c)) | Inl _ \<Rightarrow> ret ())
            (thenM (ignore (RevokeUserSessions tenant userID))
            (thenM (audit cx ''user.change_password'' ''user'' userID [])
            (writeJSON 200 (JObj [(''status'', jstr ''password_changed''), (''sessions_revoked'', jbool True)])))))))))"

definition handleResetPassword ::
  "('w, 'x) apilib_scheme \<Rightarrow> Request \<Rightarrow> Ctx \<Rightarrow> (('w, 'z) st_scheme, reply) M" where
  "handleResetPassword L r cx =
     (let tenant = tenantIDFrom cx; targetID = PathValue r ''id'' in
      case decodeReq L r [''new_password''] of
        None \<Rightarrow> writeError 400 ''new_password is required''
      | Some req \<Rightarrow>
          if req ''new_password'' = [] then writeError 400 ''new_password is required''
          else orReply (GetUser tenant targetID) (\<lambda>e. writeError 404 ''user not found'') (\<lambda>_.
            orReply (GenerateFromPassword L (req ''new_password'')) (\<lambda>e. writeError 500 ''failed to reset password'') (\<lambda>hash.
            orReply (SetUserPassword tenant targetID hash) (\<lambda>e. writeError 500 ''failed to reset password'') (\<lambda>_.
            thenM (ignore (RevokeUserSessions tenant targetID))
            (thenM (audit cx ''user.reset_password'' ''user'' targetID [])
            (writeJSON 200 (JObj [(''status'', jstr ''password_reset''), (''sessions_revoked'', jbool True)])))))))"

definition handleChangeRole ::
  "('w, 'x) apilib_scheme \<Rightarrow> Request \<Rightarrow> Ctx \<Rightarrow> (('w, 'z) st_scheme, reply) M" where
  "handleChangeRole L r cx =
     (let tenant = tenantIDFrom cx; targetID = PathValue r ''id'' in
      case decodeReq L r [''role''] of
        None \<Rightarrow> writeError 400 ''role is required''
      | Some req \<Rightarrow>
          let role = req ''role'' in
          if role = [] then writeError 400 ''role is required''
          else if \<not> knownRole role then writeError 400 ''role must be ADMIN, OPERATOR, DEVELOPER, or VIEWER''
          else if roleRank role > roleRank (roleFrom cx) then writeError 403 ''cannot grant a role above your own''
          else orReply (GetUser tenant targetID) (\<lambda>e. writeError 404 ''user not found'') (\<lambda>target.
            orReply (SetUserRole tenant targetID role) (\<lambda>e. writeError 500 ''failed to change role'') (\<lambda>_.
            thenM (audit cx ''user.change_role'' ''user'' targetID [(''from'', GStr (us_Role target)), (''to'', GStr role)])
            (writeJSON 200 (JObj [(''status'', jstr ''role_changed''), (''id'', jstr targetID), (''role'', jstr role)])))))"

section \<open>API keys\<close>

definition newRawAPIKey :: "('w, 'x) apilib_scheme \<Rightarrow> (('w, 'z) st_scheme, string) M" where
  "newRawAPIKey L = bindM (randRead L 24) (\<lambda>buf. ret (''sfk_'' @ hexEncode buf))"

definition handleCreateAPIKey ::
  "('w, 'x) apilib_scheme \<Rightarrow> Request \<Rightarrow> Ctx \<Rightarrow> (('w, 'z) st_scheme, reply) M" where
  "handleCreateAPIKey L r cx =
     (case decodeReq L r [''name'', ''role''] of
        None \<Rightarrow> writeError 400 ''name is required''
      | Some req \<Rightarrow>
          let name = req ''name''; role = req ''role'' in
          if name = [] then writeError 400 ''name is required''
          else if \<not> knownRole role then writeError 400 ''role must be ADMIN, OPERATOR, DEVELOPER, or VIEWER''
          else if roleRank role > roleRank (roleFrom cx) then writeError 403 ''cannot mint a key above your own role''
          else orReply (newRawAPIKey L) (\<lambda>e. writeError 500 ''failed to generate api key'') (\<lambda>raw.
            orReply (CreateTenantAPIKey L (tenantIDFrom cx) name role (hashAPIKey L raw))
              (\<lambda>e. writeError 500 ''failed to create api key'') (\<lambda>k.
            thenM (audit cx ''key.create'' ''api_key'' (ak_ID k) [(''name'', GStr (ak_Name k)), (''role'', GStr (ak_Role k))])
            (writeJSON 201 (JObj [(''id'', jstr (ak_ID k)), (''tenant_id'', jstr (ak_TenantID k)), (''name'', jstr (ak_Name k)),
               (''role'', jstr (ak_Role k)), (''enabled'', jbool (ak_Enabled k)), (''api_key'', jstr raw)])))))"

definition handleListAPIKeys :: "Request \<Rightarrow> Ctx \<Rightarrow> (('w, 'z) st_scheme, reply) M" where
  "handleListAPIKeys r cx =
     orReply (ListAPIKeys (tenantIDFrom cx)) (\<lambda>e. writeError 500 ''failed to list api keys'') (\<lambda>ks.
     writeJSON 200 (JObj [(''keys'', JList (map JKey ks))]))"

definition handleRevokeAPIKey :: "Request \<Rightarrow> Ctx \<Rightarrow> (('w, 'z) st_scheme, reply) M" where
  "handleRevokeAPIKey r cx =
     (let kid = PathValue r ''id'' in
      if kid = actorKeyID cx then writeError 400 ''cannot revoke the key used for this request''
      else orReply (RevokeAPIKey (tenantIDFrom cx) kid)
        (\<lambda>e. if e = ErrNotFound then writeError 404 ''api key not found'' else writeError 500 ''failed to revoke api key'')
        (\<lambda>_. thenM (audit cx ''key.revoke'' ''api_key'' kid [])
        (writeJSON 200 (JObj [(''status'', jstr ''revoked''), (''id'', jstr kid)]))))"

section \<open>Tenants\<close>

definition handleCreateTenant ::
  "('w, 'x) apilib_scheme \<Rightarrow> Request \<Rightarrow> Ctx \<Rightarrow> (('w, 'z) st_scheme, reply) M" where
  "handleCreateTenant L r cx =
     (case decodeReq L r [''name'', ''slug''] of
        None \<Rightarrow> writeError 400 ''name and slug are required''
      | Some req \<Rightarrow>
          if req ''name'' = [] \<or> req ''slug'' = [] then writeError 400 ''name and slug are required''
          else orReply (CreateTenant L (req ''name'') (req ''slug''))
            (\<lambda>e. if e = ErrExists then writeError 409 ''tenant slug already exists'' else writeError 500 ''failed to create tenant'')
            (\<lambda>t. orReply (newRawAPIKey L) (\<lambda>e. writeError 500 ''failed to provision admin key'') (\<lambda>raw.
            orReply (CreateAPIKey L (te_ID t) ''initial-admin'' ''ADMIN'' (hashAPIKey L raw))
              (\<lambda>e. writeError 500 ''failed to provision admin key'') (\<lambda>_.
            writeJSON 201 (JObj [(''id'', jstr (te_ID t)), (''name'', jstr (te_Name t)), (''slug'', jstr (te_Slug t)),
              (''status'', jstr (te_Status t)), (''api_key'', jstr raw)])))))"

definition handleListTenants :: "Request \<Rightarrow> Ctx \<Rightarrow> (('w, 'z) st_scheme, reply) M" where
  "handleListTenants r cx =
     orReply ListTenants (\<lambda>e. writeError 500 ''failed to list tenants'') (\<lambda>ts.
     writeJSON 200 (JObj [(''tenants'', JList (map JTenant ts))]))"

section \<open>Audit views\<close>

definition handleListAudit :: "Request \<Rightarrow> Ctx \<Rightarrow> (('w, 'z) st_scheme, reply) M" where
  "handleListAudit r cx =
     orReply (ListAuditLogs (tenantIDFrom cx) (QueryGet r ''actor'') (QueryGet r ''action'') (QueryGet r ''resource'') (limitParam r))
       (\<lambda>e. writeError 500 ''failed to list audit log'') (\<lambda>xs.
     writeJSON 200 (JObj [(''items'', JList (map JAudit xs)), (''count'', jint (int (length xs)))]))"

definition handleListOperations :: "Request \<Rightarrow> Ctx \<Rightarrow> (('w, 'z) st_scheme, reply) M" where
  "handleListOperations r cx =
     orReply (ListSyncOperations (tenantIDFrom cx) (QueryGet r ''entity_type'') (QueryGet r ''entity_id'')
         (QueryGet r ''target_source'') (limitParam r))
       (\<lambda>e. writeError 500 ''failed to list sync operations'') (\<lambda>xs.
     writeJSON 200 (JObj [(''items'', JList (map JOperation xs)), (''count'', jint (int (length xs)))]))"

end
