(* ===== verification/OpsApi.thy ===== *)
theory OpsApi
imports Auth Reconcile
begin

text \<open>
  The operator's handlers: the dead-letter queue (\<open>internal/api/dlq.go\<close>), conflicts
  (\<open>conflicts.go\<close>), reconciliation (\<open>reconcile.go\<close>), sync jobs (\<open>syncjobs.go\<close>), connections
  (\<open>connections.go\<close>) and ingested events (\<open>syncevents.go\<close>). The writing ones hand work to the engine
  through the retry queue and the job table. Creation and start times are left out of the
  replies, as they are of the tables, and so is the free-form configuration of a connection.
\<close>

section \<open>Listing and reading\<close>

definition listReply :: "(('w, 'z) st_scheme, 'a list) M \<Rightarrow> string \<Rightarrow> ('a list \<Rightarrow> jval) \<Rightarrow> (('w, 'z) st_scheme, reply) M" where
  "listReply m failed render = orReply m (\<lambda>e. writeError 500 failed) (\<lambda>xs. writeJSON 200 (render xs))"

definition getReply ::
  "(('w, 'z) st_scheme, 'a) M \<Rightarrow> string \<Rightarrow> string \<Rightarrow> ('a \<Rightarrow> (('w, 'z) st_scheme, reply) M) \<Rightarrow> (('w, 'z) st_scheme, reply) M" where
  "getReply m absent failed k =
     orReply m (\<lambda>e. if e = ErrNotFound then writeError 404 absent else writeError 500 failed) k"

definition itemsBody :: "('a \<Rightarrow> jval) \<Rightarrow> 'a list \<Rightarrow> jval" where
  "itemsBody f xs = JObj [(''items'', JList (map f xs)), (''count'', jint (int (length xs)))]"

section \<open>Dead letters\<close>

definition handleListDLQ :: "Request \<Rightarrow> Ctx \<Rightarrow> (('w, 'z) st_scheme, reply) M" where
  "handleListDLQ r cx = listReply (ListDeadLetters (tenantIDFrom cx) (QueryGet r ''status'') (limitParam r))
     ''failed to list dead letters'' (itemsBody JDead)"

definition handleGetDLQ :: "Request \<Rightarrow> Ctx \<Rightarrow> (('w, 'z) st_scheme, reply) M" where
  "handleGetDLQ r cx = getReply (GetDeadLetter (tenantIDFrom cx) (PathValue r ''id''))
     ''dead letter not found'' ''failed to get dead letter'' (\<lambda>item. writeJSON 200 (JDead item))"

definition replayEntry :: "Server \<Rightarrow> DeadLetter \<Rightarrow> RetryEntry" where
  "replayEntry sv item = \<lparr>re_TenantID = dl_TenantID item, re_EventID = dl_EventID item, re_Attempt = 0,
     re_MaxAttempts = Config.RetryMaxAttempts (cfg sv), re_NextAttemptAt = 0, re_LastError = ''manual replay from DLQ'',
     re_ErrorClass = dl_ErrorClass item, re_State = dl_Payload item\<rparr>"

definition dlqMeta :: "DeadLetter \<Rightarrow> goval gomap" where
  "dlqMeta item = [(''event_id'', GStr (dl_EventID item)), (''error_class'', GStr (dl_ErrorClass item))]"

definition handleDLQRetry :: "Server \<Rightarrow> Request \<Rightarrow> Ctx \<Rightarrow> (('w, 'z) st_scheme, reply) M" where
  "handleDLQRetry sv r cx =
     (let tenant = tenantIDFrom cx; i = PathValue r ''id'' in
      getReply (GetDeadLetter tenant i) ''dead letter not found'' ''failed to load dead letter'' (\<lambda>item.
      orReply (SetDeadLetterStatus tenant i ''retrying'') (\<lambda>e. writeError 500 ''failed to update dead letter'') (\<lambda>_.
      orReply (EnqueueRetry (replayEntry sv item) 0) (\<lambda>e. writeError 500 ''failed to enqueue retry'') (\<lambda>_.
      thenM (audit cx ''dlq.retry'' ''dead_letter'' (dl_ID item) (dlqMeta item))
      (bindM timeNow (\<lambda>n. writeJSON 200 (JObj [(''status'', jstr ''retrying''), (''id'', jstr (dl_ID item)),
         (''event_id'', jstr (dl_EventID item)), (''queued_at'', JTime n)])))))))"

definition handleDLQDiscard :: "Request \<Rightarrow> Ctx \<Rightarrow> (('w, 'z) st_scheme, reply) M" where
  "handleDLQDiscard r cx =
     (let tenant = tenantIDFrom cx; i = PathValue r ''id'' in
      getReply (GetDeadLetter tenant i) ''dead letter not found'' ''failed to load dead letter'' (\<lambda>item.
      orReply (SetDeadLetterStatus tenant i ''discarded'') (\<lambda>e. writeError 500 ''failed to update dead letter'') (\<lambda>_.
      thenM (audit cx ''dlq.discard'' ''dead_letter'' (dl_ID item) (dlqMeta item))
      (writeJSON 200 (JObj [(''status'', jstr ''discarded''), (''id'', jstr (dl_ID item)),
         (''event_id'', jstr (dl_EventID item))])))))"

section \<open>Conflicts\<close>

definition decodedPayload :: "('x) golib_scheme \<Rightarrow> string \<Rightarrow> goval" where
  "decodedPayload L b =
     (case json_decode L b of
        Some (GObj m) \<Rightarrow> GObj m
      | Some GNil \<Rightarrow> GNil
      | _ \<Rightarrow> GObj [(''raw'', GStr (TrimSpace b))])"

definition renderConflict :: "('x) golib_scheme \<Rightarrow> ConflictRecord \<Rightarrow> jval" where
  "renderConflict L c = JObj [(''id'', jstr (cf_ID c)), (''tenant_id'', jstr (cf_TenantID c)),
     (''entity_type'', jstr (cf_EntityType c)), (''entity_id'', jstr (cf_EntityID c)),
     (''source_a'', jstr (cf_SourceA c)), (''version_a'', jint (cf_VersionA c)),
     (''payload_a'', JVal (decodedPayload L (cf_PayloadA c))),
     (''source_b'', jstr (cf_SourceB c)), (''version_b'', jint (cf_VersionB c)),
     (''payload_b'', JVal (decodedPayload L (cf_PayloadB c))), (''detected_at'', JTime (cf_DetectedAt c)),
     (''status'', jstr (cf_Status c)), (''resolution_strategy'', jstr (cf_ResolutionStrategy c)),
     (''resolved_by'', jopt jstr (cf_ResolvedBy c)), (''resolved_at'', jopt JTime (cf_ResolvedAt c))]"

definition handleListConflicts ::
  "('w, 'x) apilib_scheme \<Rightarrow> Request \<Rightarrow> Ctx \<Rightarrow> (('w, 'z) st_scheme, reply) M" where
  "handleListConflicts L r cx = listReply (ListConflicts (tenantIDFrom cx) (QueryGet r ''status'') (limitParam r))
     ''failed to list conflicts'' (itemsBody (renderConflict L))"

definition handleGetConflict ::
  "('w, 'x) apilib_scheme \<Rightarrow> Request \<Rightarrow> Ctx \<Rightarrow> (('w, 'z) st_scheme, reply) M" where
  "handleGetConflict L r cx = getReply (GetConflict (tenantIDFrom cx) (PathValue r ''id''))
     ''conflict not found'' ''failed to get conflict'' (\<lambda>c. writeJSON 200 (renderConflict L c))"

text \<open>The winning side, the event that carries it, and the queue entry that delivers the event.\<close>

definition winningSide :: "string \<Rightarrow> ConflictRecord \<Rightarrow> string \<times> int \<times> string" where
  "winningSide side c = (if side = ''a'' then (cf_SourceA c, cf_VersionA c, cf_PayloadA c)
     else (cf_SourceB c, cf_VersionB c, cf_PayloadB c))"

definition resolutionEvent :: "('x) golib_scheme \<Rightarrow> string \<Rightarrow> ConflictRecord \<Rightarrow> string \<Rightarrow> int \<Rightarrow> Event" where
  "resolutionEvent L tenant c side n = (case winningSide side c of (src, version, state) \<Rightarrow>
     \<lparr>EventID = ''resolve:'' @ cf_ID c, TenantID = tenant, Source = src, EntityType = cf_EntityType c,
      EntityID = cf_EntityID c, EventType = EventUpdated, SourceVersion = version, OccurredAt = n, ReceivedAt = n,
      CorrelationID = [], ev_Provenance = noProvenance\<lparr>ResolvedConflictID := cf_ID c\<rparr>,
      Payload = [(''fields'', decodedPayload L state)]\<rparr>)"

definition operatorEntry ::
  "('w, 'x) apilib_scheme \<Rightarrow> Server \<Rightarrow> Event \<Rightarrow> string \<Rightarrow> string \<Rightarrow> RetryEntry" where
  "operatorEntry L sv ev lastError cls = \<lparr>re_TenantID = TenantID ev, re_EventID = EventID ev, re_Attempt = 0,
     re_MaxAttempts = Config.RetryMaxAttempts (cfg sv), re_NextAttemptAt = 0, re_LastError = lastError,
     re_ErrorClass = cls, re_State = event_marshal L ev\<rparr>"

definition handleResolveConflict ::
  "('w, 'x) apilib_scheme \<Rightarrow> Server \<Rightarrow> Request \<Rightarrow> Ctx \<Rightarrow> (('w, 'z) st_scheme, reply) M" where
  "handleResolveConflict L sv r cx =
     (let tenant = tenantIDFrom cx; i = PathValue r ''id'' in
      getReply (GetConflict tenant i) ''conflict not found'' ''failed to load conflict'' (\<lambda>c.
      if cf_Status c \<noteq> ConflictPending then writeError 409 ''conflict is not pending resolution''
      else case decodeReq L r [''side''] of
        None \<Rightarrow> writeError 400 ''invalid body''
      | Some req \<Rightarrow>
          let side = req ''side'' in
          if side \<noteq> ''a'' \<and> side \<noteq> ''b'' then writeError 400 (''side must be \"a\" or \"b\"'')
          else bindM timeNow (\<lambda>n.
            let ev = resolutionEvent L tenant c side n in
            orReply (EnqueueRetry (operatorEntry L sv ev ''operator resolution'' ''RESOLUTION'') 0)
              (\<lambda>e. writeError 500 ''failed to enqueue resolution'') (\<lambda>_.
            thenM (audit cx ''conflict.resolve'' ''conflict'' (cf_ID c)
              [(''entity_type'', GStr (cf_EntityType c)), (''entity_id'', GStr (cf_EntityID c)), (''side'', GStr side),
               (''winner_source'', GStr (Source ev)), (''winner_version'', GNum (of_int (SourceVersion ev)))])
            (writeJSON 202 (JObj [(''status'', jstr ''resolution_queued''), (''id'', jstr (cf_ID c)),
               (''winner'', jstr (Source ev)), (''queued_at'', JTime n)]))))))"

definition handleDismissConflict :: "Request \<Rightarrow> Ctx \<Rightarrow> (('w, 'z) st_scheme, reply) M" where
  "handleDismissConflict r cx =
     (let tenant = tenantIDFrom cx; i = PathValue r ''id'' in
      getReply (GetConflict tenant i) ''conflict not found'' ''failed to load conflict'' (\<lambda>c.
      if cf_Status c \<noteq> ConflictPending then writeError 409 ''conflict is not pending''
      else orReply (SetConflictStatus tenant i ConflictDismissed (cf_ResolutionStrategy c) ''operator'')
        (\<lambda>e. writeError 500 ''failed to dismiss conflict'') (\<lambda>_.
      thenM (audit cx ''conflict.dismiss'' ''conflict'' (cf_ID c)
        [(''entity_type'', GStr (cf_EntityType c)), (''entity_id'', GStr (cf_EntityID c)),
         (''strategy'', GStr (cf_ResolutionStrategy c))])
      (writeJSON 200 (JObj [(''status'', jstr ''dismissed''), (''id'', jstr i)])))))"

section \<open>Reconciliation\<close>

definition renderRun :: "ReconciliationRun \<Rightarrow> jval" where
  "renderRun run = JObj [(''id'', jstr (rr_ID run)), (''tenant_id'', jstr (rr_TenantID run)), (''entity'', jstr (rr_Entity run)),
     (''source'', jstr (rr_Source run)), (''mode'', jstr (rr_Mode run)), (''status'', jstr (rr_Status run)),
     (''job_id'', jopt jstr (rr_JobID run)), (''total'', jint (rr_Total run)), (''drift'', jint (rr_Drift run)),
     (''missed'', jint (rr_Missed run)), (''deleted'', jint (rr_Deleted run)),
     (''finished_at'', jopt JTime (rr_FinishedAt run))]"

definition renderFinding :: "ReconciliationFinding \<Rightarrow> jval" where
  "renderFinding f = JObj [(''id'', jstr (rf_ID f)), (''run_id'', jstr (rf_RunID f)), (''tenant_id'', jstr (rf_TenantID f)),
     (''kind'', jstr (rf_Kind f)), (''provider_id'', jstr (rf_ProviderID f)), (''canonical_id'', jstr (rf_CanonicalID f)),
     (''canonical_fields'', JVal (GObj (rf_CanonicalFields f))), (''provider_fields'', JVal (GObj (rf_ProviderFields f))),
     (''provider_version'', jint (rf_ProviderVersion f)), (''direction'', jstr (rf_Direction f)),
     (''status'', jstr (rf_Status f)), (''error'', jopt jstr (rf_Error f)), (''applied_at'', jopt JTime (rf_AppliedAt f))]"

definition newJob :: "Server \<Rightarrow> string \<Rightarrow> string \<Rightarrow> string \<Rightarrow> string \<Rightarrow> string \<Rightarrow> SyncJob" where
  "newJob sv tenant entity source dest ty = \<lparr>sj_ID = [], sj_TenantID = tenant, sj_Entity = entity, sj_Source = source,
     sj_Destination = dest, sj_Type = ty, sj_Status = [], sj_Cursor = None, sj_Processed = 0, sj_Failed = 0, sj_Total = 0,
     sj_BatchSize = SyncJobBatchSize (cfg sv), sj_StartedAt = None, sj_FinishedAt = None, sj_LastError = None\<rparr>"

definition newRun :: "string \<Rightarrow> string \<Rightarrow> string \<Rightarrow> string \<Rightarrow> string \<Rightarrow> ReconciliationRun" where
  "newRun tenant entity source mode jobID = \<lparr>rr_ID = [], rr_TenantID = tenant, rr_Entity = entity, rr_Source = source,
     rr_Mode = mode, rr_Status = ReconcileRunning, rr_JobID = Some jobID, rr_Total = 0, rr_Drift = 0, rr_Missed = 0,
     rr_Deleted = 0, rr_Error = None, rr_FinishedAt = None\<rparr>"

definition handleCreateReconciliation ::
  "('w, 'x) apilib_scheme \<Rightarrow> Server \<Rightarrow> Request \<Rightarrow> Ctx \<Rightarrow> (('w, 'z) st_scheme, reply) M" where
  "handleCreateReconciliation L sv r cx =
     (case decodeReq L r [''entity'', ''source'', ''mode''] of
        None \<Rightarrow> writeError 400 ''invalid request body''
      | Some req \<Rightarrow>
          let tenant = tenantIDFrom cx;
              entity = (if req ''entity'' = [] then ''customer'' else req ''entity'');
              source = req ''source'';
              mode = (if req ''mode'' \<noteq> ''auto'' \<and> req ''mode'' \<noteq> ''manual'' then ''auto'' else req ''mode'') in
          if source = [] then writeError 400 ''source is required''
          else orReply (CreateSyncJob L (newJob sv tenant entity source [] ''reconcile''))
            (\<lambda>e. writeError 500 ''failed to create reconciliation'') (\<lambda>job.
          orReply (CreateReconciliationRun L (newRun tenant entity source mode (sj_ID job)))
            (\<lambda>e. writeError 500 ''failed to create reconciliation run'') (\<lambda>run. writeJSON 201 (renderRun run))))"

definition handleListReconciliations :: "Request \<Rightarrow> Ctx \<Rightarrow> (('w, 'z) st_scheme, reply) M" where
  "handleListReconciliations r cx = listReply (ListReconciliationRuns (tenantIDFrom cx) (limitParam r))
     ''failed to list reconciliations'' (itemsBody renderRun)"

definition handleGetReconciliation :: "Request \<Rightarrow> Ctx \<Rightarrow> (('w, 'z) st_scheme, reply) M" where
  "handleGetReconciliation r cx = getReply (GetReconciliationRun (tenantIDFrom cx) (PathValue r ''id''))
     ''reconciliation not found'' ''failed to get reconciliation'' (\<lambda>run. writeJSON 200 (renderRun run))"

definition handleListReconcileFindings :: "Request \<Rightarrow> Ctx \<Rightarrow> (('w, 'z) st_scheme, reply) M" where
  "handleListReconcileFindings r cx =
     listReply (ListReconciliationFindings (tenantIDFrom cx) (PathValue r ''id'') (QueryGet r ''status'') (limitParam r))
     ''failed to list findings'' (itemsBody renderFinding)"

definition reconcileEventID :: "string \<Rightarrow> string" where
  "reconcileEventID findingID = ''reconcile:'' @ findingID"

definition findingEvent :: "string \<Rightarrow> ReconciliationRun \<Rightarrow> ReconciliationFinding \<Rightarrow> int \<Rightarrow> Event" where
  "findingEvent tenant run f n = \<lparr>EventID = reconcileEventID (rf_ID f), TenantID = tenant, Source = rr_Source run,
     EntityType = rr_Entity run, EntityID = rf_ProviderID f, EventType = EventUpdated, SourceVersion = rf_ProviderVersion f,
     OccurredAt = n, ReceivedAt = n, CorrelationID = [], ev_Provenance = noProvenance\<lparr>ReconcileFindingID := rf_ID f\<rparr>,
     Payload = []\<rparr>"

definition queueFinding ::
  "('w, 'x) apilib_scheme \<Rightarrow> Server \<Rightarrow> Ctx \<Rightarrow> ReconciliationRun \<Rightarrow> ReconciliationFinding \<Rightarrow> string \<Rightarrow>
   (('w, 'z) st_scheme, reply) M" where
  "queueFinding L sv cx run f direction = bindM timeNow (\<lambda>n.
     let ev = findingEvent (tenantIDFrom cx) run f n in
     orReply (EnqueueRetry (operatorEntry L sv ev ''operator reconcile apply'' ''RECONCILIATION'') 0)
       (\<lambda>e. writeError 500 ''failed to enqueue repair'') (\<lambda>_.
     thenM (audit cx ''finding.apply'' ''reconciliation_finding'' (rf_ID f)
       [(''run_id'', GStr (rf_RunID f)), (''kind'', GStr (rf_Kind f)), (''direction'', GStr direction),
        (''provider_id'', GStr (rf_ProviderID f))])
     (writeJSON 202 (JObj [(''status'', jstr ''apply_queued''), (''id'', jstr (rf_ID f)),
        (''direction'', jstr direction), (''queued_at'', JTime n)]))))"

definition handleApplyFinding ::
  "('w, 'x) apilib_scheme \<Rightarrow> Server \<Rightarrow> Request \<Rightarrow> Ctx \<Rightarrow> (('w, 'z) st_scheme, reply) M" where
  "handleApplyFinding L sv r cx =
     (let tenant = tenantIDFrom cx in
      getReply (GetReconciliationFinding tenant (PathValue r ''findingId'')) ''finding not found'' ''failed to load finding'' (\<lambda>f.
      if rf_Status f \<noteq> FindingPending then writeError 409 ''finding is not pending''
      else orReply (GetReconciliationRun tenant (rf_RunID f)) (\<lambda>e. writeError 500 ''failed to load run'') (\<lambda>run.
        let direction = (case decodeReq L r [''direction''] of Some req \<Rightarrow> req ''direction'' | None \<Rightarrow> []) in
        if direction = [] then queueFinding L sv cx run f (rf_Direction f)
        else if direction \<in> {''push_canonical'', ''adopt_provider'', ''delete''} then
          orReply (SetReconciliationFindingDirection tenant (rf_ID f) direction)
            (\<lambda>e. writeError 500 ''failed to apply direction'') (\<lambda>_. queueFinding L sv cx run f direction)
        else writeError 400 ''direction must be push_canonical, adopt_provider, or delete'')))"

definition handleDismissFinding :: "Request \<Rightarrow> Ctx \<Rightarrow> (('w, 'z) st_scheme, reply) M" where
  "handleDismissFinding r cx =
     (let tenant = tenantIDFrom cx; findingID = PathValue r ''findingId'' in
      getReply (GetReconciliationFinding tenant findingID) ''finding not found'' ''failed to load finding'' (\<lambda>f.
      if rf_Status f \<noteq> FindingPending then writeError 409 ''finding is not pending''
      else orReply (SetReconciliationFindingStatus tenant findingID FindingDismissed None)
        (\<lambda>e. writeError 500 ''failed to dismiss finding'') (\<lambda>_.
      thenM (audit cx ''finding.dismiss'' ''reconciliation_finding'' findingID
        [(''run_id'', GStr (rf_RunID f)), (''kind'', GStr (rf_Kind f)), (''provider_id'', GStr (rf_ProviderID f))])
      (writeJSON 200 (JObj [(''status'', jstr ''dismissed''), (''id'', jstr findingID)])))))"

section \<open>Sync jobs\<close>

definition handleCreateSyncJob ::
  "('w, 'x) apilib_scheme \<Rightarrow> Server \<Rightarrow> Request \<Rightarrow> Ctx \<Rightarrow> (('w, 'z) st_scheme, reply) M" where
  "handleCreateSyncJob L sv r cx =
     (case decodeReq L r [''entity'', ''source'', ''destination''] of
        None \<Rightarrow> writeError 400 ''invalid request body''
      | Some req \<Rightarrow>
          let entity = (if req ''entity'' = [] then ''customer'' else req ''entity'') in
          if req ''source'' = [] \<or> req ''destination'' = [] then writeError 400 ''source and destination are required''
          else orReply (CreateSyncJob L (newJob sv (tenantIDFrom cx) entity (req ''source'') (req ''destination'') []))
            (\<lambda>e. writeError 500 ''failed to create sync job'') (\<lambda>job. writeJSON 201 (JJob job)))"

definition handleListSyncJobs :: "Request \<Rightarrow> Ctx \<Rightarrow> (('w, 'z) st_scheme, reply) M" where
  "handleListSyncJobs r cx = listReply (ListSyncJobs (tenantIDFrom cx) (limitParam r))
     ''failed to list sync jobs'' (\<lambda>jobs. JObj [(''jobs'', JList (map JJob jobs))])"

definition handleGetSyncJob :: "Request \<Rightarrow> Ctx \<Rightarrow> (('w, 'z) st_scheme, reply) M" where
  "handleGetSyncJob r cx = getReply (GetSyncJob (tenantIDFrom cx) (PathValue r ''id''))
     ''sync job not found'' ''failed to get sync job'' (\<lambda>job. writeJSON 200 (JJob job))"

definition reopenSyncJob :: "SyncJob \<Rightarrow> (('w, 'z) st_scheme, unit) M" where
  [store_ops]: "reopenSyncJob job = WithTenant (\<lambda>n d. (Inr (),
     d\<lparr>syncJobs := updateWhere (\<lambda>r. sj_ID r = sj_ID job \<and> sj_TenantID r = sj_TenantID job)
         (\<lambda>r. r\<lparr>sj_Status := ''pending'', sj_FinishedAt := None, sj_LastError := None\<rparr>) (syncJobs d)\<rparr>))"

definition handleRerunSyncJob :: "Request \<Rightarrow> Ctx \<Rightarrow> (('w, 'z) st_scheme, reply) M" where
  "handleRerunSyncJob r cx =
     getReply (GetSyncJob (tenantIDFrom cx) (PathValue r ''id'')) ''sync job not found'' ''failed to reopen sync job'' (\<lambda>job.
     if sj_Status job = ''running'' then writeError 409 ''sync job is already running''
     else orReply (reopenSyncJob job) (\<lambda>e. writeError 500 ''failed to reopen sync job'') (\<lambda>_.
     writeJSON 200 (JObj [(''status'', jstr ''pending''), (''id'', jstr (sj_ID job))])))"

section \<open>Connections\<close>

text \<open>The free-form \<open>config\<close> of the body must decode as an object.\<close>

definition mapField :: "('w, 'x) apilib_scheme \<Rightarrow> Request \<Rightarrow> string \<Rightarrow> bool" where
  "mapField L r k = (case structOf (json_first L (rq_Content r)) of
     None \<Rightarrow> False
   | Some kvs \<Rightarrow> list_all (\<lambda>(n, v). EqualFold n k \<longrightarrow> (case v of GObj _ \<Rightarrow> True | GNil \<Rightarrow> True | _ \<Rightarrow> False)) kvs)"

definition handleCreateConnection ::
  "('w, 'x) apilib_scheme \<Rightarrow> Request \<Rightarrow> Ctx \<Rightarrow> (('w, 'z) st_scheme, reply) M" where
  "handleCreateConnection L r cx =
     (case decodeReq L r [''name'', ''provider'', ''base_url'', ''webhook_secret''] of
        None \<Rightarrow> writeError 400 ''name, provider and base_url are required''
      | Some req \<Rightarrow>
          if \<not> mapField L r ''config'' \<or> req ''name'' = [] \<or> req ''provider'' = [] \<or> req ''base_url'' = []
          then writeError 400 ''name, provider and base_url are required''
          else orReply (CreateConnection L \<lparr>cn_ID = [], cn_TenantID = tenantIDFrom cx, cn_Name = req ''name'',
                 cn_Provider = req ''provider'', cn_BaseURL = req ''base_url'', cn_Status = ''disconnected'',
                 cn_WebhookSecret = req ''webhook_secret'', cn_LastHealthCheck = None\<rparr>)
            (\<lambda>e. writeError 500 ''failed to create connection'') (\<lambda>c. writeJSON 201 (JConnection c)))"

definition handleListConnections :: "Request \<Rightarrow> Ctx \<Rightarrow> (('w, 'z) st_scheme, reply) M" where
  "handleListConnections r cx = listReply (ListConnections (tenantIDFrom cx))
     ''failed to list connections'' (\<lambda>xs. JObj [(''connections'', JList (map JConnection xs))])"

definition handleGetConnection :: "Request \<Rightarrow> Ctx \<Rightarrow> (('w, 'z) st_scheme, reply) M" where
  "handleGetConnection r cx = getReply (GetConnection (tenantIDFrom cx) (PathValue r ''id''))
     ''connection not found'' ''failed to get connection'' (\<lambda>c. writeJSON 200 (JConnection c))"

section \<open>Ingested events\<close>

definition handleListSyncEvents :: "Request \<Rightarrow> Ctx \<Rightarrow> (('w, 'z) st_scheme, reply) M" where
  "handleListSyncEvents r cx = listReply (ListSourceEvents (tenantIDFrom cx) (limitParam r))
     ''failed to list sync events'' (\<lambda>xs. JObj [(''events'', JList (map JEvent xs))])"

definition handleGetSyncEvent :: "Request \<Rightarrow> Ctx \<Rightarrow> (('w, 'z) st_scheme, reply) M" where
  "handleGetSyncEvent r cx = getReply (GetSourceEvent (tenantIDFrom cx) (PathValue r ''id''))
     ''event not found'' ''failed to get sync event'' (\<lambda>ev. writeJSON 200 (JEvent ev))"

end
