(* ===== verification/Oidc.thy ===== *)
theory Oidc
imports Auth
begin

text \<open>
  Single sign-on (\<open>internal/oidc/oidc.go\<close> and \<open>internal/api/oidc.go\<close>): discovery of the identity
  provider, its RSA keys, verification of an ID token and the login handler built on it. The
  identity provider is part of the outside world, reached through \<open>http_send\<close>; \<open>rsa_verify n e m sig\<close>
  is PKCS 1 v1.5 verification of a SHA-256 signature on \<open>m\<close>. Error messages that quote a value are
  cut to their constant prefix.
\<close>

section \<open>The provider\<close>

record OIDCProvider =
  op_ClientID :: string
  op_Issuer :: string
  op_JWKSURI :: string
  op_Keys :: "(nat \<times> int) gomap"

definition getJSON :: "('w, 'x) apilib_scheme \<Rightarrow> string \<Rightarrow> (('w, 'z) st_scheme, goval) M" where
  "getJSON L url =
     bindM (sendHttp L \<lparr>rq_Method = ''GET'', rq_URL = url, rq_Auth = None, rq_Body = None\<rparr>) (\<lambda>r.
     case r of
       Inl e \<Rightarrow> throw (PlainErr e)
     | Inr resp \<Rightarrow>
         if StatusCode resp \<noteq> 200 then throw (PlainErr (''GET '' @ url @ '': status '' @ Itoa (StatusCode resp)))
         else case json_first L (RespBody resp) of
           None \<Rightarrow> throw (PlainErr ''json'')
         | Some v \<Rightarrow> ret v)"

text \<open>\<open>big.Int.SetBytes\<close>\<close>

definition SetBytes :: "string \<Rightarrow> nat" where
  "SetBytes s = foldl (\<lambda>acc c. 256 * acc + of_char c) 0 s"

definition jwkRSAPublicKey :: "string \<Rightarrow> string \<Rightarrow> string + (nat \<times> int)" where
  "jwkRSAPublicKey nB64 eB64 =
     (case (b64Decode nB64, b64Decode eB64) of
        (Some nRaw, Some eRaw) \<Rightarrow>
          if in64 (int (SetBytes eRaw)) then Inr (SetBytes nRaw, int (SetBytes eRaw))
          else Inl ''oidc: invalid RSA exponent''
      | _ \<Rightarrow> Inl ''illegal base64 data'')"

text \<open>The loop over the keys of a JWKS document.\<close>

fun collectKeys :: "goval gomap list \<Rightarrow> (nat \<times> int) gomap \<Rightarrow> string + (nat \<times> int) gomap" where
  "collectKeys [] keys = Inr keys"
| "collectKeys (k # ks) keys =
     (case (structStr k ''kty'', structStr k ''kid'', structStr k ''n'', structStr k ''e'') of
        (Some kty, Some kid, Some nB64, Some eB64) \<Rightarrow>
          if kty \<noteq> ''RSA'' \<or> kid = [] then collectKeys ks keys
          else case jwkRSAPublicKey nB64 eB64 of
            Inl e \<Rightarrow> Inl e
          | Inr pub \<Rightarrow> collectKeys ks (gset kid pub keys)
      | _ \<Rightarrow> Inl ''json'')"

definition jwksKeys :: "goval \<Rightarrow> string + (nat \<times> int) gomap" where
  "jwksKeys v =
     (case structOf (Some v) of
        None \<Rightarrow> Inl ''json''
      | Some kvs \<Rightarrow>
          (case (case gget GNil kvs ''keys'' of GNil \<Rightarrow> Some [] | GArr vs \<Rightarrow> decodeMaps vs | _ \<Rightarrow> None) of
             None \<Rightarrow> Inl ''json''
           | Some ks \<Rightarrow> (case collectKeys ks [] of
               Inl e \<Rightarrow> Inl e
             | Inr keys \<Rightarrow> if keys = [] then Inl ''oidc: no RSA keys in JWKS'' else Inr keys)))"

definition refreshKeys :: "('w, 'x) apilib_scheme \<Rightarrow> string \<Rightarrow> (('w, 'z) st_scheme, (nat \<times> int) gomap) M" where
  "refreshKeys L jwksURI =
     (if jwksURI = [] then throw (PlainErr ''oidc: provider has no jwks_uri'')
      else bindM (getJSON L jwksURI) (\<lambda>v. case jwksKeys v of Inl e \<Rightarrow> throw (PlainErr e) | Inr keys \<Rightarrow> ret keys))"

definition trimSlash :: "string \<Rightarrow> string" where
  "trimSlash s = (if s \<noteq> [] \<and> last s = CHR ''/'' then butlast s else s)"

definition NewProvider :: "('w, 'x) apilib_scheme \<Rightarrow> string \<Rightarrow> string \<Rightarrow> (('w, 'z) st_scheme, OIDCProvider) M" where
  "NewProvider L cfgIssuer clientID =
     (if cfgIssuer = [] then throw (PlainErr ''oidc: issuer is required'')
      else let issuer = trimSlash cfgIssuer in
        bindM (getJSON L (issuer @ ''/.well-known/openid-configuration'')) (\<lambda>v.
        case structOf (Some v) of
          None \<Rightarrow> throw (PlainErr ''json'')
        | Some kvs \<Rightarrow>
            (case (structStr kvs ''issuer'', structStr kvs ''jwks_uri'', structStr kvs ''token_endpoint'') of
               (Some iss, Some uri, Some _) \<Rightarrow>
                 if iss \<noteq> issuer then throw (PlainErr ''oidc: issuer mismatch'')
                 else bindM (refreshKeys L uri) (\<lambda>keys.
                   ret \<lparr>op_ClientID = clientID, op_Issuer = issuer, op_JWKSURI = uri, op_Keys = keys\<rparr>)
             | _ \<Rightarrow> throw (PlainErr ''json''))))"

section \<open>ID tokens\<close>

definition audienceMatches :: "goval \<Rightarrow> string \<Rightarrow> bool" where
  "audienceMatches aud clientID =
     (case aud of
        GStr v \<Rightarrow> v = clientID
      | GArr vs \<Rightarrow> list_ex (\<lambda>a. a = GStr clientID) vs
      | _ \<Rightarrow> False)"

definition tokenHeader :: "('w, 'x) apilib_scheme \<Rightarrow> string \<Rightarrow> string + (string \<times> string)" where
  "tokenHeader L part =
     (case b64Decode part of
        None \<Rightarrow> Inl ''oidc: malformed header''
      | Some raw \<Rightarrow> (case structOf (json_decode L raw) of
          None \<Rightarrow> Inl ''json''
        | Some kvs \<Rightarrow> (case (structStr kvs ''alg'', structStr kvs ''kid'') of
            (Some alg, Some kid) \<Rightarrow> Inr (alg, kid) | _ \<Rightarrow> Inl ''json'')))"

text \<open>The key of the token, after one refresh when it is unknown.\<close>

definition signingKey ::
  "('w, 'x) apilib_scheme \<Rightarrow> OIDCProvider \<Rightarrow> string \<Rightarrow> (('w, 'z) st_scheme, nat \<times> int) M" where
  "signingKey L p kid =
     (case map_of (op_Keys p) kid of
        Some pub \<Rightarrow> ret pub
      | None \<Rightarrow> bindM (refreshKeys L (op_JWKSURI p)) (\<lambda>keys.
          case map_of keys kid of
            Some pub \<Rightarrow> ret pub
          | None \<Rightarrow> throw (PlainErr ''oidc: unknown key id'')))"

definition checkClaims :: "OIDCProvider \<Rightarrow> int \<Rightarrow> IDClaims \<Rightarrow> string option" where
  "checkClaims p n c =
     (if Issuer c \<noteq> op_Issuer p then Some ''oidc: issuer mismatch''
      else if \<not> audienceMatches (Audience c) (op_ClientID p) then Some ''oidc: audience mismatch''
      else if ExpiresAt c > 0 \<and> ExpiresAt c < Unix n then Some ''oidc: id_token expired''
      else if Sub c = [] \<or> id_Email c = [] then Some ''oidc: id_token missing sub/email''
      else None)"

definition verifySigned ::
  "('w, 'x) apilib_scheme \<Rightarrow> OIDCProvider \<Rightarrow> string \<Rightarrow> string \<Rightarrow> string \<Rightarrow> nat \<times> int \<Rightarrow> (('w, 'z) st_scheme, IDClaims) M" where
  "verifySigned L p part0 part1 part2 pub =
     (case b64Decode part2 of
        None \<Rightarrow> throw (PlainErr ''oidc: malformed signature'')
      | Some sig \<Rightarrow>
          if \<not> rsa_verify L (fst pub) (snd pub) (part0 @ ''.'' @ part1) sig
          then throw (PlainErr ''oidc: invalid id_token signature'')
          else case b64Decode part1 of
            None \<Rightarrow> throw (PlainErr ''oidc: malformed payload'')
          | Some payload \<Rightarrow> (case idclaims_unmarshal L payload of
              None \<Rightarrow> throw (PlainErr ''json'')
            | Some c \<Rightarrow> bindM timeNow (\<lambda>n. case checkClaims p n c of Some e \<Rightarrow> throw (PlainErr e) | None \<Rightarrow> ret c)))"

definition VerifyIDToken ::
  "('w, 'x) apilib_scheme \<Rightarrow> OIDCProvider \<Rightarrow> string \<Rightarrow> (('w, 'z) st_scheme, IDClaims) M" where
  "VerifyIDToken L p idToken =
     (case splitOn (CHR ''.'') idToken of
        [part0, part1, part2] \<Rightarrow>
          (case tokenHeader L part0 of
             Inl e \<Rightarrow> throw (PlainErr e)
           | Inr (alg, kid) \<Rightarrow>
               if alg \<noteq> ''RS256'' then throw (PlainErr ''oidc: unsupported alg'')
               else bindM (signingKey L p kid) (verifySigned L p part0 part1 part2))
      | _ \<Rightarrow> throw (PlainErr ''oidc: malformed id_token''))"

section \<open>Login\<close>

definition claimsEmailSafe :: "string \<Rightarrow> string" where
  "claimsEmailSafe t = ''unknown''"

definition provisionUser ::
  "('w, 'x) apilib_scheme \<Rightarrow> Server \<Rightarrow> string \<Rightarrow> IDClaims \<Rightarrow> (User \<Rightarrow> (('w, 'z) st_scheme, reply) M) \<Rightarrow>
   (('w, 'z) st_scheme, reply) M" where
  "provisionUser L sv tenantID claims k =
     (if \<not> OIDCAutoProvision (cfg sv) then
        thenM (auditLogin tenantID ''auth.login_failed'' (id_Email claims) [(''reason'', GStr ''no_account'')])
        (writeError 401 ''no SyncForge account for this identity'')
      else bindM (newID L) (\<lambda>u.
        orReply (GenerateFromPassword L (''oidc:'' @ u)) (\<lambda>e. writeError 500 ''failed to provision account'') (\<lambda>hash.
        orReply (CreateUser L tenantID (id_Email claims) hash ''VIEWER'') (\<lambda>e. writeError 500 ''failed to provision account'') k)))"

definition handleOIDCLogin ::
  "('w, 'x) apilib_scheme \<Rightarrow> Server \<Rightarrow> Request \<Rightarrow> (('w, 'z) st_scheme, reply) M" where
  "handleOIDCLogin L sv r =
     (if OIDCIssuer (cfg sv) = [] \<or> OIDCClientID (cfg sv) = [] then writeError 501 ''oidc login not configured''
      else case decodeReq L r [''tenant_slug'', ''id_token''] of
        None \<Rightarrow> writeError 400 ''tenant_slug and id_token are required''
      | Some req \<Rightarrow>
          let slug = req ''tenant_slug''; tok = req ''id_token'' in
          if slug = [] \<or> tok = [] then writeError 400 ''tenant_slug and id_token are required''
          else orReply (GetTenantBySlug slug)
            (\<lambda>e. thenM (auditLogin [] ''auth.login_failed'' (''oidc:'' @ slug) [(''reason'', GStr ''unknown_tenant'')])
                  (writeError 401 ''invalid credentials''))
            (\<lambda>tenant.
          orReply (NewProvider L (OIDCIssuer (cfg sv)) (OIDCClientID (cfg sv)))
            (\<lambda>e. writeError 502 ''identity provider unavailable'') (\<lambda>prov.
          orReply (VerifyIDToken L prov tok)
            (\<lambda>e. thenM (auditLogin (te_ID tenant) ''auth.login_failed'' (slug @ ''/'' @ claimsEmailSafe tok)
                    [(''reason'', GStr ''bad_id_token''), (''error'', GStr (case e of PlainErr m \<Rightarrow> m | _ \<Rightarrow> []))])
                  (writeError 401 ''invalid id token''))
            (\<lambda>claims.
          let finish = (\<lambda>user. loggedIn L sv user
                [(''role'', GStr (us_Role user)), (''via'', GStr ''oidc''), (''sub'', GStr (Sub claims))]) in
          orReply (GetUserByEmail (te_ID tenant) (id_Email claims))
            (\<lambda>e. if e = ErrNotFound then provisionUser L sv (te_ID tenant) claims finish
                  else writeError 500 ''auth backend error'')
            finish))))"

end
