(* ===== verification/Ingest.thy ===== *)
theory Ingest
imports Auth
begin

text \<open>
  Ingestion: the webhook gateway (\<open>internal/api/webhooks.go\<close>) stores signed provider events
  durably, and the processor (\<open>internal/ingestion/processor.go\<close>) publishes the stored events to the
  event bus. The bus is part of the outside world, reached through \<open>bus_publish\<close>. Reading the body
  may be cut short by the environment. The surrogate key of a stored event is left out of the
  reply, as it is of the table. The polling loop runs \<open>ingestDrain\<close> at each tick of the clock.
\<close>

section \<open>The webhook gateway\<close>

definition stripPrefix :: "string \<Rightarrow> string \<Rightarrow> string option" where
  "stripPrefix p s = (if take (length p) s = p then Some (drop (length p) s) else None)"

definition verifySignature :: "('x) golib_scheme \<Rightarrow> string \<Rightarrow> string \<Rightarrow> string \<Rightarrow> bool" where
  "verifySignature L body secret header =
     (if secret = [] then False
      else case stripPrefix ''sha256='' header of
        None \<Rightarrow> False
      | Some hex \<Rightarrow> hexDecode hex = Some (hmac_sha256 L secret body))"

definition unmarshalToMap :: "('x) golib_scheme \<Rightarrow> string \<Rightarrow> goval" where
  "unmarshalToMap L b = (case json_decode L b of Some (GObj m) \<Rightarrow> GObj m | _ \<Rightarrow> GNil)"

definition webhookEvent ::
  "('w, 'x) apilib_scheme \<Rightarrow> string \<Rightarrow> string \<Rightarrow> string \<Rightarrow> string \<Rightarrow> providerWebhook \<Rightarrow> SourceEvent" where
  "webhookEvent L tenantID src eid body wh = \<lparr>se_TenantID = tenantID, se_Source = src, se_EventID = eid,
     se_EntityType = wh_EntityType wh, se_EntityID = wh_EntityID wh, se_EventType = wh_EventType wh,
     se_SourceVersion = wh_SourceVersion wh, se_OccurredAt = Some (wh_OccurredAt wh), se_ReceivedAt = 0,
     se_CorrelationID = wh_CorrelationID wh, se_Provenance = wh_Provenance wh,
     se_Raw = [(''webhook'', unmarshalToMap L body)], se_Status = []\<rparr>"

definition storeWebhook ::
  "('w, 'x) apilib_scheme \<Rightarrow> string \<Rightarrow> string \<Rightarrow> string \<Rightarrow> (('w, 'z) st_scheme, reply) M" where
  "storeWebhook L tenantID provider body =
     (case webhook_unmarshal L body of
        None \<Rightarrow> writeError 400 ''malformed webhook payload''
      | Some wh \<Rightarrow>
          bindM (if wh_EventID wh = [] then newID L else ret (wh_EventID wh)) (\<lambda>eid.
          let src = (if wh_Source wh = [] then provider else wh_Source wh) in
          if wh_EntityType wh = [] \<or> wh_EntityID wh = [] then writeError 400 ''missing entity_type/entity_id''
          else orReply (InsertSourceEvent (webhookEvent L tenantID src eid body wh))
            (\<lambda>e. if e = ErrDuplicate then
                   writeJSON 200 (JObj [(''status'', jstr ''duplicate''), (''event_id'', jstr eid)])
                 else writeError 500 ''failed to persist event'')
            (\<lambda>ev. writeJSON 202 (JObj [(''status'', jstr ''received''), (''event_id'', jstr eid)]))))"

definition handleWebhook ::
  "('w, 'x) apilib_scheme \<Rightarrow> Request \<Rightarrow> (('w, 'z) st_scheme, reply) M" where
  "handleWebhook L r =
     (let provider = PathValue r ''provider''; slug = PathValue r ''tenant_slug'' in
      orReply (GetTenantBySlug slug)
        (\<lambda>e. if e = ErrNotFound then writeError 404 ''unknown tenant'' else writeError 500 ''internal error'') (\<lambda>tenant.
      orReply (GetConnectionByProvider (te_ID tenant) provider)
        (\<lambda>e. if e = ErrNotFound then writeError 404 ''no connection for provider'' else writeError 500 ''internal error'') (\<lambda>conn.
      orReply faultPoint (\<lambda>e. writeError 400 ''failed to read body'') (\<lambda>_.
      let body = take 1048576 (rq_Content r) in
      if \<not> verifySignature L body (cn_WebhookSecret conn) (rq_Signature r) then writeError 401 ''invalid signature''
      else storeWebhook L (te_ID tenant) provider body))))"

section \<open>The processor\<close>

definition fromSourceEvent :: "SourceEvent \<Rightarrow> int \<Rightarrow> Event" where
  "fromSourceEvent se n =
     (let payload = (case gget GNil (se_Raw se) ''webhook'' of
            GObj wh \<Rightarrow> (case gget GNil wh ''payload'' of GObj p \<Rightarrow> p | _ \<Rightarrow> [])
          | _ \<Rightarrow> []);
          field = (\<lambda>k. case gget GNil (se_Provenance se) k of GStr s \<Rightarrow> s | _ \<Rightarrow> []) in
      \<lparr>EventID = se_EventID se, TenantID = se_TenantID se, Source = se_Source se, EntityType = se_EntityType se,
       EntityID = se_EntityID se, EventType = se_EventType se, SourceVersion = se_SourceVersion se,
       OccurredAt = (case se_OccurredAt se of Some t \<Rightarrow> t | None \<Rightarrow> 0), ReceivedAt = n,
       CorrelationID = se_CorrelationID se,
       ev_Provenance = noProvenance\<lparr>OriginSource := field ''origin_source'', OriginEventID := field ''origin_event_id'',
         SyncOperationID := field ''sync_operation_id''\<rparr>,
       Payload = payload\<rparr>)"

definition TopicSyncEvents :: string where
  "TopicSyncEvents = ''sync.events''"

definition busPublish ::
  "('w, 'x) apilib_scheme \<Rightarrow> string \<Rightarrow> string \<Rightarrow> string \<Rightarrow> (('w, 'z) st_scheme, unit) M" where
  "busPublish L topic key value = (\<lambda>s. case bus_publish L topic key value (world s) of
      (Inl e, w) \<Rightarrow> (Inl (PlainErr e), s\<lparr>world := w\<rparr>)
    | (Inr u, w) \<Rightarrow> (Inr (), s\<lparr>world := w\<rparr>))"

definition publishOne :: "('w, 'x) apilib_scheme \<Rightarrow> SourceEvent \<Rightarrow> (('w, 'z) st_scheme, unit) M" where
  "publishOne L se = bindM timeNow (\<lambda>n.
     let ev = fromSourceEvent se n in
     bindM (attempt (busPublish L TopicSyncEvents (PartitionKey ev) (event_marshal L ev))) (\<lambda>r.
     case r of
       Inl e \<Rightarrow> ret ()
     | Inr _ \<Rightarrow> ignore (SetSourceEventStatus (se_TenantID se) (se_EventID se) ''received'' ''validated'')))"

definition batchSize :: int where
  "batchSize = 100"

definition ingestDrain :: "('w, 'x) apilib_scheme \<Rightarrow> (('w, 'z) st_scheme, unit) M" where
  "ingestDrain L = bindM (attempt (PendingSourceEvents batchSize)) (\<lambda>r.
     case r of
       Inl e \<Rightarrow> ret ()
     | Inr pending \<Rightarrow> forM pending (\<lambda>se _. publishOne L se) ())"

definition ingestRun :: "('w, 'x) apilib_scheme \<Rightarrow> nat \<Rightarrow> (('w, 'z) st_scheme, unit) M" where
  "ingestRun L ticks = forM [0..<ticks] (\<lambda>_ _. ingestDrain L) ()"

end
