(* ===== verification/Router.thy ===== *)
theory Router
imports AccountApi OpsApi Oidc Ingest
begin

text \<open>
  The HTTP surface (\<open>internal/api/router.go\<close>, \<open>health.go\<close>): the routes with their method and path
  pattern, the guard each one is wrapped in and the handler behind it. \<open>serve\<close> is the handler of a
  matched route, \<open>serveHTTP\<close> adds the middleware: preflight requests are answered without calling
  it, and a panic becomes a 500. Matching a path against the patterns is left to Go's
  \<open>ServeMux\<close>; the metrics endpoint is not modelled.
\<close>

datatype route =
    Health | Login | Logout | Refresh | OIDCLogin
  | MFAEnroll | MFAConfirm | MFADisable | MFABackupCodes
  | PostTenant | ListTenantsR
  | PostAPIKey | ListAPIKeysR | RevokeAPIKeyR
  | PostUser | ListUsersR | ResetPassword | ChangeRole | RevokeSessions
  | ListSessionsR | ChangePassword | ListAuditR | ListOperationsR
  | ListConnectionsR | PostConnection | GetConnectionR
  | ListSyncEventsR | GetSyncEventR
  | PostSyncJob | ListSyncJobsR | GetSyncJobR | RerunSyncJob
  | ListDLQR | GetDLQR | DLQRetry | DLQDiscard
  | ListConflictsR | GetConflictR | ResolveConflict | DismissConflict
  | PostReconciliation | ListReconciliationsR | GetReconciliationR | ListFindingsR | ApplyFinding | DismissFinding
  | Webhook

datatype guard = Open | NeedUser | NeedRole string

primrec pattern :: "route \<Rightarrow> string" where
  "pattern Health = ''GET /health''"
| "pattern Login = ''POST /api/v1/auth/login''"
| "pattern Logout = ''POST /api/v1/auth/logout''"
| "pattern Refresh = ''POST /api/v1/auth/refresh''"
| "pattern OIDCLogin = ''POST /api/v1/auth/oidc/login''"
| "pattern MFAEnroll = ''POST /api/v1/auth/mfa/enroll''"
| "pattern MFAConfirm = ''POST /api/v1/auth/mfa/confirm''"
| "pattern MFADisable = ''POST /api/v1/auth/mfa/disable''"
| "pattern MFABackupCodes = ''POST /api/v1/auth/mfa/backup-codes''"
| "pattern PostTenant = ''POST /api/v1/tenants''"
| "pattern ListTenantsR = ''GET /api/v1/tenants''"
| "pattern PostAPIKey = ''POST /api/v1/keys''"
| "pattern ListAPIKeysR = ''GET /api/v1/keys''"
| "pattern RevokeAPIKeyR = ''POST /api/v1/keys/{id}/revoke''"
| "pattern PostUser = ''POST /api/v1/users''"
| "pattern ListUsersR = ''GET /api/v1/users''"
| "pattern ResetPassword = ''POST /api/v1/users/{id}/reset-password''"
| "pattern ChangeRole = ''POST /api/v1/users/{id}/role''"
| "pattern RevokeSessions = ''POST /api/v1/users/{id}/revoke-sessions''"
| "pattern ListSessionsR = ''GET /api/v1/sessions''"
| "pattern ChangePassword = ''POST /api/v1/auth/change-password''"
| "pattern ListAuditR = ''GET /api/v1/audit''"
| "pattern ListOperationsR = ''GET /api/v1/operations''"
| "pattern ListConnectionsR = ''GET /api/v1/connections''"
| "pattern PostConnection = ''POST /api/v1/connections''"
| "pattern GetConnectionR = ''GET /api/v1/connections/{id}''"
| "pattern ListSyncEventsR = ''GET /api/v1/sync-events''"
| "pattern GetSyncEventR = ''GET /api/v1/sync-events/{id}''"
| "pattern PostSyncJob = ''POST /api/v1/sync-jobs''"
| "pattern ListSyncJobsR = ''GET /api/v1/sync-jobs''"
| "pattern GetSyncJobR = ''GET /api/v1/sync-jobs/{id}''"
| "pattern RerunSyncJob = ''POST /api/v1/sync-jobs/{id}/run''"
| "pattern ListDLQR = ''GET /api/v1/dlq''"
| "pattern GetDLQR = ''GET /api/v1/dlq/{id}''"
| "pattern DLQRetry = ''POST /api/v1/dlq/{id}/retry''"
| "pattern DLQDiscard = ''POST /api/v1/dlq/{id}/discard''"
| "pattern ListConflictsR = ''GET /api/v1/conflicts''"
| "pattern GetConflictR = ''GET /api/v1/conflicts/{id}''"
| "pattern ResolveConflict = ''POST /api/v1/conflicts/{id}/resolve''"
| "pattern DismissConflict = ''POST /api/v1/conflicts/{id}/dismiss''"
| "pattern PostReconciliation = ''POST /api/v1/reconciliations''"
| "pattern ListReconciliationsR = ''GET /api/v1/reconciliations''"
| "pattern GetReconciliationR = ''GET /api/v1/reconciliations/{id}''"
| "pattern ListFindingsR = ''GET /api/v1/reconciliations/{id}/findings''"
| "pattern ApplyFinding = ''POST /api/v1/reconciliations/{id}/findings/{findingId}/apply''"
| "pattern DismissFinding = ''POST /api/v1/reconciliations/{id}/findings/{findingId}/dismiss''"
| "pattern Webhook = ''POST /webhooks/{provider}/{tenant_slug}''"

definition guardOf :: "route \<Rightarrow> guard" where
  "guardOf rt =
     (if rt \<in> {Health, Login, Logout, Refresh, OIDCLogin, Webhook} then Open
      else if rt \<in> {MFAEnroll, MFAConfirm, MFADisable, MFABackupCodes, ChangePassword} then NeedUser
      else if rt \<in> {PostTenant, ListTenantsR, PostAPIKey, ListAPIKeysR, RevokeAPIKeyR, PostUser, ListUsersR,
        ResetPassword, ChangeRole, RevokeSessions, ListSessionsR} then NeedRole ''ADMIN''
      else if rt \<in> {RerunSyncJob, DLQRetry, DLQDiscard, ResolveConflict, DismissConflict, PostReconciliation,
        ApplyFinding, DismissFinding} then NeedRole ''OPERATOR''
      else if rt \<in> {PostConnection, PostSyncJob} then NeedRole ''DEVELOPER''
      else NeedRole ''VIEWER'')"

definition handleHealth :: "(('w, 'z) st_scheme, reply) M" where
  "handleHealth =
     bindM (attempt faultPoint) (\<lambda>dbPing. bindM (attempt faultPoint) (\<lambda>redisPing. bindM timeNow (\<lambda>n.
     let status = (\<lambda>p. case p of Inl _ \<Rightarrow> ''error'' | Inr _ \<Rightarrow> ''ok''); up = (status dbPing = ''ok'') in
     writeJSON (if up then 200 else 503) (JObj [(''status'', jstr (if up then ''healthy'' else ''degraded'')),
       (''service'', jstr ''api''), (''time'', JTime n),
       (''checks'', JObj [(''database'', jstr (status dbPing)), (''redis'', jstr (status redisPing))])]))))"

primrec handlerOf ::
  "('w, 'x) apilib_scheme \<Rightarrow> Server \<Rightarrow> route \<Rightarrow> Request \<Rightarrow> Ctx \<Rightarrow> (('w, 'z) st_scheme, reply) M" where
  "handlerOf L sv Health r cx = handleHealth"
| "handlerOf L sv Login r cx = handleLogin L sv r"
| "handlerOf L sv Logout r cx = handleLogout L sv r"
| "handlerOf L sv Refresh r cx = handleRefresh L sv r"
| "handlerOf L sv OIDCLogin r cx = handleOIDCLogin L sv r"
| "handlerOf L sv MFAEnroll r cx = handleMFAEnroll L r cx"
| "handlerOf L sv MFAConfirm r cx = handleMFAConfirm L r cx"
| "handlerOf L sv MFADisable r cx = handleMFADisable L r cx"
| "handlerOf L sv MFABackupCodes r cx = handleMFABackupCodes L r cx"
| "handlerOf L sv PostTenant r cx = handleCreateTenant L r cx"
| "handlerOf L sv ListTenantsR r cx = handleListTenants r cx"
| "handlerOf L sv PostAPIKey r cx = handleCreateAPIKey L r cx"
| "handlerOf L sv ListAPIKeysR r cx = handleListAPIKeys r cx"
| "handlerOf L sv RevokeAPIKeyR r cx = handleRevokeAPIKey r cx"
| "handlerOf L sv PostUser r cx = handleCreateUser L r cx"
| "handlerOf L sv ListUsersR r cx = handleListUsers r cx"
| "handlerOf L sv ResetPassword r cx = handleResetPassword L r cx"
| "handlerOf L sv ChangeRole r cx = handleChangeRole L r cx"
| "handlerOf L sv RevokeSessions r cx = handleRevokeUserSessions r cx"
| "handlerOf L sv ListSessionsR r cx = handleListSessions r cx"
| "handlerOf L sv ChangePassword r cx = handleChangePassword L sv r cx"
| "handlerOf L sv ListAuditR r cx = handleListAudit r cx"
| "handlerOf L sv ListOperationsR r cx = handleListOperations r cx"
| "handlerOf L sv ListConnectionsR r cx = handleListConnections r cx"
| "handlerOf L sv PostConnection r cx = handleCreateConnection L r cx"
| "handlerOf L sv GetConnectionR r cx = handleGetConnection r cx"
| "handlerOf L sv ListSyncEventsR r cx = handleListSyncEvents r cx"
| "handlerOf L sv GetSyncEventR r cx = handleGetSyncEvent r cx"
| "handlerOf L sv PostSyncJob r cx = handleCreateSyncJob L sv r cx"
| "handlerOf L sv ListSyncJobsR r cx = handleListSyncJobs r cx"
| "handlerOf L sv GetSyncJobR r cx = handleGetSyncJob r cx"
| "handlerOf L sv RerunSyncJob r cx = handleRerunSyncJob r cx"
| "handlerOf L sv ListDLQR r cx = handleListDLQ r cx"
| "handlerOf L sv GetDLQR r cx = handleGetDLQ r cx"
| "handlerOf L sv DLQRetry r cx = handleDLQRetry sv r cx"
| "handlerOf L sv DLQDiscard r cx = handleDLQDiscard r cx"
| "handlerOf L sv ListConflictsR r cx = handleListConflicts L r cx"
| "handlerOf L sv GetConflictR r cx = handleGetConflict L r cx"
| "handlerOf L sv ResolveConflict r cx = handleResolveConflict L sv r cx"
| "handlerOf L sv DismissConflict r cx = handleDismissConflict r cx"
| "handlerOf L sv PostReconciliation r cx = handleCreateReconciliation L sv r cx"
| "handlerOf L sv ListReconciliationsR r cx = handleListReconciliations r cx"
| "handlerOf L sv GetReconciliationR r cx = handleGetReconciliation r cx"
| "handlerOf L sv ListFindingsR r cx = handleListReconcileFindings r cx"
| "handlerOf L sv ApplyFinding r cx = handleApplyFinding L sv r cx"
| "handlerOf L sv DismissFinding r cx = handleDismissFinding r cx"
| "handlerOf L sv Webhook r cx = handleWebhook L r"

definition noCtx :: Ctx where
  "noCtx = \<lparr>tenantIDFrom = [], roleFrom = [], actorFrom = [], actorKeyID = [], userIDFrom = []\<rparr>"

definition serve ::
  "('w, 'x) apilib_scheme \<Rightarrow> Server \<Rightarrow> route \<Rightarrow> Request \<Rightarrow> (('w, 'z) st_scheme, reply) M" where
  "serve L sv rt r =
     (case guardOf rt of
        Open \<Rightarrow> handlerOf L sv rt r noCtx
      | NeedUser \<Rightarrow> requireUser L sv r (handlerOf L sv rt r)
      | NeedRole minRole \<Rightarrow> requireRole L sv minRole r (handlerOf L sv rt r))"

definition serveHTTP ::
  "('w, 'x) apilib_scheme \<Rightarrow> Server \<Rightarrow> bool \<Rightarrow> route \<Rightarrow> Request \<Rightarrow> (('w, 'z) st_scheme, reply) M" where
  "serveHTTP L sv options rt r =
     (if options then writeJSON 204 (JVal GNil)
      else bindM (attempt (serve L sv rt r)) (\<lambda>x.
        case x of Inl e \<Rightarrow> writeError 500 ''internal error'' | Inr rep \<Rightarrow> ret rep))"

end
