(* ===== verification/EngineFacts.thy ===== *)
theory EngineFacts
imports SyncJob
begin

text \<open>
  What every step of the engine keeps. The locale \<open>table_property\<close> is a property of the tables alone;
  \<open>engine_invariant\<close> extends it by the contract of the store towards the engine: each statement the
  engine writes with preserves the property. Inside it the property is carried through the worker,
  the retry engine, the reconciliation engine and the job runner.
\<close>

section \<open>Rules for statements\<close>

lemma pres_WithTenant:
  assumes "\<And>n d x d'. Q d \<Longrightarrow> fn n d = (Inr x, d') \<Longrightarrow> Q d'"
  shows "pres (\<lambda>s. Q (db s)) (WithTenant fn)"
proof (rule presI)
  fix s
  assume "Q (db s)"
  then show "Q (db (snd (WithTenant fn s)))"
    using assms by (cases rule: WithTenant_cases [of fn s]) auto
qed

lemma pres_newID_WithTenant:
  assumes "\<And>i n d x d'. Q d \<Longrightarrow> fn i n d = (Inr x, d') \<Longrightarrow> Q d'"
  shows "pres (\<lambda>s. Q (db s)) (bindM (newID L) (\<lambda>i. WithTenant (fn i)))"
proof (rule pres_bindM)
  show "pres (\<lambda>s. Q (db s)) (newID L)" by (simp add: pres_def newID_def)
  show "pres (\<lambda>s. Q (db s)) (WithTenant (fn i))" for i
    by (rule pres_WithTenant) (use assms in blast)
qed

section \<open>Steps that leave the tables alone\<close>

lemma keeps_db_engine_reads:
  "keeps db (GetCanonical t a b)" "keeps db (GetCanonicalByProvider t a b c)" "keeps db (GetCanonicalByEmail t a b)"
  "keeps db (GetOutboundWrite t a b c)" "keeps db (ListPolicies t)" "keeps db (GetConnection t a)"
  "keeps db (GetConnectionByProvider t a)" "keeps db (GetConflict t a)" "keeps db (ClaimDueRetries l)"
  "keeps db (GetSyncJob t a)" "keeps db (GetReconciliationRun t a)" "keeps db (GetReconciliationRunByJobID a)"
  "keeps db (GetReconciliationFinding t a)" "keeps db (CountReconciliationFindings t a)"
  "keeps db (ListCanonicalByProvider t a b)"
  by (rule keeps_reads [where f = "\<lambda>d. d"] keeps_job_reads [where f = "\<lambda>d. d"])+

lemma keeps_db_net:
  "keeps db (HealthCheck N a)" "keeps db (ListPage N a opts)" "keeps db (GetRecord N a i)" "keeps db (CreateRecord N a rec)"
  "keeps db (UpdateRecord N a i rec)" "keeps db (DeleteRecord N a i)" "keeps db (randFloat L)" "keeps db timeNow"
  "keeps db (newID L)" "keeps db faultPoint" "keeps db (sendHttp N req)"
  by (simp_all add: keeps_HealthCheck keeps_ListPage keeps_GetRecord keeps_CreateRecord keeps_UpdateRecord keeps_DeleteRecord
      keeps_faultPoint keeps_sendHttp keeps_timeNow frameNet_def, simp_all add: keeps_def randFloat_def newID_def)

lemmas keeps_db = keeps_db_engine_reads keeps_db_net

section \<open>The contract\<close>

locale table_property =
  fixes P :: "('w, 'z) st_scheme \<Rightarrow> bool"
  assumes tables: "db s = db s' \<Longrightarrow> P s \<Longrightarrow> P s'"
begin

lemma untouched: "keeps db m \<Longrightarrow> pres P m"
  unfolding keeps_def pres_def using tables by metis

end

locale engine_invariant = table_property P for P :: "('w, 'z) st_scheme \<Rightarrow> bool" +
  fixes L :: "('w, 'x) lib_scheme"
  assumes canonicals: "pres P (AddProviderID t a b c p)" "pres P (UpsertCanonical L cr)" "pres P (PersistApplyState L cr ws os)"
    and operations: "pres P (InsertSyncOperation op')"
    and outbounds: "pres P (UpsertOutboundWrite w)"
    and claims: "pres P (ClaimProcessedEvent t a b c e)" "pres P (ReleaseProcessedEvent t a b)"
    and statuses: "pres P (SetSourceEventStatus t a b c)" "pres P (SetSourceEventStatusTo t a b)"
    and retries: "pres P (EnqueueRetry re n)" "pres P (DeleteRetry t a)"
    and deadLetters: "pres P (InsertDeadLetter L dl)" "pres P (ResolveDeadLetterForEvent t a)"
    and conflicts: "pres P (InsertConflict L cf)" "pres P (SetConflictStatus t a b c st)"
    and connections: "pres P (SetConnectionStatus t a b)"
    and jobs: "pres P ClaimNextSyncJob" "pres P (UpdateSyncJobProgress i t cu n1 n2 n3)" "pres P (FinishSyncJob i t st er)"
    and runs: "pres P (UpdateReconciliationCounters i n1 n2 n3 n4)" "pres P (FinishReconciliationRun i st er)"
    and findings: "pres P (InsertReconciliationFinding L rf)" "pres P (SetReconciliationFindingStatus t a b er)"
begin

lemmas writes = canonicals operations outbounds claims statuses retries deadLetters conflicts connections jobs runs findings
lemmas reads = keeps_db [THEN untouched]

lemma returnE_pres: "pres P (returnE r)"
  unfolding returnE_def by (intro pres_intros)

lemma connect_pres: "pres P (connectTo t p)" "pres P (canonicalEntityType ev)" "pres P (recordSyncOperation t ety eid src tg v evid fp)"
  unfolding connectTo_def canonicalEntityType_def recordSyncOperation_def by (intro pres_intros reads writes returnE_pres)+

lemma push_pres: "pres P (pushTo L t cust dest pids)"
  unfolding pushTo_def by (intro pres_intros reads connect_pres)

lemma identity_pres: "pres P (resolveCanonical ev ety cust)" "pres P (isEcho L t ety eid src cust)"
  "pres P (recordConflict L ev ety c inc det st strat)"
  unfolding resolveCanonical_def isEcho_def recordConflict_def Let_def by (intro pres_intros reads writes)+

lemma propagate_pres: "pres P (propagate L ev ety eid cust ps ids)"
  unfolding propagate_def by (intro pres_intros push_pres)

lemma persistUpsert_pres: "pres P (persistUpsert L ev ety ps c cust fp)"
  unfolding persistUpsert_def by (intro pres_intros propagate_pres writes)

lemma mergeAndPropagate_pres: "pres P (mergeAndPropagate L ev ety ps c cust)"
  unfolding mergeAndPropagate_def by (intro pres_intros identity_pres persistUpsert_pres reads writes)

lemma applyResolution_pres: "pres P (applyResolution L ev ety ps fs)"
  unfolding applyResolution_def by (intro pres_intros persistUpsert_pres propagate_pres push_pres connect_pres reads writes)

lemma applyUpsert_pres: "pres P (applyUpsert L ev ety ps)"
  unfolding applyUpsert_def
  by (intro pres_intros applyResolution_pres mergeAndPropagate_pres identity_pres connect_pres reads writes)

lemma applyDelete_pres: "pres P (applyDelete L ev ety ps)"
  unfolding applyDelete_def by (intro pres_intros connect_pres reads writes)

lemma reconcileStatus_pres: "pres P (reconcileApplied g)" "pres P (reconcileSkip g reason)" "pres P (reconcileFail g cause)"
  unfolding reconcileApplied_def reconcileSkip_def reconcileFail_def by (intro pres_intros writes)+

lemma adopt_pres: "pres P (adoptIdentity ev ety g run cust)" "pres P (applyAdoptProvider L ev ety ps g run)"
proof -
  show id: "pres P (adoptIdentity ev ety g run cust)" for ev ety g run cust
    unfolding adoptIdentity_def by (intro pres_intros reads writes)
  show "pres P (applyAdoptProvider L ev ety ps g run)"
    unfolding applyAdoptProvider_def
    by (intro pres_intros id reconcileStatus_pres connect_pres push_pres propagate_pres persistUpsert_pres reads writes)
qed

lemma pushCanonical_pres: "pres P (applyPushCanonical L ev ety g run a)"
  unfolding applyPushCanonical_def pushOrRecreate_def Let_def
  by (intro pres_intros reconcileStatus_pres connect_pres reads writes)

lemma applyReconcileFinding_pres: "pres P (applyReconcileFinding L ev ety ps)"
  unfolding applyReconcileFinding_def
  by (intro pres_intros adopt_pres pushCanonical_pres reconcileStatus_pres applyDelete_pres connect_pres reads writes)

lemma failEvent_pres: "pres P (failEvent ev)" "pres P m \<Longrightarrow> pres P (orFail ev m)" "pres P (markProcessed ev)"
  unfolding orFail_def failEvent_def markProcessed_def by (intro pres_intros writes; assumption?)+

lemma processClaimed_pres: "pres P (processClaimed L ev)"
  unfolding processClaimed_def
  by (intro pres_intros failEvent_pres applyReconcileFinding_pres applyDelete_pres applyUpsert_pres connect_pres reads writes)

lemma Process_pres: "pres P (Process L ev)"
  unfolding Process_def by (intro pres_intros processClaimed_pres failEvent_pres writes)

lemma Handle_pres: "pres P (Handle L opts v)"
  unfolding Handle_def dispatchFailure_def deadLetter_def by (intro pres_intros Process_pres reads writes)

lemma drain_pres: "pres P (drain L ropts)"
  unfolding drain_def processRetry_def retryDeadLetter_def discard_def by (intro pres_intros Process_pres reads writes)

lemma repair_pres: "pres P (repair L run job ety f)" "pres P (recordFinding L run job ety kind rec c pf dp)"
proof -
  show fix_it: "pres P (repair L run job ety f)" for f
    unfolding repair_def by (intro pres_intros Process_pres reads writes)
  show "pres P (recordFinding L run job ety kind rec c pf dp)"
    unfolding recordFinding_def by (intro pres_intros fix_it reads writes)
qed

lemma abort_pres: "pres P (reconAbort job cause)" "pres P m \<Longrightarrow> pres P (orAbort job m)"
  "pres P (syncAbort job cause)" "pres P m \<Longrightarrow> pres P (orSyncAbort job m)"
  unfolding orAbort_def orSyncAbort_def reconAbort_def syncAbort_def by (intro pres_intros reads writes; assumption?)+

lemma sweepRecord_pres: "pres P (sweepRecord L run job a dp rec w)" "pres P (sweepMissing L run job ety dp seen c)"
  unfolding sweepRecord_def sweepMissing_def Let_def by (intro pres_intros repair_pres abort_pres reads writes)+

lemma sweepPages_pres: "pres P (sweepPages fuel L run job a dp cu w)"
proof (induction fuel arbitrary: cu w)
  case (Suc fuel)
  show ?case
    unfolding sweepPages.simps Let_def by (intro pres_intros sweepRecord_pres abort_pres reads writes Suc)
qed (simp add: pres_ret)

lemma reconcileRun_pres: "pres P (reconcileRun fuel L job)"
  unfolding reconcileRun_def sweepRun_def sweepFinish_def Let_def
  by (intro pres_intros sweepPages_pres sweepRecord_pres abort_pres returnE_pres reads writes)

lemma syncRecord_pres: "pres P (syncRecord L job a rec acc)"
  unfolding syncRecord_def deadLetterProviderRecord_def Let_def by (intro pres_intros Process_pres reads writes)

lemma syncPages_pres: "pres P (syncPages fuel L job a tot cu acc)"
proof (induction fuel arbitrary: cu acc)
  case (Suc fuel)
  show ?case
    unfolding syncPages.simps Let_def by (intro pres_intros syncRecord_pres abort_pres reads writes Suc)
qed (simp add: pres_ret)

lemma runnerTick_pres: "pres P (runnerTick fuel L reconciler)"
  unfolding runnerTick_def execute_def Let_def
  by (intro pres_intros reconcileRun_pres syncPages_pres abort_pres returnE_pres reads writes)

end

end
