(* ===== verification/ApiFacts.thy ===== *)
theory ApiFacts
imports Router EngineFacts
begin

text \<open>
  What every request keeps. The locale \<open>api_invariant\<close> is the contract of the store towards the API:
  a property of the tables that each writing statement preserves. Inside it the property is carried
  through the middleware and every handler to \<open>serveHTTP\<close>, the whole surface. The theories that
  follow interpret it with properties of sessions, of operators' decisions and of unique keys.
\<close>

section \<open>Statements that only read\<close>

lemma keeps_db_reads:
  "keeps db ListTenants" "keeps db (GetTenantBySlug a)"
  "keeps db (GetUserByEmail t a)" "keeps db (GetUser t a)" "keeps db (ListUsers t)"
  "keeps db (GetUserTOTPSecret t a)" "keeps db (ListSessions t l)" "keeps db (ListAPIKeys t)"
  "keeps db (CountRecentFailures t a n)" "keeps db (ListAuditLogs t a b c l)" "keeps db (GetLiveSession t a)"
  "keeps db (ListSyncOperations t a b c l)" "keeps db (GetSourceEvent t a)" "keeps db (ListSourceEvents t l)"
  "keeps db (ListDeadLetters t a l)" "keeps db (GetDeadLetter t a)" "keeps db (ListConflicts t a l)" "keeps db (GetConflict t a)"
  "keeps db (ListConnections t)" "keeps db (GetConnection t a)" "keeps db (GetConnectionByProvider t a)"
  "keeps db (GetSyncJob t a)" "keeps db (ListSyncJobs t l)" "keeps db (GetReconciliationRun t a)"
  "keeps db (ListReconciliationRuns t l)" "keeps db (ListReconciliationFindings t a b l)"
  "keeps db (GetReconciliationFinding t a)" "keeps db (PendingSourceEvents l)"
  using keeps_auth_reads [where f = "\<lambda>d. d"] keeps_reads [where f = "\<lambda>d. d"] keeps_job_reads [where f = "\<lambda>d. d"] by simp_all

lemma keeps_db_effects:
  "keeps db (newID L)" "keeps db (randRead A n)" "keeps db (GenerateFromPassword A pw)" "keeps db timeNow"
  "keeps db (redisIncr A k)" "keeps db (redisExpire A k dur)" "keeps db (busPublish A a b c)"
  "keeps db (sendHttp N req)" "keeps db faultPoint"
  by (rule keeps_newID [where f = "\<lambda>d. d"] keeps_randRead [where f = "\<lambda>d. d"]
      keeps_GenerateFromPassword [where f = "\<lambda>d. d"] keeps_timeNow)+
    (auto simp: keeps_def redisIncr_def redisExpire_def busPublish_def sendHttp_def split: prod.split sum.split)

lemma frame_tenants [frame_intros]:
  assumes "\<And>d x. f (d\<lparr>tenants := x\<rparr>) = f d"
  shows "keeps (\<lambda>s. f (db s)) (CreateTenant L a b)"
  unfolding store_ops using assms by (auto intro!: keeps_newID_then keeps_WithTenant_db simp: Let_def)

lemma frame_reopen [frame_intros]:
  assumes "\<And>d x. f (d\<lparr>syncJobs := x\<rparr>) = f d"
  shows "keeps (\<lambda>s. f (db s)) (reopenSyncJob j)"
  unfolding store_ops using assms by (auto intro!: keeps_WithTenant_db)

section \<open>The contract\<close>

locale api_invariant = table_property P for P :: "('w, 'z) st_scheme \<Rightarrow> bool" +
  fixes L :: "('w, 'x) apilib_scheme"
  assumes tenants: "pres P (CreateTenant L a b)"
    and users: "pres P (CreateUser L t a b c)" "pres P (SetUserPassword t a b)" "pres P (SetUserRole t a b)"
      "pres P (SetTOTPSecret t a b)" "pres P (SetTOTPEnabled t a e)" "pres P (SetBackupCodes t a hs)"
      "pres P (ConsumeBackupCode t a b)"
    and sessions: "pres P (CreateSession x)" "pres P (RevokeSession t a)" "pres P (RevokeUserSessions t a)"
    and keys: "pres P (CreateAPIKey L t a b c)" "pres P (CreateTenantAPIKey L t a b c)" "pres P (TouchKey a)"
      "pres P (RevokeAPIKey t a)"
    and attempts: "pres P (RecordLoginAttempt la)" "pres P (ClearLoginFailures t a)"
    and audits: "pres P (InsertAuditLog t au)"
    and deadLetters: "pres P (SetDeadLetterStatus t a b)"
    and retries: "pres P (EnqueueRetry re n)"
    and conflicts: "pres P (SetConflictStatus t a b c st)"
    and findings: "pres P (SetReconciliationFindingStatus t a b er)" "pres P (SetReconciliationFindingDirection t a b)"
    and jobs: "pres P (CreateSyncJob L j)" "pres P (reopenSyncJob j)"
    and runs: "pres P (CreateReconciliationRun L ru)"
    and connections: "pres P (CreateConnection L cn)"
    and events: "pres P (InsertSourceEvent ev)" "pres P (SetSourceEventStatus t a b c)"
begin

lemmas writes = tenants users sessions keys attempts audits deadLetters retries conflicts findings jobs runs connections events

lemmas reads = keeps_db_reads [THEN untouched] keeps_db_effects [THEN untouched]

lemma VerifyAPIKey_pres: "pres P (VerifyAPIKey h)"
proof -
  have "keeps db (WithTenant (\<lambda>n d. rowOr ErrNotFound (findRow (\<lambda>k. ak_KeyHash k = h \<and> ak_Enabled k) (apiKeys d)) d))"
    by (rule keeps_WithTenant_db [where f = "\<lambda>d. d"]) simp
  then show ?thesis
    unfolding VerifyAPIKey_def by (intro pres_intros untouched writes)
qed

lemma verifySessionToken_pres: "pres P (verifySessionToken L sv tok)"
  unfolding verifySessionToken_def by (intro pres_intros reads)

lemma audit_pres: "pres P (audit cx a b c m)" "pres P (auditLogin t a b m)" "pres P (loginFailure r t a b c)"
  unfolding audit_def auditLogin_def loginFailure_def by (intro pres_intros writes)+

lemma openSession_pres: "(\<And>tok. pres P (k tok)) \<Longrightarrow> pres P (openSession L sv uid tid role failed k)"
  unfolding openSession_def mintSessionToken_def Let_def by (intro pres_intros reads writes)

lemma loggedIn_pres: "pres P (loggedIn L sv u m)"
  unfolding loggedIn_def by (intro openSession_pres pres_intros audit_pres)

lemmas steps = VerifyAPIKey_pres verifySessionToken_pres audit_pres openSession_pres loggedIn_pres

lemma login_pres: "pres P (handleLogin L sv r)"
  unfolding handleLogin_def loginUser_def checkMFA_def loginThrottled_def Let_def
  by (intro pres_intros reads writes steps)

lemma session_pres:
  "pres P (handleLogout L sv r)" "pres P (handleRefresh L sv r)"
  "pres P (handleListSessions r cx)" "pres P (handleRevokeUserSessions r cx)"
  unfolding handleLogout_def handleRefresh_def handleListSessions_def handleRevokeUserSessions_def Let_def
  by (intro pres_intros reads writes steps)+

lemma oidc_pres: "pres P (handleOIDCLogin L sv r)"
  unfolding handleOIDCLogin_def provisionUser_def NewProvider_def VerifyIDToken_def verifySigned_def signingKey_def
    refreshKeys_def getJSON_def Let_def
  by (intro pres_intros reads writes steps)

lemma mfa_pres:
  "pres P (handleMFAEnroll L r cx)" "pres P (handleMFAConfirm L r cx)" "pres P (handleMFADisable L r cx)"
  "pres P (handleMFABackupCodes L r cx)"
  unfolding handleMFAEnroll_def handleMFAConfirm_def handleMFADisable_def handleMFABackupCodes_def withTOTP_def
    newSecret_def newBackupCodes_def Let_def
  by (intro pres_intros reads writes steps)+

lemma account_pres:
  "pres P (handleCreateUser L r cx)" "pres P (handleListUsers r cx)" "pres P (handleChangePassword L sv r cx)"
  "pres P (handleResetPassword L r cx)" "pres P (handleChangeRole L r cx)"
  "pres P (handleCreateAPIKey L r cx)" "pres P (handleListAPIKeys r cx)" "pres P (handleRevokeAPIKey r cx)"
  "pres P (handleCreateTenant L r cx)" "pres P (handleListTenants r cx)" "pres P (handleListAudit r cx)"
  "pres P (handleListOperations r cx)"
  unfolding handleCreateUser_def handleListUsers_def handleChangePassword_def handleResetPassword_def handleChangeRole_def
    handleCreateAPIKey_def handleListAPIKeys_def handleRevokeAPIKey_def handleCreateTenant_def handleListTenants_def
    handleListAudit_def handleListOperations_def newRawAPIKey_def Let_def
  by (intro pres_intros reads writes steps)+

lemma listing_pres: "pres P m \<Longrightarrow> pres P (listReply m f g)" "pres P m' \<Longrightarrow> (\<And>x. pres P (k x)) \<Longrightarrow> pres P (getReply m' a f k)"
  unfolding listReply_def getReply_def by (intro pres_intros; assumption)+

lemma ops_read_pres:
  "pres P (handleListDLQ r cx)" "pres P (handleGetDLQ r cx)" "pres P (handleListConflicts L r cx)" "pres P (handleGetConflict L r cx)"
  "pres P (handleListReconciliations r cx)" "pres P (handleGetReconciliation r cx)" "pres P (handleListReconcileFindings r cx)"
  "pres P (handleListSyncJobs r cx)" "pres P (handleGetSyncJob r cx)" "pres P (handleListConnections r cx)"
  "pres P (handleGetConnection r cx)" "pres P (handleListSyncEvents r cx)" "pres P (handleGetSyncEvent r cx)"
  unfolding handleListDLQ_def handleGetDLQ_def handleListConflicts_def handleGetConflict_def handleListReconciliations_def
    handleGetReconciliation_def handleListReconcileFindings_def handleListSyncJobs_def handleGetSyncJob_def
    handleListConnections_def handleGetConnection_def handleListSyncEvents_def handleGetSyncEvent_def
  by (intro listing_pres pres_intros reads)+

lemma ops_write_pres:
  "pres P (handleDLQRetry sv r cx)" "pres P (handleDLQDiscard r cx)" "pres P (handleResolveConflict L sv r cx)"
  "pres P (handleDismissConflict r cx)" "pres P (handleCreateReconciliation L sv r cx)" "pres P (handleApplyFinding L sv r cx)"
  "pres P (handleDismissFinding r cx)" "pres P (handleCreateSyncJob L sv r cx)" "pres P (handleRerunSyncJob r cx)"
  "pres P (handleCreateConnection L r cx)"
  unfolding handleDLQRetry_def handleDLQDiscard_def handleResolveConflict_def handleDismissConflict_def
    handleCreateReconciliation_def handleApplyFinding_def queueFinding_def handleDismissFinding_def handleCreateSyncJob_def
    handleRerunSyncJob_def handleCreateConnection_def Let_def
  by (intro listing_pres pres_intros reads writes steps)+

lemma webhook_pres: "pres P (handleWebhook L r)"
  unfolding handleWebhook_def storeWebhook_def Let_def by (intro pres_intros reads writes)

lemma health_pres: "pres P handleHealth"
  unfolding handleHealth_def Let_def by (intro pres_intros reads)

lemma handler_pres: "pres P (handlerOf L sv rt r cx)"
  by (cases rt) (simp_all add: login_pres session_pres oidc_pres mfa_pres account_pres ops_read_pres ops_write_pres
      webhook_pres health_pres)

lemma serve_pres: "pres P (serve L sv rt r)"
  unfolding serve_def requireRole_def authenticate_def requireUser_def requireAPIKey_def Let_def
  by (cases "guardOf rt"; simp only: guard.case; intro pres_intros steps handler_pres)

lemma serveHTTP_pres: "pres P (serveHTTP L sv options rt r)"
  unfolding serveHTTP_def by (intro pres_intros serve_pres)

lemma ingest_pres: "pres P (ingestDrain L)"
  unfolding ingestDrain_def publishOne_def Let_def by (intro pres_intros reads writes)

end

end
