(* ===== verification/System.thy ===== *)
theory System
imports ApiFacts
begin

text \<open>
  The deployment: API server, ingestion, sync worker, retry engine and job runner over one database.
  \<open>deployed\<close> is reachability by any sequence of their steps, with anything outside the tables (the
  providers, the clock, the cache, the bus, failing statements) free to change in between. A step is
  one request, one message, one pass or one job: each statement inside it is a transaction of its own, and
  the properties proved here hold after every statement, so they do not depend on that grain.

  The locale \<open>system_invariant\<close> joins the contracts of the engine and of the API; every interpretation
  turns a property of single statements into one of all runs of the deployment.
\<close>

inductive deployed :: "('w, 'x) apilib_scheme \<Rightarrow> ('w, 'z) st_scheme \<Rightarrow> ('w, 'z) st_scheme \<Rightarrow> bool" for L s where
  start: "deployed L s s"
| request: "deployed L s s1 \<Longrightarrow> serveHTTP L sv options rt r s1 = (x, s2) \<Longrightarrow> deployed L s s2"
| ingestion: "deployed L s s1 \<Longrightarrow> ingestDrain L s1 = (x, s2) \<Longrightarrow> deployed L s s2"
| message: "deployed L s s1 \<Longrightarrow> Handle L opts v s1 = (x, s2) \<Longrightarrow> deployed L s s2"
| retries: "deployed L s s1 \<Longrightarrow> drain L ropts s1 = (x, s2) \<Longrightarrow> deployed L s s2"
| job: "deployed L s s1 \<Longrightarrow> runnerTick fuel L reconciler s1 = (x, s2) \<Longrightarrow> deployed L s s2"
| outside: "deployed L s s1 \<Longrightarrow> db s2 = db s1 \<Longrightarrow> deployed L s s2"

lemma deployed_trans: "deployed L s2 s3 \<Longrightarrow> deployed L s1 s2 \<Longrightarrow> deployed L s1 s3"
  by (induction rule: deployed.induct) (auto intro: deployed.intros)

lemma pres_run: "pres P m \<Longrightarrow> m s = (x, s') \<Longrightarrow> P s \<Longrightarrow> P s'"
  using presD [of P m s] by simp

locale system_invariant = eng: engine_invariant P L + api: api_invariant P L
  for P :: "('w, 'z) st_scheme \<Rightarrow> bool" and L :: "('w, 'x) apilib_scheme"
begin

lemma deployed_keeps: "deployed L s s' \<Longrightarrow> P s \<Longrightarrow> P s'"
proof (induction rule: deployed.induct)
  case (outside s1 s2)
  then show ?case using eng.tables by metis
qed (auto dest: pres_run [OF api.serveHTTP_pres] pres_run [OF api.ingest_pres(1)] pres_run [OF eng.Handle_pres]
    pres_run [OF eng.drain_pres] pres_run [OF eng.runnerTick_pres])

end

section \<open>The schema\<close>

text \<open>The unique keys and check constraints of the migrations.\<close>

definition schemaOk :: "db \<Rightarrow> bool" where
  "schemaOk d \<longleftrightarrow>
     keysOk crKey (canonicals d) \<and> keysOk owKey (outbounds d) \<and> keysOk peKey (processed d) \<and>
     keysOk seKey (sourceEvents d) \<and> keysOk cfKey (conflicts d) \<and> keysOk reKey (retryQueue d) \<and>
     keysOk dlKey (deadLetters d) \<and> keysOk rfKey (reconFindings d) \<and>
     keysOk te_Slug (tenants d) \<and> keysOk usKey (users d) \<and> keysOk ss_JTI (sessions d) \<and>
     keysOk ak_KeyHash (apiKeys d) \<and>
     list_all (\<lambda>u. us_Role u \<in> set validRoles) (users d) \<and>
     list_all (\<lambda>k. ak_Role k \<in> set validRoles) (apiKeys d) \<and>
     list_all (\<lambda>c. cn_Provider c \<in> {''salesforce'', ''hubspot'', ''postgres''}) (connections d) \<and>
     list_all (\<lambda>j. sj_Type j \<in> {''initial'', ''reconcile''} \<and> sj_BatchSize j > 0) (syncJobs d) \<and>
     list_all (\<lambda>r. rr_Mode r \<in> {''auto'', ''manual''}) (reconRuns d) \<and>
     list_all (\<lambda>r. re_Attempt r \<ge> 1) (retryQueue d)"

lemma keysOk_updateWhere [simp]:
  "(\<And>r. R r \<Longrightarrow> key (f r) = key r) \<Longrightarrow> keysOk key (updateWhere R f rows) = keysOk key rows"
  by (simp add: keysOk_def updateWhere_keys)

lemma keysOk_snoc: "keysOk key (rows @ [r]) \<longleftrightarrow> keysOk key rows \<and> \<not> hasKey key (key r) rows"
  by (auto simp: keysOk_def hasKey_def)

lemma keysOk_upsertBy:
  assumes "\<And>old. key old = key row \<Longrightarrow> key (merge old row) = key old" "keysOk key rows"
  shows "keysOk key (upsertBy key merge row rows)"
  using assms keysOk_updateWhere [of "\<lambda>r. key r = key row" key "\<lambda>r. merge r row" rows]
  by (simp add: upsertBy_def keysOk_snoc)

lemma list_all_updateWhere: "list_all C rows \<Longrightarrow> (\<And>r. C r \<Longrightarrow> C (f r)) \<Longrightarrow> list_all C (updateWhere R f rows)"
  by (induction rows) auto

lemma list_all_upsertBy:
  "list_all C rows \<Longrightarrow> C row \<Longrightarrow> (\<And>old. C old \<Longrightarrow> C (merge old row)) \<Longrightarrow> list_all C (upsertBy key merge row rows)"
  by (auto simp: upsertBy_def intro: list_all_updateWhere)

lemma list_all_deleteWhere: "list_all C rows \<Longrightarrow> list_all C (deleteWhere R rows)"
  by (auto simp: deleteWhere_def list_all_iff)

lemma keysOk_puts:
  "keysOk crKey rows \<Longrightarrow> keysOk crKey (putCanonical n c rows)"
  "keysOk owKey rows' \<Longrightarrow> keysOk owKey (putOutbound n w rows')"
  "keysOk owKey rows' \<Longrightarrow> keysOk owKey (fold (putOutbound n) ws rows')"
proof -
  show "keysOk crKey rows \<Longrightarrow> keysOk crKey (putCanonical n c rows)"
    unfolding putCanonical_def by (rule keysOk_upsertBy) (auto simp: crKey_def crMerge_def)
  show put: "keysOk owKey rows' \<Longrightarrow> keysOk owKey (putOutbound n w rows')" for w rows'
    unfolding putOutbound_def by (rule keysOk_upsertBy) (auto simp: owKey_def owMerge_def)
  show "keysOk owKey rows' \<Longrightarrow> keysOk owKey (fold (putOutbound n) ws rows')"
    by (induction ws arbitrary: rows') (simp_all add: put)
qed

lemma queue_upserts:
  "keysOk reKey rows \<Longrightarrow> keysOk reKey (upsertBy reKey reMerge e rows)"
  "keysOk dlKey rows' \<Longrightarrow> keysOk dlKey (upsertBy dlKey dlMerge e' rows')"
  "list_all (\<lambda>r. re_Attempt r \<ge> 1) rows \<Longrightarrow> re_Attempt e \<ge> 1 \<Longrightarrow>
   list_all (\<lambda>r. re_Attempt r \<ge> 1) (upsertBy reKey reMerge e rows)"
  by ((rule keysOk_upsertBy list_all_upsertBy; auto simp: reKey_def reMerge_def dlKey_def dlMerge_def)[1])+

lemma keys_kept [simp]:
  "seKey (e\<lparr>se_Status := st\<rparr>) = seKey e" "seKey (e\<lparr>se_ReceivedAt := n\<rparr>) = seKey e"
  "crKey (c\<lparr>cr_ProviderIDs := ids\<rparr>) = crKey c" "crKey (c\<lparr>cr_UpdatedAt := n\<rparr>) = crKey c"
  "usKey (u\<lparr>us_PasswordHash := h\<rparr>) = usKey u" "usKey (u\<lparr>us_Role := h\<rparr>) = usKey u"
  "usKey (u\<lparr>us_TOTPSecret := h\<rparr>) = usKey u" "usKey (u\<lparr>us_TOTPEnabled := e'\<rparr>) = usKey u"
  "usKey (u\<lparr>us_BackupCodes := hs\<rparr>) = usKey u"
  "dlKey (r\<lparr>dl_Status := st\<rparr>) = dlKey r" "dlKey (r\<lparr>dl_ResolvedAt := rs\<rparr>) = dlKey r"
  "cfKey (k\<lparr>cf_Status := st\<rparr>) = cfKey k" "cfKey (k\<lparr>cf_ResolutionStrategy := st\<rparr>) = cfKey k"
  "cfKey (k\<lparr>cf_ResolvedBy := who\<rparr>) = cfKey k" "cfKey (k\<lparr>cf_ResolvedAt := rs\<rparr>) = cfKey k"
  "usKey \<lparr>us_ID = i, us_TenantID = t, us_Email = a, us_PasswordHash = h, us_Role = rl, us_TOTPSecret = h',
      us_TOTPEnabled = e', us_BackupCodes = hs\<rparr> = (t, a)"
  "rfKey (findingSet n st err f) = rfKey f" "rfKey (f\<lparr>rf_Direction := st\<rparr>) = rfKey f"
  by (simp_all add: seKey_def crKey_def usKey_def dlKey_def cfKey_def rfKey_def findingSet_def)

lemmas schema_rules = queue_upserts keysOk_insertIgnore keysOk_deleteWhere keysOk_puts list_all_updateWhere list_all_deleteWhere
lemmas schema_defs = schemaOk_def Let_def rowOr_Inr keysOk_snoc

abbreviation schemaP :: "('w, 'z) st_scheme \<Rightarrow> bool" where
  "schemaP s \<equiv> schemaOk (db s)"

lemma schema_engine:
  "pres schemaP (AddProviderID t a b c e)" "pres schemaP (UpsertCanonical L cr)" "pres schemaP (PersistApplyState L cr ws os)"
  "pres schemaP (InsertSyncOperation o')" "pres schemaP (UpsertOutboundWrite w)"
  "pres schemaP (ClaimProcessedEvent t a b c e)" "pres schemaP (ReleaseProcessedEvent t a b)"
  "pres schemaP (InsertSourceEvent ev)" "pres schemaP (SetSourceEventStatus t a b c)" "pres schemaP (SetSourceEventStatusTo t a b)"
  unfolding store_ops
  by ((rule pres_WithTenant pres_newID_WithTenant,
      auto simp: schema_defs claimStmt_def releaseStmt_def split: if_splits intro!: schema_rules)[1])+

lemma schema_queues:
  "pres schemaP (EnqueueRetry re n)" "pres schemaP (DeleteRetry t a)"
  "pres schemaP (InsertDeadLetter L dl)" "pres schemaP (ResolveDeadLetterForEvent t a)" "pres schemaP (SetDeadLetterStatus t a b)"
  "pres schemaP (InsertConflict L cf)" "pres schemaP (SetConflictStatus t a b c st)"
  "pres schemaP (CreateConnection L cn)" "pres schemaP (SetConnectionStatus t a b)"
  unfolding store_ops
  by ((rule pres_WithTenant pres_newID_WithTenant,
      auto simp: schema_defs split: if_splits intro!: schema_rules)[1])+

lemma schema_jobs:
  "pres schemaP (CreateSyncJob L j)" "pres schemaP (reopenSyncJob j)" "pres schemaP (UpdateSyncJobProgress a b cu n1 n2 n3)"
  "pres schemaP (FinishSyncJob a b c er)" "pres schemaP (CreateReconciliationRun L ru)"
  "pres schemaP (UpdateReconciliationCounters a n1 n2 n3 n4)" "pres schemaP (FinishReconciliationRun a b er)"
  "pres schemaP (InsertReconciliationFinding L rf)" "pres schemaP (SetReconciliationFindingStatus t a b er)"
  "pres schemaP (SetReconciliationFindingDirection t a b)"
  unfolding store_ops
  by ((rule pres_WithTenant pres_newID_WithTenant,
      auto simp: schema_defs split: if_splits intro!: schema_rules)[1])+

lemma schema_claim_job: "pres schemaP ClaimNextSyncJob"
  unfolding store_ops timeNow_def
  by (intro pres_intros; rule pres_WithTenant) (auto simp: schema_defs intro!: schema_rules)

lemma schema_accounts:
  "pres schemaP (CreateTenant L a b)" "pres schemaP (CreateUser L t a b c)" "pres schemaP (SetUserPassword t a b)"
  "pres schemaP (SetUserRole t a b)" "pres schemaP (SetTOTPSecret t a b)" "pres schemaP (SetTOTPEnabled t a e)"
  "pres schemaP (SetBackupCodes t a hs)" "pres schemaP (ConsumeBackupCode t a b)"
  unfolding store_ops updateUser_def
  by ((rule pres_WithTenant pres_newID_WithTenant,
      auto simp: schema_defs split: if_splits intro!: schema_rules)[1])+

lemma schema_sessions:
  "pres schemaP (CreateSession x)" "pres schemaP (RevokeSession t a)" "pres schemaP (RevokeUserSessions t a)"
  "pres schemaP (CreateAPIKey L t a b c)" "pres schemaP (CreateTenantAPIKey L t a b c)" "pres schemaP (RevokeAPIKey t a)"
  "pres schemaP (RecordLoginAttempt la)" "pres schemaP (ClearLoginFailures t a)" "pres schemaP (InsertAuditLog t au)"
  unfolding store_ops insertKey_def
  by ((rule pres_WithTenant pres_newID_WithTenant,
      auto simp: schema_defs split: if_splits intro!: schema_rules)[1])+

lemma schema_touch: "pres schemaP (TouchKey a)"
  unfolding store_ops by (intro pres_ignore, rule pres_WithTenant) (auto simp: schema_defs intro!: schema_rules)

interpretation schema: system_invariant "\<lambda>s. schemaOk (db s)" L
  for L :: "('w, 'x) apilib_scheme"
  by unfold_locales (simp_all add: schema_engine schema_queues schema_jobs schema_claim_job schema_accounts schema_sessions schema_touch)

end
