(* ===== verification/ApiDemo.thy ===== *)
theory ApiDemo
imports System Demo
begin

text \<open>
  A concrete environment for the API: outside functions that can be evaluated, with an event bus
  that keeps what is published, and a tenant with an administrator, an API key and a connection.
\<close>

definition claimsTuple :: "sessionClaims \<Rightarrow> _" where
  "claimsTuple c = (JTI c, UserID c, cl_TenantID c, Role c, Exp c)"

definition claimsOf :: "_ \<Rightarrow> sessionClaims" where
  "claimsOf x = (case x of (a, b, c, d, e) \<Rightarrow> \<lparr>JTI = a, UserID = b, cl_TenantID = c, Role = d, Exp = e\<rparr>)"

lemma claimsOf_tuple [simp]: "claimsOf (claimsTuple c) = c"
  by (simp add: claimsOf_def claimsTuple_def)

definition demoWebhook :: providerWebhook where
  "demoWebhook = \<lparr>wh_EventID = ''e1'', wh_Source = [], wh_EntityType = ''customer'', wh_EntityID = ''sf-1'',
     wh_EventType = EventUpdated, wh_SourceVersion = 2, wh_OccurredAt = 10, wh_CorrelationID = [], wh_Provenance = []\<rparr>"

definition demoLogin :: goval where
  "demoLogin = GObj [(''tenant_slug'', GStr ''acme''), (''email'', GStr ''ada@x''), (''password'', GStr ''pw'')]"

definition demoApi :: "(string \<times> string \<times> string) list apilib" where
  "demoApi = \<lparr>json_num = (\<lambda>r. Itoa \<lfloor>r\<rfloor>), sprint_num = (\<lambda>r. Itoa \<lfloor>r\<rfloor>), json_decode = (\<lambda>s. None),
     sha256_hex = (\<lambda>s. s), hmac_sha256 = (\<lambda>k m. k @ m), hmac_sha1 = (\<lambda>k m. replicate 20 (CHR 0x00)),
     bcrypt_ok = (\<lambda>h p. h = p), rfc3339 = Itoa, parse_rfc3339 = (\<lambda>s. None),
     http_send = (\<lambda>req w. (Inl ''offline'', w)), status_text = Itoa, uuid_of = (\<lambda>n. ''u'' @ digits10 n),
     event_marshal = (\<lambda>e. digits10 (to_nat (eventTuple e))),
     event_unmarshal = (\<lambda>s. Some (untuple (from_nat (undigits10 0 s)))), rand_float = (\<lambda>n. 0),
     rand_bytes = (\<lambda>n k. replicate k (char_of n)), bcrypt_hash = (\<lambda>n p. Some p),
     claims_marshal = (\<lambda>c. digits10 (to_nat (claimsTuple c))),
     claims_unmarshal = (\<lambda>s. Some (claimsOf (from_nat (undigits10 0 s)))),
     json_first = (\<lambda>s. Some demoLogin),
     redis_incr = (\<lambda>k w. (Inr 1, w)), redis_expire = (\<lambda>k d w. w), rsa_verify = (\<lambda>n e m sg. False),
     idclaims_unmarshal = (\<lambda>s. None), webhook_unmarshal = (\<lambda>s. Some demoWebhook),
     bus_publish = (\<lambda>t k v w. (Inr (), w @ [(t, k, v)]))\<rparr>"

lemma demoApi_codec: "claimsCodec demoApi" "eventCodec demoApi"
  by (simp_all add: claimsCodec_def eventCodec_def demoApi_def)

definition demoTenant :: Tenant where
  "demoTenant = \<lparr>te_ID = ''t1'', te_Name = ''Acme'', te_Slug = ''acme'', te_Status = ''active''\<rparr>"

definition demoUser :: User where
  "demoUser = \<lparr>us_ID = ''u1'', us_TenantID = ''t1'', us_Email = ''ada@x'', us_PasswordHash = ''pw'', us_Role = ''ADMIN'',
     us_TOTPSecret = [], us_TOTPEnabled = False, us_BackupCodes = []\<rparr>"

definition demoKey :: APIKey where
  "demoKey = \<lparr>ak_ID = ''k1'', ak_TenantID = ''t1'', ak_Name = ''ci'', ak_Role = ''VIEWER'', ak_KeyHash = ''secret'',
     ak_Enabled = True, ak_LastUsedAt = None\<rparr>"

definition demoClaims :: sessionClaims where
  "demoClaims = \<lparr>JTI = ''j1'', UserID = ''u1'', cl_TenantID = ''t1'', Role = ''ADMIN'', Exp = 0\<rparr>"

definition demoSession :: Session where
  "demoSession = \<lparr>ss_JTI = ''j1'', ss_UserID = ''u1'', ss_TenantID = ''t1'', ss_Role = ''ADMIN'', ss_CreatedAt = 0,
     ss_ExpiresAt = sessionTTL, ss_RevokedAt = None\<rparr>"

definition demoApiDb :: db where
  "demoApiDb = demoDb\<lparr>tenants := [demoTenant], users := [demoUser], apiKeys := [demoKey], sessions := [demoSession]\<rparr>"

definition demoApiSt :: "db \<Rightarrow> (string \<times> string \<times> string) list st" where
  "demoApiSt d = \<lparr>world = [], faults = [], db = d, now = 1000, seq = 0\<rparr>"

definition demoServer :: Server where
  "demoServer = \<lparr>cfg = Load (\<lambda>k. None), cache = True\<rparr>"

definition demoToken :: string where
  "demoToken = (case mintSessionToken demoApi demoServer demoClaims (demoApiSt demoApiDb) of (Inr t, _) \<Rightarrow> t | _ \<Rightarrow> [])"

definition demoRequest :: Request where
  "demoRequest = \<lparr>rq_Authorization = [], rq_APIKey = [], rq_Signature = [], rq_Content = [], rq_RemoteAddr = ''1.2.3.4'',
     rq_PathValue = [(''provider'', Salesforce), (''tenant_slug'', ''acme'')], rq_Query = []\<rparr>"

definition bearing :: "string \<Rightarrow> Request" where
  "bearing token = demoRequest\<lparr>rq_Authorization := ''Bearer '' @ token\<rparr>"

lemma demo_outside:
  "bcrypt_ok demoApi h p = (h = p)" "redis_incr demoApi k w = (Inr 1, w)" "redis_expire demoApi k n w = w"
  "json_first demoApi x = Some demoLogin" "uuid_of demoApi i = ''u'' @ digits10 i"
  "webhook_unmarshal demoApi x = Some demoWebhook" "hmac_sha256 demoApi k x = k @ x"
  "bus_publish demoApi t k x w = (Inr (), w @ [(t, k, x)])" "json_decode demoApi x = None"
  by (simp_all add: demoApi_def)

lemma demo_state:
  "faults (demoApiSt d) = []" "db (demoApiSt d) = d" "now (demoApiSt d) = 1000" "world (demoApiSt d) = []" "seq (demoApiSt d) = 0"
  "users demoApiDb = [demoUser]" "tenants demoApiDb = [demoTenant]" "sessions demoApiDb = [demoSession]"
  "apiKeys demoApiDb = [demoKey]" "loginAttempts demoApiDb = []" "sourceEvents demoApiDb = []"
  "connections demoApiDb = [demoConnection ''c1'' Salesforce, demoConnection ''c2'' HubSpot]"
  by (simp_all add: demoApiSt_def demoApiDb_def demoDb_def emptyDb_def)

lemma demo_config:
  "LoginThrottlePerMin (cfg demoServer) = 30" "LoginMaxFailures (cfg demoServer) = 5" "cache demoServer"
  by (simp_all add: demoServer_def Load_def envInt_def envGet_def)

lemma schemaOk_demo: "schemaOk demoApiDb"
  by (simp add: schemaOk_def demoApiDb_def demoDb_def emptyDb_def demoConnection_def demoUser_def demoKey_def validRoles_def
      keysOk_def)

end
