(* ===== verification/Access.thy ===== *)
theory Access
imports ApiDemo
begin

text \<open>
  Who may do what: session tokens are accepted exactly when they carry the server's signature, are
  not expired and name a live session; a revoked session stays revoked in every run of the
  deployment; and the middleware in front of the handlers computes the access decision \<open>decide\<close>.
\<close>

section \<open>Tokens\<close>

definition fullClaims :: "sessionClaims \<Rightarrow> bool" where
  "fullClaims c \<longleftrightarrow> JTI c \<noteq> [] \<and> UserID c \<noteq> [] \<and> cl_TenantID c \<noteq> [] \<and> Role c \<noteq> []"

definition signedToken :: "('w, 'x) apilib_scheme \<Rightarrow> Server \<Rightarrow> sessionClaims \<Rightarrow> string" where
  "signedToken L sv c =
     (let b64 = b64Encode (claims_marshal L c) in b64 @ ''.'' @ b64Encode (hmac_sha256 L (AuthSecret (cfg sv)) b64))"

definition liveRow :: "string \<Rightarrow> string \<Rightarrow> int \<Rightarrow> db \<Rightarrow> bool" where
  "liveRow t jti n d \<longleftrightarrow>
     (case findRow (isSession t jti) (sessions d) of Some x \<Rightarrow> liveSession n x | None \<Rightarrow> False)"

lemma dot_free: "CHR ''.'' \<notin> set (b64Encode x)"
  by (rule b64Encode_free) (simp add: b64Val_def)

lemma splitOn_ne: "splitOn c xs \<noteq> []"
  by (cases xs) (auto split: list.split)

lemma splitOn_Cons_iff:
  "splitOn c (x # xs) = p # ps \<longleftrightarrow>
     (if x = c then p = [] \<and> splitOn c xs = ps else \<exists>p'. p = x # p' \<and> splitOn c xs = p' # ps)"
  using splitOn_ne [of c xs] by (auto split: list.split)

lemma splitOn_one: "splitOn c xs = [q] \<longleftrightarrow> xs = q \<and> c \<notin> set q"
proof (induction xs arbitrary: q)
  case (Cons x xs)
  show ?case
    by (cases q) (auto simp only: splitOn_Cons_iff splitOn_ne Cons list.set list.inject list.simps insert_iff split: if_splits)
qed auto

lemma splitOn_pair: "splitOn c xs = [p, q] \<longleftrightarrow> xs = p @ c # q \<and> c \<notin> set p \<and> c \<notin> set q"
proof (induction xs arbitrary: p)
  case (Cons x xs)
  show ?case
    by (cases p) (auto simp only: splitOn_Cons_iff splitOn_one Cons list.set list.inject append.simps list.simps insert_iff empty_iff split: if_splits)
qed simp

lemma mint_run: "mintSessionToken L sv u s = (Inr (signedToken L sv (u\<lparr>Exp := Unix (now s + sessionTTL)\<rparr>)), s)"
  by (simp add: mintSessionToken_def signedToken_def run_simps bindM_run Let_def ret_run)

lemma openToken_signed: "claimsCodec L \<Longrightarrow> fullClaims c \<Longrightarrow> openToken L sv (signedToken L sv c) = Inr c"
  by (simp add: openToken_def signedToken_def Let_def splitOn_join splitOn_free dot_free claimsCodec_def fullClaims_def)

lemma openToken_iff:
  "openToken L sv tok = Inr c \<longleftrightarrow>
     (\<exists>p q raw. tok = p @ ''.'' @ q \<and> CHR ''.'' \<notin> set p \<union> set q \<and> b64Decode p = Some raw \<and>
        b64Decode q = Some (hmac_sha256 L (AuthSecret (cfg sv)) p) \<and> claims_unmarshal L raw = Some c \<and> fullClaims c)"
  (is "_ \<longleftrightarrow> ?R")
proof
  assume "openToken L sv tok = Inr c"
  then show ?R
    by (auto simp: openToken_def fullClaims_def splitOn_pair split: list.splits option.splits if_splits)
next
  assume ?R
  then show "openToken L sv tok = Inr c"
    by (auto simp: openToken_def fullClaims_def splitOn_join splitOn_free)
qed

lemma GetLiveSession_run:
  "calm s \<Longrightarrow> GetLiveSession t jti s =
     ((case findRow (isSession t jti) (sessions (db s)) of
         Some x \<Rightarrow> if liveSession (now s) x then Inr x else Inl ErrNotFound | None \<Rightarrow> Inl ErrNotFound), s)"
  by (auto simp: GetLiveSession_def run_simps bindM_run rowOr_def liveSession_def throw_run ret_run split: option.split)

lemma verify_run:
  assumes "calm s"
  shows "verifySessionToken L sv tok s =
    ((case openToken L sv tok of
        Inl e \<Rightarrow> Inl (PlainErr e)
      | Inr c \<Rightarrow> if Exp c < Unix (now s) then Inl (PlainErr ''token expired'')
                else if liveRow (cl_TenantID c) (JTI c) (now s) (db s) then Inr c
                else Inl (PlainErr ''session revoked or expired'')), s)"
  using assms
  by (auto simp: verifySessionToken_def run_simps bindM_run attempt_run GetLiveSession_run liveRow_def throw_run ret_run
      split: option.split sum.split)

section \<open>Revoked sessions\<close>

definition sessionRevoked :: "string \<Rightarrow> db \<Rightarrow> bool" where
  "sessionRevoked jti d \<longleftrightarrow> hasKey ss_JTI jti (sessions d) \<and>
     (\<forall>x \<in> set (sessions d). ss_JTI x = jti \<longrightarrow> ss_RevokedAt x \<noteq> None)"

lemmas session_frames =
  frame_tenants [where f = sessions, simplified] frame_users [where f = sessions, simplified]
  frame_apiKeys [where f = sessions, simplified] frame_loginAttempts [where f = sessions, simplified]
  frame_auditLog [where f = sessions, simplified] frame_deadLetters [where f = sessions, simplified]
  frame_retryQueue [where f = sessions, simplified] frame_conflicts [where f = sessions, simplified]
  frame_reconFindings [where f = sessions, simplified] frame_syncJobs [where f = sessions, simplified]
  frame_reopen [where f = sessions, simplified] frame_reconRuns [where f = sessions, simplified]
  frame_connections [where f = sessions, simplified] frame_sourceEvents [where f = sessions, simplified]
  frame_canonicals [where f = sessions, simplified] frame_outbounds [where f = sessions, simplified]
  frame_operations [where f = sessions, simplified] frame_processed [where f = sessions, simplified]
  frame_PersistApplyState [where f = sessions, simplified]

lemma sessionRevoked_frame: "keeps (\<lambda>s. sessions (db s)) m \<Longrightarrow> pres (\<lambda>s. sessionRevoked jti (db s)) m"
  by (auto simp: keeps_def pres_def sessionRevoked_def)

lemmas sessionRevoked_frames = session_frames [THEN sessionRevoked_frame]

lemma sessionRevoked_writes:
  "pres (\<lambda>s. sessionRevoked jti (db s)) (CreateSession x)"
  "pres (\<lambda>s. sessionRevoked jti (db s)) (RevokeSession t a)"
  "pres (\<lambda>s. sessionRevoked jti (db s)) (RevokeUserSessions t a)"
  unfolding store_ops
  by (rule pres_WithTenant, auto simp: sessionRevoked_def hasKey_def updateWhere_def Let_def split: if_splits)+

interpretation revocation: system_invariant "\<lambda>s. sessionRevoked jti (db s)" L
  for jti :: string and L :: "('w, 'x) apilib_scheme"
  by unfold_locales (simp_all add: sessionRevoked_frames sessionRevoked_writes)

lemma verify_revoked:
  assumes "openToken L sv tok = Inr c" "sessionRevoked (JTI c) (db s)"
  shows "\<exists>e s'. verifySessionToken L sv tok s = (Inl e, s') \<and> db s' = db s"
proof -
  have gone: "findRow (isSession (cl_TenantID c) (JTI c)) (sessions (db s)) = Some x \<Longrightarrow> ss_RevokedAt x \<noteq> None" for x
    using assms(2) by (auto simp: sessionRevoked_def isSession_def dest: findRow_SomeD)
  show ?thesis
    using assms(1) gone
    by (cases rule: WithTenant_cases [of "\<lambda>n d. rowOr ErrNotFound (findRow (isSession (cl_TenantID c) (JTI c)) (sessions d)) d" s])
      (auto simp: verifySessionToken_def GetLiveSession_def bindM_run attempt_run run_simps throw_run ret_run rowOr_Inr rowOr_Inl
        split: prod.split sum.split)
qed

section \<open>The access decision\<close>

datatype decision = Deny int | Allow Ctx

definition callerOf :: "('w, 'x) apilib_scheme \<Rightarrow> Server \<Rightarrow> Request \<Rightarrow> ('w, 'z) st_scheme \<Rightarrow> Ctx option" where
  "callerOf L sv r s =
     (if bearerTokenFrom r \<noteq> [] then
        (case openToken L sv (bearerTokenFrom r) of
           Inl e \<Rightarrow> None
         | Inr c \<Rightarrow> if Unix (now s) \<le> Exp c \<and> liveRow (cl_TenantID c) (JTI c) (now s) (db s)
                   then Some (userCtx c) else None)
      else if actorFromRequest r = [] then None
      else map_option keyCtx
        (findRow (\<lambda>k. ak_KeyHash k = hashAPIKey L (actorFromRequest r) \<and> ak_Enabled k) (apiKeys (db s))))"

definition decide :: "('w, 'x) apilib_scheme \<Rightarrow> Server \<Rightarrow> guard \<Rightarrow> Request \<Rightarrow> ('w, 'z) st_scheme \<Rightarrow> decision" where
  "decide L sv g r s =
     (case g of
        Open \<Rightarrow> Allow noCtx
      | NeedUser \<Rightarrow>
          if bearerTokenFrom r = [] then Deny 401
          else (case callerOf L sv r s of None \<Rightarrow> Deny 401 | Some cx \<Rightarrow> Allow cx)
      | NeedRole minRole \<Rightarrow>
          (case callerOf L sv r s of
             None \<Rightarrow> Deny 401
           | Some cx \<Rightarrow> if roleRank (roleFrom cx) < roleRank minRole then Deny 403 else Allow cx))"

text \<open>The tables without the time of the last use of the keys.\<close>

definition unused :: "db \<Rightarrow> db" where
  "unused d = d\<lparr>apiKeys := map (\<lambda>k. k\<lparr>ak_LastUsedAt := None\<rparr>) (apiKeys d)\<rparr>"

definition onlyUsed :: "('w, 'z) st_scheme \<Rightarrow> ('w, 'z) st_scheme \<Rightarrow> bool" where
  "onlyUsed s s' \<longleftrightarrow> unused (db s') = unused (db s) \<and> world s' = world s \<and> now s' = now s \<and> faults s' = faults s"

lemma onlyUsed_refl [simp]: "onlyUsed s s"
  by (simp add: onlyUsed_def)

lemma unused_touch: "unused (d\<lparr>apiKeys := updateWhere R (\<lambda>k. k\<lparr>ak_LastUsedAt := n\<rparr>) (apiKeys d)\<rparr>) = unused d"
  by (auto simp: unused_def updateWhere_def)

lemma requireUser_run:
  assumes "calm s" "bearerTokenFrom r \<noteq> []"
  shows "requireUser L sv r k s =
    (case callerOf L sv r s of None \<Rightarrow> writeError 401 ''invalid or expired session token'' s | Some cx \<Rightarrow> k cx s)"
  using assms by (auto simp: requireUser_def callerOf_def run_simps verify_run split: sum.split)

lemma requireAPIKey_run:
  assumes "calm s" "bearerTokenFrom r = []"
  shows "\<exists>s' m. onlyUsed s s' \<and>
    requireAPIKey L r k s = (case callerOf L sv r s of None \<Rightarrow> writeError 401 m s' | Some cx \<Rightarrow> k cx s')"
proof -
  define R :: "APIKey \<Rightarrow> bool" where "R = (\<lambda>k. ak_KeyHash k = hashAPIKey L (actorFromRequest r) \<and> ak_Enabled k)"
  define touch where "touch = (\<lambda>i. s\<lparr>db := db s\<lparr>apiKeys := updateWhere (\<lambda>k. ak_ID k = i)
    (\<lambda>k. k\<lparr>ak_LastUsedAt := Some (now s)\<rparr>) (apiKeys (db s))\<rparr>\<rparr>)"
  have touched: "onlyUsed s (touch i)" for i
    by (simp add: onlyUsed_def touch_def unused_touch)
  have "VerifyAPIKey (hashAPIKey L (actorFromRequest r)) s =
    (case findRow R (apiKeys (db s)) of None \<Rightarrow> (Inl ErrNotFound, s) | Some k \<Rightarrow> (Inr k, touch (ak_ID k)))"
    using assms(1) by (simp add: VerifyAPIKey_def TouchKey_def run_simps bindM_run thenM_run ignore_run rowOr_def R_def
      touch_def ret_run split: option.split)
  then show ?thesis
    using assms(2) touched
    by (cases "findRow R (apiKeys (db s))")
      (auto simp: requireAPIKey_def callerOf_def run_simps Let_def R_def [symmetric])
qed

lemma guard_known: "guardOf rt = NeedRole m \<Longrightarrow> knownRole m"
  by (auto simp: guardOf_def knownRole_def roleTable_def split: if_splits)

lemma serve_key:
  assumes "calm s" "bearerTokenFrom r = []" "guardOf rt = NeedRole m"
  shows "\<exists>s' msg. onlyUsed s s' \<and> serve L sv rt r s =
    (case callerOf L sv r s of
       None \<Rightarrow> writeError 401 msg s'
     | Some cx \<Rightarrow> (if roleRank (roleFrom cx) < roleRank m then writeError 403 ''insufficient role''
                   else handlerOf L sv rt r cx) s')"
  using requireAPIKey_run [OF assms(1,2), where L = L and sv = sv and k = "\<lambda>cx. if roleRank (roleFrom cx) < roleRank m
      then writeError 403 ''insufficient role'' else handlerOf L sv rt r cx"] guard_known [OF assms(3)] assms(2,3)
  by (simp add: serve_def requireRole_def authenticate_def)

lemma serve_denied:
  assumes "guardOf rt \<noteq> Open" "bearerTokenFrom r \<noteq> []"
    and "verifySessionToken L sv (bearerTokenFrom r) s = (Inl e, s')" "db s' = db s"
  shows "\<exists>rep s''. serveHTTP L sv False rt r s = (Inr rep, s'') \<and> rp_Status rep = 401 \<and> db s'' = db s"
  using assms guard_known [of rt]
  by (cases "guardOf rt")
    (auto simp: serveHTTP_def serve_def requireRole_def authenticate_def requireUser_def Let_def bindM_run attempt_run run_simps
      ret_run split: sum.split)

lemma RevokeSession_live:
  assumes "calm s" "liveRow t jti n (db s)"
  shows "\<exists>s'. RevokeSession t jti s = (Inr (), s') \<and> calm s' \<and>
    sessions (db s') = updateWhere (\<lambda>x. isSession t jti x \<and> ss_RevokedAt x = None) (\<lambda>x. x\<lparr>ss_RevokedAt := Some (now s)\<rparr>)
      (sessions (db s))"
proof -
  obtain x where "findRow (isSession t jti) (sessions (db s)) = Some x" "ss_RevokedAt x = None"
    using assms(2) by (auto simp: liveRow_def liveSession_def split: option.splits)
  then have "list_ex (\<lambda>x. isSession t jti x \<and> ss_RevokedAt x = None) (sessions (db s))"
    by (auto simp: list_ex_iff dest: findRow_SomeD)
  then show ?thesis
    using assms(1) by (simp add: RevokeSession_def run_simps Let_def)
qed

lemma revoked_after:
  assumes "keysOk ss_JTI xs" "findRow (isSession t jti) xs = Some x"
  shows "sessionRevoked jti (d\<lparr>sessions := updateWhere (\<lambda>x. isSession t jti x \<and> ss_RevokedAt x = None)
    (\<lambda>x. x\<lparr>ss_RevokedAt := Some n\<rparr>) xs\<rparr>)"
proof -
  have x: "x \<in> set xs" "ss_JTI x = jti" "ss_TenantID x = t"
    using findRow_SomeD [OF assms(2)] by (simp_all add: isSession_def)
  have "inj_on ss_JTI (set xs)"
    using assms(1) by (simp add: keysOk_def distinct_map)
  then have same: "isSession t jti y" if "y \<in> set xs" "ss_JTI y = jti" for y
    using inj_onD [of ss_JTI "set xs" y x] x that by (simp add: isSession_def)
  have "ss_RevokedAt y \<noteq> None" if "y \<in> set (updateWhere (\<lambda>x. isSession t jti x \<and> ss_RevokedAt x = None)
      (\<lambda>x. x\<lparr>ss_RevokedAt := Some n\<rparr>) xs)" "ss_JTI y = jti" for y
    using that same by (fastforce simp: updateWhere_def split: if_splits)
  then show ?thesis
    using x(1,2) by (auto simp: sessionRevoked_def hasKey_def updateWhere_keys)
qed

lemma verify_Inr:
  assumes "calm s" "verifySessionToken L sv tok s = (Inr c, s')"
  shows "s' = s \<and> openToken L sv tok = Inr c \<and> \<not> Exp c < Unix (now s) \<and> liveRow (cl_TenantID c) (JTI c) (now s) (db s)"
  using assms by (auto simp: verify_run split: sum.splits if_splits)

lemma logout_revokes:
  assumes "schemaOk (db s)" "calm s" "verifySessionToken L sv (bearerTokenFrom r) s = (Inr c, s0)"
    and "serveHTTP L sv False Logout r s = (Inr rep, s1)"
  shows "rp_Status rep = 200 \<and> sessionRevoked (JTI c) (db s1)"
proof -
  have live: "s0 = s" "liveRow (cl_TenantID c) (JTI c) (now s) (db s)"
    using verify_Inr [OF assms(2,3)] by simp_all
  obtain s' where s': "RevokeSession (cl_TenantID c) (JTI c) s = (Inr (), s')"
    "sessions (db s') = updateWhere (\<lambda>x. isSession (cl_TenantID c) (JTI c) x \<and> ss_RevokedAt x = None)
       (\<lambda>x. x\<lparr>ss_RevokedAt := Some (now s)\<rparr>) (sessions (db s))"
    using RevokeSession_live [OF assms(2) live(2)] by blast
  have "sessionRevoked (JTI c) (db s')"
    using s'(2) live(2) assms(1) revoked_after [where xs = "sessions (db s)" and t = "cl_TenantID c" and jti = "JTI c" and d = "db s'" and n = "now s"]
    by (auto simp: sessionRevoked_def liveRow_def schemaOk_def split: option.splits)
  then have "sessionRevoked (JTI c) (db (snd (auditLogin (cl_TenantID c) ''auth.logout'' (''user:'' @ UserID c) [] s')))"
    using presD [OF revocation.api.audit_pres(2)] by blast
  moreover have "\<exists>u. auditLogin (cl_TenantID c) ''auth.logout'' (''user:'' @ UserID c) [] s' = (Inr u, s1) \<and> rp_Status rep = 200"
    using assms(3,4) s'(1) live(1)
    by (auto simp: serveHTTP_def serve_def guardOf_def handleLogout_def bindM_run attempt_run thenM_run auditLogin_def ignore_run
        run_simps ret_run split: sum.splits prod.splits)
  ultimately show ?thesis by auto
qed

lemma serve_decides:
  assumes "calm s"
  shows "case decide L sv (guardOf rt) r s of
      Allow cx \<Rightarrow> \<exists>s'. onlyUsed s s' \<and> serve L sv rt r s = handlerOf L sv rt r cx s'
    | Deny code \<Rightarrow> \<exists>s' rep. onlyUsed s s' \<and> serve L sv rt r s = (Inr rep, s') \<and> rp_Status rep = code"
proof (cases "bearerTokenFrom r = []")
  case True
  show ?thesis
  proof (cases "guardOf rt")
    case (NeedRole m)
    obtain s' msg where "onlyUsed s s'" "serve L sv rt r s =
        (case callerOf L sv r s of
           None \<Rightarrow> writeError 401 msg s'
         | Some cx \<Rightarrow> (if roleRank (roleFrom cx) < roleRank m then writeError 403 ''insufficient role''
                       else handlerOf L sv rt r cx) s')"
      using serve_key [OF assms True NeedRole] by blast
    then show ?thesis
      using NeedRole by (cases "callerOf L sv r s") (auto simp: decide_def run_simps intro: exI [of _ s'])
  qed (use True in \<open>auto simp: decide_def serve_def requireUser_def Let_def run_simps intro: exI [of _ s]\<close>)
next
  case False
  then show ?thesis
    using guard_known [of rt]
    by (cases "guardOf rt")
      (auto simp: decide_def serve_def requireRole_def authenticate_def requireUser_run [OF assms] run_simps
        split: option.split intro: exI [of _ s])
qed

section \<open>Properties\<close>

text \<open>C3: Logging out is final. When a request with a valid session token is sent to the logout
  route, then in every later state of the deployment, whatever requests, events, retries and jobs
  came in between and whatever statements failed, every request with that token to a guarded
  route is answered 401 and changes no table.\<close>

theorem logout_is_final:
  assumes "schemaOk (db s)" "calm s" "verifySessionToken L sv (bearerTokenFrom r) s = (Inr c, s0)"
    and "serveHTTP L sv False Logout r s = (Inr rep, s1)" "deployed L s1 s2"
    and "guardOf rt \<noteq> Open" "bearerTokenFrom r' = bearerTokenFrom r"
  shows "rp_Status rep = 200 \<and>
    (\<exists>rep' s3. serveHTTP L sv False rt r' s2 = (Inr rep', s3) \<and> rp_Status rep' = 401 \<and> db s3 = db s2)"
proof -
  have revoked: "rp_Status rep = 200" "sessionRevoked (JTI c) (db s1)"
    using logout_revokes [OF assms(1-4)] by simp_all
  have opens: "openToken L sv (bearerTokenFrom r) = Inr c"
    using verify_Inr [OF assms(2,3)] by simp
  then have "bearerTokenFrom r' \<noteq> []"
    using assms(7) by (auto simp: openToken_def)
  moreover have "sessionRevoked (JTI c) (db s2)"
    using revocation.deployed_keeps [OF assms(5) revoked(2)] .
  ultimately show ?thesis
    using verify_revoked [OF opens] serve_denied [OF assms(6), of r' L sv s2] revoked(1) assms(7) by metis
qed

lemma demoToken_opens: "openToken demoApi demoServer demoToken = Inr (demoClaims\<lparr>Exp := Unix (1000 + sessionTTL)\<rparr>)"
  unfolding demoToken_def mint_run
  by (simp add: openToken_signed demoApi_codec fullClaims_def demoClaims_def demoApiSt_def)

lemma bearing_token: "length token > 0 \<Longrightarrow> bearerTokenFrom (bearing token) = token"
  by (simp add: bearerTokenFrom_def bearing_def demoRequest_def EqualFold_def Let_def)

lemma demoToken_bearer: "bearerTokenFrom (bearing demoToken) = demoToken"
  using demoToken_opens by (intro bearing_token) (auto simp: openToken_def)

lemma demoToken_valid:
  "verifySessionToken demoApi demoServer demoToken (demoApiSt demoApiDb) =
     (Inr (demoClaims\<lparr>Exp := Unix (1000 + sessionTTL)\<rparr>), demoApiSt demoApiDb)"
  by (simp add: verify_run demoToken_opens demoApiSt_def demoClaims_def liveRow_def demoApiDb_def isSession_def demoSession_def
      liveSession_def Unix_def sessionTTL_def minute_def second_def)

theorem logout_is_final_witness:
  "\<exists>rep s1. serveHTTP demoApi demoServer False Logout (bearing demoToken) (demoApiSt demoApiDb) = (Inr rep, s1) \<and>
     rp_Status rep = 200 \<and>
     (\<exists>rep' s3. serveHTTP demoApi demoServer False PostUser (bearing demoToken) s1 = (Inr rep', s3) \<and>
        rp_Status rep' = 401 \<and> db s3 = db s1)"
proof -
  have "\<exists>rep s1. serveHTTP demoApi demoServer False Logout (bearing demoToken) (demoApiSt demoApiDb) = (Inr rep, s1)"
    by (auto simp: serveHTTP_def bindM_run attempt_run run_simps ret_run split: sum.splits prod.splits)
  then obtain rep s1 where run: "serveHTTP demoApi demoServer False Logout (bearing demoToken) (demoApiSt demoApiDb) = (Inr rep, s1)"
    by blast
  show ?thesis
    using run logout_is_final [OF _ _ _ run deployed.start, where rt = PostUser and r' = "bearing demoToken"]
      demoToken_valid schemaOk_demo
    by (simp add: demoToken_bearer guardOf_def) (simp add: demoApiSt_def)
qed

text \<open>C4: Access control. While the database works, the middleware in front of every route computes
  the decision \<open>decide\<close>: a caller without a valid session or key is answered 401, one whose role
  is too low 403, in both cases with the tables unchanged but for the time of the last use of a
  key, and otherwise exactly the handler of the route runs, as that caller.\<close>

theorem access_control:
  assumes "calm s"
  shows "case decide L sv (guardOf rt) r s of
      Allow cx \<Rightarrow> \<exists>s'. onlyUsed s s' \<and> serve L sv rt r s = handlerOf L sv rt r cx s'
    | Deny code \<Rightarrow> \<exists>s' rep. onlyUsed s s' \<and> serve L sv rt r s = (Inr rep, s') \<and> rp_Status rep = code"
  by (rule serve_decides [OF assms])

theorem access_control_witness:
  "decide demoApi demoServer (guardOf PostUser) (demoRequest\<lparr>rq_APIKey := ''secret''\<rparr>) (demoApiSt demoApiDb) = Deny 403 \<and>
   (\<exists>s' rep. onlyUsed (demoApiSt demoApiDb) s' \<and>
      serve demoApi demoServer PostUser (demoRequest\<lparr>rq_APIKey := ''secret''\<rparr>) (demoApiSt demoApiDb) = (Inr rep, s') \<and>
      rp_Status rep = 403)"
proof -
  have "decide demoApi demoServer (guardOf PostUser) (demoRequest\<lparr>rq_APIKey := ''secret''\<rparr>) (demoApiSt demoApiDb) = Deny 403"
    by code_simp
  then show ?thesis
    using access_control [where s = "demoApiSt demoApiDb" and L = demoApi and sv = demoServer and rt = PostUser
        and r = "demoRequest\<lparr>rq_APIKey := ''secret''\<rparr>"]
    by (simp add: demoApiSt_def)
qed

text \<open>C14: While the database works, a session token is accepted exactly when it consists of two base64
  parts, the second is the HMAC of the first under the server's secret, the first decodes to
  complete claims that are not expired, and the session they name has a row of that tenant that
  is neither revoked nor expired. Verifying a token changes nothing.\<close>

theorem token_accepted_iff:
  assumes "calm s"
  shows "verifySessionToken L sv tok s = (Inr c, s') \<longleftrightarrow>
    s' = s \<and>
    (\<exists>p q raw. tok = p @ ''.'' @ q \<and> CHR ''.'' \<notin> set p \<union> set q \<and> b64Decode p = Some raw \<and>
       b64Decode q = Some (hmac_sha256 L (AuthSecret (cfg sv)) p) \<and> claims_unmarshal L raw = Some c \<and> fullClaims c) \<and>
    Unix (now s) \<le> Exp c \<and>
    (\<exists>x. findRow (isSession (cl_TenantID c) (JTI c)) (sessions (db s)) = Some x \<and>
       ss_RevokedAt x = None \<and> now s \<le> ss_ExpiresAt x)"
  unfolding verify_run [OF assms] openToken_iff [symmetric]
  by (auto simp: liveRow_def liveSession_def not_less split: sum.splits option.splits if_splits)

theorem token_accepted_iff_witness:
  "\<exists>p q raw. demoToken = p @ ''.'' @ q \<and> CHR ''.'' \<notin> set p \<union> set q \<and> b64Decode p = Some raw \<and>
     b64Decode q = Some (hmac_sha256 demoApi (AuthSecret (cfg demoServer)) p)"
  using token_accepted_iff [where s = "demoApiSt demoApiDb" and L = demoApi and sv = demoServer and tok = demoToken]
    demoToken_valid
  by (fastforce simp: demoApiSt_def)

text \<open>C28: A login gives a token that works: the reply carries a token, and in every later state in which
  the sessions table still holds what the login left there, until the session expires, the token
  is accepted with the identity, tenant and role of the user.\<close>

theorem login_token_works:
  fixes s :: "('w, 'z) st_scheme"
  assumes "claimsCodec L" "calm s" "us_ID user \<noteq> []" "us_TenantID user \<noteq> []" "us_Role user \<noteq> []"
    and "uuid_of L (seq s) \<noteq> []" "\<not> hasKey ss_JTI (uuid_of L (seq s)) (sessions (db s))"
  shows "\<exists>tok rest s1. loggedIn L sv user meta s = (Inr \<lparr>rp_Status = 200, rp_Body = JObj ((''token'', jstr tok) # rest)\<rparr>, s1) \<and>
    (\<forall>s2 :: ('w, 'z) st_scheme. calm s2 \<and> sessions (db s2) = sessions (db s1) \<and> now s2 \<le> now s + sessionTTL \<longrightarrow>
       (\<exists>c. verifySessionToken L sv tok s2 = (Inr c, s2) \<and> UserID c = us_ID user \<and>
          cl_TenantID c = us_TenantID user \<and> Role c = us_Role user))"
proof -
  define c where "c = (newClaims (uuid_of L (seq s)) (us_ID user) (us_TenantID user) (us_Role user))\<lparr>Exp := Unix (now s + sessionTTL)\<rparr>"
  define row where "row = (newSession (uuid_of L (seq s)) (us_ID user) (us_TenantID user) (us_Role user) (now s))"
  have opens: "openToken L sv (signedToken L sv c) = Inr c"
    using assms by (intro openToken_signed) (simp_all add: fullClaims_def c_def newClaims_def)
  obtain rest s1 where run: "loggedIn L sv user meta s =
      (Inr \<lparr>rp_Status = 200, rp_Body = JObj ((''token'', jstr (signedToken L sv c)) # rest)\<rparr>, s1)"
    and rows: "sessions (db s1) = sessions (db s) @ [row]"
    using assms(2,7)
    by (simp add: loggedIn_def openSession_def auditLogin_def InsertAuditLog_def CreateSession_def bindM_run thenM_run run_simps
        mint_run ignore_run newSession_def Let_def c_def row_def)
  have "findRow (isSession (cl_TenantID c) (JTI c)) (sessions (db s)) = None"
    using assms(7) by (force simp: c_def newClaims_def isSession_def hasKey_def findRow_None_iff)
  then have "findRow (isSession (cl_TenantID c) (JTI c)) (sessions (db s1)) = Some row"
    unfolding rows findRow_append by (simp add: c_def row_def newClaims_def newSession_def isSession_def)
  then have "verifySessionToken L sv (signedToken L sv c) s2 = (Inr c, s2)"
    if "calm s2" "sessions (db s2) = sessions (db s1)" "now s2 \<le> now s + sessionTTL"
    for s2 :: "('w, 'z) st_scheme"
    using that opens zdiv_mono1 [of "now s2" "now s + sessionTTL" second]
    by (simp add: verify_run liveRow_def row_def newSession_def liveSession_def c_def newClaims_def Unix_def second_def not_less)
  then show ?thesis
    using run by (intro exI [of _ "signedToken L sv c"] exI [of _ rest] exI [of _ s1]) (simp add: c_def newClaims_def)
qed

theorem login_token_works_witness:
  "\<exists>tok rest s1. loggedIn demoApi demoServer demoUser [] (demoApiSt demoApiDb) =
     (Inr \<lparr>rp_Status = 200, rp_Body = JObj ((''token'', jstr tok) # rest)\<rparr>, s1) \<and>
     (\<forall>s2 :: (string \<times> string \<times> string) list st.
       calm s2 \<and> sessions (db s2) = sessions (db s1) \<and> now s2 \<le> now (demoApiSt demoApiDb) + sessionTTL \<longrightarrow>
       (\<exists>c. verifySessionToken demoApi demoServer tok s2 = (Inr c, s2) \<and> UserID c = us_ID demoUser \<and>
          cl_TenantID c = us_TenantID demoUser \<and> Role c = us_Role demoUser))"
  by (rule login_token_works [OF demoApi_codec(1)])
    (simp_all add: demoApiSt_def demoUser_def demoApi_def demoApiDb_def demoSession_def hasKey_def)

end
