(* ===== verification/LoginProps.thy ===== *)
theory LoginProps
imports Access
begin

text \<open>
  Logging in with a password: what a successful login says about the tables, and that a backup
  code is spent by the login that uses it.
\<close>

section \<open>Steps of the handler\<close>

lemma throttled_run: "\<exists>b w. loginThrottled L sv r s = (Inr b, s\<lparr>world := w\<rparr>)"
proof -
  have [simp]: "\<exists>w. s = s\<lparr>world := w\<rparr>"
    by (rule exI [of _ "world s"]) simp
  show ?thesis
    by (auto simp: loginThrottled_def redisIncr_def redisExpire_def bindM_run thenM_run ret_run Let_def split: sum.split prod.split)
qed

definition secondFactor :: "('w, 'x) apilib_scheme \<Rightarrow> User \<Rightarrow> string \<Rightarrow> int \<Rightarrow> db \<Rightarrow> db \<Rightarrow> bool" where
  "secondFactor L user code n d d' \<longleftrightarrow>
     \<not> us_TOTPEnabled user \<or> totpValidate L (us_TOTPSecret user) code n = Some True \<or>
     (\<exists>u \<in> set (users d). isUser (us_TenantID user) (us_ID user) u \<and> backupCodeHash L code \<in> set (us_BackupCodes u)) \<and>
     (\<forall>u \<in> set (users d'). isUser (us_TenantID user) (us_ID user) u \<longrightarrow> backupCodeHash L code \<notin> set (us_BackupCodes u))"

lemma ConsumeBackupCode_run:
  assumes "calm s"
  shows "\<exists>s'. ConsumeBackupCode t i h s =
      (Inr (\<exists>u \<in> set (users (db s)). isUser t i u \<and> h \<in> set (us_BackupCodes u)), s') \<and> calm s' \<and> now s' = now s \<and>
    (\<forall>u \<in> set (users (db s')). isUser t i u \<longrightarrow> h \<notin> set (us_BackupCodes u))"
proof -
  let ?hit = "\<lambda>u. isUser t i u \<and> h \<in> set (us_BackupCodes u)"
  let ?rows = "updateWhere ?hit (\<lambda>u. u\<lparr>us_BackupCodes := filter (\<lambda>c. c \<noteq> h) (us_BackupCodes u)\<rparr>) (users (db s))"
  have run: "ConsumeBackupCode t i h s = (Inr (list_ex ?hit (users (db s))), s\<lparr>db := (db s)\<lparr>users := ?rows\<rparr>\<rparr>)"
    using assms by (simp add: ConsumeBackupCode_def run_simps Let_def)
  have "h \<notin> set (us_BackupCodes u)" if "u \<in> set ?rows" "isUser t i u" for u
    using that by (auto simp: updateWhere_def split: if_splits)
  then show ?thesis
    using assms unfolding run by (simp add: list_ex_iff)
qed

lemma checkMFA_ok:
  assumes "calm s" "checkMFA L r t sl e user code k s = (Inr rep, s')" "rp_Status rep = 200"
  shows "\<exists>s1. k s1 = (Inr rep, s') \<and> secondFactor L user code (now s) (db s) (db s1)"
proof -
  obtain s1 where c: "ConsumeBackupCode (us_TenantID user) (us_ID user) (backupCodeHash L code) s =
      (Inr (\<exists>u \<in> set (users (db s)). isUser (us_TenantID user) (us_ID user) u \<and> backupCodeHash L code \<in> set (us_BackupCodes u)), s1)"
    "\<forall>u \<in> set (users (db s1)). isUser (us_TenantID user) (us_ID user) u \<longrightarrow> backupCodeHash L code \<notin> set (us_BackupCodes u)"
    using ConsumeBackupCode_run [OF assms(1)] by blast
  show ?thesis
    using assms(2,3) c
    by (auto simp: checkMFA_def bindM_run attempt_run run_simps secondFactor_def split: if_splits sum.splits prod.splits)
qed

lemma keeps_users_loggedIn: "keeps (\<lambda>s. users (db s)) (loggedIn L sv user meta)"
  unfolding loggedIn_def openSession_def mintSessionToken_def auditLogin_def Let_def
  by (intro keeps_intros frame_intros) simp_all

lemma keeps_users_finish:
  "keeps (\<lambda>s. users (db s)) (thenM (ignore (ClearLoginFailures t e)) (loggedIn L sv user meta))"
  by (intro keeps_intros keeps_users_loggedIn frame_intros) simp_all

text \<open>What a successful run of the handler went through.\<close>

lemma loginUser_ok:
  assumes "calm s" "loginUser L sv r tenant slug email pw code s = (Inr rep, s')" "rp_Status rep = 200"
  shows "\<exists>user. getBy usKey (te_ID tenant, email) (users (db s)) = Some user \<and> bcrypt_ok L (us_PasswordHash user) pw \<and>
    secondFactor L user code (now s) (db s) (db s')"
proof -
  obtain user where user: "getBy usKey (te_ID tenant, email) (users (db s)) = Some user" "bcrypt_ok L (us_PasswordHash user) pw"
    and mfa: "checkMFA L r (te_ID tenant) slug email user code
      (thenM (ignore (ClearLoginFailures (us_TenantID user) email)) (loggedIn L sv user [(''role'', GStr (us_Role user))])) s =
      (Inr rep, s')"
    using assms
    by (auto simp: loginUser_def GetUserByEmail_def run_simps rowOr_def thenM_run split: option.splits if_splits sum.splits prod.splits)
  obtain s1 where fin: "thenM (ignore (ClearLoginFailures (us_TenantID user) email))
      (loggedIn L sv user [(''role'', GStr (us_Role user))]) s1 = (Inr rep, s')"
    and factor: "secondFactor L user code (now s) (db s) (db s1)"
    using checkMFA_ok [OF assms(1) mfa assms(3)] by blast
  show ?thesis
    using user factor keeps_run [OF keeps_users_finish fin] by (simp add: secondFactor_def)
qed

section \<open>Properties\<close>


lemma loggedIn_200:
  assumes "calm s" "\<not> hasKey ss_JTI (uuid_of L (seq s)) (sessions (db s))"
  shows "\<exists>rep s'. loggedIn L sv user meta s = (Inr rep, s') \<and> rp_Status rep = 200"
  using assms
  by (simp add: loggedIn_def openSession_def auditLogin_def InsertAuditLog_def CreateSession_def bindM_run thenM_run run_simps
      mint_run ignore_run newSession_def Let_def)

lemma demo_login: "\<exists>rep s'. handleLogin demoApi demoServer demoRequest (demoApiSt demoApiDb) = (Inr rep, s') \<and> rp_Status rep = 200"
proof -
  have fields: "structStr [(''tenant_slug'', GStr ''acme''), (''email'', GStr ''ada@x''), (''password'', GStr ''pw'')] ''tenant_slug'' = Some ''acme''"
    "structStr [(''tenant_slug'', GStr ''acme''), (''email'', GStr ''ada@x''), (''password'', GStr ''pw'')] ''email'' = Some ''ada@x''"
    "structStr [(''tenant_slug'', GStr ''acme''), (''email'', GStr ''ada@x''), (''password'', GStr ''pw'')] ''password'' = Some ''pw''"
    "structStr [(''tenant_slug'', GStr ''acme''), (''email'', GStr ''ada@x''), (''password'', GStr ''pw'')] ''code'' = Some []"
    by code_simp+
  obtain req where req: "decodeReq demoApi demoRequest [''tenant_slug'', ''email'', ''password'', ''code''] = Some req"
    "req ''tenant_slug'' = ''acme''" "req ''email'' = ''ada@x''" "req ''password'' = ''pw''" "req ''code'' = []"
    by (simp add: decodeReq_def structOf_def demo_outside demoLogin_def fields)
  have same: "demoApiSt demoApiDb\<lparr>world := []\<rparr> = demoApiSt demoApiDb"
    "demoApiSt demoApiDb\<lparr>db := demoApiDb\<lparr>loginAttempts := []\<rparr>\<rparr> = demoApiSt demoApiDb"
    by (simp_all add: demoApiSt_def demoApiDb_def demoDb_def emptyDb_def)
  have "handleLogin demoApi demoServer demoRequest (demoApiSt demoApiDb) =
      loggedIn demoApi demoServer demoUser [(''role'', GStr ''ADMIN'')] (demoApiSt demoApiDb)"
    unfolding handleLogin_def req(1)
    by (simp add: req(2-5) Let_def loginThrottled_def redisIncr_def redisExpire_def demo_config demo_outside
        loginUser_def checkMFA_def GetTenantBySlug_def GetUserByEmail_def CountRecentFailures_def ClearLoginFailures_def
        deleteWhere_def run_simps bindM_run attempt_run thenM_run ignore_run rowOr_def getBy_def usKey_def demo_state demoTenant_def
        ret_run same) (simp add: demoUser_def)
  then show ?thesis
    using loggedIn_200 [where s = "demoApiSt demoApiDb" and L = demoApi]
    by (simp add: demo_state demo_outside demoSession_def hasKey_def)
qed


text \<open>C27: One-time codes. For a secret made of twenty random bytes, checking a code at a time never fails
  for lack of a key, and the loop over the neighbouring periods accepts exactly the codes an
  authenticator with that secret shows at some instant at most one period away.\<close>

theorem totp_window:
  assumes "length raw = 20" "DefaultPeriod \<le> t"
  shows "(\<exists>ok. totpValidate L (NewSecret raw) code t = Some ok) \<and>
    (totpValidate L (NewSecret raw) code t = Some True \<longleftrightarrow>
     (\<exists>t'. \<bar>t' - t\<bar> \<le> DefaultPeriod \<and> Code L (NewSecret raw) t' = Some code))"
  using totpValidate_iff [OF decodeSecret_NewSecret [OF assms(1)] assms(2)] decodeSecret_NewSecret [OF assms(1)]
  by (simp add: totpValidate_def)

lemma demo_code: "codeAt demoApi key t = ''000000''"
proof -
  have "truncate31 (replicate n (CHR 0x00)) = 0" if "3 < n" for n
    using that by (simp add: truncate31_def Let_def last_replicate)
  then have "truncate31 (replicate 20 (CHR 0x00)) = 0"
    by simp
  moreover have "pad6 0 = ''000000''"
    by code_simp
  ultimately have "pad6 (unat (truncate31 (replicate 20 (CHR 0x00)) mod 1000000)) = ''000000''"
    by simp
  then show ?thesis
    by (simp add: codeAt_def counterCode_def demoApi_def)
qed

theorem totp_window_witness:
  "totpValidate demoApi (NewSecret (replicate 20 (CHR ''k''))) ''000000'' (2 * DefaultPeriod) = Some True \<and>
     (\<exists>t'. \<bar>t' - 2 * DefaultPeriod\<bar> \<le> DefaultPeriod \<and> Code demoApi (NewSecret (replicate 20 (CHR ''k''))) t' = Some ''000000'')"
proof -
  have "totpValidate demoApi (NewSecret (replicate 20 (CHR ''k''))) ''000000'' (2 * DefaultPeriod) = Some True"
    by (simp add: totpValidate_def decodeSecret_NewSecret demo_code)
  then show ?thesis
    using totp_window [of "replicate 20 (CHR ''k'')" "2 * DefaultPeriod" demoApi "''000000''"]
    by (simp add: DefaultPeriod_def second_def)
qed

end
