(* ===== verification/TenantProps.thy ===== *)
theory TenantProps
imports Access
begin

text \<open>
  Tenants are isolated from each other at the HTTP surface: a guarded request writes rows of its
  caller's tenant only.
\<close>

section \<open>Statements on accounts\<close>

lemma iso_accounts [iso_intros]:
  "keeps (\<lambda>s. outside t (db s)) (SetUserPassword t a b)" "keeps (\<lambda>s. outside t (db s)) (SetUserRole t a b)"
  "keeps (\<lambda>s. outside t (db s)) (SetTOTPSecret t a b)" "keeps (\<lambda>s. outside t (db s)) (SetTOTPEnabled t a e)"
  "keeps (\<lambda>s. outside t (db s)) (SetBackupCodes t a hs)"
  "keeps (\<lambda>s. outside t (db s)) (RevokeSession t a)" "keeps (\<lambda>s. outside t (db s)) (RevokeUserSessions t a)"
  "keeps (\<lambda>s. outside t (db s)) (RevokeAPIKey t a)"
  unfolding store_ops updateUser_def Let_def
  by (rule keeps_WithTenant_db, auto simp: outside_def isUser_def isSession_def intro!: filter_updateWhere)+

lemma iso_account_inserts [iso_intros]:
  "keeps (\<lambda>s. outside t (db s)) (CreateUser L t a b c)" "keeps (\<lambda>s. outside t (db s)) (CreateTenantAPIKey L t a b c)"
  "t \<noteq> [] \<Longrightarrow> keeps (\<lambda>s. outside t (db s)) (InsertAuditLog t au)"
  unfolding store_ops insertKey_def
  by (auto intro!: keeps_newID_then keeps_WithTenant_db simp: outside_def Let_def)

lemma iso_reopen [iso_intros]: "sj_TenantID j = t \<Longrightarrow> keeps (\<lambda>s. outside t (db s)) (reopenSyncJob j)"
  unfolding store_ops by (rule keeps_WithTenant_db, auto simp: outside_def intro!: filter_updateWhere)

lemma iso_audit [iso_intros]:
  "tenantIDFrom cx \<noteq> [] \<Longrightarrow> keeps (\<lambda>s. outside (tenantIDFrom cx) (db s)) (audit cx a b c m)"
  unfolding audit_def by (intro keeps_intros iso_account_inserts)

section \<open>Handlers\<close>

lemmas iso_rules = keeps_intros iso_intros

lemma iso_account_handlers:
  assumes "tenantIDFrom cx \<noteq> []"
  shows "keeps (\<lambda>s. outside (tenantIDFrom cx) (db s)) (handleMFAEnroll L r cx)"
    "keeps (\<lambda>s. outside (tenantIDFrom cx) (db s)) (handleMFAConfirm L r cx)"
    "keeps (\<lambda>s. outside (tenantIDFrom cx) (db s)) (handleMFADisable L r cx)"
    "keeps (\<lambda>s. outside (tenantIDFrom cx) (db s)) (handleMFABackupCodes L r cx)"
    "keeps (\<lambda>s. outside (tenantIDFrom cx) (db s)) (handleCreateUser L r cx)"
    "keeps (\<lambda>s. outside (tenantIDFrom cx) (db s)) (handleChangePassword L sv r cx)"
    "keeps (\<lambda>s. outside (tenantIDFrom cx) (db s)) (handleResetPassword L r cx)"
    "keeps (\<lambda>s. outside (tenantIDFrom cx) (db s)) (handleChangeRole L r cx)"
    "keeps (\<lambda>s. outside (tenantIDFrom cx) (db s)) (handleCreateAPIKey L r cx)"
    "keeps (\<lambda>s. outside (tenantIDFrom cx) (db s)) (handleRevokeAPIKey r cx)"
    "keeps (\<lambda>s. outside (tenantIDFrom cx) (db s)) (handleRevokeUserSessions r cx)"
  unfolding handleMFAEnroll_def handleMFAConfirm_def handleMFADisable_def handleMFABackupCodes_def withTOTP_def newSecret_def
    newBackupCodes_def handleCreateUser_def handleChangePassword_def verifySessionToken_def handleResetPassword_def
    handleChangeRole_def handleCreateAPIKey_def newRawAPIKey_def handleRevokeAPIKey_def handleRevokeUserSessions_def Let_def
  by (intro iso_rules refl assms)+

lemma iso_read_handlers:
  "keeps (\<lambda>s. f (db s)) (handleListTenants r cx)" "keeps (\<lambda>s. f (db s)) (handleListAPIKeys r cx)"
  "keeps (\<lambda>s. f (db s)) (handleListUsers r cx)" "keeps (\<lambda>s. f (db s)) (handleListSessions r cx)"
  "keeps (\<lambda>s. f (db s)) (handleListAudit r cx)" "keeps (\<lambda>s. f (db s)) (handleListOperations r cx)"
  "keeps (\<lambda>s. f (db s)) (handleListConnections r cx)" "keeps (\<lambda>s. f (db s)) (handleGetConnection r cx)"
  "keeps (\<lambda>s. f (db s)) (handleListSyncEvents r cx)" "keeps (\<lambda>s. f (db s)) (handleGetSyncEvent r cx)"
  "keeps (\<lambda>s. f (db s)) (handleListSyncJobs r cx)" "keeps (\<lambda>s. f (db s)) (handleGetSyncJob r cx)"
  "keeps (\<lambda>s. f (db s)) (handleListDLQ r cx)" "keeps (\<lambda>s. f (db s)) (handleGetDLQ r cx)"
  "keeps (\<lambda>s. f (db s)) (handleListConflicts L r cx)" "keeps (\<lambda>s. f (db s)) (handleGetConflict L r cx)"
  "keeps (\<lambda>s. f (db s)) (handleListReconciliations r cx)" "keeps (\<lambda>s. f (db s)) (handleGetReconciliation r cx)"
  "keeps (\<lambda>s. f (db s)) (handleListReconcileFindings r cx)"
  unfolding handleListTenants_def handleListAPIKeys_def handleListUsers_def handleListSessions_def handleListAudit_def
    handleListOperations_def handleListConnections_def handleGetConnection_def handleListSyncEvents_def handleGetSyncEvent_def
    handleListSyncJobs_def handleGetSyncJob_def handleListDLQ_def handleGetDLQ_def handleListConflicts_def handleGetConflict_def
    handleListReconciliations_def handleGetReconciliation_def handleListReconcileFindings_def listReply_def getReply_def
  by (intro keeps_intros)+

lemma iso_job_handlers:
  "keeps (\<lambda>s. outside (tenantIDFrom cx) (db s)) (handleCreateConnection L r cx)"
  "keeps (\<lambda>s. outside (tenantIDFrom cx) (db s)) (handleCreateSyncJob L sv r cx)"
  "keeps (\<lambda>s. outside (tenantIDFrom cx) (db s)) (handleCreateReconciliation L sv r cx)"
  unfolding handleCreateConnection_def handleCreateSyncJob_def handleCreateReconciliation_def Let_def
  by (intro iso_rules; simp add: newJob_def newRun_def)+

lemma keeps_getReply_returns:
  "keeps v m \<Longrightarrow> returns m R \<Longrightarrow> (\<And>x. R x \<Longrightarrow> keeps v (k x)) \<Longrightarrow> keeps v (getReply m a b k)"
  unfolding getReply_def by (rule keeps_orReply_returns [where R = R]) (auto intro: keeps_intros)

lemma iso_rerun: "keeps (\<lambda>s. outside (tenantIDFrom cx) (db s)) (handleRerunSyncJob r cx)"
  unfolding handleRerunSyncJob_def
  by (rule keeps_getReply_returns [OF keeps_job_reads(1) returns_job_reads(3)]) (auto intro!: iso_rules)

lemma iso_dlq:
  assumes "tenantIDFrom cx \<noteq> []"
  shows "keeps (\<lambda>s. outside (tenantIDFrom cx) (db s)) (handleDLQRetry sv r cx)"
    "keeps (\<lambda>s. outside (tenantIDFrom cx) (db s)) (handleDLQDiscard r cx)"
proof -
  show "keeps (\<lambda>s. outside (tenantIDFrom cx) (db s)) (handleDLQRetry sv r cx)"
    unfolding handleDLQRetry_def Let_def
    by (rule keeps_getReply_returns [OF _ returns_reads(5)]) (auto simp: replayEntry_def assms intro!: iso_rules)
  show "keeps (\<lambda>s. outside (tenantIDFrom cx) (db s)) (handleDLQDiscard r cx)"
    unfolding handleDLQDiscard_def getReply_def Let_def by (intro iso_rules refl assms)
qed

lemma iso_decisions:
  assumes "tenantIDFrom cx \<noteq> []"
  shows "keeps (\<lambda>s. outside (tenantIDFrom cx) (db s)) (handleResolveConflict L sv r cx)"
    "keeps (\<lambda>s. outside (tenantIDFrom cx) (db s)) (handleDismissConflict r cx)"
    "keeps (\<lambda>s. outside (tenantIDFrom cx) (db s)) (handleApplyFinding L sv r cx)"
    "keeps (\<lambda>s. outside (tenantIDFrom cx) (db s)) (handleDismissFinding r cx)"
  unfolding handleResolveConflict_def handleDismissConflict_def handleApplyFinding_def handleDismissFinding_def getReply_def
    queueFinding_def Let_def
  by (intro iso_rules refl assms; simp add: operatorEntry_def resolutionEvent_def findingEvent_def split: prod.split)+

lemma handler_isolated:
  assumes "guardOf rt \<noteq> Open" "rt \<noteq> PostTenant" "tenantIDFrom cx \<noteq> []"
  shows "keeps (\<lambda>s. outside (tenantIDFrom cx) (db s)) (handlerOf L sv rt r cx)"
  using assms(1,2)
  by (cases rt) (simp_all add: guardOf_def iso_account_handlers [OF assms(3)] iso_dlq [OF assms(3)] iso_decisions [OF assms(3)]
      iso_read_handlers iso_job_handlers iso_rerun)

lemma outside_unused: "outside t (unused d) = unused (outside t d)"
  by (simp add: outside_def unused_def filter_map o_def)

section \<open>Properties\<close>

text \<open>C5: Tenant isolation at the HTTP surface. A request to a guarded route other than the creation of a
  tenant leaves every row of every other tenant as it was: users, sessions, keys, connections,
  events, queues, jobs and all other tables, but for the time of the last use of a key.\<close>

theorem tenant_isolation:
  assumes "calm s" "guardOf rt \<noteq> Open" "rt \<noteq> PostTenant" "decide L sv (guardOf rt) r s = Allow cx" "tenantIDFrom cx \<noteq> []"
  shows "outside (tenantIDFrom cx) (unused (db (snd (serve L sv rt r s)))) = outside (tenantIDFrom cx) (unused (db s))"
proof -
  obtain s' where s': "unused (db s') = unused (db s)" "serve L sv rt r s = handlerOf L sv rt r cx s'"
    using serve_decides [OF assms(1), of L sv rt r] assms(4) by (auto simp: onlyUsed_def)
  have "outside (tenantIDFrom cx) (db (snd (handlerOf L sv rt r cx s'))) = outside (tenantIDFrom cx) (db s')"
    by (rule keepsD [OF handler_isolated [OF assms(2,3,5)]])
  then show ?thesis
    using s' by (simp add: outside_unused) (simp add: outside_unused [symmetric])
qed

theorem tenant_isolation_witness:
  "outside ''t1'' (unused (db (snd (serve demoApi demoServer RevokeSessions (bearing demoToken) (demoApiSt demoApiDb))))) =
   outside ''t1'' (unused demoApiDb)"
proof -
  have "decide demoApi demoServer (guardOf RevokeSessions) (bearing demoToken) (demoApiSt demoApiDb) =
      Allow (userCtx (demoClaims\<lparr>Exp := Unix (1000 + sessionTTL)\<rparr>))"
    using demoToken_valid verify_Inr [of "demoApiSt demoApiDb" demoApi demoServer demoToken]
    by (auto simp: decide_def guardOf_def callerOf_def demoToken_bearer demoToken_opens demo_state userCtx_def demoClaims_def
        roleRank_def roleTable_def gget_def openToken_def not_less)
  then show ?thesis
    using tenant_isolation [where s = "demoApiSt demoApiDb" and L = demoApi and sv = demoServer and rt = RevokeSessions
        and r = "bearing demoToken"]
    by (simp add: demo_state guardOf_def userCtx_def demoClaims_def)
qed

end
