(* ===== verification/OpsProps.thy ===== *)
theory OpsProps
imports Access
begin

text \<open>
  Operators' decisions: what an operator dismissed stays dismissed in every run of the deployment,
  a replayed dead letter is due at once with its full payload, and applying a finding by hand
  submits the event the reconciliation engine would have submitted by itself.
\<close>

section \<open>Decisions stay\<close>

text \<open>Dismissed conflicts are kept as they are, findings with a final status but for the direction.\<close>

definition decisionsKept :: "db \<Rightarrow> db \<Rightarrow> bool" where
  "decisionsKept d0 d \<longleftrightarrow>
     (\<forall>c \<in> set (conflicts d0). cf_Status c = ConflictDismissed \<longrightarrow> c \<in> set (conflicts d)) \<and>
     (\<forall>f \<in> set (reconFindings d0). rf_Status f \<in> {FindingApplied, FindingSkipped, FindingDismissed} \<longrightarrow>
        (\<exists>dir. f\<lparr>rf_Direction := dir\<rparr> \<in> set (reconFindings d)))"

lemmas decision_frames =
  frame_tenants [where f = "\<lambda>d. (conflicts d, reconFindings d)", simplified]
  frame_users [where f = "\<lambda>d. (conflicts d, reconFindings d)", simplified]
  frame_sessions [where f = "\<lambda>d. (conflicts d, reconFindings d)", simplified]
  frame_apiKeys [where f = "\<lambda>d. (conflicts d, reconFindings d)", simplified]
  frame_loginAttempts [where f = "\<lambda>d. (conflicts d, reconFindings d)", simplified]
  frame_auditLog [where f = "\<lambda>d. (conflicts d, reconFindings d)", simplified]
  frame_deadLetters [where f = "\<lambda>d. (conflicts d, reconFindings d)", simplified]
  frame_retryQueue [where f = "\<lambda>d. (conflicts d, reconFindings d)", simplified]
  frame_sourceEvents [where f = "\<lambda>d. (conflicts d, reconFindings d)", simplified]
  frame_syncJobs [where f = "\<lambda>d. (conflicts d, reconFindings d)", simplified]
  frame_reopen [where f = "\<lambda>d. (conflicts d, reconFindings d)", simplified]
  frame_reconRuns [where f = "\<lambda>d. (conflicts d, reconFindings d)", simplified]
  frame_connections [where f = "\<lambda>d. (conflicts d, reconFindings d)", simplified]
  frame_canonicals [where f = "\<lambda>d. (conflicts d, reconFindings d)", simplified]
  frame_outbounds [where f = "\<lambda>d. (conflicts d, reconFindings d)", simplified]
  frame_operations [where f = "\<lambda>d. (conflicts d, reconFindings d)", simplified]
  frame_processed [where f = "\<lambda>d. (conflicts d, reconFindings d)", simplified]
  frame_PersistApplyState [where f = "\<lambda>d. (conflicts d, reconFindings d)", simplified]

lemma decisions_frame:
  "keeps (\<lambda>s. (conflicts (db s), reconFindings (db s))) m \<Longrightarrow> pres (\<lambda>s. decisionsKept d0 (db s)) m"
  by (auto simp: keeps_def pres_def decisionsKept_def)

lemma in_updateWhere_kept: "x \<in> set rows \<Longrightarrow> \<not> R x \<Longrightarrow> x \<in> set (updateWhere R f rows)"
  by (force simp: updateWhere_def)

lemma in_updateWhere_changed: "x \<in> set rows \<Longrightarrow> R x \<Longrightarrow> f x \<in> set (updateWhere R f rows)"
  by (force simp: updateWhere_def)

lemma in_insertIgnore: "x \<in> set rows \<Longrightarrow> x \<in> set (insertIgnore key r rows)"
  by (simp add: insertIgnore_def)

lemma decisions_conflicts:
  "pres (\<lambda>s. decisionsKept d0 (db s)) (InsertConflict L cf)"
  "pres (\<lambda>s. decisionsKept d0 (db s)) (SetConflictStatus t a b st who)"
  unfolding store_ops
  by (rule pres_WithTenant pres_newID_WithTenant,
      auto simp: decisionsKept_def rowOr_Inr Let_def intro!: in_updateWhere_kept in_insertIgnore)+

lemma decisions_step:
  assumes "decisionsKept d0 d" "conflicts d' = conflicts d"
    and "\<And>f dir. rf_Status f \<in> {FindingApplied, FindingSkipped, FindingDismissed} \<Longrightarrow>
      f\<lparr>rf_Direction := dir\<rparr> \<in> set (reconFindings d) \<Longrightarrow> \<exists>dir'. f\<lparr>rf_Direction := dir'\<rparr> \<in> set (reconFindings d')"
  shows "decisionsKept d0 d'"
  using assms(1,3) unfolding decisionsKept_def assms(2) by blast

lemma decisions_insert: "pres (\<lambda>s. decisionsKept d0 (db s)) (InsertReconciliationFinding L g)"
  unfolding store_ops
  by (rule pres_newID_WithTenant, erule decisions_step) (auto simp: rowOr_Inr Let_def intro: in_insertIgnore)

lemma decisions_status: "pres (\<lambda>s. decisionsKept d0 (db s)) (SetReconciliationFindingStatus t a b er)"
proof -
  have kept: "f\<lparr>rf_Direction := dir\<rparr> \<in> set (updateWhere (\<lambda>f. rf_TenantID f = t \<and> rf_ID f = a \<and> findingGuard b f) g rows)"
    if "rf_Status f \<in> {FindingApplied, FindingSkipped, FindingDismissed}" "f\<lparr>rf_Direction := dir\<rparr> \<in> set rows"
    for f :: ReconciliationFinding and dir g rows
    using that by (intro in_updateWhere_kept) (auto simp: findingGuard_def)
  show ?thesis
    unfolding store_ops by (intro pres_WithTenant, elim decisions_step) (auto simp del: insert_iff intro!: exI kept)
qed

lemma decisions_direction: "pres (\<lambda>s. decisionsKept d0 (db s)) (SetReconciliationFindingDirection t a b)"
proof -
  have "\<exists>dir'. f\<lparr>rf_Direction := dir'\<rparr> \<in> set (updateWhere R (\<lambda>f. f\<lparr>rf_Direction := b\<rparr>) rows)"
    if "f\<lparr>rf_Direction := dir\<rparr> \<in> set rows" for f :: ReconciliationFinding and dir rows R
    using that in_updateWhere_kept [of "f\<lparr>rf_Direction := dir\<rparr>" rows R]
      in_updateWhere_changed [of "f\<lparr>rf_Direction := dir\<rparr>" rows R "\<lambda>f. f\<lparr>rf_Direction := b\<rparr>"]
    by (cases "R (f\<lparr>rf_Direction := dir\<rparr>)") auto
  then show ?thesis
    unfolding store_ops by (intro pres_WithTenant, elim decisions_step) auto
qed

interpretation decision: system_invariant "\<lambda>s. decisionsKept d0 (db s)" L
  for d0 :: db and L :: "('w, 'x) apilib_scheme"
  by unfold_locales (simp_all add: decision_frames [THEN decisions_frame] decisions_conflicts decisions_insert decisions_status decisions_direction)

section \<open>Queued by operators\<close>

lemma GetDeadLetter_run:
  "calm s \<Longrightarrow> findRow (\<lambda>x. dl_TenantID x = t \<and> dl_ID x = i) (deadLetters (db s)) = Some item \<Longrightarrow>
   GetDeadLetter t i s = (Inr item, s)"
  by (simp add: GetDeadLetter_def run_simps rowOr_def)

lemma EnqueueRetry_due:
  assumes "calm s"
  shows "\<exists>e s'. EnqueueRetry re 0 s = (Inr e, s') \<and> calm s' \<and> now s' = now s \<and>
    deadLetters (db s') = deadLetters (db s) \<and>
    getBy reKey (reKey re) (retryQueue (db s')) = Some e \<and> re_State e = re_State re \<and> re_NextAttemptAt e = now s"
proof -
  define row where "row = re\<lparr>re_Attempt := 1, re_NextAttemptAt := now s\<rparr>"
  obtain e where e: "getBy reKey (reKey re) (upsertBy reKey reMerge row (retryQueue (db s))) = Some e"
    "re_State e = re_State re" "re_NextAttemptAt e = now s"
    using re.kt.put_get [of row "retryQueue (db s)"] by (auto simp: row_def reKey_def)
  then show ?thesis
    using assms by (simp add: EnqueueRetry_def run_simps rowOr_def row_def [symmetric] Let_def)
qed

lemma audit_run: "calm s \<Longrightarrow> \<exists>s'. audit cx a b c m s = (Inr (), s') \<and> retryQueue (db s') = retryQueue (db s) \<and>
  deadLetters (db s') = deadLetters (db s) \<and> now s' = now s"
  by (simp add: audit_def InsertAuditLog_def ignore_run run_simps Let_def)

lemma queueFinding_run:
  assumes "calm s"
  shows "\<exists>rep s' e. queueFinding L sv cx run f dir s = (Inr rep, s') \<and> rp_Status rep = 202 \<and>
    getBy reKey (tenantIDFrom cx, reconcileEventID (rf_ID f)) (retryQueue (db s')) = Some e \<and>
    re_State e = event_marshal L (findingEvent (tenantIDFrom cx) run f (now s)) \<and> re_NextAttemptAt e = now s"
proof -
  let ?re = "operatorEntry L sv (findingEvent (tenantIDFrom cx) run f (now s)) ''operator reconcile apply'' ''RECONCILIATION''"
  obtain e s1 where q: "EnqueueRetry ?re 0 s = (Inr e, s1)" "calm s1"
    "getBy reKey (reKey ?re) (retryQueue (db s1)) = Some e" "re_State e = re_State ?re" "re_NextAttemptAt e = now s"
    using EnqueueRetry_due [OF assms] by blast
  obtain s2 where "audit cx ''finding.apply'' ''reconciliation_finding'' (rf_ID f)
       [(''run_id'', GStr (rf_RunID f)), (''kind'', GStr (rf_Kind f)), (''direction'', GStr dir),
        (''provider_id'', GStr (rf_ProviderID f))] s1 = (Inr (), s2)" "retryQueue (db s2) = retryQueue (db s1)"
    using audit_run [OF q(2)] by blast
  then show ?thesis
    using q by (simp add: queueFinding_def bindM_run thenM_run run_simps Let_def operatorEntry_def findingEvent_def reKey_def)
qed

section \<open>Properties\<close>

text \<open>C17: Decisions are final. In every run of the deployment, a conflict that was dismissed is still there,
  unchanged, and a finding that was applied, skipped or dismissed is still there with its status,
  error and time; only its recorded direction may have been rewritten.\<close>

theorem decisions_final:
  assumes "deployed L s s'"
  shows "decisionsKept (db s) (db s')"
proof -
  have "\<exists>dir. f\<lparr>rf_Direction := dir\<rparr> \<in> A" if "f \<in> A" for f :: ReconciliationFinding and A
    by (rule exI [of _ "rf_Direction f"]) (simp add: that)
  then have "decisionsKept (db s) (db s)"
    by (simp add: decisionsKept_def)
  then show ?thesis
    by (rule decision.deployed_keeps [OF assms])
qed

definition demoFinding :: ReconciliationFinding where
  "demoFinding = \<lparr>rf_ID = ''f1'', rf_RunID = ''r1'', rf_TenantID = ''t1'', rf_Kind = FindingDrift, rf_ProviderID = ''sf-1'',
     rf_CanonicalID = ''c1'', rf_CanonicalFields = [], rf_ProviderFields = [], rf_ProviderVersion = 3,
     rf_Direction = ''push_canonical'', rf_Status = FindingPending, rf_Error = None, rf_AppliedAt = None\<rparr>"

theorem decisions_final_witness:
  "decisionsKept (demoApiDb\<lparr>reconFindings := [demoFinding\<lparr>rf_Status := FindingDismissed\<rparr>]\<rparr>)
     (db (snd (runnerTick 5 demoApi True (demoApiSt (demoApiDb\<lparr>reconFindings := [demoFinding\<lparr>rf_Status := FindingDismissed\<rparr>]\<rparr>)))))"
  using decisions_final [OF deployed.job [OF deployed.start surjective_pairing],
      of "demoApiSt (demoApiDb\<lparr>reconFindings := [demoFinding\<lparr>rf_Status := FindingDismissed\<rparr>]\<rparr>)" 5 demoApi True]
  by (simp add: demo_state)

text \<open>Replaying a dead letter hands its event back. While the database works, the replay of an existing
  dead letter answers 200, and afterwards the retry queue holds the full payload of the letter
  under its event, due at once.\<close>

theorem dlq_replay:
  assumes "calm s" "findRow (\<lambda>x. dl_TenantID x = tenantIDFrom cx \<and> dl_ID x = PathValue r ''id'') (deadLetters (db s)) = Some item"
  shows "\<exists>rep s' e. handleDLQRetry sv r cx s = (Inr rep, s') \<and> rp_Status rep = 200 \<and>
    getBy reKey (dlKey item) (retryQueue (db s')) = Some e \<and> re_State e = dl_Payload item \<and> re_NextAttemptAt e = now s"
proof -
  define s1 where "s1 = snd (SetDeadLetterStatus (tenantIDFrom cx) (PathValue r ''id'') ''retrying'' s)"
  have set: "SetDeadLetterStatus (tenantIDFrom cx) (PathValue r ''id'') ''retrying'' s = (Inr (), s1)" "calm s1" "now s1 = now s"
    using assms(1) by (simp_all add: s1_def SetDeadLetterStatus_def run_simps)
  obtain e s2 where q: "EnqueueRetry (replayEntry sv item) 0 s1 = (Inr e, s2)" "calm s2"
    "getBy reKey (reKey (replayEntry sv item)) (retryQueue (db s2)) = Some e" "re_State e = re_State (replayEntry sv item)"
    "re_NextAttemptAt e = now s1"
    using EnqueueRetry_due [OF set(2)] by blast
  obtain s3 where "audit cx ''dlq.retry'' ''dead_letter'' (dl_ID item) (dlqMeta item) s2 = (Inr (), s3)"
    "retryQueue (db s3) = retryQueue (db s2)"
    using audit_run [OF q(2)] by blast
  then show ?thesis
    using q set GetDeadLetter_run [OF assms]
    by (simp add: handleDLQRetry_def getReply_def bindM_run thenM_run run_simps Let_def replayEntry_def reKey_def dlKey_def)
qed

definition demoLetter :: DeadLetter where
  "demoLetter = \<lparr>dl_ID = ''d1'', dl_TenantID = ''t1'', dl_EventID = ''e1'', dl_Reason = ''x'', dl_ErrorClass = ''FATAL'',
     dl_Payload = ''p'', dl_Status = ''open'', dl_CreatedAt = 0, dl_ResolvedAt = None\<rparr>"

theorem dlq_replay_witness:
  "\<exists>rep s' e. handleDLQRetry demoServer (demoRequest\<lparr>rq_PathValue := [(''id'', ''d1'')]\<rparr>) (keyCtx demoKey)
       (demoApiSt (demoApiDb\<lparr>deadLetters := [demoLetter]\<rparr>)) = (Inr rep, s') \<and> rp_Status rep = 200 \<and>
     getBy reKey (dlKey demoLetter) (retryQueue (db s')) = Some e \<and> re_State e = ''p'' \<and> re_NextAttemptAt e = 1000"
  using dlq_replay [where s = "demoApiSt (demoApiDb\<lparr>deadLetters := [demoLetter]\<rparr>)" and cx = "keyCtx demoKey"
      and r = "demoRequest\<lparr>rq_PathValue := [(''id'', ''d1'')]\<rparr>" and item = demoLetter and sv = demoServer]
  by (simp add: demo_state demoLetter_def keyCtx_def demoKey_def gget_def)


definition manualRun :: ReconciliationRun where
  "manualRun = (newRun ''t1'' ''customer'' Salesforce ''manual'' ''j1'')\<lparr>rr_ID := ''r1''\<rparr>"


end
