(* ===== verification/SimStore.thy ===== *)
theory SimStore
imports Connectors
begin

text \<open>
  The record store of a simulated provider (\<open>internal/simulator/store.go\<close>): identifiers, the
  operations on records, and the paginated listing a connector walks through. The clock and the
  package variable \<open>prefix\<close> are arguments. The mutex makes every operation atomic; copies of
  records are the records themselves, as nothing is shared.

  The facts: the hand-written decimal rendering agrees with \<open>strconv\<close>, identifiers are never
  given out twice, and a client that walks through the pages sees every record that was there when it
  began exactly once, in the order of the identifiers, also when records are added in between.
\<close>

section \<open>Records and the store\<close>

record Record =
  rc_ID :: string
  rc_Version :: int
  rc_UpdatedAt :: int
  rc_Deleted :: bool
  rc_Data :: "goval gomap"

record MemStore =
  records :: "Record gomap"
  nextID :: int

definition NewStore :: MemStore where
  "NewStore = \<lparr>records = [], nextID = 0\<rparr>"

text \<open>The digits are written from the end of a buffer; \<open>acc\<close> is what the buffer holds.\<close>

function itoaLoop :: "int \<Rightarrow> string \<Rightarrow> string" where
  "itoaLoop n acc = (if n > 0 then itoaLoop (n div 10) (char_of (48 + nat (n mod 10)) # acc) else acc)"
  by auto
termination
  by (relation "measure (\<lambda>(n, _). nat n)") auto

declare itoaLoop.simps [simp del]

definition sim_itoa :: "int \<Rightarrow> string" where
  "sim_itoa n =
     (if n = 0 then ''0''
      else if n < 0 then ''-'' @ itoaLoop (i64 (- n)) []
      else itoaLoop n [])"

definition sim_pad :: "int \<Rightarrow> string" where
  "sim_pad n = (let s = sim_itoa n in if length s < 6 then replicate (6 - length s) (CHR ''0'') @ s else s)"

definition idFormat :: "string \<Rightarrow> int \<Rightarrow> string" where
  "idFormat prefix n = prefix @ sim_pad n"

definition genID :: "string \<Rightarrow> MemStore \<Rightarrow> string \<times> MemStore" where
  "genID prefix st = (let n = i64 (nextID st + 1) in (idFormat prefix n, st\<lparr>nextID := n\<rparr>))"

text \<open>\<open>newRec\<close> is the generator of the caller; calling a nil function panics after the identifier was drawn.\<close>

fun seedFrom :: "string \<Rightarrow> int \<Rightarrow> (string \<Rightarrow> int \<Rightarrow> goval gomap) option \<Rightarrow> int list \<Rightarrow> MemStore \<Rightarrow> bool \<times> MemStore" where
  "seedFrom prefix t newRec [] st = (True, st)"
| "seedFrom prefix t newRec (i # is) st =
     (case genID prefix st of (rid, st1) \<Rightarrow>
        (case newRec of
           None \<Rightarrow> (False, st1)
         | Some f \<Rightarrow> seedFrom prefix t newRec is (st1\<lparr>records := gset rid
             \<lparr>rc_ID = rid, rc_Version = 1, rc_UpdatedAt = t, rc_Deleted = False, rc_Data = f rid i\<rparr> (records st1)\<rparr>)))"

definition Seed :: "string \<Rightarrow> int \<Rightarrow> int \<Rightarrow> (string \<Rightarrow> int \<Rightarrow> goval gomap) option \<Rightarrow> MemStore \<Rightarrow> bool \<times> MemStore" where
  "Seed prefix t count newRec st = seedFrom prefix t newRec [0..count - 1] st"

section \<open>Operations\<close>

definition sim_Get :: "string \<Rightarrow> MemStore \<Rightarrow> Record option" where
  "sim_Get rid st = map_of (records st) rid"

definition sim_Insert :: "string \<Rightarrow> int \<Rightarrow> goval gomap \<Rightarrow> MemStore \<Rightarrow> Record \<times> MemStore" where
  "sim_Insert prefix t data st =
     (case genID prefix st of (rid, st1) \<Rightarrow>
        let rec = \<lparr>rc_ID = rid, rc_Version = 1, rc_UpdatedAt = t, rc_Deleted = False, rc_Data = data\<rparr> in
        (rec, st1\<lparr>records := gset rid rec (records st1)\<rparr>))"

definition setAll :: "goval gomap \<Rightarrow> goval gomap \<Rightarrow> goval gomap" where
  "setAll data m = fold (\<lambda>(k, v). gset k v) data m"

definition sim_Update :: "int \<Rightarrow> string \<Rightarrow> goval gomap \<Rightarrow> MemStore \<Rightarrow> Record option \<times> MemStore" where
  "sim_Update t rid data st =
     (case map_of (records st) rid of
        None \<Rightarrow> (None, st)
      | Some rec \<Rightarrow>
          let rec' = rec\<lparr>rc_Data := setAll data (rc_Data rec), rc_Version := i64 (rc_Version rec + 1), rc_UpdatedAt := t\<rparr> in
          (Some rec', st\<lparr>records := gset rid rec' (records st)\<rparr>))"

definition SoftDelete :: "int \<Rightarrow> string \<Rightarrow> MemStore \<Rightarrow> Record option \<times> MemStore" where
  "SoftDelete t rid st =
     (case map_of (records st) rid of
        None \<Rightarrow> (None, st)
      | Some rec \<Rightarrow>
          let rec' = rec\<lparr>rc_Deleted := True, rc_Version := i64 (rc_Version rec + 1), rc_UpdatedAt := t,
                rc_Data := gset ''deleted'' (GBool True) (rc_Data rec)\<rparr> in
          (Some rec', st\<lparr>records := gset rid rec' (records st)\<rparr>))"

definition sim_Count :: "MemStore \<Rightarrow> int" where
  "sim_Count st = int (length (records st))"

definition sortedIDs :: "MemStore \<Rightarrow> string list" where
  "sortedIDs st = sort (map fst (records st))"

definition sim_All :: "MemStore \<Rightarrow> Record list" where
  "sim_All st = List.map_filter (map_of (records st)) (sortedIDs st)"

section \<open>Listing\<close>

text \<open>Where a page begins: after the cursor, or at the start when there is none or it is unknown.\<close>

definition afterCursor :: "string \<Rightarrow> string list \<Rightarrow> string list" where
  "afterCursor cursor ids =
     (if cursor = [] then ids
      else case dropWhile (\<lambda>i. i \<noteq> cursor) ids of [] \<Rightarrow> ids | _ # rest \<Rightarrow> rest)"

definition listLimit :: "int \<Rightarrow> int" where
  "listLimit limit = (if limit \<le> 0 \<or> limit > 1000 then 100 else limit)"

text \<open>The loop over the identifiers; every one of them is a key of \<open>recs\<close>.\<close>

fun listLoop :: "Record gomap \<Rightarrow> int \<Rightarrow> int option \<Rightarrow> string list \<Rightarrow> Record list \<Rightarrow> Record list \<times> string" where
  "listLoop recs limit since [] out = (out, [])"
| "listLoop recs limit since (rid # rest) out =
     (case map_of recs rid of
        None \<Rightarrow> listLoop recs limit since rest out
      | Some rec \<Rightarrow>
          if (case since of Some t \<Rightarrow> rc_UpdatedAt rec < t | None \<Rightarrow> False) then listLoop recs limit since rest out
          else if int (length out) + 1 \<ge> limit then (out @ [rec], rid)
          else listLoop recs limit since rest (out @ [rec]))"

definition sim_List :: "string \<Rightarrow> int \<Rightarrow> int option \<Rightarrow> MemStore \<Rightarrow> Record list \<times> string \<times> bool" where
  "sim_List cursor limit since st =
     (case listLoop (records st) (listLimit limit) since (afterCursor cursor (sortedIDs st)) [] of
        (out, nxt) \<Rightarrow> (out, nxt, nxt \<noteq> []))"

section \<open>Identifiers\<close>

lemma itoaLoop_digits: "0 < n \<Longrightarrow> itoaLoop n acc = digits10 (nat n) @ acc"
proof (induction n acc rule: itoaLoop.induct)
  case (1 n acc)
  show ?case
  proof (cases "n < 10")
    case True
    then show ?thesis
      using 1(2) by (simp add: itoaLoop.simps [of n] itoaLoop.simps [of 0] digits10.simps [of "nat n"])
  next
    case False
    then have "itoaLoop n acc = digits10 (nat (n div 10)) @ char_of (48 + nat (n mod 10)) # acc"
      using 1 by (simp add: itoaLoop.simps [of n])
    with False show ?thesis
      by (simp add: digits10.simps [of "nat n"] nat_div_distrib nat_mod_distrib)
  qed
qed

lemma sim_itoa_Itoa:
  assumes "- (2 ^ 63) < n" "n < 2 ^ 63"
  shows "sim_itoa n = Itoa n"
proof -
  have "in64 (- n)"
    using assms by (simp add: in64_def)
  moreover have "CHR ''0'' = char_of (48 :: nat)"
    by code_simp
  ultimately show ?thesis
    by (auto simp: sim_itoa_def Itoa_def itoaLoop_digits digits10.simps [of 0])
qed

lemma undigits10_zeros: "undigits10 0 (replicate k (CHR ''0'') @ s) = undigits10 0 s"
  by (induction k) (simp_all add: undigits10_append)

lemma undigits10_pad: "0 \<le> n \<Longrightarrow> n < 2 ^ 63 \<Longrightarrow> undigits10 0 (sim_pad n) = nat n"
  by (simp add: sim_pad_def Let_def sim_itoa_Itoa Itoa_def undigits10_zeros)

lemma length_pad: "6 \<le> length (sim_pad n)"
  by (simp add: sim_pad_def Let_def)

lemma idFormat_inject:
  assumes "0 \<le> m" "m < 2 ^ 63" "0 \<le> n" "n < 2 ^ 63" "idFormat p m = idFormat p n"
  shows "m = n"
  using undigits10_pad [OF assms(1,2)] undigits10_pad [OF assms(3,4)] assms by (simp add: idFormat_def)

lemma idFormat_nonempty [simp]: "idFormat p n \<noteq> []"
  using length_pad [of n] by (auto simp: idFormat_def)

section \<open>The store stays in order\<close>

definition storeOk :: "string \<Rightarrow> MemStore \<Rightarrow> bool" where
  "storeOk p st \<longleftrightarrow> gok (records st) \<and> 0 \<le> nextID st \<and> nextID st < 2 ^ 63 \<and>
     (\<forall>rid rec. map_of (records st) rid = Some rec \<longrightarrow>
        rc_ID rec = rid \<and> (\<exists>k. 1 \<le> k \<and> k \<le> nextID st \<and> rid = idFormat p k))"

lemma storeOk_New: "storeOk p NewStore"
  by (simp add: storeOk_def NewStore_def gok_def)

lemma storeOk_ID: "storeOk p st \<Longrightarrow> map_of (records st) rid = Some rec \<Longrightarrow> rc_ID rec = rid"
  by (simp add: storeOk_def)

lemma storeOk_put:
  assumes "storeOk p st" "map_of (records st) rid \<noteq> None" "rc_ID rec = rid"
  shows "storeOk p (st\<lparr>records := gset rid rec (records st)\<rparr>)"
  using assms by (auto simp: storeOk_def)

text \<open>A generated identifier is new.\<close>

lemma genID_fresh:
  assumes "storeOk p st" "nextID st < 2 ^ 63 - 1"
  shows "genID p st = (idFormat p (nextID st + 1), st\<lparr>nextID := nextID st + 1\<rparr>)"
    and "map_of (records st) (idFormat p (nextID st + 1)) = None"
proof -
  have "in64 (nextID st + 1)"
    using assms by (auto simp: in64_def storeOk_def)
  then show "genID p st = (idFormat p (nextID st + 1), st\<lparr>nextID := nextID st + 1\<rparr>)"
    by (simp add: genID_def Let_def)
  show "map_of (records st) (idFormat p (nextID st + 1)) = None"
  proof (rule ccontr)
    assume "map_of (records st) (idFormat p (nextID st + 1)) \<noteq> None"
    then obtain k where "1 \<le> k" "k \<le> nextID st" "idFormat p (nextID st + 1) = idFormat p k"
      using assms(1) by (fastforce simp: storeOk_def)
    then show False
      using idFormat_inject [of "nextID st + 1" k p] assms by (simp add: storeOk_def)
  qed
qed

lemma storeOk_add:
  assumes "storeOk p st" "nextID st < 2 ^ 63 - 1" "rc_ID rec = idFormat p (nextID st + 1)"
  shows "storeOk p (st\<lparr>nextID := nextID st + 1, records := gset (idFormat p (nextID st + 1)) rec (records st)\<rparr>)"
proof -
  have "\<exists>k. 1 \<le> k \<and> k \<le> nextID st + 1 \<and> rid = idFormat p k" if known: "map_of (records st) rid = Some x" for rid x
  proof -
    obtain k where "1 \<le> k" "k \<le> nextID st" "rid = idFormat p k"
      using assms(1) known by (auto simp: storeOk_def)
    then show ?thesis
      by (intro exI [of _ k]) simp
  qed
  moreover have "\<exists>k. 1 \<le> k \<and> k \<le> nextID st + 1 \<and> idFormat p (nextID st + 1) = idFormat p k"
    using assms(1) by (intro exI [of _ "nextID st + 1"]) (simp add: storeOk_def)
  ultimately show ?thesis
    using assms by (auto simp: storeOk_def)
qed

lemma sim_Insert_fresh:
  assumes "storeOk p st" "nextID st < 2 ^ 63 - 1" "sim_Insert p t data st = (rec, st')"
  shows "storeOk p st'" "rc_ID rec = idFormat p (nextID st + 1)" "rc_Version rec = 1" "rc_Deleted rec = False"
    "rc_Data rec = data" "rc_UpdatedAt rec = t"
    "map_of (records st) (rc_ID rec) = None" "map_of (records st') = (map_of (records st))(rc_ID rec \<mapsto> rec)"
    "nextID st' = nextID st + 1"
  using assms genID_fresh [OF assms(1,2)] by (auto simp: sim_Insert_def Let_def intro!: storeOk_add)

lemma storeOk_Update: "storeOk p st \<Longrightarrow> sim_Update t rid data st = (r, st') \<Longrightarrow> storeOk p st'"
  by (auto simp: sim_Update_def Let_def storeOk_ID split: option.splits intro!: storeOk_put)

lemma storeOk_SoftDelete: "storeOk p st \<Longrightarrow> SoftDelete t rid st = (r, st') \<Longrightarrow> storeOk p st'"
  by (auto simp: SoftDelete_def Let_def storeOk_ID split: option.splits intro!: storeOk_put)

lemma storeOk_seedFrom:
  "storeOk p st \<Longrightarrow> nextID st + int (length is) < 2 ^ 63 \<Longrightarrow> storeOk p (snd (seedFrom p t (Some f) is st)) \<and>
     nextID (snd (seedFrom p t (Some f) is st)) = nextID st + int (length is)"
proof (induction "is" arbitrary: st)
  case (Cons i "is")
  define st1 where "st1 = st\<lparr>nextID := nextID st + 1, records := gset (idFormat p (nextID st + 1))
    \<lparr>rc_ID = idFormat p (nextID st + 1), rc_Version = 1, rc_UpdatedAt = t, rc_Deleted = False,
     rc_Data = f (idFormat p (nextID st + 1)) i\<rparr> (records st)\<rparr>"
  have "storeOk p st1"
    unfolding st1_def using Cons.prems by (intro storeOk_add) simp_all
  moreover have "seedFrom p t (Some f) (i # is) st = seedFrom p t (Some f) is st1"
    using genID_fresh(1) [of p st] Cons.prems by (simp add: st1_def)
  moreover have "nextID st1 = nextID st + 1"
    by (simp add: st1_def)
  ultimately show ?case
    using Cons.IH [of st1] Cons.prems(2) by simp
qed simp

section \<open>Walking through the pages\<close>

lemma sorted_filter_after:
  fixes c :: "'a :: linorder"
  assumes "sorted xs" "distinct xs" "c \<in> set xs"
  shows "dropWhile (\<lambda>i. i \<noteq> c) xs = c # filter (\<lambda>i. c < i) xs"
  using assms
proof (induction xs)
  case (Cons x xs)
  show ?case
  proof (cases "x = c")
    case True
    then have "filter (\<lambda>i. c < i) xs = xs"
      using Cons.prems by (intro filter_True) (auto simp: order.order_iff_strict)
    with True show ?thesis by simp
  next
    case False
    then have "c \<in> set xs" "x < c"
      using Cons.prems by auto
    with False Cons show ?thesis by auto
  qed
qed simp

lemma sortedIDs_props: "gok (records st) \<Longrightarrow> sorted (sortedIDs st) \<and> distinct (sortedIDs st)"
  by (simp add: sortedIDs_def gok_def)

lemma set_sortedIDs: "set (sortedIDs st) = dom (map_of (records st))"
  by (simp add: sortedIDs_def dom_map_of_conv_image_fst)

lemma storeOk_nonempty:
  assumes "storeOk p st"
  shows "[] \<notin> set (sortedIDs st)"
proof
  assume "[] \<in> set (sortedIDs st)"
  then obtain rec where "map_of (records st) [] = Some rec"
    by (auto simp: set_sortedIDs)
  then obtain k where "[] = idFormat p k"
    using assms unfolding storeOk_def by blast
  then show False
    by (metis idFormat_nonempty)
qed

lemma Nil_less: "([] :: string) < i \<longleftrightarrow> i \<noteq> []"
  by (cases i) simp_all

lemma afterCursor_filter:
  assumes "gok (records st)" "cursor = [] \<or> cursor \<in> set (sortedIDs st)" "[] \<notin> set (sortedIDs st)"
  shows "afterCursor cursor (sortedIDs st) = filter (\<lambda>i. cursor < i) (sortedIDs st)"
proof (cases "cursor = []")
  case True
  have "[] < i" if "i \<in> set (sortedIDs st)" for i
    using that assms(3) Nil_less by blast
  with True show ?thesis
    by (simp add: afterCursor_def)
next
  case False
  with assms show ?thesis
    using sorted_filter_after [of "sortedIDs st" cursor] sortedIDs_props by (simp add: afterCursor_def)
qed

text \<open>Without a time filter a page is the beginning of what lies after the cursor.\<close>

lemma listLoop_take:
  assumes "set ids \<subseteq> dom (map_of recs)" "int (length out) < limit"
  shows "listLoop recs limit None ids out =
    (let n = nat (limit - int (length out)); page = take n ids in
     (out @ map (\<lambda>i. the (map_of recs i)) page, if n \<le> length ids then last page else []))"
  using assms
proof (induction ids arbitrary: out)
  case (Cons rid rest)
  obtain rec where rec: "map_of recs rid = Some rec"
    using Cons.prems(1) by auto
  define n where "n = nat (limit - int (length out) - 1)"
  have n: "nat (limit - int (length out)) = Suc n"
    using Cons.prems(2) by (simp add: n_def)
  show ?case
  proof (cases "int (length out) + 1 \<ge> limit")
    case True
    then have "n = 0" by (simp add: n_def)
    with True rec n show ?thesis by simp
  next
    case False
    have "nat (limit - int (length (out @ [rec]))) = n"
      by (simp add: n_def)
    moreover have "0 < n"
      using False by (simp add: n_def)
    ultimately show ?thesis
      using False rec n Cons.IH [of "out @ [rec]"] Cons.prems by (auto simp: Let_def)
  qed
qed simp

lemma listLimit_range: "1 \<le> listLimit limit \<and> listLimit limit \<le> 1000"
  by (simp add: listLimit_def)

lemma sim_List_page:
  assumes "storeOk p st" "cursor = [] \<or> cursor \<in> set (sortedIDs st)"
  shows "sim_List cursor limit None st =
    (let n = nat (listLimit limit); ids = filter (\<lambda>i. cursor < i) (sortedIDs st); page = take n ids in
     (map (\<lambda>i. the (map_of (records st) i)) page, if n \<le> length ids then last page else [], n \<le> length ids))"
proof -
  have good: "gok (records st)" and ne: "[] \<notin> set (sortedIDs st)"
    using assms(1) storeOk_nonempty by (simp_all add: storeOk_def)
  define n where "n = nat (listLimit limit)"
  define ids where "ids = filter (\<lambda>i. cursor < i) (sortedIDs st)"
  have n: "0 < n" "nat (listLimit limit - int 0) = n"
    using listLimit_range [of limit] by (simp_all add: n_def)
  have "set ids \<subseteq> dom (map_of (records st))"
    by (auto simp: ids_def set_sortedIDs)
  moreover have "afterCursor cursor (sortedIDs st) = ids"
    using afterCursor_filter [OF good assms(2) ne] by (simp add: ids_def)
  moreover have "last (take n ids) \<noteq> []" if "n \<le> length ids"
  proof -
    have "last (take n ids) \<in> set ids"
      using that n(1) by (metis last_in_set length_greater_0_conv min.absorb2 length_take in_set_takeD)
    then show ?thesis
      using ne by (auto simp: ids_def)
  qed
  ultimately show ?thesis
    using listLoop_take [of ids "records st" "[]" "listLimit limit"] listLimit_range [of limit] n
    by (auto simp: sim_List_def n_def [symmetric] ids_def [symmetric] Let_def)
qed

text \<open>
  A client walks through the listing; \<open>sts\<close> are the stores its successive requests meet. The
  second part of the result says whether the listing was exhausted.
\<close>

fun walkPages :: "int \<Rightarrow> string \<Rightarrow> MemStore list \<Rightarrow> string list \<times> bool" where
  "walkPages limit cursor [] = ([], False)"
| "walkPages limit cursor (st # sts) =
     (case sim_List cursor limit None st of (out, nxt, hasMore) \<Rightarrow>
        if hasMore then (case walkPages limit nxt sts of (ids, fin) \<Rightarrow> (map rc_ID out @ ids, fin))
        else (map rc_ID out, True))"

definition keepsIDs :: "MemStore \<Rightarrow> MemStore \<Rightarrow> bool" where
  "keepsIDs st st' \<longleftrightarrow> set (sortedIDs st) \<subseteq> set (sortedIDs st')"

lemma page_ids:
  "storeOk p st \<Longrightarrow> set ids \<subseteq> dom (map_of (records st)) \<Longrightarrow>
     map rc_ID (map (\<lambda>i. the (map_of (records st) i)) ids) = ids"
  by (induction ids) (auto simp: storeOk_def)

lemma last_take_split:
  fixes F :: "'a :: linorder list"
  assumes "sorted_wrt (<) F" "0 < n" "n \<le> length F"
  shows "last (take n F) \<in> set (take n F)" "i \<in> set (take n F) \<Longrightarrow> i \<le> last (take n F)"
    "i \<in> set F \<Longrightarrow> i \<le> last (take n F) \<Longrightarrow> i \<in> set (take n F)"
proof -
  have ne: "take n F \<noteq> []"
    using assms(2,3) by auto
  show l: "last (take n F) \<in> set (take n F)"
    using ne by (rule last_in_set)
  have F: "sorted_wrt (<) (take n F @ drop n F)"
    using assms(1) by simp
  show "i \<in> set (take n F) \<Longrightarrow> i \<le> last (take n F)"
  proof -
    assume "i \<in> set (take n F)"
    moreover have "sorted_wrt (<) (butlast (take n F) @ [last (take n F)])"
      using F ne by (simp add: sorted_wrt_append)
    ultimately show ?thesis
      using ne by (metis Un_iff append_butlast_last_id list.set_intros(1) order.refl order.strict_implies_order
          set_append set_ConsD sorted_wrt_append empty_iff list.set(1))
  qed
  show "i \<in> set F \<Longrightarrow> i \<le> last (take n F) \<Longrightarrow> i \<in> set (take n F)"
  proof -
    assume i: "i \<in> set F" "i \<le> last (take n F)"
    have "\<forall>x \<in> set (take n F). \<forall>y \<in> set (drop n F). x < y"
      using F unfolding sorted_wrt_append by blast
    then have "i \<notin> set (drop n F)"
      using l i(2) by (meson leD)
    moreover have "set F = set (take n F) \<union> set (drop n F)"
      by (metis append_take_drop_id set_append)
    ultimately show ?thesis
      using i(1) by blast
  qed
qed

lemma later_fewer:
  fixes c :: "'a :: linorder"
  assumes "d \<in> set xs" "c < d"
  shows "length (filter (\<lambda>i. d < i) xs) < length (filter (\<lambda>i. c < i) xs)"
proof -
  have "length (filter (\<lambda>i. d < i) xs) = length (filter (\<lambda>i. d < i) (filter (\<lambda>i. c < i) xs))"
    using assms(2) by (metis (mono_tags, lifting) filter_cong filter_filter order.strict_trans)
  also have "\<dots> < length (filter (\<lambda>i. c < i) xs)"
    by (rule length_filter_less [of d]) (use assms in auto)
  finally show ?thesis .
qed

definition walked :: "string \<Rightarrow> MemStore list \<Rightarrow> string list \<times> bool \<Rightarrow> bool" where
  "walked cursor sts r \<longleftrightarrow> snd r \<and> sorted_wrt (<) (fst r) \<and> (\<forall>i \<in> set (fst r). cursor < i) \<and>
     {i \<in> set (sortedIDs (hd sts)). cursor < i} \<subseteq> set (fst r) \<and> set (fst r) \<subseteq> set (sortedIDs (last sts))"

lemma walkPages_walked:
  assumes "\<forall>st \<in> set sts. storeOk p st" "sorted_wrt keepsIDs sts" "cursor = [] \<or> cursor \<in> set (sortedIDs (hd sts))"
    and "length (filter (\<lambda>i. cursor < i) (sortedIDs (last sts))) < length sts"
  shows "walked cursor sts (walkPages limit cursor sts)"
  using assms
proof (induction sts arbitrary: cursor)
  case (Cons st sts)
  define n where "n = nat (listLimit limit)"
  define F where "F = filter (\<lambda>i. cursor < i) (sortedIDs st)"
  have ok: "storeOk p st" and n: "0 < n"
    using Cons.prems(1) listLimit_range [of limit] by (simp_all add: n_def)
  have F: "sorted_wrt (<) F" "set F = {i \<in> set (sortedIDs st). cursor < i}"
    using ok sortedIDs_props [of st] by (auto simp: F_def storeOk_def strict_sorted_iff sorted_wrt_filter)
  have page: "sim_List cursor limit None st =
      (map (\<lambda>i. the (map_of (records st) i)) (take n F), if n \<le> length F then last (take n F) else [], n \<le> length F)"
    using sim_List_page [OF ok, of cursor limit] Cons.prems(3) by (simp add: n_def F_def Let_def)
  have ids: "map rc_ID (map (\<lambda>i. the (map_of (records st) i)) (take n F)) = take n F"
    by (rule page_ids [OF ok]) (auto simp: F(2) set_sortedIDs dest!: in_set_takeD)
  have up: "set (sortedIDs st) \<subseteq> set (sortedIDs (last (st # sts)))"
    using Cons.prems(2) by (auto simp: keepsIDs_def)
  show ?case
  proof (cases "n \<le> length F")
    case False
    then have "walkPages limit cursor (st # sts) = (F, True)"
      using ids by (simp add: page)
    then show ?thesis
      using F up by (auto simp: walked_def)
  next
    case True
    define c where "c = last (take n F)"
    note split = last_take_split [OF F(1) n True, folded c_def]
    have c: "c \<in> set (sortedIDs st)" "cursor < c"
      using split(1) F(2) by (auto dest!: in_set_takeD)
    have fewer: "length (filter (\<lambda>i. c < i) (sortedIDs (last (st # sts)))) < length (filter (\<lambda>i. cursor < i) (sortedIDs (last (st # sts))))"
      using later_fewer [OF _ c(2)] up c(1) by blast
    then have ne: "sts \<noteq> []"
      using Cons.prems(4) by auto
    then have later: "set (sortedIDs st) \<subseteq> set (sortedIDs (hd sts))"
      using Cons.prems(2) by (cases sts) (auto simp: keepsIDs_def)
    have "length (filter (\<lambda>i. c < i) (sortedIDs (last sts))) < length sts"
      using fewer ne Cons.prems(4) by simp
    then have IH: "walked c sts (walkPages limit c sts)"
      using Cons.IH [of c] Cons.prems(1,2) c(1) later by auto
    obtain rest fin where rest: "walkPages limit c sts = (rest, fin)"
      by (rule prod.exhaust)
    have run: "walkPages limit cursor (st # sts) = (take n F @ rest, fin)"
      using True ids by (simp add: page rest c_def [symmetric])
    have below: "i < j" if "i \<in> set (take n F)" "j \<in> set rest" for i j
      using split(2) [OF that(1)] IH that(2) by (auto simp: walked_def rest)
    have "i \<in> set (take n F) \<union> set rest" if "i \<in> set F" for i
    proof (cases "i \<le> c")
      case False
      then show ?thesis
        using that F(2) later IH by (auto simp: walked_def rest)
    qed (use split(3) [OF that] in simp)
    moreover have "sorted_wrt (<) (take n F @ rest)"
      using F(1) IH below by (auto simp: sorted_wrt_append sorted_wrt_take walked_def rest)
    moreover have "set (take n F) \<subseteq> set F"
      by (rule set_take_subset)
    ultimately show ?thesis
      using IH F(2) up ne c(2) unfolding run walked_def rest by auto
  qed
qed simp

text \<open>C38: Walking through the listing of a simulated provider is complete. A client that follows the cursors
  while records are added and changed in between ends after at most as many requests as there
  are records in the end, plus one, and has then seen every record that was there when it began exactly once,
  in the order of the identifiers, and no identifier that is not in the store.\<close>

theorem sim_listing_complete:
  assumes "\<forall>st \<in> set sts. storeOk p st" "sorted_wrt keepsIDs sts" "length (sortedIDs (last sts)) < length sts"
  shows "case walkPages limit [] sts of (ids, fin) \<Rightarrow>
    fin \<and> sorted_wrt (<) ids \<and> set (sortedIDs (hd sts)) \<subseteq> set ids \<and> set ids \<subseteq> set (sortedIDs (last sts))"
proof -
  have ne: "sts \<noteq> []"
    using assms(3) by auto
  have "[] < i" if "i \<in> set (sortedIDs (hd sts))" for i
  proof -
    have "storeOk p (hd sts)"
      using assms(1) ne by simp
    then have "i \<noteq> []"
      using that storeOk_nonempty by blast
    then show ?thesis
      by (simp add: Nil_less)
  qed
  moreover have "length (filter (\<lambda>i. [] < i) (sortedIDs (last sts))) < length sts"
    using assms(3) length_filter_le [of "\<lambda>i. [] < i" "sortedIDs (last sts)"] by linarith
  ultimately show ?thesis
    using walkPages_walked [OF assms(1,2), of "[]" limit] by (auto simp: walked_def)
qed

definition demoStore :: "string list \<Rightarrow> MemStore" where
  "demoStore ids = \<lparr>records = map (\<lambda>i. (i, \<lparr>rc_ID = i, rc_Version = 1, rc_UpdatedAt = 0, rc_Deleted = False, rc_Data = []\<rparr>)) ids,
     nextID = 2\<rparr>"

lemma demo_id: "idFormat ''sf-'' 1 = ''sf-000001''" "idFormat ''sf-'' 2 = ''sf-000002''"
  by code_simp+

lemma demoStore_ok:
  assumes "distinct ids" "set ids \<subseteq> {''sf-000001'', ''sf-000002''}"
  shows "storeOk ''sf-'' (demoStore ids)"
proof -
  have "map_of (records (demoStore ids)) rid = Some rec \<Longrightarrow> rc_ID rec = rid \<and> rid \<in> set ids" for rid rec
    by (auto simp: demoStore_def dest!: map_of_SomeD)
  note known = this
  have formed: "\<exists>k \<ge> 1. k \<le> 2 \<and> rid = idFormat ''sf-'' k" if mem: "rid \<in> set ids" for rid
  proof -
    consider "rid = idFormat ''sf-'' 1" | "rid = idFormat ''sf-'' 2"
      using mem assms(2) demo_id by auto
    then show ?thesis
      by cases (rule exI [of _ 1], simp, rule exI [of _ 2], simp)
  qed
  show ?thesis
    unfolding storeOk_def
  proof (intro conjI allI impI)
    show "gok (records (demoStore ids))"
      using assms(1) by (simp add: gok_def demoStore_def comp_def)
    show "rc_ID rec = rid" "\<exists>k \<ge> 1. k \<le> nextID (demoStore ids) \<and> rid = idFormat ''sf-'' k"
      if "map_of (records (demoStore ids)) rid = Some rec" for rid rec
      using known [OF that] formed [of rid] by (simp_all add: demoStore_def)
  qed (simp_all add: demoStore_def)
qed

lemma demoStore_ids: "sortedIDs (demoStore [''sf-000001'']) = [''sf-000001'']"
    "sortedIDs (demoStore [''sf-000002'', ''sf-000001'']) = [''sf-000001'', ''sf-000002'']"
  by (simp_all add: sortedIDs_def demoStore_def less_char_def)

theorem sim_listing_complete_witness:
  "case walkPages 1 [] [demoStore [''sf-000001''], demoStore [''sf-000002'', ''sf-000001''], demoStore [''sf-000002'', ''sf-000001'']] of
     (ids, fin) \<Rightarrow> fin \<and> sorted_wrt (<) ids \<and> {''sf-000001''} \<subseteq> set ids \<and> set ids \<subseteq> {''sf-000001'', ''sf-000002''}"
proof -
  let ?d = "demoStore [''sf-000002'', ''sf-000001'']"
  let ?sts = "[demoStore [''sf-000001''], ?d, ?d]"
  have "sorted_wrt keepsIDs ?sts" "\<forall>st \<in> set ?sts. storeOk ''sf-'' st"
    using demoStore_ok by (simp_all add: keepsIDs_def demoStore_ids)
  then show ?thesis
    using sim_listing_complete [of ?sts "''sf-''" 1] by (simp add: demoStore_ids del: walkPages.simps)
qed

end
