(* ===== verification/RateLimit.thy ===== *)
theory RateLimit
imports Connectors
begin

text \<open>
  Token buckets: the limiter with which a connector paces its requests
  (\<open>internal/connectors/ratelimit.go\<close>) and the one with which a simulated provider refuses them
  (\<open>internal/simulator/rate.go\<close>). Tokens and rates are \<open>float64\<close> in the code and rationals here;
  times and durations are nanoseconds, and the clock is an argument of every operation that reads
  it. The locale \<open>token_bucket\<close> is the contract of both: how many requests any schedule can get
  through, and that a refused request succeeds after the wait it was told.
\<close>

definition Seconds :: "int \<Rightarrow> rat" where
  "Seconds d = of_int d / 1000000000"

lemma Seconds_nonneg [simp]: "0 \<le> Seconds d \<longleftrightarrow> 0 \<le> d"
  by (simp add: Seconds_def zero_le_divide_iff)

lemma Seconds_pos [simp]: "0 < Seconds d \<longleftrightarrow> 0 < d"
  by (simp add: Seconds_def zero_less_divide_iff)

lemma Seconds_zero [simp]: "Seconds 0 = 0"
  by (simp add: Seconds_def)

section \<open>The limiter of a connector\<close>

record Limiter =
  li_rate :: rat
  li_capacity :: rat
  li_tokens :: rat
  li_last :: int

definition NewLimiter :: "int \<Rightarrow> int \<Rightarrow> Limiter" where
  "NewLimiter perMinute n = \<lparr>li_rate = of_int perMinute / 60, li_capacity = of_int perMinute,
     li_tokens = of_int perMinute, li_last = n\<rparr>"

definition li_take :: "Limiter \<Rightarrow> rat \<Rightarrow> int \<Rightarrow> (bool \<times> int) \<times> Limiter" where
  "li_take l n t =
     (let l1 = l\<lparr>li_tokens := min (li_capacity l) (li_tokens l + Seconds (t - li_last l) * li_rate l), li_last := t\<rparr> in
      if li_tokens l1 \<ge> n then ((True, 0), l1\<lparr>li_tokens := li_tokens l1 - n\<rparr>)
      else ((False, truncate64 ((n - li_tokens l1) / li_rate l * 1000000000)), l1))"

text \<open>
  \<open>Wait\<close>: \<open>wakes\<close> is what the \<open>select\<close> sees, the time at which the timer fires or the cancellation
  of the context (\<open>None\<close>). A call whose schedule ends while it still waits has not returned.
\<close>

fun waitLoop :: "Limiter \<Rightarrow> int \<Rightarrow> int option list \<Rightarrow> (goerr + unit) option \<times> Limiter" where
  "waitLoop l t wakes =
     (case li_take l 1 t of
        ((True, _), l1) \<Rightarrow> (Some (Inr ()), l1)
      | ((False, _), l1) \<Rightarrow>
          (case wakes of
             [] \<Rightarrow> (None, l1)
           | None # _ \<Rightarrow> (Some (Inl (PlainErr ''context canceled'')), l1)
           | Some t' # ws \<Rightarrow> waitLoop l1 t' ws))"

declare waitLoop.simps [simp del]

definition li_Wait :: "Limiter option \<Rightarrow> int \<Rightarrow> int option list \<Rightarrow> (goerr + unit) option \<times> Limiter option" where
  "li_Wait lm t wakes =
     (case lm of
        None \<Rightarrow> (Some (Inr ()), None)
      | Some l \<Rightarrow> if li_rate l \<le> 0 then (Some (Inr ()), Some l)
                  else (case waitLoop l t wakes of (r, l') \<Rightarrow> (r, Some l')))"

section \<open>The limiter of a simulated provider\<close>

record RateLimiter =
  capacity :: rat
  tokens :: rat
  refillPer :: rat
  last_time :: int

definition NewRateLimiter :: "int \<Rightarrow> int \<Rightarrow> RateLimiter" where
  "NewRateLimiter perMinute n = \<lparr>capacity = of_int perMinute, tokens = of_int perMinute,
     refillPer = of_int perMinute / 60, last_time = n\<rparr>"

definition Allow_request :: "RateLimiter \<Rightarrow> int \<Rightarrow> (bool \<times> int) \<times> RateLimiter" where
  "Allow_request r t =
     (let elapsed = Seconds (t - last_time r);
          r1 = (if elapsed > 0 then
                  (let x = tokens r + elapsed * refillPer r in
                   r\<lparr>tokens := (if x > capacity r then capacity r else x), last_time := t\<rparr>)
                else r)
      in if tokens r1 \<ge> 1 then ((True, 0), r1\<lparr>tokens := tokens r1 - 1\<rparr>)
         else ((False, truncate64 ((1 - tokens r1) / refillPer r1 * 1000000000)), r1))"

definition SetCapacity :: "RateLimiter \<Rightarrow> int \<Rightarrow> RateLimiter" where
  "SetCapacity r perMinute =
     (if perMinute > 0 then
        (let r1 = r\<lparr>capacity := of_int perMinute, refillPer := of_int perMinute / 60\<rparr> in
         if tokens r1 > capacity r1 then r1\<lparr>tokens := capacity r1\<rparr> else r1)
      else r)"

section \<open>The contract\<close>

text \<open>How many of the requests that come in at the given times are granted.\<close>

primrec grants :: "('b \<Rightarrow> int \<Rightarrow> (bool \<times> int) \<times> 'b) \<Rightarrow> 'b \<Rightarrow> int list \<Rightarrow> nat" where
  "grants tk b [] = 0"
| "grants tk b (t # ts) = (case tk b t of ((g, w), b') \<Rightarrow> (if g then 1 else 0) + grants tk b' ts)"

locale token_bucket =
  fixes tk :: "'b \<Rightarrow> int \<Rightarrow> (bool \<times> int) \<times> 'b"
    and good :: "'b \<Rightarrow> bool"
    and rate level cap :: "'b \<Rightarrow> rat"
    and clock :: "'b \<Rightarrow> int"
  assumes tk_keeps: "good b \<Longrightarrow> clock b \<le> t \<Longrightarrow> tk b t = ((g, w), b') \<Longrightarrow>
      good b' \<and> clock b' = t \<and> rate b' = rate b \<and> cap b' = cap b"
    and tk_pays: "good b \<Longrightarrow> clock b \<le> t \<Longrightarrow> tk b t = ((g, w), b') \<Longrightarrow>
      level b' + (if g then 1 else 0) \<le> level b + Seconds (t - clock b) * rate b"
    and tk_wait: "good b \<Longrightarrow> clock b \<le> t \<Longrightarrow> tk b t = ((False, w), b') \<Longrightarrow>
      0 \<le> w \<and> w \<le> 60000000000 \<and> (t + w < t' \<longrightarrow> fst (fst (tk b' t')))"
    and level_range: "good b \<Longrightarrow> 0 \<le> level b \<and> level b \<le> cap b"
begin

lemma grants_level:
  "good b \<Longrightarrow> sorted (clock b # ts) \<Longrightarrow>
     of_nat (grants tk b ts) \<le> level b + Seconds (last (clock b # ts) - clock b) * rate b"
proof (induction ts arbitrary: b)
  case Nil
  then show ?case
    using level_range by (simp add: Seconds_def)
next
  case (Cons t ts)
  obtain g w b' where step: "tk b t = ((g, w), b')"
    by (metis prod.exhaust)
  have le: "clock b \<le> t"
    using Cons.prems(2) by simp
  note keeps = tk_keeps [OF Cons.prems(1) le step]
  have "of_nat (grants tk b' ts) \<le> level b' + Seconds (last (t # ts) - t) * rate b"
    using Cons.IH [of b'] keeps Cons.prems(2) by simp
  moreover have "Seconds (last (t # ts) - t) * rate b + Seconds (t - clock b) * rate b = Seconds (last (t # ts) - clock b) * rate b"
    by (simp add: Seconds_def field_simps)
  moreover have "of_nat (grants tk b (t # ts)) = (if g then 1 else 0) + (of_nat (grants tk b' ts) :: rat)"
    by (simp add: step)
  moreover have "last (clock b # t # ts) = last (t # ts)"
    by simp
  ultimately show ?case
    using tk_pays [OF Cons.prems(1) le step] by (simp del: last.simps)
qed

lemma grants_bound:
  assumes "good b" "sorted (clock b # ts)"
  shows "of_nat (grants tk b ts) \<le> cap b + Seconds (last (clock b # ts) - clock b) * rate b"
  using grants_level [OF assms] level_range [OF assms(1)] by linarith

end

section \<open>Both limiters meet it\<close>

lemma truncate64_floor: "0 \<le> r \<Longrightarrow> r < 2 ^ 63 \<Longrightarrow> truncate64 r = \<lfloor>r\<rfloor>"
proof -
  assume "0 \<le> r" "r < 2 ^ 63"
  then have "0 \<le> \<lfloor>r\<rfloor>" "\<lfloor>r\<rfloor> < 2 ^ 63"
    by (simp_all add: floor_less_iff)
  then have "in64 \<lfloor>r\<rfloor>"
    by (simp add: in64_def)
  with \<open>0 \<le> r\<close> show ?thesis
    by (simp add: truncate64_def)
qed

text \<open>The wait of a refused request is enough, whatever was cut off its fraction of a nanosecond.\<close>

lemma wait_enough:
  fixes x c :: rat
  assumes "0 \<le> x" "x < 1" "1 \<le> c"
  defines "w \<equiv> truncate64 ((1 - x) / (c / 60) * 1000000000)"
  shows "0 \<le> w" "w \<le> 60000000000" "w < d \<Longrightarrow> 1 \<le> x + Seconds d * (c / 60)"
proof -
  define r where "r = (1 - x) / (c / 60) * 1000000000"
  have "60 / c \<le> 60"
    using assms(3) by (simp add: field_simps)
  moreover have "0 \<le> 60 / c"
    using assms(3) by simp
  ultimately have "(1 - x) * (60 / c) \<le> 1 * 60"
    using assms(1,2) by (intro mult_mono) simp_all
  then have r: "0 \<le> r" "r \<le> 60000000000"
    using assms by (simp_all add: r_def field_simps)
  then have w: "w = \<lfloor>r\<rfloor>"
    unfolding w_def r_def [symmetric] by (intro truncate64_floor) simp_all
  show "0 \<le> w" "w \<le> 60000000000"
    using r by (simp_all add: w floor_le_iff)
  assume "w < d"
  then have "r < of_int d"
    by (simp add: w floor_less_iff)
  then have "r * (c / 60) / 1000000000 < Seconds d * (c / 60)"
    using assms(3) by (simp add: Seconds_def field_simps)
  moreover have "r * (c / 60) / 1000000000 = 1 - x"
    using assms(3) by (simp add: r_def field_simps)
  ultimately show "1 \<le> x + Seconds d * (c / 60)"
    by linarith
qed

definition limiterOk :: "Limiter \<Rightarrow> bool" where
  "limiterOk l \<longleftrightarrow> 1 \<le> li_capacity l \<and> li_rate l = li_capacity l / 60 \<and> 0 \<le> li_tokens l \<and> li_tokens l \<le> li_capacity l"

definition rateLimiterOk :: "RateLimiter \<Rightarrow> bool" where
  "rateLimiterOk r \<longleftrightarrow> 1 \<le> capacity r \<and> refillPer r = capacity r / 60 \<and> 0 \<le> tokens r \<and> tokens r \<le> capacity r"

text \<open>Once the clock has moved on, the provider's limiter computes what the connector's does.\<close>

definition limiterOf :: "RateLimiter \<Rightarrow> Limiter" where
  "limiterOf r = \<lparr>li_rate = refillPer r, li_capacity = capacity r, li_tokens = tokens r, li_last = last_time r\<rparr>"

lemma Allow_is_take:
  assumes "rateLimiterOk r" "last_time r \<le> t" "Allow_request r t = (a, r')"
  shows "li_take (limiterOf r) 1 t = (a, limiterOf r')"
proof (cases "last_time r = t")
  case True
  then show ?thesis
    using assms by (auto simp: Allow_request_def li_take_def limiterOf_def rateLimiterOk_def Let_def min_def split: if_splits)
next
  case False
  then have "last_time r < t"
    using assms(2) by simp
  then show ?thesis
    using assms(3) by (auto simp: Allow_request_def li_take_def limiterOf_def Let_def min_def not_le split: if_splits)
qed

lemma limiterOk_of [simp]: "limiterOk (limiterOf r) \<longleftrightarrow> rateLimiterOk r"
  by (simp add: limiterOk_def rateLimiterOk_def limiterOf_def)

interpretation pace: token_bucket "\<lambda>l. li_take l 1" limiterOk li_rate li_tokens li_capacity li_last
proof
  show "0 \<le> li_tokens l \<and> li_tokens l \<le> li_capacity l" if "limiterOk l" for l
    using that by (simp add: limiterOk_def)
next
  fix l l' :: Limiter and t w t' :: int and g
  assume good: "limiterOk l" and le: "li_last l \<le> t"
  define x where "x = min (li_capacity l) (li_tokens l + Seconds (t - li_last l) * li_rate l)"
  have gain: "0 \<le> Seconds (t - li_last l) * li_rate l"
    using good le by (auto simp: limiterOk_def intro!: mult_nonneg_nonneg)
  then have x: "0 \<le> x" "x \<le> li_capacity l" "x \<le> li_tokens l + Seconds (t - li_last l) * li_rate l"
    using good by (simp_all add: x_def limiterOk_def)
  { assume step: "li_take l 1 t = ((g, w), l')"
    show "limiterOk l' \<and> li_last l' = t \<and> li_rate l' = li_rate l \<and> li_capacity l' = li_capacity l"
      using good step x(1,2) by (auto simp: li_take_def limiterOk_def Let_def x_def [symmetric] split: if_splits)
    show "li_tokens l' + (if g then 1 else 0) \<le> li_tokens l + Seconds (t - li_last l) * li_rate l"
      using step x(3) by (auto simp: li_take_def Let_def x_def [symmetric] split: if_splits) }
  { assume step: "li_take l 1 t = ((False, w), l')"
    have cap: "1 \<le> li_capacity l" and rate: "li_rate l = li_capacity l / 60"
      using good by (simp_all add: limiterOk_def)
    have *: "x < 1" "w = truncate64 ((1 - x) / li_rate l * 1000000000)"
      and l': "li_tokens l' = x" "li_last l' = t" "li_capacity l' = li_capacity l" "li_rate l' = li_rate l"
      using step by (auto simp: li_take_def Let_def x_def [symmetric] split: if_splits)
    have "0 \<le> w" "w \<le> 60000000000" "w < d \<Longrightarrow> 1 \<le> x + Seconds d * li_rate l" for d
      using wait_enough [OF x(1) *(1) cap, folded rate, folded *(2)] by simp_all
    from this(1,2) this(3) [of "t' - t"] show "0 \<le> w \<and> w \<le> 60000000000 \<and> (t + w < t' \<longrightarrow> fst (fst (li_take l' 1 t')))"
      using cap by (simp add: li_take_def Let_def l') }
qed

interpretation provider: token_bucket Allow_request rateLimiterOk refillPer tokens capacity last_time
proof
  show "0 \<le> tokens r \<and> tokens r \<le> capacity r" if "rateLimiterOk r" for r
    using that by (simp add: rateLimiterOk_def)
next
  fix r r' :: RateLimiter and t w t' :: int and g
  assume good: "rateLimiterOk r" and le: "last_time r \<le> t"
  have good': "limiterOk (limiterOf r)" "li_last (limiterOf r) \<le> t"
    using good le by (simp_all add: limiterOf_def limiterOk_def rateLimiterOk_def)
  { assume step: "Allow_request r t = ((g, w), r')"
    note tk = Allow_is_take [OF good le step]
    show keeps: "rateLimiterOk r' \<and> last_time r' = t \<and> refillPer r' = refillPer r \<and> capacity r' = capacity r"
      using pace.tk_keeps [OF good' tk] by (simp add: limiterOf_def limiterOk_def rateLimiterOk_def)
    show "tokens r' + (if g then 1 else 0) \<le> tokens r + Seconds (t - last_time r) * refillPer r"
      using pace.tk_pays [OF good' tk] by (simp add: limiterOf_def) }
  { assume step: "Allow_request r t = ((False, w), r')"
    note tk = Allow_is_take [OF good le step]
    have next_ok: "rateLimiterOk r'" "last_time r' = t"
      using pace.tk_keeps [OF good' tk] by (simp_all add: limiterOf_def limiterOk_def rateLimiterOk_def)
    have wait: "0 \<le> w" "w \<le> 60000000000" "t + w < t' \<Longrightarrow> fst (fst (li_take (limiterOf r') 1 t'))"
      using pace.tk_wait [OF good' tk] by auto
    have "fst (fst (Allow_request r' t'))" if "t + w < t'"
    proof -
      obtain a r2 where step2: "Allow_request r' t' = (a, r2)"
        by (rule prod.exhaust)
      then have "li_take (limiterOf r') 1 t' = (a, limiterOf r2)"
        using Allow_is_take [OF next_ok(1) _ step2] next_ok(2) that wait(1) by simp
      then show ?thesis
        using wait(3) [OF that] step2 by simp
    qed
    with wait(1,2) show "0 \<le> w \<and> w \<le> 60000000000 \<and> (t + w < t' \<longrightarrow> fst (fst (Allow_request r' t')))"
      by blast }
qed

lemma limiterOk_New: "0 < n \<Longrightarrow> limiterOk (NewLimiter n t)"
  by (simp add: limiterOk_def NewLimiter_def)

lemma rateLimiterOk_New: "0 < n \<Longrightarrow> rateLimiterOk (NewRateLimiter n t)"
  by (simp add: rateLimiterOk_def NewRateLimiter_def)

text \<open>Changing the limit at run time keeps the bucket in order, also when it was created without a limit.\<close>

lemma rateLimiterOk_SetCapacity: "0 \<le> tokens r \<Longrightarrow> 0 < n \<Longrightarrow> rateLimiterOk (SetCapacity r n)"
  by (simp add: rateLimiterOk_def SetCapacity_def Let_def)

section \<open>Pacing\<close>



text \<open>Waiting for the limiter ends. A call of \<open>Wait\<close> that finds the bucket empty and is woken at any time after
  the delay it asked its timer for gets its token then, provided no other call takes it; a
  cancelled context ends the call with its error.\<close>

theorem limiter_wait_ends:
  assumes "limiterOk l" "li_last l \<le> t"
  shows "case li_take l 1 t of
      ((True, _), l1) \<Rightarrow> li_Wait (Some l) t wakes = (Some (Inr ()), Some l1)
    | ((False, w), l1) \<Rightarrow> 0 \<le> w \<and>
        (\<forall>t' ws. t + w < t' \<longrightarrow> fst (li_Wait (Some l) t (Some t' # ws)) = Some (Inr ())) \<and>
        (\<forall>ws. li_Wait (Some l) t (None # ws) = (Some (Inl (PlainErr ''context canceled'')), Some l1))"
proof -
  obtain g w l1 where step: "li_take l 1 t = ((g, w), l1)"
    by (metis prod.exhaust)
  have rate: "\<not> li_rate l \<le> 0"
    using assms(1) by (simp add: limiterOk_def)
  show ?thesis
  proof (cases g)
    case True
    then show ?thesis
      using step rate by (simp add: li_Wait_def waitLoop.simps [of l])
  next
    case False
    then have step: "li_take l 1 t = ((False, w), l1)"
      using step by simp
    have wait: "0 \<le> w" "t + w < t' \<Longrightarrow> fst (fst (li_take l1 1 t'))" for t'
      using pace.tk_wait [OF assms step] by auto
    have "fst (waitLoop l1 t' ws) = Some (Inr ())" if "t + w < t'" for t' ws
      using wait(2) [OF that] by (auto simp: waitLoop.simps [of l1] split: prod.splits bool.splits)
    then show ?thesis
      using step rate wait(1) by (simp add: li_Wait_def waitLoop.simps [of l] split_beta)
  qed
qed

theorem limiter_wait_ends_witness:
  "fst (li_Wait (Some \<lparr>li_rate = 1, li_capacity = 60, li_tokens = 0, li_last = 0\<rparr>) 0 [Some 1000000001]) = Some (Inr ())"
proof -
  let ?l = "\<lparr>li_rate = 1, li_capacity = 60, li_tokens = 0, li_last = 0\<rparr>"
  have "li_take ?l 1 0 = ((False, 1000000000), ?l)"
    by (simp add: li_take_def Let_def truncate64_floor)
  then show ?thesis
    using limiter_wait_ends [of ?l 0 "[]"] by (simp add: limiterOk_def)
qed

end
