(* ===== verification/Simulator.thy ===== *)
theory Simulator
imports SimStore RateLimit Ingest
begin

text \<open>
  A simulated provider (\<open>internal/simulator/core.go\<close>, \<open>faults.go\<close>, \<open>rand.go\<close> and \<open>webhook.go\<close>): a REST
  server over the record store, with failures that can be switched on and webhooks that report
  changes. It is a program of its own; the record \<open>sim\<close> is the state of its process. The random
  generator, the uuid generator and the JSON text of typed structs are members of the record \<open>simlib\<close>.

  A request is handled at once, at the time \<open>sim_now\<close>; a sleep moves that clock, or ends the
  request when the client's deadline comes first. A handler that panics drops the connection. The
  goroutines that deliver webhooks are entries of \<open>sim_sent\<close> with the time at which they send.
  Logging is left out. Paths and queries are taken without percent-escapes.
\<close>

section \<open>The process\<close>

record Spec =
  sp_Name :: string
  sp_EntityType :: string
  sp_IDKey :: string
  sp_TimeKey :: string
  sp_IDPrefix :: string
  sp_Path :: string

record FaultConfig =
  fc_Seed :: int
  FailureRate :: rat
  LatencyMS :: int
  LatencyMinMS :: int
  LatencyMaxMS :: int
  fc_AuthFailure :: bool
  AuthFailureRate :: rat
  fc_Malformed :: bool
  MalformedRate :: rat
  fc_RateLimitPerMin :: int
  RateLimitProbability :: rat
  DropWebhooks :: bool
  DropWebhookRate :: rat
  DuplicateWebhooks :: bool
  DuplicateWebhookCount :: int
  DuplicateWebhookRate :: rat
  WebhookDelayMS :: int
  OutOfOrder :: bool
  OutOfOrderRate :: rat
  HangMS :: int
  HangPercent :: rat
  DropField :: string
  fc_CorruptFieldType :: string

definition defaultFaults :: FaultConfig where
  "defaultFaults = \<lparr>fc_Seed = 0, FailureRate = 0, LatencyMS = 0, LatencyMinMS = 0, LatencyMaxMS = 0,
     fc_AuthFailure = False, AuthFailureRate = 0, fc_Malformed = False, MalformedRate = 0,
     fc_RateLimitPerMin = 0, RateLimitProbability = 0, DropWebhooks = False, DropWebhookRate = 0,
     DuplicateWebhooks = False, DuplicateWebhookCount = 0, DuplicateWebhookRate = 0, WebhookDelayMS = 0,
     OutOfOrder = False, OutOfOrderRate = 0, HangMS = 0, HangPercent = 0, DropField = [], fc_CorruptFieldType = []\<rparr>"

record WebhookDispatcher =
  wd_URL :: string
  wd_Secret :: string
  wd_Source :: string
  wd_EntityType :: string
  wd_IDKey :: string
  wd_TimeKey :: string

record ChangeEvent =
  ce_EventID :: string
  ce_Source :: string
  ce_EntityType :: string
  ce_EntityID :: string
  ce_EventType :: string
  ce_SourceVersion :: int
  ce_OccurredAt :: int
  ce_Payload :: "goval gomap"

record Delivery =
  dv_At :: int
  dv_URL :: string
  dv_Body :: string
  dv_Signature :: string

record 'r simlib = golib +
  rng_seed :: "int \<Rightarrow> 'r"
  rng_float64 :: "'r \<Rightarrow> rat \<times> 'r"
  rng_intn :: "'r \<Rightarrow> int \<Rightarrow> int \<times> 'r"
  first_value :: "string \<Rightarrow> goval option"
  uuid_string :: "nat \<Rightarrow> string"
  time_text :: "int \<Rightarrow> string"
  change_marshal :: "ChangeEvent \<Rightarrow> string"
  faults_marshal :: "FaultConfig \<Rightarrow> string"
  faults_unmarshal :: "string \<Rightarrow> FaultConfig option"

record 'r sim =
  sim_prefix :: string
  sim_spec :: Spec
  sim_store :: MemStore
  sim_rate :: RateLimiter
  sim_faults :: FaultConfig
  sim_rng :: 'r
  sim_webhook :: "WebhookDispatcher option"
  sim_seedRec :: "(string \<Rightarrow> int \<Rightarrow> goval gomap) option"
  sim_now :: int
  sim_seq :: nat
  sim_sent :: "Delivery list"

definition simPanic :: "string \<Rightarrow> ('s, 'a) M" where
  "simPanic msg = throw (PlainErr (''panic: '' @ msg))"

section \<open>The random generator\<close>

definition newSafeRand :: "('r, 'x) simlib_scheme \<Rightarrow> 'r" where
  "newSafeRand L = rng_seed L 42"

definition rngFloat64 :: "('r, 'x) simlib_scheme \<Rightarrow> ('r sim, rat) M" where
  "rngFloat64 L = (\<lambda>s. case rng_float64 L (sim_rng s) of (u, r) \<Rightarrow> (Inr u, s\<lparr>sim_rng := r\<rparr>))"

definition rngIntn :: "('r, 'x) simlib_scheme \<Rightarrow> int \<Rightarrow> ('r sim, int) M" where
  "rngIntn L n =
     (if n \<le> 0 then simPanic ''invalid argument to Intn''
      else (\<lambda>s. case rng_intn L (sim_rng s) n of (u, r) \<Rightarrow> (Inr u, s\<lparr>sim_rng := r\<rparr>)))"

section \<open>Faults\<close>

definition FaultsSet :: "('r, 'x) simlib_scheme \<Rightarrow> FaultConfig \<Rightarrow> ('r sim, unit) M" where
  "FaultsSet L c = (\<lambda>s. (Inr (), s\<lparr>sim_rng := (if fc_Seed c \<noteq> 0 then rng_seed L (fc_Seed c) else sim_rng s),
     sim_faults := c\<rparr>))"

definition FaultsGet :: "('r sim, FaultConfig) M" where
  "FaultsGet = gets sim_faults"

definition should :: "('r, 'x) simlib_scheme \<Rightarrow> rat \<Rightarrow> ('r sim, bool) M" where
  "should L rate =
     (if rate \<le> 0 then ret False
      else if rate \<ge> 1 then ret True
      else bindM (rngFloat64 L) (\<lambda>u. ret (u < rate)))"

definition ShouldFail :: "('r, 'x) simlib_scheme \<Rightarrow> ('r sim, bool) M" where
  "ShouldFail L = bindM FaultsGet (\<lambda>c. should L (FailureRate c))"

definition AuthFailure :: "('r, 'x) simlib_scheme \<Rightarrow> ('r sim, bool) M" where
  "AuthFailure L = bindM FaultsGet (\<lambda>c. if fc_AuthFailure c then ret True else should L (AuthFailureRate c))"

definition Malformed :: "('r, 'x) simlib_scheme \<Rightarrow> ('r sim, bool) M" where
  "Malformed L = bindM FaultsGet (\<lambda>c. if fc_Malformed c then ret True else should L (MalformedRate c))"

abbreviation millis :: "int \<Rightarrow> int" where
  "millis ms \<equiv> i64 (ms * 1000000)"

definition Latency :: "('r, 'x) simlib_scheme \<Rightarrow> ('r sim, int) M" where
  "Latency L = bindM FaultsGet (\<lambda>c.
     let mn = LatencyMinMS c; mx = LatencyMaxMS c in
     if mn > 0 \<and> mx \<ge> mn then bindM (rngIntn L (mx - mn + 1)) (\<lambda>u. ret (millis (i64 (mn + u))))
     else ret (millis (LatencyMS c)))"

definition Hang :: "('r, 'x) simlib_scheme \<Rightarrow> ('r sim, bool \<times> int) M" where
  "Hang L = bindM FaultsGet (\<lambda>c.
     if HangMS c \<le> 0 then ret (False, 0)
     else bindM (if HangPercent c > 0 then bindM (rngFloat64 L) (\<lambda>u. ret (u \<ge> HangPercent c)) else ret False) (\<lambda>spared.
       if spared then ret (False, 0) else ret (True, millis (HangMS c))))"

definition RateLimited :: "('r, 'x) simlib_scheme \<Rightarrow> ('r sim, bool) M" where
  "RateLimited L = bindM FaultsGet (\<lambda>c.
     if \<not> fc_RateLimitPerMin c > 0 then ret False
     else if RateLimitProbability c \<le> 0 then ret True
     else should L (RateLimitProbability c))"

text \<open>The result: drop, out of order, the number of copies and the delay, which is also the bound of the extra delay.\<close>

definition WebhookOptions :: "('r, 'x) simlib_scheme \<Rightarrow> ('r sim, bool \<times> bool \<times> int \<times> int) M" where
  "WebhookOptions L = bindM FaultsGet (\<lambda>c.
     bindM (if DropWebhooks c then ret True else should L (DropWebhookRate c)) (\<lambda>dropped.
     bindM (if DuplicateWebhooks c then ret True else should L (DuplicateWebhookRate c)) (\<lambda>dup.
     bindM (if OutOfOrder c then ret True else should L (OutOfOrderRate c)) (\<lambda>outOfOrder.
     ret (dropped, outOfOrder, if dup then i64 (1 + DuplicateWebhookCount c) else 1, millis (WebhookDelayMS c))))))"

section \<open>Webhooks\<close>

definition newUUID :: "('r, 'x) simlib_scheme \<Rightarrow> ('r sim, string) M" where
  "newUUID L = (\<lambda>s. (Inr (uuid_string L (sim_seq s)), s\<lparr>sim_seq := sim_seq s + 1\<rparr>))"

definition signBody :: "('x) golib_scheme \<Rightarrow> string \<Rightarrow> string \<Rightarrow> string" where
  "signBody L secret body = ''sha256='' @ hexEncode (hmac_sha256 L secret body)"

definition deliver ::
  "('r, 'x) simlib_scheme \<Rightarrow> WebhookDispatcher \<Rightarrow> ChangeEvent \<Rightarrow> int \<Rightarrow> ('r sim, unit) M" where
  "deliver L w ev delay = (\<lambda>s.
     let body = change_marshal L ev in
     (Inr (), s\<lparr>sim_sent := sim_sent s @ [\<lparr>dv_At = (if delay > 0 then sim_now s + delay else sim_now s),
        dv_URL = wd_URL w, dv_Body = body, dv_Signature = signBody L (wd_Secret w) body\<rparr>]\<rparr>))"

definition changeEvent :: "WebhookDispatcher \<Rightarrow> string \<Rightarrow> string \<Rightarrow> Record \<Rightarrow> ChangeEvent" where
  "changeEvent w eid eventType rec =
     (let payload = (if rc_ID rec \<noteq> [] then gset (wd_IDKey w) (GStr (rc_ID rec)) (rc_Data rec) else rc_Data rec) in
      \<lparr>ce_EventID = eid, ce_Source = wd_Source w, ce_EntityType = wd_EntityType w, ce_EntityID = rc_ID rec,
       ce_EventType = eventType, ce_SourceVersion = rc_Version rec, ce_OccurredAt = rc_UpdatedAt rec,
       ce_Payload = [(''fields'', GObj payload)]\<rparr>)"

definition Emit ::
  "('r, 'x) simlib_scheme \<Rightarrow> WebhookDispatcher \<Rightarrow> string \<Rightarrow> Record \<Rightarrow> ('r sim, unit) M" where
  "Emit L w eventType rec =
     (if wd_URL w = [] then ret ()
      else bindM (WebhookOptions L) (\<lambda>(dropped, outOfOrder, copies, delay).
        if dropped then ret ()
        else bindM (newUUID L) (\<lambda>eid.
          forM [0..<nat copies] (\<lambda>_ _.
            bindM (if outOfOrder \<and> delay > 0
                   then bindM (rngIntn L (delay div 1000000)) (\<lambda>u. ret (i64 (delay + millis u)))
                   else ret delay) (deliver L w (changeEvent w eid eventType rec))) ())))"

definition simEmit :: "('r, 'x) simlib_scheme \<Rightarrow> string \<Rightarrow> Record \<Rightarrow> ('r sim, unit) M" where
  "simEmit L eventType rec = bindM (gets sim_webhook) (\<lambda>w.
     case w of None \<Rightarrow> ret () | Some w \<Rightarrow> Emit L w eventType rec)"

section \<open>Replies\<close>

definition newline :: string where
  "newline = [CHR 0x0A]"

definition sim_writeJSON :: "('x) golib_scheme \<Rightarrow> int \<Rightarrow> goval \<Rightarrow> ('s, HttpResponse) M" where
  "sim_writeJSON L status v = ret \<lparr>StatusCode = status, RetryAfterHdr = [], RespBody = jsonMarshal L v @ newline\<rparr>"

text \<open>\<open>http.Error\<close>\<close>

definition httpError :: "string \<Rightarrow> int \<Rightarrow> ('s, HttpResponse) M" where
  "httpError msg status = ret \<lparr>StatusCode = status, RetryAfterHdr = [], RespBody = msg @ newline\<rparr>"

definition jsonError :: "string \<Rightarrow> string" where
  "jsonError e = [CHR ''{'', CHR 0x22] @ ''error'' @ [CHR 0x22, CHR '':'', CHR 0x22] @ e @ [CHR 0x22, CHR ''}'']"

definition recordJSON :: "('x) golib_scheme \<Rightarrow> Spec \<Rightarrow> FaultConfig \<Rightarrow> Record \<Rightarrow> goval gomap" where
  "recordJSON L spec c rec =
     (let data1 = gset (sp_IDKey spec) (GStr (rc_ID rec)) (rc_Data rec);
          data2 = gset ''version'' (GNum (of_int (rc_Version rec))) data1;
          data3 = gset ''deleted'' (GBool (rc_Deleted rec)) data2;
          data4 = gset (sp_TimeKey spec) (GStr (rfc3339 L (rc_UpdatedAt rec))) data3;
          data5 = (if DropField c \<noteq> [] then AList.delete (DropField c) data4 else data4)
      in if fc_CorruptFieldType c \<noteq> [] then gset (fc_CorruptFieldType c) (GObj [(''corrupted'', GBool True)]) data5 else data5)"

definition replyRecord :: "('r, 'x) simlib_scheme \<Rightarrow> int \<Rightarrow> Record \<Rightarrow> ('r sim, HttpResponse) M" where
  "replyRecord L status rec = (\<lambda>s. sim_writeJSON L status (GObj (recordJSON L (sim_spec s) (sim_faults s) rec)) s)"

text \<open>\<open>decodeJSON\<close> into a \<open>map[string]any\<close>; a repeated member overwrites the earlier one.\<close>

definition decodeBody :: "('r, 'x) simlib_scheme \<Rightarrow> string \<Rightarrow> goval gomap option" where
  "decodeBody L body = map_option (\<lambda>kvs. setAll kvs []) (structOf (first_value L (take 1048576 body)))"

section \<open>Handlers\<close>

record SimRequest =
  sr_Method :: string
  sr_Path :: string
  sr_Query :: "string gomap"
  sr_Body :: string
  sr_Deadline :: int

definition sim_handleHealth :: "('r, 'x) simlib_scheme \<Rightarrow> ('r sim, HttpResponse) M" where
  "sim_handleHealth L = (\<lambda>s. sim_writeJSON L 200 (GObj [(''status'', GStr ''healthy''),
     (''provider'', GStr (sp_Name (sim_spec s))), (''records'', GNum (of_int (sim_Count (sim_store s)))),
     (''time'', GStr (time_text L (sim_now s)))]) s)"

text \<open>\<open>fmt.Sscanf(v, "%d", &limit)\<close>: spaces, an optional sign and digits; the rest is not read.\<close>

definition sscanInt :: "string \<Rightarrow> int option" where
  "sscanInt v =
     (let t = dropWhile (\<lambda>c. c = CHR '' '') v;
          sign = (if t \<noteq> [] \<and> (hd t = CHR ''-'' \<or> hd t = CHR ''+'') then [hd t] else []);
          digits = takeWhile isDigit (drop (length sign) t)
      in ParseInt (sign @ digits))"

definition sim_handleList :: "('r, 'x) simlib_scheme \<Rightarrow> SimRequest \<Rightarrow> ('r sim, HttpResponse) M" where
  "sim_handleList L r = (\<lambda>s.
     let q = gget [] (sr_Query r);
         since = (if q ''since'' = [] then None else parse_rfc3339 L (q ''since''));
         limit = (if q ''limit'' = [] then 100 else case sscanInt (q ''limit'') of Some n \<Rightarrow> n | None \<Rightarrow> 100)
     in case sim_List (q ''cursor'') limit since (sim_store s) of (recs, nxt, hasMore) \<Rightarrow>
       sim_writeJSON L 200 (GObj [(''records'', GArr (map (\<lambda>rec. GObj (recordJSON L (sim_spec s) (sim_faults s) rec)) recs)),
         (''next_cursor'', GStr nxt), (''has_more'', GBool hasMore)]) s)"

definition sim_handleGet :: "('r, 'x) simlib_scheme \<Rightarrow> string \<Rightarrow> ('r sim, HttpResponse) M" where
  "sim_handleGet L rid = bindM (gets (\<lambda>s. sim_Get rid (sim_store s))) (\<lambda>x.
     case x of
       None \<Rightarrow> httpError (jsonError ''not found'') 404
     | Some rec \<Rightarrow> replyRecord L 200 rec)"

definition sim_handleCreate :: "('r, 'x) simlib_scheme \<Rightarrow> SimRequest \<Rightarrow> ('r sim, HttpResponse) M" where
  "sim_handleCreate L r =
     (case decodeBody L (sr_Body r) of
        None \<Rightarrow> httpError (jsonError ''invalid json'') 400
      | Some data \<Rightarrow>
          bindM (\<lambda>s. case sim_Insert (sim_prefix s) (sim_now s) data (sim_store s) of (rec, st) \<Rightarrow>
            (Inr rec, s\<lparr>sim_store := st\<rparr>)) (\<lambda>rec.
          thenM (simEmit L ''created'' rec) (replyRecord L 201 rec)))"

definition sim_handleUpdate :: "('r, 'x) simlib_scheme \<Rightarrow> string \<Rightarrow> SimRequest \<Rightarrow> ('r sim, HttpResponse) M" where
  "sim_handleUpdate L rid r =
     (case decodeBody L (sr_Body r) of
        None \<Rightarrow> httpError (jsonError ''invalid json'') 400
      | Some data \<Rightarrow>
          bindM (\<lambda>s. case sim_Update (sim_now s) rid data (sim_store s) of (x, st) \<Rightarrow> (Inr x, s\<lparr>sim_store := st\<rparr>)) (\<lambda>x.
          case x of
            None \<Rightarrow> httpError (jsonError ''not found'') 404
          | Some rec \<Rightarrow> thenM (simEmit L ''updated'' rec) (replyRecord L 200 rec)))"

definition sim_handleDelete :: "('r, 'x) simlib_scheme \<Rightarrow> string \<Rightarrow> ('r sim, HttpResponse) M" where
  "sim_handleDelete L rid =
     bindM (\<lambda>s. case SoftDelete (sim_now s) rid (sim_store s) of (x, st) \<Rightarrow> (Inr x, s\<lparr>sim_store := st\<rparr>)) (\<lambda>x.
     case x of
       None \<Rightarrow> httpError (jsonError ''not found'') 404
     | Some rec \<Rightarrow> thenM (simEmit L ''deleted'' rec) (ret \<lparr>StatusCode = 204, RetryAfterHdr = [], RespBody = []\<rparr>))"

definition sim_handleRecords :: "('r, 'x) simlib_scheme \<Rightarrow> ('r sim, HttpResponse) M" where
  "sim_handleRecords L = (\<lambda>s. sim_writeJSON L 200 (GObj [(''records'',
     GArr (map (\<lambda>rec. GObj (recordJSON L (sim_spec s) (sim_faults s) rec)) (sim_All (sim_store s))))]) s)"

text \<open>The member \<open>count\<close> of the body; a member of another type and a body that is no object leave it zero.\<close>

definition seedCount :: "goval option \<Rightarrow> int" where
  "seedCount v = (case v of
      Some (GObj kvs) \<Rightarrow> fold (\<lambda>(n, x) acc. if EqualFold n ''count'' then
          (case x of GNum q \<Rightarrow> if of_int \<lfloor>q\<rfloor> = q \<and> in64 \<lfloor>q\<rfloor> then \<lfloor>q\<rfloor> else acc | _ \<Rightarrow> acc) else acc) kvs 0
    | _ \<Rightarrow> 0)"

definition sim_handleSeed :: "('r, 'x) simlib_scheme \<Rightarrow> SimRequest \<Rightarrow> ('r sim, HttpResponse) M" where
  "sim_handleSeed L r =
     (let n = seedCount (first_value L (take 1048576 (sr_Body r)));
          count = (if n \<le> 0 \<or> n > 1000000 then 1000 else n)
      in bindM (\<lambda>s. case Seed (sim_prefix s) (sim_now s) count (sim_seedRec s) (sim_store s) of (ok, st) \<Rightarrow>
           (Inr ok, s\<lparr>sim_store := st\<rparr>)) (\<lambda>ok.
         if \<not> ok then simPanic ''nil function''
         else (\<lambda>s. sim_writeJSON L 200 (GObj [(''records'', GNum (of_int (sim_Count (sim_store s))))]) s)))"

definition replyFaults :: "('r, 'x) simlib_scheme \<Rightarrow> ('r sim, HttpResponse) M" where
  "replyFaults L = bindM FaultsGet (\<lambda>c. ret \<lparr>StatusCode = 200, RetryAfterHdr = [], RespBody = faults_marshal L c @ newline\<rparr>)"

definition sim_handleSetFaults :: "('r, 'x) simlib_scheme \<Rightarrow> SimRequest \<Rightarrow> ('r sim, HttpResponse) M" where
  "sim_handleSetFaults L r =
     (case faults_unmarshal L (take 1048576 (sr_Body r)) of
        None \<Rightarrow> httpError (jsonError ''invalid json'') 400
      | Some c \<Rightarrow> thenM (FaultsSet L c) (replyFaults L))"

definition SetWebhook :: "string \<Rightarrow> string \<Rightarrow> ('r sim, unit) M" where
  "SetWebhook url secret = (\<lambda>s. (Inr (), s\<lparr>sim_webhook := (if url = [] then None
     else Some \<lparr>wd_URL = url, wd_Secret = secret, wd_Source = sp_Name (sim_spec s), wd_EntityType = sp_EntityType (sim_spec s),
       wd_IDKey = sp_IDKey (sim_spec s), wd_TimeKey = sp_TimeKey (sim_spec s)\<rparr>)\<rparr>))"

section \<open>The server\<close>

record SimOptions =
  so_RateLimitPerMin :: int
  so_WebhookURL :: string
  so_WebhookSecret :: string
  so_SeedCount :: int
  so_SeedRec :: "(string \<Rightarrow> int \<Rightarrow> goval gomap) option"

definition NewServer :: "('r, 'x) simlib_scheme \<Rightarrow> Spec \<Rightarrow> SimOptions \<Rightarrow> int \<Rightarrow> 'r sim" where
  "NewServer L spec opts t =
     \<lparr>sim_prefix = sp_IDPrefix spec, sim_spec = spec,
      sim_store = (if so_SeedCount opts > 0 \<and> so_SeedRec opts \<noteq> None
         then snd (Seed (sp_IDPrefix spec) t (so_SeedCount opts) (so_SeedRec opts) NewStore) else NewStore),
      sim_rate = NewRateLimiter (so_RateLimitPerMin opts) t,
      sim_faults = defaultFaults, sim_rng = newSafeRand L,
      sim_webhook = (if so_WebhookURL opts \<noteq> [] then
         Some \<lparr>wd_URL = so_WebhookURL opts, wd_Secret = so_WebhookSecret opts, wd_Source = sp_Name spec,
           wd_EntityType = sp_EntityType spec, wd_IDKey = sp_IDKey spec, wd_TimeKey = sp_TimeKey spec\<rparr> else None),
      sim_seedRec = so_SeedRec opts, sim_now = t, sim_seq = 0, sim_sent = []\<rparr>"

definition simRoutes :: "('r, 'x) simlib_scheme \<Rightarrow> Spec \<Rightarrow> SimRequest \<Rightarrow> (string \<times> ('r sim, HttpResponse) M) list" where
  "simRoutes L spec r =
     (let base = ''/api/v1'' @ sp_Path spec; path = sr_Path r in
      if path = base then [(''GET'', sim_handleList L r), (''POST'', sim_handleCreate L r)]
      else if path = ''/admin/health'' then [(''GET'', sim_handleHealth L)]
      else if path = ''/admin/faults'' then [(''GET'', replyFaults L), (''POST'', sim_handleSetFaults L r)]
      else if path = ''/admin/records'' then [(''GET'', sim_handleRecords L)]
      else if path = ''/admin/seed'' then [(''POST'', sim_handleSeed L r)]
      else case stripPrefix (base @ ''/'') path of
        None \<Rightarrow> []
      | Some rid \<Rightarrow> if rid = [] \<or> CHR ''/'' \<in> set rid then []
          else [(''GET'', sim_handleGet L rid), (''PATCH'', sim_handleUpdate L rid r), (''DELETE'', sim_handleDelete L rid)])"

definition simMux :: "('r, 'x) simlib_scheme \<Rightarrow> SimRequest \<Rightarrow> ('r sim, HttpResponse) M" where
  "simMux L r = bindM (gets sim_spec) (\<lambda>spec.
     case simRoutes L spec r of
       [] \<Rightarrow> httpError ''404 page not found'' 404
     | routes \<Rightarrow> (case map_of routes (sr_Method r) of
         Some h \<Rightarrow> h
       | None \<Rightarrow> httpError ''Method Not Allowed'' 405))"

definition simSleep :: "int \<Rightarrow> int \<Rightarrow> ('r sim, unit) M" where
  "simSleep deadline d = (\<lambda>s. if sim_now s + d < deadline then (Inr (), s\<lparr>sim_now := sim_now s + d\<rparr>)
     else (Inl (PlainErr ''context canceled''), s))"

definition simRateLimit :: "('r, 'x) simlib_scheme \<Rightarrow> ('r sim, HttpResponse option) M" where
  "simRateLimit L = bindM (RateLimited L) (\<lambda>limited.
     if \<not> limited then ret None
     else bindM FaultsGet (\<lambda>c. \<lambda>s.
       let r0 = (if fc_RateLimitPerMin c > 0 then SetCapacity (sim_rate s) (fc_RateLimitPerMin c) else sim_rate s) in
       case Allow_request r0 (sim_now s) of ((ok, retryAfter), r1) \<Rightarrow>
         (Inr (if ok then None
               else Some \<lparr>StatusCode = 429, RetryAfterHdr = Itoa (truncate64 (Seconds retryAfter + 1)),
                 RespBody = jsonError ''rate limit exceeded''\<rparr>), s\<lparr>sim_rate := r1\<rparr>)))"

text \<open>The failures in front of the API; \<open>Some\<close> is the reply of a failure.\<close>

definition injected :: "('r, 'x) simlib_scheme \<Rightarrow> int \<Rightarrow> ('r sim, HttpResponse option) M" where
  "injected L deadline =
     bindM (AuthFailure L) (\<lambda>auth. if auth then bindM (httpError (jsonError ''unauthorized'') 401) (\<lambda>x. ret (Some x)) else
     bindM (ShouldFail L) (\<lambda>fail. if fail then bindM (httpError (jsonError ''injected internal failure'') 500) (\<lambda>x. ret (Some x)) else
     bindM (Hang L) (\<lambda>(hang, dur).
     thenM (if hang \<and> dur > 0 then simSleep deadline dur else ret ()) (
     bindM (Latency L) (\<lambda>lat.
     thenM (if lat > 0 then simSleep deadline lat else ret ()) (
     bindM (simRateLimit L) (\<lambda>refused.
     case refused of
       Some x \<Rightarrow> ret (Some x)
     | None \<Rightarrow> bindM (Malformed L) (\<lambda>bad.
         if bad then ret (Some \<lparr>StatusCode = 200, RetryAfterHdr = [],
           RespBody = [CHR ''{'', CHR 0x22] @ ''records'' @ [CHR 0x22] @ '': [{'' @ [CHR 0x22] @ ''id'' @ [CHR 0x22] @ '': '' @ [CHR 0x22] @ ''broken'' @ [CHR 0x22]\<rparr>)
         else ret None))))))))"

definition simHandler :: "('r, 'x) simlib_scheme \<Rightarrow> SimRequest \<Rightarrow> ('r sim, HttpResponse) M" where
  "simHandler L r =
     (if stripPrefix ''/api/'' (sr_Path r) \<noteq> None then
        bindM (injected L (sr_Deadline r)) (\<lambda>x. case x of Some reply \<Rightarrow> ret reply | None \<Rightarrow> simMux L r)
      else simMux L r)"

section \<open>A client's round trip\<close>

definition cutAt :: "char \<Rightarrow> string \<Rightarrow> string \<times> string" where
  "cutAt c s = (takeWhile (\<lambda>x. x \<noteq> c) s, tl (dropWhile (\<lambda>x. x \<noteq> c) s))"

definition parseQuery :: "string \<Rightarrow> string gomap" where
  "parseQuery q = (if q = [] then [] else map (cutAt (CHR ''='')) (splitOn (CHR ''&'') q))"

text \<open>The transport of a client with the given timeout, for requests under the base URL of the simulator.\<close>

definition simRoundTrip ::
  "('r, 'x) simlib_scheme \<Rightarrow> string \<Rightarrow> int \<Rightarrow> HttpRequest \<Rightarrow> 'r sim \<Rightarrow> (string + HttpResponse) \<times> 'r sim" where
  "simRoundTrip L base timeout req s =
     (case stripPrefix base (rq_URL req) of
        None \<Rightarrow> (Inl ''no such host'', s)
      | Some rest \<Rightarrow>
          (case cutAt (CHR ''?'') rest of (path, query) \<Rightarrow>
             (case simHandler L \<lparr>sr_Method = rq_Method req, sr_Path = path, sr_Query = parseQuery query,
                 sr_Body = (case rq_Body req of None \<Rightarrow> [] | Some v \<Rightarrow> jsonMarshal L v),
                 sr_Deadline = sim_now s + timeout\<rparr> s of
                (Inl e, s') \<Rightarrow> (Inl ''connection lost'', s')
              | (Inr resp, s') \<Rightarrow> (Inr resp, s'))))"

end
