(* ===== verification/SimSeeds.thy ===== *)
theory SimSeeds
imports Simulator
begin

text \<open>
  The programs that run the two simulated providers (\<open>cmd/sim-salesforce/main.go\<close> and
  \<open>cmd/sim-hubspot/main.go\<close>): their specification, their options read from the environment, and
  the generators of the records they start with. A generated record is never without a name
  and an address, which is what the validation of the adapters asks for.
\<close>

section \<open>Names\<close>

text \<open>The loop over the characters; \<open>cur\<close> is the current piece.\<close>

fun splitLoop :: "string \<Rightarrow> string \<Rightarrow> string list \<Rightarrow> string list" where
  "splitLoop [] cur out = out @ [cur]"
| "splitLoop (c # cs) cur out = (if c = CHR '','' then splitLoop cs [] (out @ [cur]) else splitLoop cs (cur @ [c]) out)"

definition sim_split :: "string \<Rightarrow> string list" where
  "sim_split s = splitLoop s [] []"

definition sim_lower :: "string \<Rightarrow> string" where
  "sim_lower s = map (\<lambda>c. let b = of_char c :: nat in if 65 \<le> b \<and> b \<le> 90 then char_of (b + 32) else c) s"

definition firstNames :: string where
  "firstNames = ''Ava,Noah,Emma,Olivia,Liam,Mia,Sofia,Ethan,Lucas,Amelia,Hazel,Isla,Ruby,Chloe,Zoe,Lily,Nora,Penelope,Willow,Elena''"

definition lastNames :: string where
  "lastNames = ''Smith,Johnson,Williams,Brown,Jones,Garcia,Miller,Davis,Rodriguez,Martinez,Hernandez,Lopez,Gonzalez,Wilson,Anderson,Thomas,Taylor,Moore,Jackson,Martin''"

definition fnames :: "string list" where
  "fnames = sim_split firstNames"

definition lnames :: "string list" where
  "lnames = sim_split lastNames"

text \<open>\<open>xs[n % len(xs)]\<close>, and \<open>%04d\<close> of a number below 10000.\<close>

definition pick :: "string list \<Rightarrow> int \<Rightarrow> string" where
  "pick xs n = xs ! nat (n mod int (length xs))"

definition pad4 :: "int \<Rightarrow> string" where
  "pad4 n = (let s = Itoa n in replicate (4 - length s) (CHR ''0'') @ s)"

section \<open>Generated records\<close>

definition sf_seedRec :: "string \<Rightarrow> int \<Rightarrow> goval gomap" where
  "sf_seedRec rid n =
     (let fn = pick fnames n; ln = pick lnames n in
      [(''first_name'', GStr fn), (''last_name'', GStr ln),
       (''email'', GStr (sim_lower fn @ ''.'' @ sim_lower ln @ ''@example.com'')),
       (''phone'', GStr (''+1-555-'' @ pad4 (n mod 10000))), (''company'', GStr (''Acme Corp '' @ Itoa (n mod 50)))])"

definition hub_seedRec :: "string \<Rightarrow> int \<Rightarrow> goval gomap" where
  "hub_seedRec rid n =
     (let fn = pick fnames (n * 3 + 1); ln = pick lnames (n * 5 + 2) in
      [(''firstName'', GStr fn), (''lastName'', GStr ln),
       (''emailAddress'', GStr (sim_lower fn @ ''.'' @ sim_lower ln @ ''@acme.io'')),
       (''phoneNumber'', GStr (''+44-20-'' @ pad4 (n mod 10000))), (''organization'', GStr (''Acme Corp '' @ Itoa (n mod 50)))])"

section \<open>The programs\<close>

definition salesforceSpec :: Spec where
  "salesforceSpec = \<lparr>sp_Name = ''salesforce'', sp_EntityType = ''customer'', sp_IDKey = ''id'', sp_TimeKey = ''updated_at'',
     sp_IDPrefix = ''sf-'', sp_Path = ''/customers''\<rparr>"

definition hubspotSpec :: Spec where
  "hubspotSpec = \<lparr>sp_Name = ''hubspot'', sp_EntityType = ''contact'', sp_IDKey = ''contact_id'', sp_TimeKey = ''modifiedAt'',
     sp_IDPrefix = ''hub-'', sp_Path = ''/contacts''\<rparr>"

definition sim_getEnv :: "(string \<Rightarrow> string option) \<Rightarrow> string \<Rightarrow> string \<Rightarrow> string" where
  "sim_getEnv env key d = (case env key of Some v \<Rightarrow> if v \<noteq> [] then v else d | None \<Rightarrow> d)"

definition sim_getIntEnv :: "(string \<Rightarrow> string option) \<Rightarrow> string \<Rightarrow> int \<Rightarrow> int" where
  "sim_getIntEnv env key d = (case env key of
      Some v \<Rightarrow> (case ParseInt v of Some n \<Rightarrow> n | None \<Rightarrow> d)
    | None \<Rightarrow> d)"

definition salesforceMain :: "('r, 'x) simlib_scheme \<Rightarrow> (string \<Rightarrow> string option) \<Rightarrow> int \<Rightarrow> 'r sim" where
  "salesforceMain L env t = NewServer L salesforceSpec
     \<lparr>so_RateLimitPerMin = sim_getIntEnv env ''SIM_RATE_LIMIT'' 100, so_WebhookURL = sim_getEnv env ''SIM_WEBHOOK_URL'' [],
      so_WebhookSecret = sim_getEnv env ''SIM_WEBHOOK_SECRET'' ''sfs-dev-secret'',
      so_SeedCount = sim_getIntEnv env ''SIM_SEED_COUNT'' 100, so_SeedRec = Some sf_seedRec\<rparr> t"

definition hubspotMain :: "('r, 'x) simlib_scheme \<Rightarrow> (string \<Rightarrow> string option) \<Rightarrow> int \<Rightarrow> 'r sim" where
  "hubspotMain L env t = NewServer L hubspotSpec
     \<lparr>so_RateLimitPerMin = sim_getIntEnv env ''SIM_RATE_LIMIT'' 50, so_WebhookURL = sim_getEnv env ''SIM_WEBHOOK_URL'' [],
      so_WebhookSecret = sim_getEnv env ''SIM_WEBHOOK_SECRET'' ''sfh-dev-secret'',
      so_SeedCount = sim_getIntEnv env ''SIM_SEED_COUNT'' 100, so_SeedRec = Some hub_seedRec\<rparr> t"

section \<open>Generated records are complete\<close>

lemma names: "length fnames = 20" "length lnames = 20" "[] \<notin> set fnames" "[] \<notin> set lnames"
  by code_simp+

lemma pick_mem: "xs \<noteq> [] \<Longrightarrow> pick xs n \<in> set xs"
  unfolding pick_def by (rule nth_mem) (simp add: nat_less_iff)

lemma pick_nonempty: "pick fnames n \<noteq> []" "pick lnames n \<noteq> []"
  using pick_mem [of fnames n] pick_mem [of lnames n] names by (metis list.size(3) zero_neq_numeral)+

lemma seedFrom_all:
  assumes "\<And>rid i. P \<lparr>rc_ID = rid, rc_Version = 1, rc_UpdatedAt = t, rc_Deleted = False, rc_Data = f rid i\<rparr>"
  shows "(\<And>k r. map_of (records st) k = Some r \<Longrightarrow> P r) \<Longrightarrow>
    map_of (records (snd (seedFrom p t (Some f) is st))) rid = Some rec \<Longrightarrow> P rec"
proof (induction "is" arbitrary: st)
  case (Cons i "is")
  obtain rid' st1 where gen: "genID p st = (rid', st1)"
    by (rule prod.exhaust)
  then have "records st1 = records st"
    by (auto simp: genID_def Let_def)
  with Cons.prems gen assms show ?case
    by (intro Cons.IH [of "st1\<lparr>records := gset rid'
        \<lparr>rc_ID = rid', rc_Version = 1, rc_UpdatedAt = t, rc_Deleted = False, rc_Data = f rid' i\<rparr> (records st1)\<rparr>"])
      (auto split: if_splits)
qed simp

lemma NewServer_all:
  assumes "\<And>rid i. P \<lparr>rc_ID = rid, rc_Version = 1, rc_UpdatedAt = t, rc_Deleted = False, rc_Data = f rid i\<rparr>"
    and "so_SeedRec opts = Some f" "map_of (records (sim_store (NewServer L spec opts t))) rid = Some rec"
  shows "P rec"
  using assms(2,3) seedFrom_all [where P = P and t = t and f = f and st = NewStore and rid = rid and rec = rec, OF assms(1)]
  by (auto simp: NewServer_def Seed_def NewStore_def split: if_splits)

text \<open>
  The generator of Salesforce repeats its names with a period of twenty: of the hundred customers it
  starts with, five share each address.
\<close>

lemma seeds_share_email: "gget GNil (sf_seedRec r n) ''email'' = gget GNil (sf_seedRec r' (n + 20)) ''email''"
  by (simp add: sf_seedRec_def pick_def names gget_def Let_def)

end
