(* ===== verification/IngestProps.thy ===== *)
theory IngestProps
imports ApiDemo
begin

text \<open>
  Ingestion: only signed webhooks reach the tables, a delivery is stored once however often and
  whenever it is repeated, and a stored event leaves the status \<open>received\<close> only after its message is
  on the bus. The event bus is a parameter; \<open>busAppends\<close> says that a successful publish appends the message to
  its log and a failed one leaves the log as it was.
\<close>

section \<open>The gateway\<close>

definition signedBy :: "('x) golib_scheme \<Rightarrow> string \<Rightarrow> Request \<Rightarrow> bool" where
  "signedBy L secret r \<longleftrightarrow> secret \<noteq> [] \<and>
     (\<exists>hex. rq_Signature r = ''sha256='' @ hex \<and> hexDecode hex = Some (hmac_sha256 L secret (take 1048576 (rq_Content r))))"

lemma verifySignature_signed:
  "verifySignature L (take 1048576 (rq_Content r)) secret (rq_Signature r) \<longleftrightarrow> signedBy L secret r"
proof -
  have strip: "stripPrefix p h = Some x \<longleftrightarrow> h = p @ x" for p h x
    by (auto simp: stripPrefix_def) (metis append_take_drop_id)
  show ?thesis
  proof (cases "stripPrefix ''sha256='' (rq_Signature r)")
    case None
    then have "rq_Signature r \<noteq> ''sha256='' @ hex" for hex
      unfolding strip [symmetric] by simp
    then show ?thesis using None unfolding verifySignature_def signedBy_def by simp
  next
    case (Some h)
    then have "rq_Signature r = ''sha256='' @ h"
      unfolding strip .
    then show ?thesis using Some unfolding verifySignature_def signedBy_def by simp
  qed
qed

definition accepted ::
  "('w, 'x) apilib_scheme \<Rightarrow> Request \<Rightarrow> Tenant \<Rightarrow> providerWebhook \<Rightarrow> string \<Rightarrow> int \<Rightarrow> db \<Rightarrow> db \<Rightarrow> bool" where
  "accepted L r tenant wh eid n d d' \<longleftrightarrow>
     getBy te_Slug (PathValue r ''tenant_slug'') (tenants d) = Some tenant \<and>
     (\<exists>conn. findRow (\<lambda>c. cn_TenantID c = te_ID tenant \<and> cn_Provider c = PathValue r ''provider'') (connections d) = Some conn \<and>
        signedBy L (cn_WebhookSecret conn) r) \<and>
     webhook_unmarshal L (take 1048576 (rq_Content r)) = Some wh \<and> (wh_EventID wh \<noteq> [] \<longrightarrow> eid = wh_EventID wh) \<and>
     (let src = (if wh_Source wh = [] then PathValue r ''provider'' else wh_Source wh);
          row = (webhookEvent L (te_ID tenant) src eid (take 1048576 (rq_Content r)) wh)\<lparr>se_ReceivedAt := n, se_Status := ''received''\<rparr> in
      \<not> hasKey seKey (seKey row) (sourceEvents d) \<and> d' = d\<lparr>sourceEvents := sourceEvents d @ [row]\<rparr>)"

lemma InsertSourceEvent_cases:
  assumes "InsertSourceEvent ev s = (x, s')"
  shows "(\<exists>e. x = Inl e \<and> db s' = db s) \<or>
    (\<not> hasKey seKey (seKey ev) (sourceEvents (db s)) \<and> x = Inr (ev\<lparr>se_ReceivedAt := now s, se_Status := ''received''\<rparr>) \<and>
     db s' = (db s)\<lparr>sourceEvents := sourceEvents (db s) @ [ev\<lparr>se_ReceivedAt := now s, se_Status := ''received''\<rparr>]\<rparr>)"
  using assms unfolding InsertSourceEvent_def
  by (cases rule: WithTenant_cases [of "\<lambda>n d. if hasKey seKey (seKey ev) (sourceEvents d) then (Inl ErrDuplicate, d)
     else let row = ev\<lparr>se_ReceivedAt := n, se_Status := ''received''\<rparr> in
          (Inr row, d\<lparr>sourceEvents := sourceEvents d @ [row]\<rparr>)" s])
    (auto simp: Let_def split: if_splits)

lemma storeWebhook_cases:
  assumes "storeWebhook L t p body s = (x, s')"
  shows "\<exists>rep. x = Inr rep \<and> ((rp_Status rep \<noteq> 202 \<and> db s' = db s) \<or>
    (rp_Status rep = 202 \<and> (\<exists>wh eid. webhook_unmarshal L body = Some wh \<and> (wh_EventID wh \<noteq> [] \<longrightarrow> eid = wh_EventID wh) \<and>
      (let row = (webhookEvent L t (if wh_Source wh = [] then p else wh_Source wh) eid body wh)
             \<lparr>se_ReceivedAt := now s, se_Status := ''received''\<rparr> in
       \<not> hasKey seKey (seKey row) (sourceEvents (db s)) \<and> db s' = (db s)\<lparr>sourceEvents := sourceEvents (db s) @ [row]\<rparr>))))"
proof (cases "webhook_unmarshal L body")
  case None
  then show ?thesis using assms by (auto simp: storeWebhook_def run_simps)
next
  case (Some wh)
  obtain eid s0 where eid: "(if wh_EventID wh = [] then newID L else ret (wh_EventID wh)) s = (Inr eid, s0)"
    "db s0 = db s" "now s0 = now s" "wh_EventID wh \<noteq> [] \<longrightarrow> eid = wh_EventID wh"
    by (cases "wh_EventID wh = []") (simp_all add: newID_run ret_run)
  let ?ev = "webhookEvent L t (if wh_Source wh = [] then p else wh_Source wh) eid body wh"
  obtain y s1 where ins: "InsertSourceEvent ?ev s0 = (y, s1)"
    by fastforce
  have run: "storeWebhook L t p body s = (if wh_EntityType wh = [] \<or> wh_EntityID wh = [] then writeError 400 ''missing entity_type/entity_id'' s0
     else case y of
       Inl e \<Rightarrow> if e = ErrDuplicate then writeJSON 200 (JObj [(''status'', jstr ''duplicate''), (''event_id'', jstr eid)]) s1
               else writeError 500 ''failed to persist event'' s1
     | Inr ev \<Rightarrow> writeJSON 202 (JObj [(''status'', jstr ''received''), (''event_id'', jstr eid)]) s1)"
    using Some eid(1) ins by (auto simp: storeWebhook_def bindM_run orReply_run Let_def split: sum.split)
  show ?thesis
    using assms InsertSourceEvent_cases [OF ins] eid(2-4) Some unfolding run
    by (auto simp: run_simps Let_def split: if_splits sum.splits)
qed

lemma read_cases:
  assumes "WithTenant (\<lambda>n d. rowOr ErrNotFound (f d) d) s = (x, s')"
  shows "db s' = db s \<and> now s' = now s \<and> ((\<exists>e. x = Inl e) \<or> (\<exists>y. x = Inr y \<and> f (db s) = Some y))"
  using assms
  by (cases rule: WithTenant_cases [of "\<lambda>n d. rowOr ErrNotFound (f d) d" s]) (auto simp: rowOr_Inr rowOr_Inl)

lemma handleWebhook_cases:
  assumes "handleWebhook L r s = (x, s')"
  shows "\<exists>rep. x = Inr rep \<and> ((rp_Status rep \<noteq> 202 \<and> db s' = db s) \<or>
    (rp_Status rep = 202 \<and> (\<exists>tenant wh eid. accepted L r tenant wh eid (now s) (db s) (db s'))))"
proof -
  obtain y1 s1 where g1: "GetTenantBySlug (PathValue r ''tenant_slug'') s = (y1, s1)" by fastforce
  note c1 = read_cases [OF g1 [unfolded GetTenantBySlug_def]]
  show ?thesis
  proof (cases y1)
    case (Inl e)
    then show ?thesis using assms g1 c1 by (auto simp: handleWebhook_def Let_def run_simps split: if_splits)
  next
    case (Inr tenant)
    obtain y2 s2 where g2: "GetConnectionByProvider (te_ID tenant) (PathValue r ''provider'') s1 = (y2, s2)" by fastforce
    note c2 = read_cases [OF g2 [unfolded GetConnectionByProvider_def]]
    show ?thesis
    proof (cases y2)
      case Inl': (Inl e)
      then show ?thesis using assms g1 g2 c1 c2 Inr by (auto simp: handleWebhook_def Let_def run_simps split: if_splits)
    next
      case Inr': (Inr conn)
      obtain y3 s3 where g3: "faultPoint s2 = (y3, s3)" by fastforce
      have c3: "db s3 = db s2" "now s3 = now s2"
        using g3 faultPoint_db [of s2] faultPoint_now [of s2] by simp_all
      have run: "handleWebhook L r s = (case y3 of Inl e \<Rightarrow> writeError 400 ''failed to read body'' s3
        | Inr _ \<Rightarrow> (if \<not> signedBy L (cn_WebhookSecret conn) r then writeError 401 ''invalid signature'' s3
            else storeWebhook L (te_ID tenant) (PathValue r ''provider'') (take 1048576 (rq_Content r)) s3))"
        using Inr Inr' g1 g2 g3 by (simp add: handleWebhook_def Let_def orReply_run verifySignature_signed split: sum.split)
      show ?thesis
        using assms c1 c2 c3 Inr Inr' storeWebhook_cases [of L "te_ID tenant" "PathValue r ''provider''" "take 1048576 (rq_Content r)" s3 x s']
        unfolding run accepted_def by (auto simp: run_simps Let_def split: if_splits sum.splits)
    qed
  qed
qed

section \<open>Deliveries that stay known\<close>

text \<open>The tenant of a slug and the presence of an event: no statement of the system takes them away.\<close>

definition knownDelivery :: "string \<Rightarrow> Tenant \<Rightarrow> string \<times> string \<times> string \<Rightarrow> db \<Rightarrow> bool" where
  "knownDelivery slug tenant k d \<longleftrightarrow> getBy te_Slug slug (tenants d) = Some tenant \<and> hasKey seKey k (sourceEvents d)"

lemmas delivery_frames =
  frame_users [where f = "\<lambda>d. (tenants d, sourceEvents d)", simplified]
  frame_sessions [where f = "\<lambda>d. (tenants d, sourceEvents d)", simplified]
  frame_apiKeys [where f = "\<lambda>d. (tenants d, sourceEvents d)", simplified]
  frame_loginAttempts [where f = "\<lambda>d. (tenants d, sourceEvents d)", simplified]
  frame_auditLog [where f = "\<lambda>d. (tenants d, sourceEvents d)", simplified]
  frame_deadLetters [where f = "\<lambda>d. (tenants d, sourceEvents d)", simplified]
  frame_retryQueue [where f = "\<lambda>d. (tenants d, sourceEvents d)", simplified]
  frame_conflicts [where f = "\<lambda>d. (tenants d, sourceEvents d)", simplified]
  frame_reconFindings [where f = "\<lambda>d. (tenants d, sourceEvents d)", simplified]
  frame_syncJobs [where f = "\<lambda>d. (tenants d, sourceEvents d)", simplified]
  frame_reopen [where f = "\<lambda>d. (tenants d, sourceEvents d)", simplified]
  frame_reconRuns [where f = "\<lambda>d. (tenants d, sourceEvents d)", simplified]
  frame_connections [where f = "\<lambda>d. (tenants d, sourceEvents d)", simplified]
  frame_canonicals [where f = "\<lambda>d. (tenants d, sourceEvents d)", simplified]
  frame_outbounds [where f = "\<lambda>d. (tenants d, sourceEvents d)", simplified]
  frame_operations [where f = "\<lambda>d. (tenants d, sourceEvents d)", simplified]
  frame_processed [where f = "\<lambda>d. (tenants d, sourceEvents d)", simplified]
  frame_PersistApplyState [where f = "\<lambda>d. (tenants d, sourceEvents d)", simplified]

lemma knownDelivery_frame:
  "keeps (\<lambda>s. (tenants (db s), sourceEvents (db s))) m \<Longrightarrow> pres (\<lambda>s. knownDelivery slug tenant k (db s)) m"
  by (auto simp: keeps_def pres_def knownDelivery_def)

lemma hasKey_updateWhere:
  "(\<And>r. R r \<Longrightarrow> key (f r) = key r) \<Longrightarrow> hasKey key k (updateWhere R f rows) = hasKey key k rows"
  by (simp add: hasKey_def updateWhere_keys del: set_map)

lemma hasKey_append: "hasKey key k (xs @ ys) \<longleftrightarrow> hasKey key k xs \<or> hasKey key k ys"
  by (auto simp: hasKey_def)

lemma knownDelivery_writes:
  "pres (\<lambda>s. knownDelivery slug tenant k (db s)) (CreateTenant L a b)"
  "pres (\<lambda>s. knownDelivery slug tenant k (db s)) (InsertSourceEvent ev)"
  "pres (\<lambda>s. knownDelivery slug tenant k (db s)) (SetSourceEventStatus t a b c)"
  "pres (\<lambda>s. knownDelivery slug tenant k (db s)) (SetSourceEventStatusTo t a b)"
  unfolding store_ops
  by (rule pres_WithTenant pres_newID_WithTenant,
      auto simp: knownDelivery_def getBy_def findRow_append hasKey_updateWhere hasKey_append Let_def split: if_splits)+

interpretation ingested: system_invariant "\<lambda>s. knownDelivery slug tenant k (db s)" L
  for slug :: string and tenant :: Tenant and k and L :: "('w, 'x) apilib_scheme"
  by unfold_locales (simp_all add: delivery_frames [THEN knownDelivery_frame] knownDelivery_writes)

section \<open>Properties of the gateway\<close>

text \<open>C9: The webhook gateway admits only signed events. Whatever request is sent and whatever fails,
  either the reply is not 202 and no table changes, or it is 202, the tenant of the path has a
  connection for the provider whose nonempty secret signs the body as read (its first mebibyte),
  and exactly one row, the event of the body, is added to the tables.\<close>

theorem webhook_authentic:
  assumes "handleWebhook L r s = (x, s')"
  shows "\<exists>rep. x = Inr rep \<and> ((rp_Status rep \<noteq> 202 \<and> db s' = db s) \<or>
    (rp_Status rep = 202 \<and> (\<exists>tenant wh eid. accepted L r tenant wh eid (now s) (db s) (db s'))))"
  by (rule handleWebhook_cases [OF assms])

definition demoDelivery :: Request where
  "demoDelivery = demoRequest\<lparr>rq_Content := ''b'', rq_Signature := ''sha256='' @ hexEncode ''sb''\<rparr>"

lemma demo_delivered:
  "\<exists>rep s'. handleWebhook demoApi demoDelivery (demoApiSt demoApiDb) = (Inr rep, s') \<and> rp_Status rep = 202"
proof -
  have "verifySignature demoApi (take 1048576 ''b'') ''s'' (''sha256='' @ hexEncode ''sb'')"
    by (simp add: verifySignature_def stripPrefix_def demo_outside)
  then show ?thesis
    by (simp add: handleWebhook_def demoDelivery_def demoRequest_def GetTenantBySlug_def GetConnectionByProvider_def run_simps
        demo_state demoTenant_def demoConnection_def getBy_def rowOr_def gget_def storeWebhook_def demo_outside demoWebhook_def
        bindM_run ret_run InsertSourceEvent_def hasKey_def Let_def)
qed

theorem webhook_authentic_witness:
  "\<exists>rep s' tenant wh eid. handleWebhook demoApi demoDelivery (demoApiSt demoApiDb) = (Inr rep, s') \<and>
     accepted demoApi demoDelivery tenant wh eid 1000 demoApiDb (db s')"
proof -
  obtain rep s' where run: "handleWebhook demoApi demoDelivery (demoApiSt demoApiDb) = (Inr rep, s')" "rp_Status rep = 202"
    using demo_delivered by blast
  show ?thesis
    using webhook_authentic [OF run(1)] run by (auto simp: demo_state)
qed



section \<open>The processor\<close>

definition message :: "('w, 'x) apilib_scheme \<Rightarrow> int \<Rightarrow> SourceEvent \<Rightarrow> string \<times> string \<times> string" where
  "message L n se = (TopicSyncEvents, PartitionKey (fromSourceEvent se n), event_marshal L (fromSourceEvent se n))"

definition busAppends :: "('w, 'x) apilib_scheme \<Rightarrow> ('w \<Rightarrow> (string \<times> string \<times> string) list) \<Rightarrow> bool" where
  "busAppends L busLog \<longleftrightarrow> (\<forall>t k v w. busLog (snd (bus_publish L t k v w)) =
      (case fst (bus_publish L t k v w) of Inl e \<Rightarrow> busLog w | Inr u \<Rightarrow> busLog w @ [(t, k, v)]))"

text \<open>A row as it was, or marked as validated with its message among the new ones.\<close>

definition publishedOr ::
  "('w, 'x) apilib_scheme \<Rightarrow> int \<Rightarrow> (string \<times> string \<times> string) list \<Rightarrow> SourceEvent \<Rightarrow> SourceEvent \<Rightarrow> bool" where
  "publishedOr L n sent e0 e \<longleftrightarrow>
     e = e0 \<or> (se_Status e0 = ''received'' \<and> e = e0\<lparr>se_Status := ''validated''\<rparr> \<and> message L n e0 \<in> set sent)"

definition seID :: "SourceEvent \<Rightarrow> string \<times> string" where
  "seID e = (se_TenantID e, se_EventID e)"

definition marks :: "SourceEvent \<Rightarrow> SourceEvent list \<Rightarrow> SourceEvent list" where
  "marks se rows = updateWhere (\<lambda>e. se_TenantID e = se_TenantID se \<and> se_EventID e = se_EventID se \<and> se_Status e = ''received'')
     (\<lambda>e. e\<lparr>se_Status := ''validated''\<rparr>) rows"

lemma busAppendsD:
  assumes "busAppends L busLog" "bus_publish L t k v w = (y, w')"
  shows "busLog w' = (case y of Inl e \<Rightarrow> busLog w | Inr u \<Rightarrow> busLog w @ [(t, k, v)])"
proof -
  have "busLog (snd (bus_publish L t k v w)) =
      (case fst (bus_publish L t k v w) of Inl e \<Rightarrow> busLog w | Inr u \<Rightarrow> busLog w @ [(t, k, v)])"
    using assms(1) by (simp add: busAppends_def)
  then show ?thesis
    using assms(2) by simp
qed

lemma publishOne_cases:
  assumes "busAppends L busLog" "publishOne L se s = (x, s')"
  shows "x = Inr () \<and> now s' = now s \<and>
    ((busLog (world s') = busLog (world s) \<and> sourceEvents (db s') = sourceEvents (db s)) \<or>
     (busLog (world s') = busLog (world s) @ [message L (now s) se] \<and>
      (sourceEvents (db s') = sourceEvents (db s) \<or> sourceEvents (db s') = marks se (sourceEvents (db s)))))"
proof -
  obtain y w where pub: "bus_publish L TopicSyncEvents (PartitionKey (fromSourceEvent se (now s)))
      (event_marshal L (fromSourceEvent se (now s))) (world s) = (y, w)"
    by fastforce
  have lg: "busLog w = (case y of Inl e \<Rightarrow> busLog (world s) | Inr u \<Rightarrow> busLog (world s) @ [message L (now s) se])"
    using busAppendsD [OF assms(1) pub] unfolding message_def .
  define s1 where "s1 = s\<lparr>world := w\<rparr>"
  obtain z s2 where set: "SetSourceEventStatus (se_TenantID se) (se_EventID se) ''received'' ''validated'' s1 = (z, s2)"
    by fastforce
  have "now s2 = now s \<and> world s2 = w \<and> (sourceEvents (db s2) = sourceEvents (db s) \<or> sourceEvents (db s2) = marks se (sourceEvents (db s)))"
    using set unfolding SetSourceEventStatus_def
    by (cases rule: WithTenant_cases [of "\<lambda>n d. (Inr (), d\<lparr>sourceEvents := updateWhere
        (\<lambda>e. se_TenantID e = se_TenantID se \<and> se_EventID e = se_EventID se \<and> se_Status e = ''received'')
        (\<lambda>e. e\<lparr>se_Status := ''validated''\<rparr>) (sourceEvents d)\<rparr>)" s1]) (auto simp: s1_def marks_def)
  moreover have "(x, s') = (Inr (), case y of Inl e \<Rightarrow> s1 | Inr u \<Rightarrow> s2)"
    using assms(2) pub set
    by (cases y) (auto simp: publishOne_def busPublish_def bindM_run attempt_run ignore_run run_simps ret_run s1_def Let_def)
  ultimately show ?thesis
    using lg by (cases y) (simp_all add: s1_def)
qed

lemma publishedOr_mono: "publishedOr L n sent e0 e \<Longrightarrow> publishedOr L n (sent @ sent2) e0 e"
  by (auto simp: publishedOr_def)

lemma marks_published:
  assumes "list_all2 (publishedOr L n sent) rows0 rows" "keysOk seID rows0" "se \<in> set rows0"
  shows "list_all2 (publishedOr L n (sent @ [message L n se])) rows0 (marks se rows)"
proof -
  have "e0 = se" if "e0 \<in> set rows0" "seID e0 = seID se" for e0
    using assms(2,3) that unfolding keysOk_def distinct_map by (blast dest: inj_onD)
  then have step: "publishedOr L n (sent @ [message L n se]) e0
      (if se_TenantID e = se_TenantID se \<and> se_EventID e = se_EventID se \<and> se_Status e = ''received''
       then e\<lparr>se_Status := ''validated''\<rparr> else e)"
    if "e0 \<in> set rows0" "publishedOr L n sent e0 e" for e0 e
    using that by (auto simp: publishedOr_def seID_def)
  show ?thesis
    unfolding marks_def updateWhere_def list_all2_map2
    by (rule list.rel_mono_strong [OF assms(1)]) (rule step)
qed

lemma publish_all:
  assumes "busAppends L busLog" "keysOk seID rows0" "set ps \<subseteq> set rows0"
    and "busLog (world s) = before @ sent" "list_all2 (publishedOr L (now s) sent) rows0 (sourceEvents (db s))"
    and "forM ps (\<lambda>se _. publishOne L se) () s = (x, s')"
  shows "x = Inr () \<and> (\<exists>sent'. busLog (world s') = before @ sent @ sent' \<and>
    list_all2 (publishedOr L (now s) (sent @ sent')) rows0 (sourceEvents (db s')))"
  using assms(3-6)
proof (induction ps arbitrary: s sent)
  case Nil
  then show ?case by (auto simp: ret_run intro: exI [of _ "[]"])
next
  case (Cons se ps)
  obtain y s1 where one: "publishOne L se s = (y, s1)" by fastforce
  note c = publishOne_cases [OF assms(1) one]
  then have rest: "forM ps (\<lambda>se _. publishOne L se) () s1 = (x, s')"
    using Cons.prems(4) one by (simp add: bindM_run)
  have "\<exists>new. busLog (world s1) = before @ sent @ new \<and> list_all2 (publishedOr L (now s1) (sent @ new)) rows0 (sourceEvents (db s1))"
    using c Cons.prems marks_published [OF Cons.prems(3) assms(2), of se] list_all2_mono [OF Cons.prems(3) publishedOr_mono]
    by (auto intro: exI [of _ "[]"] exI [of _ "[message L (now s) se]"])
  then obtain new where "busLog (world s1) = before @ (sent @ new)" "list_all2 (publishedOr L (now s1) (sent @ new)) rows0 (sourceEvents (db s1))"
    by auto
  then show ?case
    using Cons.IH [of s1 "sent @ new"] Cons.prems(1) rest c by auto
qed


definition demoSource :: "string \<Rightarrow> SourceEvent" where
  "demoSource src = (webhookEvent demoApi ''t1'' src ''e1'' ''b'' demoWebhook)\<lparr>se_Status := ''received''\<rparr>"

lemma demo_busAppends: "busAppends demoApi (\<lambda>w. w)"
  by (simp add: busAppends_def demo_outside)


definition busUp :: "('w, 'x) apilib_scheme \<Rightarrow> bool" where
  "busUp L \<longleftrightarrow> (\<forall>t k v w. fst (bus_publish L t k v w) = Inr ())"

lemma publishOne_calm:
  assumes "busAppends L busLog" "busUp L" "calm s"
  shows "\<exists>s'. publishOne L se s = (Inr (), s') \<and> calm s' \<and> now s' = now s \<and>
    busLog (world s') = busLog (world s) @ [message L (now s) se] \<and> sourceEvents (db s') = marks se (sourceEvents (db s))"
proof -
  obtain w where pub: "bus_publish L TopicSyncEvents (PartitionKey (fromSourceEvent se (now s)))
      (event_marshal L (fromSourceEvent se (now s))) (world s) = (Inr (), w)"
    using assms(2) unfolding busUp_def by (metis prod.collapse)
  show ?thesis
    using pub busAppendsD [OF assms(1) pub] assms(3)
    by (simp add: publishOne_def busPublish_def SetSourceEventStatus_def bindM_run attempt_run ignore_run run_simps Let_def
        marks_def message_def)
qed

lemma publish_calm:
  assumes "busAppends L busLog" "busUp L" "calm s"
  shows "\<exists>s'. forM ps (\<lambda>se _. publishOne L se) () s = (Inr (), s') \<and>
    busLog (world s') = busLog (world s) @ map (message L (now s)) ps \<and> sourceEvents (db s') = fold marks ps (sourceEvents (db s))"
  using assms(3)
proof (induction ps arbitrary: s)
  case (Cons se ps)
  obtain s1 where "publishOne L se s = (Inr (), s1)" "calm s1" "now s1 = now s"
    "busLog (world s1) = busLog (world s) @ [message L (now s) se]" "sourceEvents (db s1) = marks se (sourceEvents (db s))"
    using publishOne_calm [OF assms(1,2) Cons.prems] by blast
  then show ?case
    using Cons.IH [of s1] by (auto simp: bindM_run)
qed (simp add: ret_run)

lemma fold_marks:
  "fold marks ps rows = map (\<lambda>e. if se_Status e = ''received'' \<and> seID e \<in> seID ` set ps then e\<lparr>se_Status := ''validated''\<rparr> else e) rows"
proof (induction ps arbitrary: rows)
  case (Cons p ps)
  then show ?case
    by (auto simp: marks_def updateWhere_def seID_def)
qed simp

text \<open>Ingestion makes progress. While the database works and the bus accepts messages, a pass of the
  ingestion processor publishes the oldest received events, up to the batch size, in the order
  they were received, and marks exactly the received events with their tenants and identifiers as validated.\<close>

theorem ingest_publishes:
  assumes "busAppends L busLog" "busUp L" "calm s"
  shows "\<exists>s'. ingestDrain L s = (Inr (), s') \<and>
    (let batch = take 100 (filter (\<lambda>e. se_Status e = ''received'') (sourceEvents (db s))) in
     busLog (world s') = busLog (world s) @ map (message L (now s)) batch \<and>
     sourceEvents (db s') = map (\<lambda>e. if se_Status e = ''received'' \<and> seID e \<in> seID ` set batch
       then e\<lparr>se_Status := ''validated''\<rparr> else e) (sourceEvents (db s)))"
  using publish_calm [OF assms, of "take 100 (filter (\<lambda>e. se_Status e = ''received'') (sourceEvents (db s)))"] assms(3)
  by (simp add: ingestDrain_def PendingSourceEvents_def clampLimit_def batchSize_def bindM_run attempt_run run_simps fold_marks Let_def)

theorem ingest_publishes_witness:
  "\<exists>s'. ingestDrain demoApi (demoApiSt (demoApiDb\<lparr>sourceEvents := [demoSource Salesforce]\<rparr>)) = (Inr (), s') \<and>
     world s' = [message demoApi 1000 (demoSource Salesforce)]"
  using ingest_publishes [OF demo_busAppends, of "demoApiSt (demoApiDb\<lparr>sourceEvents := [demoSource Salesforce]\<rparr>)"]
  by (auto simp: demo_state demo_outside busUp_def demoSource_def Let_def)

section \<open>Colliding identifiers\<close>

text \<open>The update that marks an event does not name its source. When two sources of a tenant use the
  same event identifier and only the first message reaches the bus, both events are marked.\<close>

definition flakyApi :: "(string \<times> string \<times> string) list apilib" where
  "flakyApi = demoApi\<lparr>bus_publish := (\<lambda>t k v w. if w = [] then (Inr (), [(t, k, v)]) else (Inl ''down'', w))\<rparr>"

lemma colliding_event_lost:
  "let s' = snd (ingestDrain flakyApi (demoApiSt (demoApiDb\<lparr>sourceEvents := [demoSource Salesforce, demoSource HubSpot]\<rparr>))) in
     world s' = [message flakyApi 1000 (demoSource Salesforce)] \<and> map se_Status (sourceEvents (db s')) = [''validated'', ''validated'']"
  by (simp add: ingestDrain_def PendingSourceEvents_def clampLimit_def batchSize_def publishOne_def busPublish_def flakyApi_def
      SetSourceEventStatus_def bindM_run attempt_run ignore_run run_simps ret_run Let_def message_def demo_state demoSource_def
      webhookEvent_def demoWebhook_def)

end
