(* ===== verification/SimProps.thy ===== *)
theory SimProps
imports SimSeeds IngestProps
begin

text \<open>
  What the simulated provider promises: no run of it loses a record or gives out an identifier
  twice, its webhooks are accepted by the gateway, a client that honours its \<open>Retry-After\<close> gets
  through, what an adapter writes to it the adapter reads back, and what it starts with the adapter accepts.
\<close>

section \<open>A concrete provider\<close>

definition demoCustomer :: Customer where
  "demoCustomer = emptyCustomer\<lparr>FirstName := ''Ada'', LastName := ''L'', Email := ''ada@x''\<rparr>"

definition demoSimLib :: "nat simlib" where
  "demoSimLib = \<lparr>json_num = (\<lambda>r. Itoa \<lfloor>r\<rfloor>), sprint_num = (\<lambda>r. Itoa \<lfloor>r\<rfloor>), json_decode = (\<lambda>s. None),
     sha256_hex = (\<lambda>s. s), hmac_sha256 = (\<lambda>k m. k @ m), hmac_sha1 = (\<lambda>k m. []), bcrypt_ok = (\<lambda>h p. h = p), rfc3339 = Itoa,
     parse_rfc3339 = (\<lambda>s. None), rng_seed = nat, rng_float64 = (\<lambda>r. (1 / 2, r)), rng_intn = (\<lambda>r n. (0, r)),
     first_value = (\<lambda>s. Some (GObj (pr_Data (sf_Denormalize demoCustomer)))), uuid_string = (\<lambda>n. ''u'' @ digits10 n),
     time_text = Itoa, change_marshal = ce_EventID, faults_marshal = (\<lambda>c. []), faults_unmarshal = (\<lambda>s. None)\<rparr>"

definition demoSim :: "nat sim" where
  "demoSim = NewServer demoSimLib salesforceSpec \<lparr>so_RateLimitPerMin = 0, so_WebhookURL = ''http://gw'', so_WebhookSecret = ''s'',
     so_SeedCount = 0, so_SeedRec = None\<rparr> 0"

lemma demo_sim:
  "sim_prefix demoSim = ''sf-''" "sim_spec demoSim = salesforceSpec" "sim_store demoSim = NewStore" "sim_faults demoSim = defaultFaults"
  "sim_rate demoSim = NewRateLimiter 0 0" "sim_now demoSim = 0" "sim_sent demoSim = []" "sim_seq demoSim = 0"
  by (simp_all add: demoSim_def NewServer_def salesforceSpec_def)

section \<open>Programs that leave the store alone\<close>

abbreviation simData :: "'r sim \<Rightarrow> string \<times> Spec \<times> MemStore" where
  "simData s \<equiv> (sim_prefix s, sim_spec s, sim_store s)"

lemma keeps_sim_rng [keeps_intros]: "keeps simData (rngFloat64 L)" "keeps simData (rngIntn L n)" "keeps simData (newUUID L)"
  by (auto simp: rngFloat64_def rngIntn_def newUUID_def simPanic_def throw_def split: prod.splits intro!: keepsI)

lemma keeps_sim_should [keeps_intros]: "keeps simData (should L rate)"
  unfolding should_def by (intro keeps_intros)

lemma keeps_sim_faults [keeps_intros]:
  "keeps simData FaultsGet" "keeps simData (ShouldFail L)" "keeps simData (AuthFailure L)" "keeps simData (Malformed L)"
  "keeps simData (Latency L)" "keeps simData (Hang L)" "keeps simData (RateLimited L)" "keeps simData (WebhookOptions L)"
  unfolding FaultsGet_def ShouldFail_def AuthFailure_def Malformed_def Latency_def Hang_def RateLimited_def WebhookOptions_def
  by (intro keeps_intros)+

lemma keeps_sim_steps [keeps_intros]:
  "keeps simData (deliver L w ev d)" "keeps simData (simSleep n d)" "keeps simData (FaultsSet L c)"
  by (auto simp: deliver_def simSleep_def FaultsSet_def Let_def intro!: keepsI)

lemma keeps_simEmit [keeps_intros]: "keeps simData (simEmit L ty rec)"
  unfolding simEmit_def Emit_def by (intro keeps_intros)

lemma keeps_sim_replies [keeps_intros]:
  "keeps v (sim_writeJSON L n x)" "keeps v (httpError msg n)" "keeps v (replyRecord L n rec)"
  by (simp_all add: sim_writeJSON_def httpError_def replyRecord_def ret_def keeps_def)

lemma keeps_replyFaults [keeps_intros]: "keeps simData (replyFaults L)"
  unfolding replyFaults_def by (intro keeps_intros)

lemma keeps_simRateLimit [keeps_intros]: "keeps simData (simRateLimit L)"
proof -
  have "keeps simData (\<lambda>s. let r0 = f s in case Allow_request r0 (sim_now s) of ((ok, ra), r1) \<Rightarrow> (Inr (g ok ra), s\<lparr>sim_rate := r1\<rparr>))" for f g
    by (rule keepsI) (auto simp: Let_def split: prod.splits)
  then show ?thesis
    unfolding simRateLimit_def by (intro keeps_intros)
qed

lemma keeps_injected [keeps_intros]: "keeps simData (injected L n)"
  unfolding injected_def by (intro keeps_intros)

section \<open>What a request does to the store\<close>

inductive storeStep :: "string \<Rightarrow> MemStore \<Rightarrow> MemStore \<Rightarrow> bool" for p st where
  same: "storeStep p st st"
| inserted: "sim_Insert p t data st = (rec, st') \<Longrightarrow> storeStep p st st'"
| updated: "sim_Update t rid data st = (x, st') \<Longrightarrow> storeStep p st st'"
| deleted: "SoftDelete t rid st = (x, st') \<Longrightarrow> storeStep p st st'"
| seeded: "Seed p t n f st = (x, st') \<Longrightarrow> 0 < n \<Longrightarrow> n \<le> 1000000 \<Longrightarrow> storeStep p st st'"

lemma bind_after: "m s = (Inr x, s1) \<Longrightarrow> keeps v (f x) \<Longrightarrow> v (snd (bindM m f s)) = v s1"
  using keepsD [of v "f x" s1] by (simp add: bindM_run)

definition storeStepped :: "'r sim \<Rightarrow> 'r sim \<Rightarrow> bool" where
  "storeStepped s s' \<longleftrightarrow> sim_prefix s' = sim_prefix s \<and> sim_spec s' = sim_spec s \<and> storeStep (sim_prefix s) (sim_store s) (sim_store s')"

lemma keeps_stepped: "keeps simData m \<Longrightarrow> storeStepped s (snd (m s))"
  using keepsD [of simData m s] by (auto simp: storeStepped_def intro: storeStep.same)

lemma create_stepped: "storeStepped s (snd (sim_handleCreate L r s))"
proof (cases "decodeBody L (sr_Body r)")
  case (Some data)
  obtain rec st where op: "sim_Insert (sim_prefix s) (sim_now s) data (sim_store s) = (rec, st)"
    by (rule prod.exhaust)
  have "keeps simData (thenM (simEmit L ''created'' rec) (replyRecord L 201 rec))"
    by (intro keeps_intros)
  then have "simData (snd (sim_handleCreate L r s)) = simData (s\<lparr>sim_store := st\<rparr>)"
    unfolding sim_handleCreate_def Some option.case by (intro bind_after) (simp_all add: op)
  then show ?thesis
    using storeStep.inserted [OF op] by (simp add: storeStepped_def)
qed (simp add: sim_handleCreate_def keeps_stepped keeps_intros)

lemma update_stepped: "storeStepped s (snd (sim_handleUpdate L rid r s))"
proof (cases "decodeBody L (sr_Body r)")
  case (Some data)
  obtain x st where op: "sim_Update (sim_now s) rid data (sim_store s) = (x, st)"
    by (rule prod.exhaust)
  have "keeps simData (case x of None \<Rightarrow> httpError (jsonError ''not found'') 404
     | Some rec \<Rightarrow> thenM (simEmit L ''updated'' rec) (replyRecord L 200 rec))"
    by (intro keeps_intros)
  then have "simData (snd (sim_handleUpdate L rid r s)) = simData (s\<lparr>sim_store := st\<rparr>)"
    unfolding sim_handleUpdate_def Some option.case by (intro bind_after) (simp_all add: op)
  then show ?thesis
    using storeStep.updated [OF op] by (simp add: storeStepped_def)
qed (simp add: sim_handleUpdate_def keeps_stepped keeps_intros)

lemma delete_stepped: "storeStepped s (snd (sim_handleDelete L rid s))"
proof -
  obtain x st where op: "SoftDelete (sim_now s) rid (sim_store s) = (x, st)"
    by (rule prod.exhaust)
  have "keeps simData (case x of None \<Rightarrow> httpError (jsonError ''not found'') 404
     | Some rec \<Rightarrow> thenM (simEmit L ''deleted'' rec) (ret \<lparr>StatusCode = 204, RetryAfterHdr = [], RespBody = []\<rparr>))"
    by (intro keeps_intros)
  then have "simData (snd (sim_handleDelete L rid s)) = simData (s\<lparr>sim_store := st\<rparr>)"
    unfolding sim_handleDelete_def by (intro bind_after) (simp_all add: op)
  then show ?thesis
    using storeStep.deleted [OF op] by (simp add: storeStepped_def)
qed

lemma seed_stepped: "storeStepped s (snd (sim_handleSeed L r s))"
proof -
  define c where "c = (let n = seedCount (first_value L (take 1048576 (sr_Body r))) in if n \<le> 0 \<or> n > 1000000 then 1000 else n)"
  obtain x st where op: "Seed (sim_prefix s) (sim_now s) c (sim_seedRec s) (sim_store s) = (x, st)"
    by (rule prod.exhaust)
  have "keeps simData (\<lambda>s. sim_writeJSON L n (f s) s)" for n f
    by (rule keepsI) (simp add: sim_writeJSON_def ret_def)
  then have "keeps simData (if \<not> x then simPanic ''nil function''
       else (\<lambda>s. sim_writeJSON L 200 (GObj [(''records'', GNum (of_int (sim_Count (sim_store s))))]) s))"
    by (intro keeps_intros) (simp_all add: simPanic_def keeps_intros)
  then have "simData (snd (sim_handleSeed L r s)) = simData (s\<lparr>sim_store := st\<rparr>)"
    unfolding sim_handleSeed_def Let_def by (intro bind_after) (simp_all add: op [unfolded c_def Let_def])
  moreover have "0 < c" "c \<le> 1000000"
    by (simp_all add: c_def Let_def)
  ultimately show ?thesis
    using storeStep.seeded [OF op] by (simp add: storeStepped_def)
qed

lemma reads_stepped:
  "storeStepped s (snd (sim_handleList L r s))" "storeStepped s (snd (sim_handleGet L rid s))"
  "storeStepped s (snd (sim_handleHealth L s))" "storeStepped s (snd (sim_handleRecords L s))"
  "storeStepped s (snd (replyFaults L s))" "storeStepped s (snd (sim_handleSetFaults L r s))"
proof -
  have "keeps simData (sim_handleGet L rid)" "keeps simData (sim_handleSetFaults L r)" "keeps simData (sim_handleHealth L)"
    "keeps simData (sim_handleRecords L)" "keeps simData (sim_handleList L r)"
    unfolding sim_handleGet_def sim_handleSetFaults_def
    by (intro keeps_intros)+
      (auto simp: sim_handleHealth_def sim_handleRecords_def sim_handleList_def sim_writeJSON_def ret_def Let_def
         split: prod.splits intro!: keepsI)
  then show "storeStepped s (snd (sim_handleList L r s))" "storeStepped s (snd (sim_handleGet L rid s))"
    "storeStepped s (snd (sim_handleHealth L s))" "storeStepped s (snd (sim_handleRecords L s))"
    "storeStepped s (snd (replyFaults L s))" "storeStepped s (snd (sim_handleSetFaults L r s))"
    by (auto intro: keeps_stepped keeps_intros)
qed

lemma simMux_stepped: "storeStepped s (snd (simMux L r s))"
proof (cases "simRoutes L (sim_spec s) r")
  case Nil
  then show ?thesis
    by (simp add: simMux_def bindM_run gets_run keeps_stepped keeps_intros)
next
  case (Cons x xs)
  show ?thesis
  proof (cases "map_of (simRoutes L (sim_spec s) r) (sr_Method r)")
    case None
    then show ?thesis
      using Cons by (simp add: simMux_def bindM_run gets_run keeps_stepped keeps_intros)
  next
    case (Some h)
    then have "snd (simMux L r s) = snd (h s)"
      using Cons by (simp add: simMux_def bindM_run gets_run)
    moreover have "h \<in> snd ` set (simRoutes L (sim_spec s) r)"
      using map_of_SomeD [OF Some] by force
    ultimately show ?thesis
      by (auto simp: simRoutes_def Let_def create_stepped update_stepped delete_stepped seed_stepped reads_stepped
          split: if_splits option.splits)
  qed
qed

lemma simHandler_stepped: "storeStepped s (snd (simHandler L r s))"
proof (cases "stripPrefix ''/api/'' (sr_Path r)")
  case (Some rest)
  obtain x s1 where pre: "injected L (sr_Deadline r) s = (x, s1)"
    by (rule prod.exhaust)
  have same: "simData s1 = simData s"
    using keepsD [OF keeps_injected, of L "sr_Deadline r" s] pre by simp
  show ?thesis
  proof (cases "x = Inr None")
    case True
    then have "snd (simHandler L r s) = snd (simMux L r s1)"
      using pre Some by (simp add: simHandler_def bindM_run)
    then show ?thesis
      using simMux_stepped [of s1 L r] same by (simp add: storeStepped_def)
  next
    case False
    then have "snd (simHandler L r s) = s1"
      using pre Some by (auto simp: simHandler_def bindM_run ret_def split: sum.splits option.splits)
    then show ?thesis
      using same by (auto simp: storeStepped_def intro: storeStep.same)
  qed
qed (simp add: simHandler_def simMux_stepped)

section \<open>Runs of the provider\<close>

text \<open>Records stay, their versions do not decrease and a deleted record stays deleted.\<close>

definition grown :: "MemStore \<Rightarrow> MemStore \<Rightarrow> bool" where
  "grown st st' \<longleftrightarrow> (\<forall>rid rec. map_of (records st) rid = Some rec \<longrightarrow>
     (\<exists>rec'. map_of (records st') rid = Some rec' \<and> rc_Version rec \<le> rc_Version rec' \<and> (rc_Deleted rec \<longrightarrow> rc_Deleted rec')))"

lemma grown_refl: "grown st st"
  by (simp add: grown_def)

lemma grown_trans: "grown st1 st2 \<Longrightarrow> grown st2 st3 \<Longrightarrow> grown st1 st3"
  unfolding grown_def by (meson order.trans)

lemma grown_keepsIDs: "grown st st' \<Longrightarrow> keepsIDs st st'"
  by (fastforce simp: grown_def keepsIDs_def set_sortedIDs dom_def)

text \<open>Neither the counter of identifiers nor a version is about to leave the 64-bit range.\<close>

definition roomLeft :: "MemStore \<Rightarrow> bool" where
  "roomLeft st \<longleftrightarrow> nextID st + 1000000 < 2 ^ 63 \<and> (\<forall>(rid, rec) \<in> set (records st). - (2 ^ 63) \<le> rc_Version rec \<and> rc_Version rec < 2 ^ 63 - 1)"

lemma roomLeft_version: "roomLeft st \<Longrightarrow> map_of (records st) rid = Some rec \<Longrightarrow> i64 (rc_Version rec + 1) = rc_Version rec + 1"
  by (fastforce simp: roomLeft_def in64_def dest!: map_of_SomeD intro!: i64_id)

lemma seedFrom_extends:
  "storeOk p st \<Longrightarrow> nextID st + int (length is) < 2 ^ 63 \<Longrightarrow> map_of (records st) rid = Some rec \<Longrightarrow>
     map_of (records (snd (seedFrom p t (Some f) is st))) rid = Some rec"
proof (induction "is" arbitrary: st)
  case (Cons i "is")
  define new where "new = idFormat p (nextID st + 1)"
  define st1 where "st1 = st\<lparr>nextID := nextID st + 1, records := gset new
    \<lparr>rc_ID = new, rc_Version = 1, rc_UpdatedAt = t, rc_Deleted = False, rc_Data = f new i\<rparr> (records st)\<rparr>"
  note gen = genID_fresh [of p st, folded new_def]
  have "storeOk p st1"
    unfolding st1_def new_def using Cons.prems by (intro storeOk_add) simp_all
  moreover have "map_of (records st1) rid = Some rec"
    using Cons.prems gen(2) by (auto simp: st1_def)
  moreover have "seedFrom p t (Some f) (i # is) st = seedFrom p t (Some f) is st1"
    using gen(1) Cons.prems by (simp add: st1_def)
  moreover have "nextID st1 = nextID st + 1"
    by (simp add: st1_def)
  ultimately show ?case
    using Cons.IH [of st1] Cons.prems(2) by simp
qed simp

lemma Seed_grown:
  assumes "storeOk p st" "roomLeft st" "Seed p t n f st = (x, st')" "0 < n" "n \<le> 1000000"
  shows "storeOk p st' \<and> grown st st'"
proof (cases f)
  case None
  have "[0..n - 1] = 0 # [1..n - 1]"
    using assms(4) by (simp add: upto_rec1)
  then have "st' = st\<lparr>nextID := nextID st + 1\<rparr>"
    using assms genID_fresh [OF assms(1)] None by (auto simp: Seed_def roomLeft_def)
  moreover have "storeOk p (st\<lparr>nextID := nextID st + 1\<rparr>)"
    using assms(1,2) by (fastforce simp: storeOk_def roomLeft_def)
  ultimately show ?thesis
    by (simp add: grown_def)
next
  case (Some g)
  have bound: "nextID st + int (length [0..n - 1]) < 2 ^ 63"
    using assms(2,5) by (simp add: roomLeft_def)
  have st': "st' = snd (seedFrom p t (Some g) [0..n - 1] st)"
    using assms(3) Some by (simp add: Seed_def)
  have "grown st st'"
    unfolding grown_def st' using seedFrom_extends [OF assms(1) bound] by blast
  then show ?thesis
    using storeOk_seedFrom [OF assms(1) bound] st' by simp
qed

lemma storeStep_grown:
  assumes "storeStep p st st'" "storeOk p st" "roomLeft st"
  shows "storeOk p st' \<and> grown st st'"
  using assms
proof (cases rule: storeStep.cases)
  case (inserted t data rec)
  have "nextID st < 2 ^ 63 - 1"
    using assms(3) by (simp add: roomLeft_def)
  note new = sim_Insert_fresh [OF assms(2) this inserted]
  have "grown st st'"
    unfolding grown_def new(8) using new(7) by auto
  with new(1) show ?thesis by blast
next
  case (updated t rid data x)
  have "grown st st'"
    using updated roomLeft_version [OF assms(3)] unfolding grown_def
    by (auto simp: sim_Update_def Let_def split: option.splits)
  with storeOk_Update [OF assms(2) updated] show ?thesis by blast
next
  case (deleted t rid x)
  have "grown st st'"
    using deleted roomLeft_version [OF assms(3)] unfolding grown_def
    by (auto simp: SoftDelete_def Let_def split: option.splits)
  with storeOk_SoftDelete [OF assms(2) deleted] show ?thesis by blast
qed (use Seed_grown grown_refl in blast)+

text \<open>What can happen to a provider: requests, and time passing.\<close>

inductive simulated :: "('r, 'x) simlib_scheme \<Rightarrow> 'r sim \<Rightarrow> 'r sim \<Rightarrow> bool" for L s where
  start: "simulated L s s"
| request: "simulated L s s1 \<Longrightarrow> roomLeft (sim_store s1) \<Longrightarrow> simHandler L r s1 = (x, s2) \<Longrightarrow> simulated L s s2"
| clock: "simulated L s s1 \<Longrightarrow> sim_now s1 \<le> t \<Longrightarrow> simulated L s (s1\<lparr>sim_now := t\<rparr>)"

text \<open>C39: A simulated provider loses nothing. Whatever requests it gets and whatever failures are switched on, as
  long as its 64-bit counters last, its identifiers stay well formed and unique, no record
  disappears, the version of no record decreases and a deleted record stays marked as deleted.\<close>

theorem sim_store_grows:
  assumes "simulated L s s'" "storeOk (sim_prefix s) (sim_store s)"
  shows "sim_prefix s' = sim_prefix s \<and> storeOk (sim_prefix s) (sim_store s') \<and> grown (sim_store s) (sim_store s')"
  using assms(1)
proof (induction rule: simulated.induct)
  case (request s1 r x s2)
  then have "storeStepped s1 s2"
    using simHandler_stepped [of s1 L r] by simp
  then show ?case
    using request storeStep_grown grown_trans unfolding storeStepped_def by metis
qed (use assms(2) grown_refl in auto)

theorem sim_store_grows_witness:
  "storeOk ''sf-'' (sim_store (snd (simHandler demoSimLib
     \<lparr>sr_Method = ''POST'', sr_Path = ''/api/v1/customers'', sr_Query = [], sr_Body = [], sr_Deadline = 1\<rparr> demoSim)))"
proof -
  let ?r = "\<lparr>sr_Method = ''POST'', sr_Path = ''/api/v1/customers'', sr_Query = [], sr_Body = [], sr_Deadline = 1\<rparr>"
  obtain x s' where run: "simHandler demoSimLib ?r demoSim = (x, s')"
    by (rule prod.exhaust)
  have "simulated demoSimLib demoSim s'"
    by (rule simulated.request [OF simulated.start _ run]) (simp add: demo_sim roomLeft_def NewStore_def)
  then show ?thesis
    using sim_store_grows [of demoSimLib demoSim s'] storeOk_New run by (simp add: demo_sim)
qed

section \<open>Without failures\<close>

lemma should_never [run_simps]: "should L 0 s = (Inr False, s)"
  by (simp add: should_def ret_def)

lemma injected_none:
  assumes "sim_faults s = defaultFaults"
  shows "injected L n s = (Inr None, s)"
  using assms
  by (simp add: injected_def AuthFailure_def ShouldFail_def Hang_def Latency_def simRateLimit_def RateLimited_def Malformed_def
      FaultsGet_def defaultFaults_def run_simps Let_def i64_def)

section \<open>Webhooks reach the gateway\<close>

text \<open>Every delivery of a change carries one event of the change, signed with the secret of the dispatcher.\<close>

definition reports :: "('r, 'x) simlib_scheme \<Rightarrow> WebhookDispatcher \<Rightarrow> string \<Rightarrow> Record \<Rightarrow> Delivery \<Rightarrow> bool" where
  "reports L w ty rec d \<longleftrightarrow> (\<exists>n. dv_Body d = change_marshal L (changeEvent w (uuid_string L n) ty rec) \<and>
     dv_Signature d = signBody L (wd_Secret w) (dv_Body d))"

definition sends :: "(Delivery \<Rightarrow> bool) \<Rightarrow> Delivery list \<Rightarrow> 'r sim \<Rightarrow> bool" where
  "sends P sent s \<longleftrightarrow> (\<exists>new. sim_sent s = sent @ new \<and> list_all P new)"

lemma sends_quiet: "keeps sim_sent m \<Longrightarrow> pres (sends P sent) m"
  by (simp add: keeps_def pres_def sends_def)

lemma keeps_sent_rng [keeps_intros]: "keeps sim_sent (rngFloat64 L)" "keeps sim_sent (rngIntn L n)" "keeps sim_sent FaultsGet"
  by (auto simp: rngFloat64_def rngIntn_def simPanic_def FaultsGet_def gets_def throw_def split: prod.splits intro!: keepsI)

lemma keeps_sent_options [keeps_intros]: "keeps sim_sent (should L rate)" "keeps sim_sent (WebhookOptions L)"
  unfolding should_def WebhookOptions_def by (intro keeps_intros)+

lemma Emit_reports: "pres (sends (reports L w ty rec) sent) (Emit L w ty rec)"
proof -
  have uuid: "pres (sends (reports L w ty rec) sent) (bindM (newUUID L) f)"
    if "\<And>n. pres (sends (reports L w ty rec) sent) (f (uuid_string L n))" for f :: "string \<Rightarrow> ('a sim, unit) M"
  proof (rule presI)
    fix s :: "'a sim"
    assume "sends (reports L w ty rec) sent s"
    then have "sends (reports L w ty rec) sent (s\<lparr>sim_seq := sim_seq s + 1\<rparr>)"
      by (simp add: sends_def)
    then show "sends (reports L w ty rec) sent (snd (bindM (newUUID L) f s))"
      using presD [OF that] by (simp add: newUUID_def bindM_run)
  qed
  have deliver: "pres (sends (reports L w ty rec) sent) (deliver L w (changeEvent w (uuid_string L n) ty rec) d)" for n d
    by (rule presI) (auto simp: deliver_def sends_def reports_def Let_def)
  show ?thesis
    unfolding Emit_def
    by (intro pres_intros uuid deliver sends_quiet keeps_intros)
qed

text \<open>What the gateway relies on: it decodes a change as the simulator encodes it.\<close>

definition decodesChange :: "('w, 'x) apilib_scheme \<Rightarrow> ('r, 'y) simlib_scheme \<Rightarrow> ChangeEvent \<Rightarrow> bool" where
  "decodesChange L SL ev \<longleftrightarrow> (\<exists>wh m. webhook_unmarshal L (change_marshal SL ev) = Some wh \<and>
     wh_EventID wh = ce_EventID ev \<and> wh_Source wh = ce_Source ev \<and> wh_EntityType wh = ce_EntityType ev \<and>
     wh_EntityID wh = ce_EntityID ev \<and> wh_EventType wh = ce_EventType ev \<and> wh_SourceVersion wh = ce_SourceVersion ev \<and>
     wh_OccurredAt wh = ce_OccurredAt ev \<and>
     json_decode L (change_marshal SL ev) = Some (GObj m) \<and> gget GNil m ''payload'' = GObj (ce_Payload ev))"

definition postOf :: "string \<Rightarrow> string \<Rightarrow> Delivery \<Rightarrow> Request" where
  "postOf slug provider d = \<lparr>rq_Authorization = [], rq_APIKey = [], rq_Signature = dv_Signature d, rq_Content = dv_Body d,
     rq_RemoteAddr = [], rq_PathValue = [(''provider'', provider), (''tenant_slug'', slug)], rq_Query = []\<rparr>"

definition receives :: "WebhookDispatcher \<Rightarrow> string \<Rightarrow> Tenant \<Rightarrow> ('w, 'z) st_scheme \<Rightarrow> bool" where
  "receives w slug tenant g \<longleftrightarrow> calm g \<and> getBy te_Slug slug (tenants (db g)) = Some tenant \<and>
     (\<exists>conn. findRow (\<lambda>c. cn_TenantID c = te_ID tenant \<and> cn_Provider c = wd_Source w) (connections (db g)) = Some conn \<and>
        cn_WebhookSecret conn = wd_Secret w)"

lemma gateway_run:
  assumes "calm g" "getBy te_Slug (PathValue r ''tenant_slug'') (tenants (db g)) = Some tenant"
    and "findRow (\<lambda>c. cn_TenantID c = te_ID tenant \<and> cn_Provider c = PathValue r ''provider'') (connections (db g)) = Some conn"
    and "verifySignature L (take 1048576 (rq_Content r)) (cn_WebhookSecret conn) (rq_Signature r)"
  shows "handleWebhook L r g = storeWebhook L (te_ID tenant) (PathValue r ''provider'') (take 1048576 (rq_Content r)) g"
  using assms by (simp add: handleWebhook_def GetTenantBySlug_def GetConnectionByProvider_def run_simps rowOr_def Let_def)

lemma storeWebhook_run:
  assumes "calm g" "webhook_unmarshal L body = Some wh" "wh_EventID wh \<noteq> []" "wh_Source wh \<noteq> []"
    and "wh_EntityType wh \<noteq> []" "wh_EntityID wh \<noteq> []"
  shows "\<exists>rep g'. storeWebhook L tid provider body g = (Inr rep, g') \<and>
    (let row = webhookEvent L tid (wh_Source wh) (wh_EventID wh) body wh in
     if hasKey seKey (seKey row) (sourceEvents (db g)) then rp_Status rep = 200 \<and> db g' = db g
     else rp_Status rep = 202 \<and>
       sourceEvents (db g') = sourceEvents (db g) @ [row\<lparr>se_ReceivedAt := now g, se_Status := ''received''\<rparr>])"
  using assms by (simp add: storeWebhook_def InsertSourceEvent_def run_simps Let_def)


definition demoChange :: Record where
  "demoChange = \<lparr>rc_ID = ''sf-000001'', rc_Version = 3, rc_UpdatedAt = 7, rc_Deleted = False, rc_Data = []\<rparr>"

definition demoDispatcher :: WebhookDispatcher where
  "demoDispatcher = \<lparr>wd_URL = ''http://gw'', wd_Secret = ''s'', wd_Source = Salesforce, wd_EntityType = ''customer'', wd_IDKey = ''id'',
     wd_TimeKey = ''updated_at''\<rparr>"

definition demoGateway :: "(string \<times> string \<times> string) list apilib" where
  "demoGateway = demoApi\<lparr>
     json_decode := (\<lambda>s. Some (GObj [(''payload'', GObj (ce_Payload (changeEvent demoDispatcher s ''updated'' demoChange)))])),
     webhook_unmarshal := (\<lambda>s. let ev = changeEvent demoDispatcher s ''updated'' demoChange in
       Some \<lparr>wh_EventID = ce_EventID ev, wh_Source = ce_Source ev, wh_EntityType = ce_EntityType ev, wh_EntityID = ce_EntityID ev,
         wh_EventType = ce_EventType ev, wh_SourceVersion = ce_SourceVersion ev, wh_OccurredAt = ce_OccurredAt ev,
         wh_CorrelationID = [], wh_Provenance = []\<rparr>)\<rparr>"


section \<open>Retry-After\<close>

lemma ParseInt_Itoa:
  assumes "0 \<le> n" "n < 2 ^ 63"
  shows "ParseInt (Itoa n) = Some n"
proof -
  have "list_all isDigit (digits10 (nat n))"
    using digits10_digit by (fastforce simp: list_all_iff isDigit_def)
  moreover have "hd (digits10 (nat n)) \<noteq> CHR ''-'' \<and> hd (digits10 (nat n)) \<noteq> CHR ''+''"
    using digits10_digit [of "hd (digits10 (nat n))" "nat n"] by auto
  ultimately show ?thesis
    using assms by (simp add: ParseInt_def Itoa_def Let_def in64_def)
qed

lemma simRateLimit_run:
  assumes "0 < fc_RateLimitPerMin (sim_faults s)" "RateLimitProbability (sim_faults s) \<le> 0"
  shows "simRateLimit L s = (case Allow_request (SetCapacity (sim_rate s) (fc_RateLimitPerMin (sim_faults s))) (sim_now s) of
    ((ok, w), r1) \<Rightarrow> (Inr (if ok then None
        else Some \<lparr>StatusCode = 429, RetryAfterHdr = Itoa (truncate64 (Seconds w + 1)), RespBody = jsonError ''rate limit exceeded''\<rparr>),
      s\<lparr>sim_rate := r1\<rparr>))"
  using assms by (simp add: simRateLimit_def RateLimited_def FaultsGet_def run_simps Let_def)

lemma SetCapacity_same: "rateLimiterOk r \<Longrightarrow> capacity r = of_int n \<Longrightarrow> SetCapacity r n = r"
  by (simp add: SetCapacity_def rateLimiterOk_def Let_def)

text \<open>A client that honours \<open>Retry-After\<close> gets through. When the rate limit of a simulated provider refuses a
  request, the connector classifies the reply as rate limited with a positive delay, and the provider
  admits the next request at any time at which that delay has passed, if none came in between.\<close>

theorem sim_retry_after:
  assumes "0 < fc_RateLimitPerMin (sim_faults s)" "RateLimitProbability (sim_faults s) \<le> 0" "0 \<le> tokens (sim_rate s)"
    and "last_time (sim_rate s) \<le> sim_now s" "simRateLimit L s = (Inr (Some resp), s1)"
  shows "\<exists>msg ra. classifyError NL resp = ConnErr ErrRateLimited msg ra None \<and> 0 < ra \<and>
    (\<forall>t \<ge> sim_now s1 + ra. fst (simRateLimit L (s1\<lparr>sim_now := t\<rparr>)) = Inr None)"
proof -
  define n where "n = fc_RateLimitPerMin (sim_faults s)"
  define r0 where "r0 = SetCapacity (sim_rate s) n"
  have r0: "rateLimiterOk r0" "capacity r0 = of_int n" "last_time r0 \<le> sim_now s"
    using assms(1,3,4) by (auto simp: r0_def n_def rateLimiterOk_SetCapacity) (auto simp: SetCapacity_def Let_def)
  obtain w r1 where refused: "Allow_request r0 (sim_now s) = ((False, w), r1)"
    and resp: "resp = \<lparr>StatusCode = 429, RetryAfterHdr = Itoa (truncate64 (Seconds w + 1)), RespBody = jsonError ''rate limit exceeded''\<rparr>"
    and s1: "s1 = s\<lparr>sim_rate := r1\<rparr>"
    using assms(5) unfolding simRateLimit_run [OF assms(1,2)] n_def [symmetric] r0_def [symmetric]
    by (auto split: prod.splits if_splits)
  have wait: "0 \<le> w" "w \<le> 60000000000" "sim_now s + w < t \<Longrightarrow> fst (fst (Allow_request r1 t))" for t
    using provider.tk_wait [OF r0(1,3) refused, of t] by blast+
  have r1: "rateLimiterOk r1" "capacity r1 = of_int n"
    using provider.tk_keeps [OF r0(1,3) refused] r0(2) by simp_all
  define k where "k = \<lfloor>Seconds w + 1\<rfloor>"
  have k: "0 < k" "k \<le> 61"
    using wait(1,2) by (simp_all add: k_def Seconds_def floor_le_iff)
  have later: "w < k * 1000000000"
  proof -
    have "Seconds w < of_int k"
      unfolding k_def by linarith
    then have "of_int w < (of_int (k * 1000000000) :: rat)"
      by (simp add: Seconds_def)
    then show ?thesis
      by (simp only: of_int_less_iff)
  qed
  have "truncate64 (Seconds w + 1) = k"
    unfolding k_def using wait(1,2) by (intro truncate64_floor) (simp_all add: Seconds_def)
  then have "classifyError NL resp = ConnErr ErrRateLimited (''provider rate limited: '' @ jsonError ''rate limit exceeded'') (k * 1000000000) None"
    using k by (simp add: classifyError_def resp ParseInt_Itoa jsonError_def in64_def Let_def)
  moreover have "fst (simRateLimit L (s1\<lparr>sim_now := t\<rparr>)) = Inr None" if "sim_now s1 + k * 1000000000 \<le> t" for t
  proof -
    have "fst (fst (Allow_request r1 t))"
      using that later by (intro wait(3)) (simp add: s1)
    then show ?thesis
      using simRateLimit_run [of "s1\<lparr>sim_now := t\<rparr>" L] assms(1,2) SetCapacity_same [OF r1]
      by (simp add: s1 n_def split: prod.splits)
  qed
  ultimately show ?thesis
    using k(1) by (metis mult_pos_pos zero_less_numeral)
qed

theorem sim_retry_after_witness:
  "fst (simRateLimit demoSimLib ((snd (simRateLimit demoSimLib (demoSim\<lparr>sim_faults := defaultFaults\<lparr>fc_RateLimitPerMin := 60\<rparr>\<rparr>)))
     \<lparr>sim_now := 2000000000\<rparr>)) = Inr None"
proof -
  let ?s = "demoSim\<lparr>sim_faults := defaultFaults\<lparr>fc_RateLimitPerMin := 60\<rparr>\<rparr>"
  let ?r = "\<lparr>capacity = 60, tokens = 0, refillPer = 1, last_time = 0\<rparr>"
  let ?resp = "\<lparr>StatusCode = 429, RetryAfterHdr = Itoa 2, RespBody = jsonError ''rate limit exceeded''\<rparr>"
  have "Allow_request ?r 0 = ((False, 1000000000), ?r)"
    by (simp add: Allow_request_def truncate64_floor Let_def)
  moreover have "SetCapacity (NewRateLimiter 0 0) 60 = ?r"
    by (simp add: SetCapacity_def NewRateLimiter_def Let_def)
  moreover have "truncate64 (Seconds 1000000000 + 1) = 2"
    by (simp add: truncate64_floor Seconds_def)
  ultimately have run: "simRateLimit demoSimLib ?s = (Inr (Some ?resp), ?s\<lparr>sim_rate := ?r\<rparr>)"
    by (simp add: simRateLimit_run demo_sim defaultFaults_def)
  obtain msg ra where "classifyError codecLib ?resp = ConnErr ErrRateLimited msg ra None"
    and next_ok: "\<forall>t \<ge> ra. fst (simRateLimit demoSimLib (?s\<lparr>sim_rate := ?r, sim_now := t\<rparr>)) = Inr None"
    using sim_retry_after [OF _ _ _ _ run, of codecLib] by (auto simp: demo_sim defaultFaults_def NewRateLimiter_def)
  then have "ra = 2000000000"
    by (simp add: classifyError_def ParseInt_Itoa in64_def Let_def)
  with next_ok show ?thesis
    by (simp add: run)
qed

section \<open>An adapter at the simulated provider\<close>

fun specOf :: "Adapter \<Rightarrow> Spec" where
  "specOf (SalesforceA c) = salesforceSpec"
| "specOf (HubspotA c) = hubspotSpec"

fun clientOf :: "Adapter \<Rightarrow> Client" where
  "clientOf (SalesforceA c) = c"
| "clientOf (HubspotA c) = c"

text \<open>The adapter talks to the simulator, which is of its kind, in order and without failures.\<close>

definition attached ::
  "('r sim, 'x) netlib_scheme \<Rightarrow> ('r, 'y) simlib_scheme \<Rightarrow> int \<Rightarrow> Adapter \<Rightarrow> ('r sim, 'z) net_scheme \<Rightarrow> bool" where
  "attached L SL timeout a s \<longleftrightarrow> http_send L = simRoundTrip SL (BaseURL (clientOf a)) timeout \<and> faults s = [] \<and>
     sim_spec (world s) = specOf a \<and> sim_prefix (world s) = sp_IDPrefix (specOf a) \<and> sim_faults (world s) = defaultFaults \<and>
     storeOk (sim_prefix (world s)) (sim_store (world s)) \<and> roomLeft (sim_store (world s))"

lemma client_run:
  assumes "http_send L = simRoundTrip SL (BaseURL c) timeout" "faults s = []"
    and "simHandler SL \<lparr>sr_Method = meth, sr_Path = fst (cutAt (CHR ''?'') path), sr_Query = parseQuery (snd (cutAt (CHR ''?'') path)),
        sr_Body = (case body of None \<Rightarrow> [] | Some v \<Rightarrow> jsonMarshal SL v), sr_Deadline = sim_now (world s) + timeout\<rparr> (world s) = (Inr resp, w')"
    and "200 \<le> StatusCode resp" "StatusCode resp < 300" "dec (RespBody resp) = Some v"
  shows "ClientDo L c meth path body dec s = (Inr v, s\<lparr>world := w'\<rparr>)"
proof -
  have "attempt (if Limited c then faultPoint else ret ()) s = (Inr (Inr ()), s)"
    using assms(2) by (simp add: attempt_run faultPoint_def ret_def)
  then show ?thesis
    using assms(1,3-6)
    by (simp add: ClientDo_def bindM_run sendHttp_def simRoundTrip_def stripPrefix_def ret_def split_beta)
qed

lemma simEmit_run:
  assumes "sim_faults s = defaultFaults"
  shows "\<exists>s1. simEmit L ty rec s = (Inr (), s1) \<and> simData s1 = simData s \<and> sim_faults s1 = defaultFaults"
proof (cases "sim_webhook s")
  case (Some w)
  then show ?thesis
    using assms
    by (simp add: simEmit_def Emit_def WebhookOptions_def FaultsGet_def newUUID_def deliver_def run_simps Let_def defaultFaults_def i64_def)
qed (use assms in \<open>simp add: simEmit_def run_simps\<close>)

lemma simHandler_quiet:
  "sim_faults w = defaultFaults \<Longrightarrow> simHandler L r w = simMux L r w"
  by (simp add: simHandler_def bindM_run injected_none)

lemma create_run:
  assumes "sim_faults w = defaultFaults" "sr_Method r = ''POST''" "sr_Path r = ''/api/v1'' @ sp_Path (sim_spec w)"
    and "decodeBody L (sr_Body r) = Some data" "sim_Insert (sim_prefix w) (sim_now w) data (sim_store w) = (rec, st)"
  shows "\<exists>w'. simHandler L r w = (Inr \<lparr>StatusCode = 201, RetryAfterHdr = [],
      RespBody = jsonMarshal L (GObj (recordJSON L (sim_spec w) defaultFaults rec)) @ newline\<rparr>, w') \<and>
    simData w' = (sim_prefix w, sim_spec w, st) \<and> sim_faults w' = defaultFaults"
proof -
  obtain w' where emit: "simEmit L ''created'' rec (w\<lparr>sim_store := st\<rparr>) = (Inr (), w')" "simData w' = (sim_prefix w, sim_spec w, st)"
    "sim_faults w' = defaultFaults"
    using simEmit_run [of "w\<lparr>sim_store := st\<rparr>" L "''created''" rec] assms(1) by auto
  have "simHandler L r w = sim_handleCreate L r w"
    using assms(1-3) by (simp add: simHandler_quiet simMux_def simRoutes_def run_simps Let_def)
  also have "\<dots> = replyRecord L 201 rec w'"
    using assms(4,5) emit(1) by (simp add: sim_handleCreate_def run_simps)
  finally show ?thesis
    using emit(2,3) by (simp add: replyRecord_def sim_writeJSON_def ret_def)
qed

lemma get_run:
  assumes "sim_faults w = defaultFaults" "sr_Method r = ''GET''" "sr_Path r = ''/api/v1'' @ sp_Path (sim_spec w) @ ''/'' @ rid"
    and "rid \<noteq> []" "CHR ''/'' \<notin> set rid" "map_of (records (sim_store w)) rid = Some rec"
  shows "simHandler L r w = (Inr \<lparr>StatusCode = 200, RetryAfterHdr = [],
      RespBody = jsonMarshal L (GObj (recordJSON L (sim_spec w) defaultFaults rec)) @ newline\<rparr>, w)"
proof -
  have "simHandler L r w = sim_handleGet L rid w"
    using assms(1-5) by (simp add: simHandler_quiet simMux_def simRoutes_def run_simps stripPrefix_def Let_def)
  then show ?thesis
    using assms(1,6) by (simp add: sim_handleGet_def sim_Get_def run_simps replyRecord_def sim_writeJSON_def)
qed

lemma setAll_map: "map_of (setAll kvs m) = map_of m ++ map_of (rev kvs)"
proof (induction kvs arbitrary: m)
  case (Cons kv kvs)
  obtain k v where "kv = (k, v)"
    by (rule prod.exhaust)
  then show ?case
    using Cons.IH [of "gset k v m"] by (simp add: setAll_def map_add_def fun_eq_iff split: option.splits)
qed (simp add: setAll_def)

lemma map_of_rev_gok: "gok kvs \<Longrightarrow> map_of (rev kvs) = map_of kvs"
proof
  fix k
  assume "gok kvs"
  then have "map_of (rev kvs) k = Some v \<longleftrightarrow> map_of kvs k = Some v" for v
    by (simp add: gok_def map_of_eq_Some_iff rev_map [symmetric])
  then show "map_of (rev kvs) k = map_of kvs k"
    by (metis option.exhaust)
qed

lemma recordJSON_map:
  "map_of (recordJSON L spec defaultFaults rec) = (map_of (rc_Data rec))(sp_IDKey spec \<mapsto> GStr (rc_ID rec),
     ''version'' \<mapsto> GNum (of_int (rc_Version rec)), ''deleted'' \<mapsto> GBool (rc_Deleted rec),
     sp_TimeKey spec \<mapsto> GStr (rfc3339 L (rc_UpdatedAt rec)))"
  by (simp add: recordJSON_def defaultFaults_def Let_def)

text \<open>What the exchange relies on: the JSON text of a map decodes to a map with the same members.\<close>

definition requestText :: "('r, 'y) simlib_scheme \<Rightarrow> goval gomap \<Rightarrow> bool" where
  "requestText SL m \<longleftrightarrow> (\<exists>kvs. first_value SL (take 1048576 (jsonMarshal SL (GObj m))) = Some (GObj kvs) \<and> gok kvs \<and> map_of kvs = map_of m)"

definition replyText :: "('x) golib_scheme \<Rightarrow> ('r, 'y) simlib_scheme \<Rightarrow> (string \<rightharpoonup> goval) \<Rightarrow> bool" where
  "replyText L SL f \<longleftrightarrow> (\<forall>m. map_of m = f \<longrightarrow> (\<exists>kvs. json_decode L (jsonMarshal SL (GObj m) @ newline) = Some (GObj kvs) \<and> map_of kvs = f))"

fun recordOf :: "Adapter \<Rightarrow> goval gomap \<Rightarrow> goerr + ProviderRecord" where
  "recordOf (SalesforceA c) = sf_toProviderRecord"
| "recordOf (HubspotA c) = hs_toProviderRecord"

abbreviation apiPath :: "Adapter \<Rightarrow> string" where
  "apiPath a \<equiv> ''/api/v1'' @ sp_Path (specOf a)"

lemma adapter_ops:
  "CreateRecord L a rec = bindM (ClientDo L (clientOf a) ''POST'' (apiPath a) (Some (GObj (pr_Data rec))) (decodeMap L)) (\<lambda>raw. returnE (recordOf a raw))"
  "GetRecord L a rid = bindM (ClientDo L (clientOf a) ''GET'' (apiPath a @ ''/'' @ rid) None (decodeMap L)) (\<lambda>raw. returnE (recordOf a raw))"
  by (cases a; simp add: sf_Create_def hs_Create_def sf_Get_def hs_Get_def salesforceSpec_def hubspotSpec_def)+

text \<open>The reply of the provider, as the adapter reads it.\<close>

lemma reply_read:
  assumes "map_of kvs = map_of (recordJSON SL (specOf a) defaultFaults rec)" "rc_ID rec \<noteq> []" "in64 (rc_Version rec)"
    and "\<And>k. map_of (rc_Data rec) k = map_of (pr_Data (Denormalize a cust)) k"
  shows "\<exists>pr. recordOf a kvs = Inr pr \<and> pr_ID pr = rc_ID rec \<and> pr_SourceVersion pr = rc_Version rec \<and>
    pr_Deleted pr = rc_Deleted rec \<and> sameFields5 (Normalize L a pr) cust"
proof -
  define pr where "pr = \<lparr>pr_ID = rc_ID rec, pr_SourceVersion = rc_Version rec, pr_Deleted = rc_Deleted rec, pr_Data = kvs\<rparr>"
  have read: "recordOf a kvs = Inr pr"
    using assms(2,3)
    by (cases a) (auto simp: pr_def sf_toProviderRecord_def hs_toProviderRecord_def recordFrom_def gget_def assms(1) recordJSON_map
        salesforceSpec_def hubspotSpec_def truncate64_def Let_def)
  have "map_of (pr_Data pr) k = Some v" if "map_of (pr_Data (Denormalize a cust)) k = Some v" "k \<noteq> ''deleted''" for k v
    using that assms(4) [of k]
    by (cases a) (auto simp: pr_def assms(1) recordJSON_map salesforceSpec_def hubspotSpec_def sf_Denormalize_def hs_Denormalize_def
        split: if_splits)
  then have "sameFields5 (Normalize L a pr) cust"
    by (rule ad.carries)
  with read show ?thesis
    by (simp add: pr_def)
qed

lemma pad_chars: "0 < n \<Longrightarrow> n < 2 ^ 63 \<Longrightarrow> c \<in> set (sim_pad n) \<Longrightarrow> 48 \<le> (of_char c :: nat) \<and> of_char c < (58 :: nat)"
  using digits10_digit [of c "nat n"] by (auto simp: sim_pad_def Let_def sim_itoa_Itoa Itoa_def split: if_splits)

lemma id_plain:
  assumes "0 < n" "n < 2 ^ 63"
  shows "CHR ''/'' \<notin> set (idFormat (sp_IDPrefix (specOf a)) n)" "CHR ''?'' \<notin> set (idFormat (sp_IDPrefix (specOf a)) n)"
  using pad_chars [OF assms, of "CHR ''/''"] pad_chars [OF assms, of "CHR ''?''"]
  by (cases a; auto simp: idFormat_def salesforceSpec_def hubspotSpec_def)+

lemma cutAt_free: "c \<notin> set s \<Longrightarrow> cutAt c s = (s, [])"
  by (induction s) (auto simp: cutAt_def)

lemma apiPath_plain: "CHR ''?'' \<notin> set (apiPath a)"
  by (cases a) (simp_all add: salesforceSpec_def hubspotSpec_def)

lemma reply_decodes:
  assumes "replyText L SL (map_of (recordJSON SL spec defaultFaults \<lparr>rc_ID = rid, rc_Version = 1, rc_UpdatedAt = t, rc_Deleted = False,
      rc_Data = data\<rparr>))"
    and "rc_ID rec = rid" "rc_Version rec = 1" "rc_Deleted rec = False" "rc_UpdatedAt rec = t" "map_of (rc_Data rec) = map_of data"
  obtains kvs where "json_decode L (jsonMarshal SL (GObj (recordJSON SL spec defaultFaults rec)) @ newline) = Some (GObj kvs)"
    "map_of kvs = map_of (recordJSON SL spec defaultFaults rec)"
proof -
  have "map_of (recordJSON SL spec defaultFaults rec) = map_of (recordJSON SL spec defaultFaults
      \<lparr>rc_ID = rid, rc_Version = 1, rc_UpdatedAt = t, rc_Deleted = False, rc_Data = data\<rparr>)"
    using assms(2-6) by (simp add: recordJSON_map)
  then show thesis
    using assms(1) that unfolding replyText_def by metis
qed

lemma adapter_create:
  assumes "attached L SL timeout a s" "requestText SL (pr_Data (Denormalize a cust))"
    and "replyText L SL (map_of (recordJSON SL (specOf a) defaultFaults \<lparr>rc_ID = rid, rc_Version = 1,
        rc_UpdatedAt = sim_now (world s), rc_Deleted = False, rc_Data = pr_Data (Denormalize a cust)\<rparr>))"
    and rid: "rid = idFormat (sp_IDPrefix (specOf a)) (nextID (sim_store (world s)) + 1)"
  obtains w' rec kvs where "ClientDo L (clientOf a) ''POST'' (apiPath a) (Some (GObj (pr_Data (Denormalize a cust)))) (decodeMap L) s =
      (Inr kvs, s\<lparr>world := w'\<rparr>)"
    and "map_of kvs = map_of (recordJSON SL (specOf a) defaultFaults rec)"
    and "rc_ID rec = rid" "rc_Version rec = 1" "rc_Deleted rec = False" "map_of (rc_Data rec) = map_of (pr_Data (Denormalize a cust))"
    and "map_of (records (sim_store w')) rid = Some rec" "sim_spec w' = specOf a" "sim_faults w' = defaultFaults"
    and "rc_UpdatedAt rec = sim_now (world s)"
proof -
  have at: "http_send L = simRoundTrip SL (BaseURL (clientOf a)) timeout" "faults s = []" "sim_spec (world s) = specOf a"
    "sim_prefix (world s) = sp_IDPrefix (specOf a)" "sim_faults (world s) = defaultFaults"
    and ok: "storeOk (sim_prefix (world s)) (sim_store (world s))" and room: "roomLeft (sim_store (world s))"
    using assms(1) unfolding attached_def by blast+
  obtain req where req: "first_value SL (take 1048576 (jsonMarshal SL (GObj (pr_Data (Denormalize a cust))))) = Some (GObj req)"
    "gok req" "map_of req = map_of (pr_Data (Denormalize a cust))"
    using assms(2) by (auto simp: requestText_def)
  define r where "r = \<lparr>sr_Method = ''POST'', sr_Path = apiPath a, sr_Query = parseQuery [],
    sr_Body = jsonMarshal SL (GObj (pr_Data (Denormalize a cust))), sr_Deadline = sim_now (world s) + timeout\<rparr>"
  have data: "decodeBody SL (sr_Body r) = Some (setAll req [])" "map_of (setAll req []) = map_of (pr_Data (Denormalize a cust))"
    using req by (simp_all add: r_def decodeBody_def structOf_def setAll_map map_of_rev_gok)
  obtain rec st where ins: "sim_Insert (sim_prefix (world s)) (sim_now (world s)) (setAll req []) (sim_store (world s)) = (rec, st)"
    by (rule prod.exhaust)
  have bound: "nextID (sim_store (world s)) < 2 ^ 63 - 1"
    using room by (simp add: roomLeft_def)
  note new = sim_Insert_fresh [OF ok bound ins]
  have id: "rc_ID rec = rid"
    using new(2) at rid by simp
  obtain w' where run: "simHandler SL r (world s) = (Inr \<lparr>StatusCode = 201, RetryAfterHdr = [],
      RespBody = jsonMarshal SL (GObj (recordJSON SL (specOf a) defaultFaults rec)) @ newline\<rparr>, w')"
    and w': "simData w' = (sim_prefix (world s), specOf a, st)" "sim_faults w' = defaultFaults"
    using create_run [of "world s" r SL "setAll req []" rec st] data(1) ins at by (auto simp: r_def)
  obtain kvs where kvs: "json_decode L (jsonMarshal SL (GObj (recordJSON SL (specOf a) defaultFaults rec)) @ newline) = Some (GObj kvs)"
    "map_of kvs = map_of (recordJSON SL (specOf a) defaultFaults rec)"
    by (rule reply_decodes [OF assms(3) id]) (use new data(2) in simp_all)
  have "ClientDo L (clientOf a) ''POST'' (apiPath a) (Some (GObj (pr_Data (Denormalize a cust)))) (decodeMap L) s = (Inr kvs, s\<lparr>world := w'\<rparr>)"
    using client_run [OF at(1,2), of "''POST''" "apiPath a" "Some (GObj (pr_Data (Denormalize a cust)))" _ w' "decodeMap L" kvs] run kvs(1)
    by (simp add: cutAt_free [OF apiPath_plain] r_def decodeMap_def del: jsonMarshal.simps append.simps)
  then show thesis
    using that [of kvs w' rec] kvs(2) id new data(2) w' by simp
qed

text \<open>C30: What an adapter writes to a provider it reads back. At a simulated provider of its kind that injects no
  failures, creating a customer succeeds under an identifier no record had, and fetching
  that identifier returns a live record of version 1 that normalizes to the same five business fields, provided
  JSON texts decode to the members they were made of.\<close>

theorem sim_adapter_roundtrip:
  assumes "attached L SL timeout a s" "requestText SL (pr_Data (Denormalize a cust))"
    and "rid = idFormat (sp_IDPrefix (specOf a)) (nextID (sim_store (world s)) + 1)"
    and "replyText L SL (map_of (recordJSON SL (specOf a) defaultFaults \<lparr>rc_ID = rid, rc_Version = 1,
        rc_UpdatedAt = sim_now (world s), rc_Deleted = False, rc_Data = pr_Data (Denormalize a cust)\<rparr>))"
  shows "\<exists>pr s1 pr' s2. map_of (records (sim_store (world s))) rid = None \<and>
    CreateRecord L a (Denormalize a cust) s = (Inr pr, s1) \<and> pr_ID pr = rid \<and>
    GetRecord L a rid s1 = (Inr pr', s2) \<and> pr_ID pr' = rid \<and> pr_SourceVersion pr' = 1 \<and> \<not> pr_Deleted pr' \<and>
    sameFields5 (Normalize L a pr') cust"
proof -
  have at: "http_send L = simRoundTrip SL (BaseURL (clientOf a)) timeout" "faults s = []" "sim_spec (world s) = specOf a"
    "sim_prefix (world s) = sp_IDPrefix (specOf a)" "sim_faults (world s) = defaultFaults"
    and ok: "storeOk (sim_prefix (world s)) (sim_store (world s))" and room: "roomLeft (sim_store (world s))"
    using assms(1) unfolding attached_def by blast+
  have range: "0 < nextID (sim_store (world s)) + 1" "nextID (sim_store (world s)) + 1 < 2 ^ 63"
    using ok room by (simp_all add: storeOk_def roomLeft_def)
  have fresh: "map_of (records (sim_store (world s))) rid = None"
    using genID_fresh(2) [OF ok] range(2) at(4) assms(3) by simp
  obtain w' rec kvs where create: "ClientDo L (clientOf a) ''POST'' (apiPath a) (Some (GObj (pr_Data (Denormalize a cust)))) (decodeMap L) s =
      (Inr kvs, s\<lparr>world := w'\<rparr>)" "map_of kvs = map_of (recordJSON SL (specOf a) defaultFaults rec)"
    and rec: "rc_ID rec = rid" "rc_Version rec = 1" "rc_Deleted rec = False" "map_of (rc_Data rec) = map_of (pr_Data (Denormalize a cust))"
    and w': "map_of (records (sim_store w')) rid = Some rec" "sim_spec w' = specOf a" "sim_faults w' = defaultFaults"
    and time: "rc_UpdatedAt rec = sim_now (world s)"
    by (rule adapter_create [OF assms(1,2,4,3)])
  have ne: "rc_ID rec \<noteq> []" "in64 (rc_Version rec)"
    using rec(1,2) assms(3) by (simp_all add: in64_def)
  obtain pr where pr: "recordOf a kvs = Inr pr" "pr_ID pr = rid"
    using reply_read [OF create(2) ne] rec by auto
  obtain kvs' where kvs': "json_decode L (jsonMarshal SL (GObj (recordJSON SL (specOf a) defaultFaults rec)) @ newline) = Some (GObj kvs')"
    "map_of kvs' = map_of (recordJSON SL (specOf a) defaultFaults rec)"
    by (rule reply_decodes [OF assms(4) rec(1-3) time rec(4)])
  have "CHR ''?'' \<notin> set (apiPath a @ ''/'' @ rid)"
    using id_plain(2) [OF range] apiPath_plain [of a] assms(3) by auto
  note plain = cutAt_free [OF this, unfolded append_assoc]
  define r where "r = \<lparr>sr_Method = ''GET'', sr_Path = apiPath a @ ''/'' @ rid, sr_Query = parseQuery [], sr_Body = [],
    sr_Deadline = sim_now w' + timeout\<rparr>"
  have "simHandler SL r w' = (Inr \<lparr>StatusCode = 200, RetryAfterHdr = [],
      RespBody = jsonMarshal SL (GObj (recordJSON SL (specOf a) defaultFaults rec)) @ newline\<rparr>, w')"
    using get_run [OF w'(3), of r rid rec SL] w' id_plain(1) [OF range, of a] assms(3) by (simp add: r_def)
  then have "ClientDo L (clientOf a) ''GET'' (apiPath a @ ''/'' @ rid) None (decodeMap L) (s\<lparr>world := w'\<rparr>) = (Inr kvs', s\<lparr>world := w'\<rparr>)"
    using client_run [OF at(1), of "s\<lparr>world := w'\<rparr>" "''GET''" "apiPath a @ ''/'' @ rid" None _ w' "decodeMap L" kvs'] at(2) kvs'(1)
    by (simp add: plain r_def decodeMap_def del: jsonMarshal.simps append.simps)
  moreover obtain pr' where "recordOf a kvs' = Inr pr'" "pr_ID pr' = rid" "pr_SourceVersion pr' = 1" "\<not> pr_Deleted pr'"
    "sameFields5 (Normalize L a pr') cust"
    using reply_read [OF kvs'(2) ne, of cust] rec by auto
  ultimately show ?thesis
    using fresh create(1) pr by (auto simp: adapter_ops bindM_run returnE_def ret_def)
qed

definition demoWeb :: "nat sim netlib" where
  "demoWeb = \<lparr>json_num = (\<lambda>r. Itoa \<lfloor>r\<rfloor>), sprint_num = (\<lambda>r. Itoa \<lfloor>r\<rfloor>),
     json_decode = (\<lambda>s. Some (GObj (recordJSON demoSimLib salesforceSpec defaultFaults \<lparr>rc_ID = idFormat ''sf-'' 1, rc_Version = 1,
        rc_UpdatedAt = 0, rc_Deleted = False, rc_Data = pr_Data (sf_Denormalize demoCustomer)\<rparr>))),
     sha256_hex = (\<lambda>s. s), hmac_sha256 = (\<lambda>k m. k @ m), hmac_sha1 = (\<lambda>k m. []), bcrypt_ok = (\<lambda>h p. h = p), rfc3339 = Itoa,
     parse_rfc3339 = (\<lambda>s. None), http_send = simRoundTrip demoSimLib ''http://sf'' 15000000000, status_text = Itoa\<rparr>"

theorem sim_adapter_roundtrip_witness:
  "\<exists>pr s1 pr' s2. CreateRecord demoWeb (SalesforceA (NewClient ''http://sf'' [])) (sf_Denormalize demoCustomer) \<lparr>world = demoSim, faults = []\<rparr> = (Inr pr, s1) \<and>
     GetRecord demoWeb (SalesforceA (NewClient ''http://sf'' [])) (pr_ID pr) s1 = (Inr pr', s2) \<and> sameFields5 (sf_Normalize demoWeb pr') demoCustomer"
proof -
  let ?a = "SalesforceA (NewClient ''http://sf'' [])"
  let ?s = "\<lparr>world = demoSim, faults = []\<rparr> :: nat sim net"
  have "attached demoWeb demoSimLib 15000000000 ?a ?s"
    by (simp add: attached_def demoWeb_def NewClient_def demo_sim storeOk_New roomLeft_def) (simp add: NewStore_def salesforceSpec_def)
  moreover have "requestText demoSimLib (pr_Data (Denormalize ?a demoCustomer))"
    by (simp add: requestText_def demoSimLib_def gok_def sf_Denormalize_def)
  moreover have "replyText demoWeb demoSimLib (map_of (recordJSON demoSimLib (specOf ?a) defaultFaults \<lparr>rc_ID = idFormat ''sf-'' 1, rc_Version = 1,
        rc_UpdatedAt = sim_now (world ?s), rc_Deleted = False, rc_Data = pr_Data (Denormalize ?a demoCustomer)\<rparr>))"
    by (simp add: replyText_def demoWeb_def demo_sim)
  moreover have "idFormat ''sf-'' 1 = idFormat (sp_IDPrefix (specOf ?a)) (nextID (sim_store (world ?s)) + 1)"
    by (simp add: demo_sim NewStore_def salesforceSpec_def)
  ultimately show ?thesis
    using sim_adapter_roundtrip [of demoWeb demoSimLib 15000000000 ?a ?s demoCustomer "idFormat ''sf-'' 1"] by auto
qed

section \<open>The records of a fresh provider\<close>

lemma seed_accepted:
  "sf_Validate L \<lparr>pr_ID = i, pr_SourceVersion = v, pr_Deleted = b, pr_Data = recordJSON SL salesforceSpec defaultFaults
     \<lparr>rc_ID = rid, rc_Version = ver, rc_UpdatedAt = t, rc_Deleted = d, rc_Data = sf_seedRec rid n\<rparr>\<rparr> = None"
  "hs_Validate L \<lparr>pr_ID = i, pr_SourceVersion = v, pr_Deleted = b, pr_Data = recordJSON SL hubspotSpec defaultFaults
     \<lparr>rc_ID = rid, rc_Version = ver, rc_UpdatedAt = t, rc_Deleted = d, rc_Data = hub_seedRec rid n\<rparr>\<rparr> = None"
  using pick_nonempty
  by (simp_all add: sf_Validate_def hs_Validate_def recordJSON_map salesforceSpec_def hubspotSpec_def sf_seedRec_def hub_seedRec_def
      Let_def)

text \<open>
  A simulated provider starts with records its adapter accepts: whatever the environment it is started
  in, every record in the store of a fresh Salesforce or HubSpot simulator passes, in the form the simulator
  sends it, the schema validation of its adapter, so a first synchronisation from it finds no malformed record.
\<close>

theorem seeds_valid:
  assumes "map_of (records (sim_store (salesforceMain SL env t))) rid = Some rec"
    and "map_of (records (sim_store (hubspotMain SL env' t'))) rid' = Some rec'"
  shows "sf_Validate L \<lparr>pr_ID = i, pr_SourceVersion = v, pr_Deleted = b, pr_Data = recordJSON SL salesforceSpec defaultFaults rec\<rparr> = None \<and>
    hs_Validate L \<lparr>pr_ID = i, pr_SourceVersion = v, pr_Deleted = b, pr_Data = recordJSON SL hubspotSpec defaultFaults rec'\<rparr> = None"
proof
  show "sf_Validate L \<lparr>pr_ID = i, pr_SourceVersion = v, pr_Deleted = b, pr_Data = recordJSON SL salesforceSpec defaultFaults rec\<rparr> = None"
    by (rule NewServer_all [OF _ _ assms(1) [unfolded salesforceMain_def]]) (simp_all add: seed_accepted)
  show "hs_Validate L \<lparr>pr_ID = i, pr_SourceVersion = v, pr_Deleted = b, pr_Data = recordJSON SL hubspotSpec defaultFaults rec'\<rparr> = None"
    by (rule NewServer_all [OF _ _ assms(2) [unfolded hubspotMain_def]]) (simp_all add: seed_accepted)
qed

definition oneSeed :: "string \<Rightarrow> string option" where
  "oneSeed k = (if k = ''SIM_SEED_COUNT'' then Some ''1'' else None)"

lemma first_ids: "idFormat ''sf-'' 1 = ''sf-000001''" "idFormat ''hub-'' 1 = ''hub-000001''"
  by code_simp+

lemma one_option: "sim_getIntEnv oneSeed ''SIM_SEED_COUNT'' n = 1"
  by (simp add: sim_getIntEnv_def oneSeed_def) code_simp

lemma one_seed:
  "map_of (records (sim_store (salesforceMain demoSimLib oneSeed 0))) ''sf-000001'' =
     Some \<lparr>rc_ID = ''sf-000001'', rc_Version = 1, rc_UpdatedAt = 0, rc_Deleted = False, rc_Data = sf_seedRec ''sf-000001'' 0\<rparr>"
  "map_of (records (sim_store (hubspotMain demoSimLib oneSeed 0))) ''hub-000001'' =
     Some \<lparr>rc_ID = ''hub-000001'', rc_Version = 1, rc_UpdatedAt = 0, rc_Deleted = False, rc_Data = hub_seedRec ''hub-000001'' 0\<rparr>"
  by (simp_all add: salesforceMain_def hubspotMain_def NewServer_def Seed_def genID_def first_ids one_option NewStore_def i64_def Let_def salesforceSpec_def hubspotSpec_def)

theorem seeds_valid_witness:
  "sf_Validate demoSimLib \<lparr>pr_ID = ''sf-000001'', pr_SourceVersion = 1, pr_Deleted = False, pr_Data = recordJSON demoSimLib salesforceSpec defaultFaults
      (the (map_of (records (sim_store (salesforceMain demoSimLib oneSeed 0))) ''sf-000001''))\<rparr> = None \<and>
   hs_Validate demoSimLib \<lparr>pr_ID = ''sf-000001'', pr_SourceVersion = 1, pr_Deleted = False, pr_Data = recordJSON demoSimLib hubspotSpec defaultFaults
      (the (map_of (records (sim_store (hubspotMain demoSimLib oneSeed 0))) ''hub-000001''))\<rparr> = None"
  unfolding one_seed option.sel by (rule seeds_valid [OF one_seed])

end
