(* ===== verification/Fixtures.thy ===== *)
theory Fixtures
imports Access
begin

text \<open>
  The demo fixtures the API server provisions at its start (\<open>internal/api/seed.go\<close>): a tenant with two
  connections, an API key, an administrator and a policy in each direction. The main fact is that
  provisioning is idempotent, as the comment in the code promises.
\<close>

section \<open>Provisioning\<close>

definition demoAPIKey :: string where
  "demoAPIKey = ''sfk_acme_dev''"

definition demoUserEmail :: string where
  "demoUserEmail = ''admin@acme.dev''"

definition demoUserPassword :: string where
  "demoUserPassword = ''syncforge-demo''"

definition zeroTenant :: Tenant where
  "zeroTenant = \<lparr>te_ID = [], te_Name = [], te_Slug = [], te_Status = []\<rparr>"

definition seedTenant :: "('w, 'x) apilib_scheme \<Rightarrow> (('w, 'z) st_scheme, Tenant) M" where
  "seedTenant L =
     bindM (attempt (GetTenantBySlug ''acme'')) (\<lambda>r.
     case r of
       Inr tenant \<Rightarrow> ret tenant
     | Inl e \<Rightarrow>
         if e = ErrNotFound then
           bindM (attempt (CreateTenant L ''Acme Corp'' ''acme'')) (\<lambda>r.
           case r of
             Inr tenant \<Rightarrow> ret tenant
           | Inl e \<Rightarrow> if e \<noteq> ErrExists then throw e else ret zeroTenant)
         else throw e)"

text \<open>\<open>fmt.Errorf("what: %w", err)\<close>\<close>

definition wrapM :: "string \<Rightarrow> ('s, 'a) M \<Rightarrow> ('s, 'a) M" where
  "wrapM what m = bindM (attempt m) (\<lambda>r. case r of Inl e \<Rightarrow> throw (WrapErr what e) | Inr x \<Rightarrow> ret x)"

text \<open>\<open>if _, err := get; err == store.ErrNotFound\<close>: any other error of \<open>get\<close> is passed over.\<close>

definition ifMissing :: "('s, 'a) M \<Rightarrow> ('s, 'b) M \<Rightarrow> ('s, unit) M" where
  "ifMissing get create =
     bindM (attempt get) (\<lambda>r. case r of Inl ErrNotFound \<Rightarrow> thenM create (ret ()) | _ \<Rightarrow> ret ())"

definition fixtureConnection :: "string \<Rightarrow> string \<Rightarrow> string \<Rightarrow> string \<Rightarrow> string \<Rightarrow> Connection" where
  "fixtureConnection t name provider url secret = \<lparr>cn_ID = [], cn_TenantID = t, cn_Name = name, cn_Provider = provider,
     cn_BaseURL = url, cn_Status = ''disconnected'', cn_WebhookSecret = secret, cn_LastHealthCheck = None\<rparr>"

definition seedConnections :: "('w, 'x) apilib_scheme \<Rightarrow> Server \<Rightarrow> string \<Rightarrow> (('w, 'z) st_scheme, unit) M" where
  "seedConnections L sv t =
     thenM (ifMissing (GetConnectionByProvider t ''salesforce'') (wrapM ''seed salesforce connection'' (CreateConnection L
       (fixtureConnection t ''Salesforce (simulated)'' ''salesforce'' (SeedSFBaseURL (cfg sv)) (SeedSFSSecret (cfg sv))))))
     (ifMissing (GetConnectionByProvider t ''hubspot'') (wrapM ''seed hubspot connection'' (CreateConnection L
       (fixtureConnection t ''HubSpot (simulated)'' ''hubspot'' (SeedHubBaseURL (cfg sv)) (SeedHubSecret (cfg sv))))))"

definition seedAccounts :: "('w, 'x) apilib_scheme \<Rightarrow> string \<Rightarrow> (('w, 'z) st_scheme, unit) M" where
  "seedAccounts L t =
     thenM (ifMissing (VerifyAPIKey (hashAPIKey L demoAPIKey)) (wrapM ''seed api key''
       (CreateAPIKey L t ''demo-key'' ''ADMIN'' (hashAPIKey L demoAPIKey))))
     (ifMissing (GetUserByEmail t demoUserEmail)
       (bindM (wrapM ''seed user password'' (GenerateFromPassword L demoUserPassword)) (\<lambda>hash.
        wrapM ''seed user'' (CreateUser L t demoUserEmail hash ''ADMIN''))))"

definition fixturePolicy :: "string \<Rightarrow> string \<Rightarrow> string \<Rightarrow> int \<Rightarrow> SyncPolicy" where
  "fixturePolicy t src dst prio = \<lparr>po_TenantID = t, po_Entity = ''customer'', po_Source = src, po_Destination = dst,
     po_Mode = ''bidirectional'', po_ConflictStrategy = ''field_merge'', po_DeletePolicy = ''propagate'',
     po_RetryPolicy = ''exponential_backoff'', po_SourcePriority = prio, po_Enabled = True\<rparr>"

definition seedPolicies :: "string \<Rightarrow> (('w, 'z) st_scheme, unit) M" where
  "seedPolicies t =
     thenM (wrapM ''seed sync policy'' (UpsertSyncPolicy (fixturePolicy t ''salesforce'' ''hubspot'' 100)))
     (thenM (wrapM ''seed sync policy'' (UpsertSyncPolicy (fixturePolicy t ''hubspot'' ''salesforce'' 200))) (ret ()))"

definition seedDemo :: "('w, 'x) apilib_scheme \<Rightarrow> Server \<Rightarrow> (('w, 'z) st_scheme, unit) M" where
  "seedDemo L sv = bindM (seedTenant L) (\<lambda>tenant.
     thenM (seedConnections L sv (te_ID tenant))
     (thenM (seedAccounts L (te_ID tenant)) (seedPolicies (te_ID tenant))))"

section \<open>What is there afterwards\<close>

definition hasConnection :: "string \<Rightarrow> string \<Rightarrow> db \<Rightarrow> bool" where
  "hasConnection t p d \<longleftrightarrow> findRow (\<lambda>c. cn_TenantID c = t \<and> cn_Provider c = p) (connections d) \<noteq> None"

definition hasDemoKey :: "('w, 'x) apilib_scheme \<Rightarrow> db \<Rightarrow> bool" where
  "hasDemoKey L d \<longleftrightarrow> findRow (\<lambda>k. ak_KeyHash k = hashAPIKey L demoAPIKey \<and> ak_Enabled k) (apiKeys d) \<noteq> None"

definition inForce :: "SyncPolicy \<Rightarrow> SyncPolicy list \<Rightarrow> bool" where
  "inForce p rows \<longleftrightarrow> p \<in> set rows \<and> (\<forall>r \<in> set rows. poKey r = poKey p \<longrightarrow> r = p)"

definition seeded :: "('w, 'x) apilib_scheme \<Rightarrow> db \<Rightarrow> bool" where
  "seeded L d \<longleftrightarrow> (\<exists>tenant. getBy te_Slug ''acme'' (tenants d) = Some tenant \<and>
     hasConnection (te_ID tenant) ''salesforce'' d \<and> hasConnection (te_ID tenant) ''hubspot'' d \<and> hasDemoKey L d \<and>
     hasKey usKey (te_ID tenant, demoUserEmail) (users d) \<and> 
     inForce (fixturePolicy (te_ID tenant) ''salesforce'' ''hubspot'' 100) (policies d) \<and>
     inForce (fixturePolicy (te_ID tenant) ''hubspot'' ''salesforce'' 200) (policies d))"

lemma wrapM_Inr: "wrapM what m s = (Inr x, s') \<longleftrightarrow> m s = (Inr x, s')"
  by (cases "m s") (auto simp: wrapM_def bindM_run attempt_run ret_def throw_def split: sum.splits)

lemma wrapM_run: "m s = (Inr x, s') \<Longrightarrow> wrapM what m s = (Inr x, s')"
  by (simp add: wrapM_Inr)

lemma ifMissing_present: "get s = (Inr x, s') \<Longrightarrow> ifMissing get create s = (Inr (), s')"
  by (simp add: ifMissing_def run_simps)

lemma ifMissing_absent:
  assumes "get s = (Inl ErrNotFound, s)" "ifMissing get create s = (Inr (), s')"
  obtains x where "create s = (Inr x, s')"
proof (cases "create s")
  case (Pair r s1)
  then show thesis
    using assms that by (cases r) (simp_all add: ifMissing_def run_simps)
qed

lemma upsert_inForce: "inForce p (upsertBy poKey poMerge p rows)"
proof (cases "hasKey poKey (poKey p) rows")
  case True
  then show ?thesis
    by (auto simp: inForce_def upsertBy_def updateWhere_def hasKey_def poMerge_def)
next
  case False
  then have "\<forall>r \<in> set rows. poKey r \<noteq> poKey p"
    by (metis hasKey_def image_eqI set_map)
  with False show ?thesis
    by (auto simp: inForce_def upsertBy_def)
qed

lemma inForce_upsert: "inForce p rows \<Longrightarrow> upsertBy poKey poMerge p rows = rows"
  by (auto simp: inForce_def upsertBy_def updateWhere_def hasKey_def poMerge_def intro!: map_idI)

lemma inForce_other:
  "poKey q \<noteq> poKey p \<Longrightarrow> inForce p rows \<Longrightarrow> inForce p (upsertBy poKey poMerge q rows)"
  by (force simp: inForce_def upsertBy_def updateWhere_def hasKey_def poMerge_def)

text \<open>Once everything is there, provisioning only records the use of the key.\<close>

lemma VerifyAPIKey_calm:
  assumes "calm s" "hasDemoKey L (db s)"
  shows "\<exists>k s'. VerifyAPIKey (hashAPIKey L demoAPIKey) s = (Inr k, s') \<and> onlyUsed s s'"
proof -
  obtain k where "findRow (\<lambda>k. ak_KeyHash k = hashAPIKey L demoAPIKey \<and> ak_Enabled k) (apiKeys (db s)) = Some k"
    using assms(2) by (auto simp: hasDemoKey_def)
  then show ?thesis
    using assms(1) by (simp add: VerifyAPIKey_def TouchKey_def run_simps rowOr_def onlyUsed_def unused_touch)
qed

lemma unused_tables: "unused d = unused d' \<Longrightarrow> users d = users d' \<and> policies d = policies d' \<and> tenants d = tenants d' \<and> connections d = connections d'"
  by (cases d; cases d') (simp add: unused_def)

lemma seeded_run:
  assumes "calm s" "seeded L (db s)"
  shows "\<exists>s'. seedDemo L sv s = (Inr (), s') \<and> onlyUsed s s'"
proof -
  obtain tenant where t: "getBy te_Slug ''acme'' (tenants (db s)) = Some tenant"
    and c: "hasConnection (te_ID tenant) ''salesforce'' (db s)" "hasConnection (te_ID tenant) ''hubspot'' (db s)"
    and k: "hasDemoKey L (db s)" and u: "hasKey usKey (te_ID tenant, demoUserEmail) (users (db s))"
    and p: "inForce (fixturePolicy (te_ID tenant) ''salesforce'' ''hubspot'' 100) (policies (db s))"
      "inForce (fixturePolicy (te_ID tenant) ''hubspot'' ''salesforce'' 200) (policies (db s))"
    using assms(2) unfolding seeded_def by blast
  have tenant: "seedTenant L s = (Inr tenant, s)"
    using assms(1) t by (simp add: seedTenant_def GetTenantBySlug_def run_simps rowOr_def)
  have conn: "\<exists>x. GetConnectionByProvider (te_ID tenant) q s = (Inr x, s)" if "hasConnection (te_ID tenant) q (db s)" for q
    using assms(1) that by (auto simp: GetConnectionByProvider_def hasConnection_def run_simps rowOr_def)
  have conns: "seedConnections L sv (te_ID tenant) s = (Inr (), s)"
    using conn [OF c(1)] conn [OF c(2)] by (auto simp: seedConnections_def thenM_run ifMissing_present)
  obtain key s' where key: "VerifyAPIKey (hashAPIKey L demoAPIKey) s = (Inr key, s')" and s': "onlyUsed s s'"
    using VerifyAPIKey_calm [OF assms(1) k] by blast
  have same: "calm s'" "users (db s') = users (db s)" "policies (db s') = policies (db s)"
    using s' assms(1) by (auto simp: onlyUsed_def dest: unused_tables)
  obtain user where "getBy usKey (te_ID tenant, demoUserEmail) (users (db s)) = Some user"
    using u by (auto simp: hasKey_iff_getBy)
  then have "GetUserByEmail (te_ID tenant) demoUserEmail s' = (Inr user, s')"
    using same by (simp add: GetUserByEmail_def run_simps rowOr_def)
  then have accounts: "seedAccounts L (te_ID tenant) s = (Inr (), s')"
    using key by (simp add: seedAccounts_def thenM_run ifMissing_present)
  have "UpsertSyncPolicy q s' = (Inr q, s')" if "inForce q (policies (db s'))" "policyChecks q" for q
    using same(1) that by (simp add: UpsertSyncPolicy_def run_simps inForce_upsert)
  then have "seedPolicies (te_ID tenant) s' = (Inr (), s')"
    using p same(3) by (simp add: seedPolicies_def thenM_run wrapM_run policyChecks_def fixturePolicy_def ret_def)
  then show ?thesis
    using tenant conns accounts s' by (simp add: seedDemo_def bindM_run thenM_run)
qed

section \<open>The first run\<close>

lemma seedTenant_calm:
  assumes "calm s" "seedTenant L s = (Inr tenant, s')"
  shows "calm s' \<and> getBy te_Slug ''acme'' (tenants (db s')) = Some tenant"
proof (cases "getBy te_Slug ''acme'' (tenants (db s))")
  case None
  then have "\<not> hasKey te_Slug ''acme'' (tenants (db s))"
    by (simp add: hasKey_iff_getBy)
  with None show ?thesis
    using assms by (auto simp: seedTenant_def GetTenantBySlug_def CreateTenant_def run_simps rowOr_def Let_def getBy_def findRow_append)
next
  case (Some x)
  then show ?thesis
    using assms by (auto simp: seedTenant_def GetTenantBySlug_def run_simps rowOr_def)
qed

lemma seedConnection_calm:
  assumes "calm s" "ifMissing (GetConnectionByProvider t p) (wrapM what (CreateConnection L (fixtureConnection t name p url secret))) s = (Inr (), s')"
  shows "calm s' \<and> hasConnection t p (db s') \<and> (\<exists>new. db s' = (db s)\<lparr>connections := connections (db s) @ new\<rparr>)"
proof (cases "findRow (\<lambda>c. cn_TenantID c = t \<and> cn_Provider c = p) (connections (db s))")
  case None
  then have "GetConnectionByProvider t p s = (Inl ErrNotFound, s)"
    using assms(1) by (simp add: GetConnectionByProvider_def run_simps rowOr_def)
  then obtain x where "CreateConnection L (fixtureConnection t name p url secret) s = (Inr x, s')"
    using assms(2) by (auto elim: ifMissing_absent simp: wrapM_Inr)
  with None show ?thesis
    using assms(1) by (auto simp: CreateConnection_def run_simps Let_def fixtureConnection_def hasConnection_def findRow_append split: if_splits)
next
  case (Some x)
  then have "GetConnectionByProvider t p s = (Inr x, s)"
    using assms(1) by (simp add: GetConnectionByProvider_def run_simps rowOr_def)
  then have "s' = s"
    using assms(2) by (simp add: ifMissing_present)
  with Some assms(1) show ?thesis
    by (auto simp: hasConnection_def intro!: exI [of _ "[]"])
qed

lemma seedKey_calm:
  assumes "calm s" "ifMissing (VerifyAPIKey (hashAPIKey L demoAPIKey)) (wrapM what (CreateAPIKey L t name ''ADMIN'' (hashAPIKey L demoAPIKey))) s = (Inr (), s')"
  shows "calm s' \<and> hasDemoKey L (db s') \<and> (\<exists>ks. db s' = (db s)\<lparr>apiKeys := ks\<rparr>)"
proof (cases "findRow (\<lambda>k. ak_KeyHash k = hashAPIKey L demoAPIKey \<and> ak_Enabled k) (apiKeys (db s))")
  case None
  then have "VerifyAPIKey (hashAPIKey L demoAPIKey) s = (Inl ErrNotFound, s)"
    using assms(1) by (simp add: VerifyAPIKey_def run_simps rowOr_def)
  then obtain x where "CreateAPIKey L t name ''ADMIN'' (hashAPIKey L demoAPIKey) s = (Inr x, s')"
    using assms(2) by (auto elim: ifMissing_absent simp: wrapM_Inr)
  then show ?thesis
    using assms(1) by (auto simp: CreateAPIKey_def insertKey_def run_simps Let_def hasDemoKey_def findRow_append split: if_splits option.splits)
next
  case (Some k)
  define d where "d = (db s)\<lparr>apiKeys := updateWhere (\<lambda>r. ak_ID r = ak_ID k) (\<lambda>r. r\<lparr>ak_LastUsedAt := Some (now s)\<rparr>) (apiKeys (db s))\<rparr>"
  have "VerifyAPIKey (hashAPIKey L demoAPIKey) s = (Inr k, s\<lparr>db := d\<rparr>)"
    using assms(1) Some by (simp add: VerifyAPIKey_def TouchKey_def run_simps rowOr_def d_def)
  then have s': "s' = s\<lparr>db := d\<rparr>"
    using assms(2) by (simp add: ifMissing_present)
  have k: "k \<in> set (apiKeys (db s))" "ak_KeyHash k = hashAPIKey L demoAPIKey" "ak_Enabled k"
    using findRow_SomeD [OF Some] by simp_all
  then have "k\<lparr>ak_LastUsedAt := Some (now s)\<rparr> \<in> set (apiKeys d)"
    by (auto simp: d_def updateWhere_def intro!: image_eqI [of _ _ k])
  then have "hasDemoKey L d"
    using k(2,3) unfolding hasDemoKey_def findRow_None_iff by (intro notI) (drule bspec, assumption, simp)
  then show ?thesis
    using assms(1) s' d_def by auto
qed

lemma seedUser_calm:
  assumes "calm s" "ifMissing (GetUserByEmail t email) (bindM (wrapM w1 (GenerateFromPassword L pw)) (\<lambda>hash.
      wrapM w2 (CreateUser L t email hash ''ADMIN''))) s = (Inr (), s')"
  shows "calm s' \<and> hasKey usKey (t, email) (users (db s')) \<and> (\<exists>us. db s' = (db s)\<lparr>users := us\<rparr>)"
proof (cases "getBy usKey (t, email) (users (db s))")
  case None
  then have "GetUserByEmail t email s = (Inl ErrNotFound, s)"
    using assms(1) by (simp add: GetUserByEmail_def run_simps rowOr_def)
  then obtain x where "bindM (wrapM w1 (GenerateFromPassword L pw)) (\<lambda>hash. wrapM w2 (CreateUser L t email hash ''ADMIN'')) s = (Inr x, s')"
    using assms(2) by (rule ifMissing_absent)
  then obtain hash s1 where "GenerateFromPassword L pw s = (Inr hash, s1)" "CreateUser L t email hash ''ADMIN'' s1 = (Inr x, s')"
    by (auto simp: bindM_Inr wrapM_Inr)
  then show ?thesis
    using assms(1)
    by (auto simp: GenerateFromPassword_def CreateUser_def run_simps Let_def hasKey_def usKey_def split: if_splits option.splits) blast
next
  case (Some u)
  then have "GetUserByEmail t email s = (Inr u, s)"
    using assms(1) by (simp add: GetUserByEmail_def run_simps rowOr_def)
  then have "s' = s"
    using assms(2) by (simp add: ifMissing_present)
  then show ?thesis
    using assms(1) Some by (auto simp: hasKey_iff_getBy intro!: exI [of _ "users (db s)"])
qed

lemma seedPolicies_calm:
  assumes "calm s" "seedPolicies t s = (Inr (), s')"
  shows "calm s' \<and> inForce (fixturePolicy t ''salesforce'' ''hubspot'' 100) (policies (db s')) \<and>
    inForce (fixturePolicy t ''hubspot'' ''salesforce'' 200) (policies (db s')) \<and> (\<exists>ps. db s' = (db s)\<lparr>policies := ps\<rparr>)"
proof -
  let ?p = "fixturePolicy t ''salesforce'' ''hubspot'' 100" and ?q = "fixturePolicy t ''hubspot'' ''salesforce'' 200"
  have checks: "policyChecks ?p" "policyChecks ?q" and other: "poKey ?q \<noteq> poKey ?p"
    by (simp_all add: policyChecks_def fixturePolicy_def poKey_def)
  define ps where "ps = upsertBy poKey poMerge ?q (upsertBy poKey poMerge ?p (policies (db s)))"
  have up: "UpsertSyncPolicy p u = (Inr p, u\<lparr>db := (db u)\<lparr>policies := upsertBy poKey poMerge p (policies (db u))\<rparr>\<rparr>)"
    if "calm u" "policyChecks p" for p and u :: "('a, 'b) st_scheme"
    using that by (simp add: UpsertSyncPolicy_def run_simps)
  have "s' = s\<lparr>db := (db s)\<lparr>policies := ps\<rparr>\<rparr>"
    using assms up [OF assms(1) checks(1)] up [OF _ checks(2)]
    by (simp add: seedPolicies_def thenM_run wrapM_run ret_def ps_def)
  then show ?thesis
    using assms(1) inForce_other [OF other upsert_inForce] upsert_inForce by (auto simp: ps_def)
qed

lemma seedDemo_seeds:
  assumes "calm s" "seedDemo L sv s = (Inr (), s')"
  shows "calm s' \<and> seeded L (db s')"
proof -
  obtain tenant s1 s2 s3 s4 s5 where run: "seedTenant L s = (Inr tenant, s1)"
    "ifMissing (GetConnectionByProvider (te_ID tenant) ''salesforce'') (wrapM ''seed salesforce connection'' (CreateConnection L
       (fixtureConnection (te_ID tenant) ''Salesforce (simulated)'' ''salesforce'' (SeedSFBaseURL (cfg sv)) (SeedSFSSecret (cfg sv))))) s1 = (Inr (), s2)"
    "ifMissing (GetConnectionByProvider (te_ID tenant) ''hubspot'') (wrapM ''seed hubspot connection'' (CreateConnection L
       (fixtureConnection (te_ID tenant) ''HubSpot (simulated)'' ''hubspot'' (SeedHubBaseURL (cfg sv)) (SeedHubSecret (cfg sv))))) s2 = (Inr (), s3)"
    "ifMissing (VerifyAPIKey (hashAPIKey L demoAPIKey)) (wrapM ''seed api key''
       (CreateAPIKey L (te_ID tenant) ''demo-key'' ''ADMIN'' (hashAPIKey L demoAPIKey))) s3 = (Inr (), s4)"
    "ifMissing (GetUserByEmail (te_ID tenant) demoUserEmail)
       (bindM (wrapM ''seed user password'' (GenerateFromPassword L demoUserPassword)) (\<lambda>hash.
        wrapM ''seed user'' (CreateUser L (te_ID tenant) demoUserEmail hash ''ADMIN''))) s4 = (Inr (), s5)"
    "seedPolicies (te_ID tenant) s5 = (Inr (), s')"
    using assms(2) by (auto simp: seedDemo_def seedConnections_def seedAccounts_def thenM_def bindM_Inr)
  note t = seedTenant_calm [OF assms(1) run(1)]
  note c1 = seedConnection_calm [OF conjunct1 [OF t] run(2)]
  note c2 = seedConnection_calm [OF conjunct1 [OF c1] run(3)]
  note k = seedKey_calm [OF conjunct1 [OF c2] run(4)]
  note u = seedUser_calm [OF conjunct1 [OF k] run(5)]
  note p = seedPolicies_calm [OF conjunct1 [OF u] run(6)]
  have "hasConnection (te_ID tenant) ''salesforce'' (db s3)"
    using c1 c2 by (auto simp: hasConnection_def findRow_append split: option.splits)
  then show ?thesis
    using t c1 c2 k u p unfolding seeded_def
    by (intro conjI exI [of _ tenant]) (auto simp: hasConnection_def hasDemoKey_def)
qed

text \<open>Provisioning the demo fixtures is idempotent. While the database works, after a successful run the
  tenant, both connections, the key, the administrator and both policies are there, and running it
  again succeeds and changes no table but for the time of the last use of the key.\<close>

theorem seed_idempotent:
  assumes "calm s" "seedDemo L sv s = (Inr (), s1)"
  shows "seeded L (db s1) \<and> (\<exists>s2. seedDemo L sv s1 = (Inr (), s2) \<and> onlyUsed s1 s2)"
  using seedDemo_seeds [OF assms] seeded_run by blast

theorem seed_idempotent_witness:
  "\<exists>s1 s2. seedDemo demoApi demoServer (demoApiSt emptyDb) = (Inr (), s1) \<and>
     seedDemo demoApi demoServer s1 = (Inr (), s2) \<and> unused (db s2) = unused (db s1)"
proof -
  have "fst (seedDemo demoApi demoServer (demoApiSt emptyDb)) = Inr ()"
    by code_simp
  then obtain s1 where run: "seedDemo demoApi demoServer (demoApiSt emptyDb) = (Inr (), s1)"
    by (metis prod.collapse)
  then show ?thesis
    using seed_idempotent [OF _ run] by (auto simp: demo_state onlyUsed_def)
qed

end
