(* ===== verification/SimOidc.thy ===== *)
theory SimOidc
imports Simulator Access
begin

text \<open>
  The mock identity provider (\<open>internal/simulator/oidc.go\<close>) and its agreement with the client that
  verifies ID tokens (\<open>internal/oidc/oidc.go\<close>): discovery finds the key of the provider, and a
  token the provider mints for a known user is accepted with the identity of that user until it
  expires. RSA is a parameter: \<open>rsa_modulus\<close> gives the modulus of a key, \<open>rsa_sign\<close> signs the SHA-256 digest of a
  message. The iteration order of the map of users is an argument.
\<close>

section \<open>The provider\<close>

record OIDCUser =
  ou_Sub :: string
  ou_Email :: string
  ou_EmailVerified :: bool
  ou_Name :: string

record 'k IdP =
  ip_Issuer :: string
  ip_ClientID :: string
  ip_key :: 'k
  ip_kid :: string
  ip_users :: "OIDCUser gomap"

record 'k idplib = golib +
  rsa_generate :: "'k option"
  rsa_modulus :: "'k \<Rightarrow> nat"
  rsa_sign :: "'k \<Rightarrow> string \<Rightarrow> string option"
  decode_first :: "string \<Rightarrow> goval option"

definition NewOIDCProvider :: "('k, 'x) idplib_scheme \<Rightarrow> string \<Rightarrow> string \<Rightarrow> 'k IdP option" where
  "NewOIDCProvider L issuer clientID = (case rsa_generate L of
      None \<Rightarrow> None
    | Some key \<Rightarrow> Some \<lparr>ip_Issuer = issuer, ip_ClientID = clientID, ip_key = key, ip_kid = ''mock-idp-1'', ip_users = []\<rparr>)"

definition AddUser :: "OIDCUser \<Rightarrow> 'k IdP \<Rightarrow> 'k IdP" where
  "AddUser u p = p\<lparr>ip_users := gset (ou_Sub u) u (ip_users p)\<rparr>"

definition SetIssuer :: "string \<Rightarrow> 'k IdP \<Rightarrow> 'k IdP" where
  "SetIssuer issuer p = p\<lparr>ip_Issuer := issuer\<rparr>"

definition jsonReply :: "('x) golib_scheme \<Rightarrow> int \<Rightarrow> goval \<Rightarrow> HttpResponse" where
  "jsonReply L status v = \<lparr>StatusCode = status, RetryAfterHdr = [], RespBody = jsonMarshal L v @ newline\<rparr>"

definition errorReply :: "string \<Rightarrow> int \<Rightarrow> HttpResponse" where
  "errorReply msg status = \<lparr>StatusCode = status, RetryAfterHdr = [], RespBody = msg @ newline\<rparr>"

definition discoveryDoc :: "'k IdP \<Rightarrow> goval" where
  "discoveryDoc p = GObj [(''issuer'', GStr (ip_Issuer p)), (''jwks_uri'', GStr (ip_Issuer p @ ''/jwks'')),
     (''token_endpoint'', GStr (ip_Issuer p @ ''/token'')), (''authorization_endpoint'', GStr (ip_Issuer p @ ''/authorize'')),
     (''id_token_signing_alg_values_supported'', GArr [GStr ''RS256''])]"

definition handleDiscovery :: "('k, 'x) idplib_scheme \<Rightarrow> 'k IdP \<Rightarrow> HttpResponse" where
  "handleDiscovery L p = jsonReply L 200 (discoveryDoc p)"

text \<open>\<open>big.Int.Bytes\<close>: big-endian, without leading zeros.\<close>

fun bigBytes :: "nat \<Rightarrow> string" where
  "bigBytes n = (if n = 0 then [] else bigBytes (n div 256) @ [char_of (n mod 256)])"

declare bigBytes.simps [simp del]

definition jwksDoc :: "('k, 'x) idplib_scheme \<Rightarrow> 'k IdP \<Rightarrow> goval" where
  "jwksDoc L p = GObj [(''keys'', GArr [GObj [(''kty'', GStr ''RSA''), (''kid'', GStr (ip_kid p)), (''use'', GStr ''sig''),
     (''alg'', GStr ''RS256''), (''n'', GStr (b64Encode (bigBytes (rsa_modulus L (ip_key p))))),
     (''e'', GStr (b64Encode [CHR 0x01, CHR 0x00, CHR 0x01]))]])]"

definition handleJWKS :: "('k, 'x) idplib_scheme \<Rightarrow> 'k IdP \<Rightarrow> HttpResponse" where
  "handleJWKS L p = jsonReply L 200 (jwksDoc L p)"

definition tokenHeaderDoc :: "'k IdP \<Rightarrow> goval" where
  "tokenHeaderDoc p = GObj [(''alg'', GStr ''RS256''), (''kid'', GStr (ip_kid p)), (''typ'', GStr ''JWT'')]"

definition tokenPayloadDoc :: "'k IdP \<Rightarrow> string \<Rightarrow> OIDCUser \<Rightarrow> int \<Rightarrow> goval" where
  "tokenPayloadDoc p aud u n = GObj [(''iss'', GStr (ip_Issuer p)), (''sub'', GStr (ou_Sub u)), (''aud'', GStr aud),
     (''exp'', GNum (of_int (n + 3600))), (''iat'', GNum (of_int n)), (''email'', GStr (ou_Email u)),
     (''email_verified'', GBool (ou_EmailVerified u)), (''name'', GStr (ou_Name u))]"

text \<open>The signed token for a user, issued at the Unix time \<open>n\<close>.\<close>

definition mintIDToken :: "('k, 'x) idplib_scheme \<Rightarrow> 'k IdP \<Rightarrow> string \<Rightarrow> OIDCUser \<Rightarrow> int \<Rightarrow> string option" where
  "mintIDToken L p aud u n =
     (let signingInput = b64Encode (jsonMarshal L (tokenHeaderDoc p)) @ ''.'' @ b64Encode (jsonMarshal L (tokenPayloadDoc p aud u n)) in
      case rsa_sign L (ip_key p) signingInput of
        None \<Rightarrow> None
      | Some sig \<Rightarrow> Some (signingInput @ ''.'' @ b64Encode sig))"

definition findUser :: "string \<Rightarrow> OIDCUser list \<Rightarrow> OIDCUser option" where
  "findUser name us = List.find (\<lambda>u. ou_Sub u = name \<or> ou_Email u = name) us"

definition handleToken :: "('k, 'x) idplib_scheme \<Rightarrow> 'k IdP \<Rightarrow> OIDCUser list \<Rightarrow> string \<Rightarrow> int \<Rightarrow> HttpResponse" where
  "handleToken L p order body t =
     (case structOf (decode_first L body) of
        None \<Rightarrow> errorReply (jsonError ''invalid_request'') 400
      | Some kvs \<Rightarrow>
          (case (structStr kvs ''grant_type'', structStr kvs ''username'', structStr kvs ''client_id'') of
             (Some _, Some username, Some clientID) \<Rightarrow>
               let aud = (if clientID \<noteq> [] then clientID else ip_ClientID p) in
               (case findUser username order of
                  None \<Rightarrow> errorReply (jsonError ''invalid_grant'') 400
                | Some u \<Rightarrow>
                    (case mintIDToken L p aud u (Unix t) of
                       None \<Rightarrow> errorReply (jsonError ''server_error'') 500
                     | Some tok \<Rightarrow> jsonReply L 200 (GObj [(''access_token'', GStr ''mock-access''), (''token_type'', GStr ''Bearer''),
                         (''expires_in'', GNum 3600), (''id_token'', GStr tok)])))
           | _ \<Rightarrow> errorReply (jsonError ''invalid_request'') 400))"

text \<open>The routes, for any method; \<open>users\<close> is the order in which the map of users is visited.\<close>

definition idpHandler :: "('k, 'x) idplib_scheme \<Rightarrow> 'k IdP \<Rightarrow> OIDCUser list \<Rightarrow> string \<Rightarrow> string \<Rightarrow> int \<Rightarrow> HttpResponse" where
  "idpHandler L p order path body t =
     (if path = ''/.well-known/openid-configuration'' then handleDiscovery L p
      else if path = ''/jwks'' then handleJWKS L p
      else if path = ''/token'' then handleToken L p order body t
      else errorReply ''404 page not found'' 404)"

section \<open>Agreement with the client\<close>

lemma SetBytes_append: "SetBytes (s @ [c]) = 256 * SetBytes s + of_char c"
  by (simp add: SetBytes_def)

lemma SetBytes_bigBytes: "SetBytes (bigBytes n) = n"
proof (induction n rule: bigBytes.induct)
  case (1 n)
  show ?case
  proof (cases "n = 0")
    case False
    then have "SetBytes (bigBytes n) = 256 * (n div 256) + n mod 256"
      using 1 by (subst bigBytes.simps) (simp add: SetBytes_append)
    then show ?thesis
      by simp
  qed (simp add: bigBytes.simps SetBytes_def)
qed

text \<open>Reading a string member of a decoded struct.\<close>

lemma structStr_Nil: "structStr [] k = Some []"
  by (simp add: structStr_def)

lemma structStr_other: "\<not> EqualFold n k \<Longrightarrow> structStr ((n, v) # kvs) k = structStr kvs k"
  by (simp add: structStr_def)

lemma structStr_rest: "list_all (\<lambda>(n, v). \<not> EqualFold n k) kvs \<Longrightarrow>
    fold (\<lambda>(n, v) acc. if EqualFold n k then (case v of GStr s \<Rightarrow> (if acc = None then None else Some s) | GNil \<Rightarrow> acc | _ \<Rightarrow> None) else acc) kvs acc = acc"
  by (induction kvs arbitrary: acc) auto

lemma structStr_here: "EqualFold n k \<Longrightarrow> list_all (\<lambda>(n, v). \<not> EqualFold n k) kvs \<Longrightarrow> structStr ((n, GStr x) # kvs) k = Some x"
  by (simp add: structStr_def structStr_rest)

lemma EqualFold_refl [simp]: "EqualFold k k"
  by (simp add: EqualFold_def)

lemma EqualFold_length: "length n \<noteq> length k \<Longrightarrow> \<not> EqualFold n k"
  by (metis EqualFold_def length_map)

lemma EqualFold_names:
  "\<not> EqualFold ''alg'' ''kid''" "\<not> EqualFold ''kid'' ''alg''" "\<not> EqualFold ''typ'' ''alg''" "\<not> EqualFold ''typ'' ''kid''"
  "\<not> EqualFold ''alg'' ''kty''" "\<not> EqualFold ''kid'' ''kty''" "\<not> EqualFold ''kty'' ''kid''" "\<not> EqualFold ''use'' ''kty''"
  "\<not> EqualFold ''use'' ''kid''" "\<not> EqualFold ''e'' ''n''" "\<not> EqualFold ''n'' ''e''"
  by code_simp+

lemmas struct_reads = structStr_other structStr_here structStr_Nil EqualFold_length EqualFold_names

text \<open>What the client relies on: a JSON document decodes to its members, in the order of their names.\<close>

definition documents :: "('w, 'x) apilib_scheme \<Rightarrow> ('k, 'y) idplib_scheme \<Rightarrow> 'k IdP \<Rightarrow> bool" where
  "documents L SL p \<longleftrightarrow>
     json_first L (jsonMarshal SL (discoveryDoc p) @ newline) = Some (GObj [
       (''authorization_endpoint'', GStr (ip_Issuer p @ ''/authorize'')), (''id_token_signing_alg_values_supported'', GArr [GStr ''RS256'']),
       (''issuer'', GStr (ip_Issuer p)), (''jwks_uri'', GStr (ip_Issuer p @ ''/jwks'')), (''token_endpoint'', GStr (ip_Issuer p @ ''/token''))]) \<and>
     json_first L (jsonMarshal SL (jwksDoc SL p) @ newline) = Some (GObj [(''keys'', GArr [GObj [(''alg'', GStr ''RS256''),
       (''e'', GStr (b64Encode [CHR 0x01, CHR 0x00, CHR 0x01])), (''kid'', GStr (ip_kid p)), (''kty'', GStr ''RSA''),
       (''n'', GStr (b64Encode (bigBytes (rsa_modulus SL (ip_key p))))), (''use'', GStr ''sig'')]])]) \<and>
     json_decode L (jsonMarshal SL (tokenHeaderDoc p)) = Some (GObj [(''alg'', GStr ''RS256''), (''kid'', GStr (ip_kid p)), (''typ'', GStr ''JWT'')])"

definition claimsText :: "('w, 'x) apilib_scheme \<Rightarrow> ('k, 'y) idplib_scheme \<Rightarrow> 'k IdP \<Rightarrow> string \<Rightarrow> OIDCUser \<Rightarrow> int \<Rightarrow> bool" where
  "claimsText L SL p aud u n \<longleftrightarrow> (\<exists>c. idclaims_unmarshal L (jsonMarshal SL (tokenPayloadDoc p aud u n)) = Some c \<and>
     Sub c = ou_Sub u \<and> id_Email c = ou_Email u \<and> Issuer c = ip_Issuer p \<and> Audience c = GStr aud \<and> ExpiresAt c = n + 3600)"

text \<open>What the client relies on of RSA: a signature verifies under the public part of the key.\<close>

definition rsaCorrect :: "('w, 'x) apilib_scheme \<Rightarrow> ('k, 'y) idplib_scheme \<Rightarrow> 'k IdP \<Rightarrow> bool" where
  "rsaCorrect L SL p \<longleftrightarrow> (\<forall>msg. \<exists>sig. rsa_sign SL (ip_key p) msg = Some sig \<and> rsa_verify L (rsa_modulus SL (ip_key p)) 65537 msg sig)"

definition reaches :: "('w, 'x) apilib_scheme \<Rightarrow> ('k, 'y) idplib_scheme \<Rightarrow> 'k IdP \<Rightarrow> bool" where
  "reaches L SL p \<longleftrightarrow> (\<forall>path w. http_send L \<lparr>rq_Method = ''GET'', rq_URL = ip_Issuer p @ path, rq_Auth = None, rq_Body = None\<rparr> w =
     (Inr (idpHandler SL p (map snd (ip_users p)) path [] 0), w))"

lemma discovery:
  assumes "documents L SL p" "reaches L SL p" "ip_Issuer p \<noteq> []" "last (ip_Issuer p) \<noteq> CHR ''/''" "ip_kid p \<noteq> []"
  shows "NewProvider L (ip_Issuer p) clientID s = (Inr \<lparr>op_ClientID = clientID, op_Issuer = ip_Issuer p, op_JWKSURI = ip_Issuer p @ ''/jwks'',
    op_Keys = [(ip_kid p, (rsa_modulus SL (ip_key p), 65537))]\<rparr>, s)"
proof -
  have e: "SetBytes [CHR 0x01, CHR 0x00, CHR 0x01] = 65537"
    by (simp add: SetBytes_def)
  have send: "sendHttp L \<lparr>rq_Method = ''GET'', rq_URL = ip_Issuer p @ path, rq_Auth = None, rq_Body = None\<rparr> s =
      (Inr (Inr (idpHandler SL p (map snd (ip_users p)) path [] 0)), s)" for path
    using assms(2) by (simp add: sendHttp_def reaches_def)
  have disc: "getJSON L (ip_Issuer p @ ''/.well-known/openid-configuration'') s = (Inr (GObj [
       (''authorization_endpoint'', GStr (ip_Issuer p @ ''/authorize'')), (''id_token_signing_alg_values_supported'', GArr [GStr ''RS256'']),
       (''issuer'', GStr (ip_Issuer p)), (''jwks_uri'', GStr (ip_Issuer p @ ''/jwks'')), (''token_endpoint'', GStr (ip_Issuer p @ ''/token''))]), s)"
    using assms(1) by (simp add: getJSON_def bindM_run send idpHandler_def handleDiscovery_def jsonReply_def documents_def ret_def)
  have jwks: "getJSON L (ip_Issuer p @ ''/jwks'') s = (Inr (GObj [(''keys'', GArr [GObj [(''alg'', GStr ''RS256''),
       (''e'', GStr (b64Encode [CHR 0x01, CHR 0x00, CHR 0x01])), (''kid'', GStr (ip_kid p)), (''kty'', GStr ''RSA''),
       (''n'', GStr (b64Encode (bigBytes (rsa_modulus SL (ip_key p))))), (''use'', GStr ''sig'')]])]), s)"
    using assms(1) by (simp add: getJSON_def bindM_run send idpHandler_def handleJWKS_def jsonReply_def documents_def ret_def)
  have keys: "refreshKeys L (ip_Issuer p @ ''/jwks'') s = (Inr [(ip_kid p, (rsa_modulus SL (ip_key p), 65537))], s)"
    using assms(5) by (simp add: refreshKeys_def bindM_run jwks jwksKeys_def structOf_def gget_def struct_reads jwkRSAPublicKey_def
        SetBytes_bigBytes e in64_def ret_def)
  show ?thesis
    using assms(3,4) by (simp add: NewProvider_def trimSlash_def bindM_run disc structOf_def struct_reads keys Let_def ret_def)
qed

lemma token_verifies:
  assumes "documents L SL p" "rsaCorrect L SL p" "mintIDToken SL p aud u n = Some tok" "ou_Sub u \<noteq> []" "ou_Email u \<noteq> []" "0 < n + 3600"
    and "claimsText L SL p aud u n"
  defines "prov \<equiv> \<lparr>op_ClientID = aud, op_Issuer = ip_Issuer p, op_JWKSURI = ip_Issuer p @ ''/jwks'',
    op_Keys = [(ip_kid p, (rsa_modulus SL (ip_key p), 65537))]\<rparr>"
  shows "if Unix (now s) \<le> n + 3600
    then \<exists>c. VerifyIDToken L prov tok s = (Inr c, s) \<and> Sub c = ou_Sub u \<and> id_Email c = ou_Email u
    else VerifyIDToken L prov tok s = (Inl (PlainErr ''oidc: id_token expired''), s)"
proof -
  define h where "h = b64Encode (jsonMarshal SL (tokenHeaderDoc p))"
  define b where "b = b64Encode (jsonMarshal SL (tokenPayloadDoc p aud u n))"
  obtain sig where sig: "rsa_sign SL (ip_key p) (h @ ''.'' @ b) = Some sig" "rsa_verify L (rsa_modulus SL (ip_key p)) 65537 (h @ ''.'' @ b) sig"
    using assms(2) unfolding rsaCorrect_def by blast
  have tok: "tok = h @ ''.'' @ b @ ''.'' @ b64Encode sig"
    using assms(3) sig(1) by (simp add: mintIDToken_def h_def b_def Let_def)
  have parts: "splitOn (CHR ''.'') tok = [h, b, b64Encode sig]"
    using splitOn_join [of "CHR ''.''" h "b @ ''.'' @ b64Encode sig"] splitOn_join [of "CHR ''.''" b "b64Encode sig"]
    by (simp add: tok h_def b_def dot_free splitOn_free)
  have header: "tokenHeader L h = Inr (''RS256'', ip_kid p)"
    using assms(1) by (simp add: tokenHeader_def h_def documents_def structOf_def struct_reads)
  obtain c where c: "idclaims_unmarshal L (jsonMarshal SL (tokenPayloadDoc p aud u n)) = Some c"
    "Sub c = ou_Sub u" "id_Email c = ou_Email u" "Issuer c = ip_Issuer p" "Audience c = GStr aud" "ExpiresAt c = n + 3600"
    using assms(7) unfolding claimsText_def by blast
  have "VerifyIDToken L prov tok s = verifySigned L prov h b (b64Encode sig) (rsa_modulus SL (ip_key p), 65537) s"
    by (simp add: VerifyIDToken_def parts header signingKey_def prov_def bindM_run ret_def)
  also have "\<dots> = (case checkClaims prov (now s) c of Some e \<Rightarrow> (Inl (PlainErr e), s) | None \<Rightarrow> (Inr c, s))"
    using sig(2) c(1) by (simp add: verifySigned_def b_def run_simps split: option.split)
  finally show ?thesis
    using assms(4-6) c by (simp add: checkClaims_def prov_def audienceMatches_def)
qed


definition demoIdUser :: OIDCUser where
  "demoIdUser = \<lparr>ou_Sub = ''s1'', ou_Email = ''sso@x'', ou_EmailVerified = True, ou_Name = ''SSO''\<rparr>"

definition demoIdP :: "nat IdP" where
  "demoIdP = \<lparr>ip_Issuer = ''http://idp'', ip_ClientID = ''cli'', ip_key = 5, ip_kid = ''k'', ip_users = [(''s1'', demoIdUser)]\<rparr>"

definition demoIdpLib :: "nat idplib" where
  "demoIdpLib = \<lparr>json_num = (\<lambda>r. Itoa \<lfloor>r\<rfloor>), sprint_num = (\<lambda>r. Itoa \<lfloor>r\<rfloor>), json_decode = (\<lambda>s. None),
     sha256_hex = (\<lambda>s. s), hmac_sha256 = (\<lambda>k m. k @ m), hmac_sha1 = (\<lambda>k m. []), bcrypt_ok = (\<lambda>h p. h = p), rfc3339 = Itoa,
     parse_rfc3339 = (\<lambda>s. None), rsa_generate = Some 5, rsa_modulus = (\<lambda>k. k), rsa_sign = (\<lambda>k m. Some m),
     decode_first = (\<lambda>s. Some (GObj [(''username'', GStr ''s1'')]))\<rparr>"

definition demoClient :: "(string \<times> string \<times> string) list apilib" where
  "demoClient = demoApi\<lparr>
     json_first := (\<lambda>s. if take 3 s = [CHR ''{'', CHR 0x22, CHR ''k'']
       then Some (GObj [(''keys'', GArr [GObj [(''alg'', GStr ''RS256''), (''e'', GStr (b64Encode [CHR 0x01, CHR 0x00, CHR 0x01])),
         (''kid'', GStr ''k''), (''kty'', GStr ''RSA''), (''n'', GStr (b64Encode (bigBytes 5))), (''use'', GStr ''sig'')]])])
       else Some (GObj [(''authorization_endpoint'', GStr ''http://idp/authorize''),
         (''id_token_signing_alg_values_supported'', GArr [GStr ''RS256'']), (''issuer'', GStr ''http://idp''),
         (''jwks_uri'', GStr ''http://idp/jwks''), (''token_endpoint'', GStr ''http://idp/token'')])),
     json_decode := (\<lambda>s. Some (GObj [(''alg'', GStr ''RS256''), (''kid'', GStr ''k''), (''typ'', GStr ''JWT'')])),
     rsa_verify := (\<lambda>n e m sg. m = sg),
     idclaims_unmarshal := (\<lambda>s. Some \<lparr>Sub = ''s1'', id_Email = ''sso@x'', EmailVerified = True, id_Name = ''SSO'', Issuer = ''http://idp'',
       Audience = GStr ''cli'', ExpiresAt = 3600, IssuedAt = 0\<rparr>),
     http_send := (\<lambda>req w. (Inr (idpHandler demoIdpLib demoIdP [demoIdUser] (drop 10 (rq_URL req)) [] 0), w))\<rparr>"

lemma demo_documents: "documents demoClient demoIdpLib demoIdP"
proof -
  have "take 3 (jsonMarshal demoIdpLib (discoveryDoc demoIdP) @ newline) \<noteq> [CHR ''{'', CHR 0x22, CHR ''k'']"
    "take 3 (jsonMarshal demoIdpLib (jwksDoc demoIdpLib demoIdP) @ newline) = [CHR ''{'', CHR 0x22, CHR ''k'']"
    by code_simp+
  then show ?thesis
    by (simp add: documents_def demoClient_def del: jsonMarshal.simps) (simp add: demoIdP_def demoIdpLib_def)
qed


end
