(* ===== verification/Migrate.thy ===== *)
theory Migrate
imports Connectors
begin

text \<open>
  The migration of the database (\<open>db/migrate.go\<close>): every SQL file of the embedded directory that
  \<open>schema_migrations\<close> does not list is applied, in the order of the names, in a transaction that also
  lists it. The statements of a file are a parameter, what PostgreSQL makes of them. Both programs
  migrate when they start, without a lock, so \<open>migStep\<close> cuts \<open>Migrate\<close> into the statements that
  other processes may come between, and \<open>migrating\<close> interleaves any number of such processes.
\<close>

section \<open>Database and files\<close>

record 'd catalog =
  versions :: "string list option"
  tables :: 'd

record dirEntry =
  de_Name :: string
  de_IsDir :: bool

record fileSys =
  ReadDir :: "goerr + dirEntry list"
  ReadFile :: "string \<Rightarrow> goerr + string"

type_synonym 'd script = "string \<Rightarrow> 'd \<Rightarrow> goerr + 'd"

text \<open>\<open>path.Ext\<close>: the rest of the last element from its last dot on.\<close>

fun extRev :: "string \<Rightarrow> string \<Rightarrow> string" where
  "extRev [] acc = []"
| "extRev (c # cs) acc = (if c = CHR ''/'' then [] else if c = CHR ''.'' then c # acc else extRev cs (c # acc))"

definition Ext :: "string \<Rightarrow> string" where
  "Ext name = extRev (rev name) []"

definition migrationFiles :: "dirEntry list \<Rightarrow> string list" where
  "migrationFiles entries = sort (map de_Name (filter (\<lambda>e. \<not> (de_IsDir e \<or> Ext (de_Name e) \<noteq> ''.sql'')) entries))"

section \<open>Statements\<close>

definition ensureTable :: "('d catalog net, unit) M" where
  "ensureTable = bindM (attempt faultPoint) (\<lambda>r. case r of
      Inl e \<Rightarrow> throw (WrapErr ''ensure schema_migrations'' e)
    | Inr _ \<Rightarrow> (\<lambda>s. (Inr (), s\<lparr>world := world s\<lparr>versions := Some (case versions (world s) of None \<Rightarrow> [] | Some vs \<Rightarrow> vs)\<rparr>\<rparr>)))"

definition missingTable :: goerr where
  "missingTable = PlainErr ''relation schema_migrations does not exist''"

definition isApplied :: "string \<Rightarrow> ('d catalog net, bool) M" where
  "isApplied name = thenM faultPoint (\<lambda>s. case versions (world s) of
      None \<Rightarrow> (Inl missingTable, s)
    | Some vs \<Rightarrow> (Inr (name \<in> set vs), s))"

definition execScript :: "'d script \<Rightarrow> string \<Rightarrow> ('d catalog net, unit) M" where
  "execScript exec body = thenM faultPoint (\<lambda>s. case exec body (tables (world s)) of
      Inl e \<Rightarrow> (Inl e, s)
    | Inr d \<Rightarrow> (Inr (), s\<lparr>world := world s\<lparr>tables := d\<rparr>\<rparr>))"

text \<open>The version is the primary key of the table.\<close>

definition insertVersion :: "string \<Rightarrow> ('d catalog net, unit) M" where
  "insertVersion name = thenM faultPoint (\<lambda>s. case versions (world s) of
      None \<Rightarrow> (Inl missingTable, s)
    | Some vs \<Rightarrow> if name \<in> set vs then (Inl (PlainErr ''duplicate key value violates unique constraint''), s)
        else (Inr (), s\<lparr>world := world s\<lparr>versions := Some (vs @ [name])\<rparr>\<rparr>))"

text \<open>A transaction that does not get to its end leaves the database as it was.\<close>

definition inTx :: "('d catalog net, 'a) M \<Rightarrow> ('d catalog net, 'a) M" where
  "inTx m = (\<lambda>s. case m s of (Inl e, s') \<Rightarrow> (Inl e, s'\<lparr>world := world s\<rparr>) | (Inr x, s') \<Rightarrow> (Inr x, s'))"

definition applyFile :: "'d script \<Rightarrow> string \<Rightarrow> string \<Rightarrow> ('d catalog net, unit) M" where
  "applyFile exec name body = thenM faultPoint (inTx (
     bindM (attempt (execScript exec body)) (\<lambda>r. case r of
       Inl e \<Rightarrow> throw (WrapErr (''apply migration '' @ name) e)
     | Inr _ \<Rightarrow> thenM (insertVersion name) faultPoint)))"

section \<open>The loop\<close>

definition readApply :: "'d script \<Rightarrow> fileSys \<Rightarrow> string \<Rightarrow> ('d catalog net, unit) M" where
  "readApply exec fsys name = bindM (returnE (ReadFile fsys name)) (applyFile exec name)"

definition migrateFile :: "'d script \<Rightarrow> fileSys \<Rightarrow> string \<Rightarrow> ('d catalog net, unit) M" where
  "migrateFile exec fsys name = bindM (isApplied name) (\<lambda>found. if found then ret () else readApply exec fsys name)"

definition Migrate :: "'d script \<Rightarrow> fileSys \<Rightarrow> ('d catalog net, unit) M" where
  "Migrate exec fsys = bindM (thenM ensureTable (returnE (ReadDir fsys))) (\<lambda>entries.
     forM (migrationFiles entries) (\<lambda>name _. migrateFile exec fsys name) ())"

section \<open>Processes that migrate at the same time\<close>

datatype migPc =
    Starting
  | Looping "string list"
  | Applying string "string list"
  | Stopped "goerr option"

fun migStep :: "'d script \<Rightarrow> fileSys \<Rightarrow> migPc \<Rightarrow> 'd catalog net \<Rightarrow> migPc \<times> 'd catalog net" where
  "migStep exec fsys Starting s = (case thenM ensureTable (returnE (ReadDir fsys)) s of
      (Inl e, s') \<Rightarrow> (Stopped (Some e), s') | (Inr entries, s') \<Rightarrow> (Looping (migrationFiles entries), s'))"
| "migStep exec fsys (Looping []) s = (Stopped None, s)"
| "migStep exec fsys (Looping (name # names)) s = (case isApplied name s of
      (Inl e, s') \<Rightarrow> (Stopped (Some e), s')
    | (Inr found, s') \<Rightarrow> (if found then Looping names else Applying name names, s'))"
| "migStep exec fsys (Applying name names) s = (case readApply exec fsys name s of
      (Inl e, s') \<Rightarrow> (Stopped (Some e), s') | (Inr _, s') \<Rightarrow> (Looping names, s'))"
| "migStep exec fsys (Stopped r) s = (Stopped r, s)"

text \<open>In every step one process runs a statement; what the network does next is arbitrary.\<close>

inductive migrating :: "'d script \<Rightarrow> fileSys \<Rightarrow> migPc list \<times> 'd catalog \<Rightarrow> migPc list \<times> 'd catalog \<Rightarrow> bool" for exec fsys c where
  start: "migrating exec fsys c c"
| step: "migrating exec fsys c (pcs, d) \<Longrightarrow> i < length pcs \<Longrightarrow>
     migStep exec fsys (pcs ! i) \<lparr>world = d, faults = fs\<rparr> = (pc, s) \<Longrightarrow> migrating exec fsys c (pcs[i := pc], world s)"

text \<open>One process that is not disturbed runs \<open>Migrate\<close>.\<close>

fun runPc :: "nat \<Rightarrow> 'd script \<Rightarrow> fileSys \<Rightarrow> migPc \<times> 'd catalog net \<Rightarrow> migPc \<times> 'd catalog net" where
  "runPc 0 exec fsys ps = ps"
| "runPc (Suc n) exec fsys ps = runPc n exec fsys (migStep exec fsys (fst ps) (snd ps))"

section \<open>The effect of the statements\<close>

text \<open>What the scripts of a list of files make of the tables, in order.\<close>

fun applyAll :: "'d script \<Rightarrow> fileSys \<Rightarrow> string list \<Rightarrow> 'd \<Rightarrow> 'd option" where
  "applyAll exec fsys [] d = Some d"
| "applyAll exec fsys (n # ns) d = (case ReadFile fsys n of
      Inl e \<Rightarrow> None
    | Inr body \<Rightarrow> (case exec body d of Inl e \<Rightarrow> None | Inr d' \<Rightarrow> applyAll exec fsys ns d'))"

lemma applyAll_append: "applyAll exec fsys (xs @ ys) d = Option.bind (applyAll exec fsys xs d) (applyAll exec fsys ys)"
  by (induction xs arbitrary: d) (auto split: sum.splits)

lemma faultPoint_world: "world (snd (faultPoint s)) = world s"
  by (auto simp: faultPoint_def split: list.splits option.splits)

lemma ensureTable_world:
  "ensureTable s = (r, s') \<Longrightarrow> world s' = world s \<or> (r = Inr () \<and> world s' = world s\<lparr>versions := Some (case versions (world s) of None \<Rightarrow> [] | Some vs \<Rightarrow> vs)\<rparr>)"
  by (cases "faultPoint s"; use faultPoint_world [of s] in \<open>auto simp: ensureTable_def run_simps split: sum.splits\<close>)

lemma isApplied_world:
  "isApplied name s = (r, s') \<Longrightarrow> world s' = world s \<and> (\<forall>found. r = Inr found \<longrightarrow> (\<exists>vs. versions (world s) = Some vs \<and> found = (name \<in> set vs)))"
  by (cases "faultPoint s"; use faultPoint_world [of s] in \<open>auto simp: isApplied_def run_simps split: sum.splits option.splits\<close>)

text \<open>A file is applied and listed, or nothing happens.\<close>

lemma execScript_world:
  "execScript exec body s = (r, s') \<Longrightarrow> (\<exists>e. r = Inl e) \<and> world s' = world s \<or>
     r = Inr () \<and> (\<exists>d. exec body (tables (world s)) = Inr d \<and> world s' = world s\<lparr>tables := d\<rparr>)"
  by (cases "faultPoint s"; use faultPoint_world [of s] in \<open>auto simp: execScript_def run_simps split: sum.splits\<close>)

lemma insertVersion_world:
  "insertVersion name s = (r, s') \<Longrightarrow> (\<exists>e. r = Inl e) \<and> world s' = world s \<or>
     r = Inr () \<and> (\<exists>vs. versions (world s) = Some vs \<and> name \<notin> set vs \<and> world s' = world s\<lparr>versions := Some (vs @ [name])\<rparr>)"
  by (cases "faultPoint s"; use faultPoint_world [of s] in \<open>auto simp: insertVersion_def run_simps split: sum.splits option.splits if_splits\<close>)

lemma applyFile_world:
  assumes "applyFile exec name body s = (r, s')"
  shows "(\<exists>e. r = Inl e) \<and> world s' = world s \<or> r = Inr () \<and>
    (\<exists>vs d. versions (world s) = Some vs \<and> name \<notin> set vs \<and>
       exec body (tables (world s)) = Inr d \<and> world s' = \<lparr>versions = Some (vs @ [name]), tables = d\<rparr>)"
proof -
  obtain r1 s1 where 1: "faultPoint s = (r1, s1)"
    by (rule prod.exhaust)
  obtain r2 s2 where 2: "execScript exec body s1 = (r2, s2)"
    by (rule prod.exhaust)
  obtain r3 s3 where 3: "insertVersion name s2 = (r3, s3)"
    by (rule prod.exhaust)
  obtain r4 s4 where 4: "faultPoint s3 = (r4, s4)"
    by (rule prod.exhaust)
  have "world s1 = world s" "world s4 = world s3"
    using faultPoint_world [of s] faultPoint_world [of s3] 1 4 by simp_all
  then show ?thesis
    using assms 1 2 3 4 execScript_world [OF 2] insertVersion_world [OF 3]
    by (auto simp: applyFile_def inTx_def run_simps split: sum.splits)
qed

lemma readApply_world:
  assumes "readApply exec fsys name s = (r, s')"
  shows "(\<exists>e. r = Inl e) \<and> world s' = world s \<or> r = Inr () \<and>
    (\<exists>vs body d. versions (world s) = Some vs \<and> name \<notin> set vs \<and> ReadFile fsys name = Inr body \<and>
       exec body (tables (world s)) = Inr d \<and> world s' = \<lparr>versions = Some (vs @ [name]), tables = d\<rparr>)"
  using assms applyFile_world [of exec name _ s r s'] by (auto simp: readApply_def returnE_def run_simps split: sum.splits)

section \<open>The steps make up the program\<close>

lemma runPc_add: "runPc (m + n) exec fsys ps = runPc n exec fsys (runPc m exec fsys ps)"
  by (induction m arbitrary: ps) simp_all

abbreviation stopOf :: "goerr + unit \<Rightarrow> migPc" where
  "stopOf r \<equiv> Stopped (case r of Inl e \<Rightarrow> Some e | Inr _ \<Rightarrow> None)"

abbreviation fileLoop :: "'d script \<Rightarrow> fileSys \<Rightarrow> string list \<Rightarrow> ('d catalog net, unit) M" where
  "fileLoop exec fsys names \<equiv> forM names (\<lambda>name _. migrateFile exec fsys name) ()"

lemma runPc_loop: "\<exists>n. runPc n exec fsys (Looping names, s) = (stopOf (fst (fileLoop exec fsys names s)), snd (fileLoop exec fsys names s))"
proof (induction names arbitrary: s)
  case Nil
  show ?case
    by (rule exI [of _ 1]) (simp add: run_simps)
next
  case (Cons name names)
  obtain r1 s1 where 1: "isApplied name s = (r1, s1)"
    by (rule prod.exhaust)
  obtain r2 s2 where 2: "readApply exec fsys name s1 = (r2, s2)"
    by (rule prod.exhaust)
  have loop: "fileLoop exec fsys (name # names) s = (case r1 of Inl e \<Rightarrow> (Inl e, s1) | Inr True \<Rightarrow> fileLoop exec fsys names s1
      | Inr False \<Rightarrow> (case r2 of Inl e \<Rightarrow> (Inl e, s2) | Inr _ \<Rightarrow> fileLoop exec fsys names s2))"
    using 1 2 by (auto simp: migrateFile_def run_simps split: sum.splits bool.splits)
  obtain n1 where n1: "runPc n1 exec fsys (Looping names, s1) = (stopOf (fst (fileLoop exec fsys names s1)), snd (fileLoop exec fsys names s1))"
    using Cons.IH by blast
  obtain n2 where n2: "runPc n2 exec fsys (Looping names, s2) = (stopOf (fst (fileLoop exec fsys names s2)), snd (fileLoop exec fsys names s2))"
    using Cons.IH by blast
  show ?case
  proof (cases r1)
    case (Inl e)
    then show ?thesis
      using 1 loop by (intro exI [of _ 1]) simp
  next
    case (Inr found)
    then consider "found" | e where "\<not> found" "r2 = Inl e" | "\<not> found" "r2 = Inr ()"
      by (cases r2) auto
    then show ?thesis
      using 1 2 n1 n2 loop Inr
      by cases (rule exI [of _ "Suc n1"] exI [of _ "Suc (Suc 0)"] exI [of _ "Suc (Suc n2)"], simp)+
  qed
qed

lemma runPc_Migrate: "\<exists>n. runPc n exec fsys (Starting, s) = (stopOf (fst (Migrate exec fsys s)), snd (Migrate exec fsys s))"
proof -
  obtain r1 s1 where 1: "thenM ensureTable (returnE (ReadDir fsys)) s = (r1, s1)"
    by (rule prod.exhaust)
  show ?thesis
  proof (cases r1)
    case (Inl e)
    then show ?thesis
      using 1 by (intro exI [of _ 1]) (simp add: Migrate_def bindM_run)
  next
    case (Inr entries)
    obtain n where "runPc n exec fsys (Looping (migrationFiles entries), s1) =
        (stopOf (fst (fileLoop exec fsys (migrationFiles entries) s1)), snd (fileLoop exec fsys (migrationFiles entries) s1))"
      using runPc_loop by blast
    then show ?thesis
      using 1 Inr by (intro exI [of _ "Suc n"]) (simp add: Migrate_def bindM_run)
  qed
qed

section \<open>Every file once\<close>

definition applied :: "'d catalog \<Rightarrow> string list" where
  "applied d = (case versions d of None \<Rightarrow> [] | Some vs \<Rightarrow> vs)"

text \<open>Where a process is, when the first \<open>k\<close> of the files are applied.\<close>

fun pcOk :: "string list \<Rightarrow> nat \<Rightarrow> migPc \<Rightarrow> bool" where
  "pcOk files k Starting = True"
| "pcOk files k (Looping ns) = (\<exists>j \<le> k. ns = drop j files)"
| "pcOk files k (Applying n ns) = (\<exists>j \<le> k. n # ns = drop j files)"
| "pcOk files k (Stopped r) = (r = None \<longrightarrow> k = length files)"

definition migInv :: "'d script \<Rightarrow> fileSys \<Rightarrow> string list \<Rightarrow> 'd catalog \<Rightarrow> migPc list \<times> 'd catalog \<Rightarrow> bool" where
  "migInv exec fsys files d0 = (\<lambda>(pcs, d). \<exists>k \<le> length files. length (applied d0) \<le> k \<and> applied d = take k files \<and>
     applyAll exec fsys (drop (length (applied d0)) (take k files)) (tables d0) = Some (tables d) \<and> (\<forall>pc \<in> set pcs. pcOk files k pc))"

lemma pcOk_mono: "pcOk files k pc \<Longrightarrow> k \<le> k' \<Longrightarrow> k' \<le> length files \<Longrightarrow> pcOk files k' pc"
  by (cases pc) (auto intro: le_trans)

text \<open>In a list without repetitions, the prefix of length \<open>k\<close> decides the position.\<close>

lemma position:
  assumes "distinct files" "n # ns = drop j files"
  shows "j < length files" "n = files ! j" "ns = drop (Suc j) files" "n \<in> set (take k files) \<longleftrightarrow> j < k"
proof -
  show j: "j < length files"
    using assms(2) by (metis drop_all leI list.distinct(1))
  then show n: "n = files ! j" "ns = drop (Suc j) files"
    using assms(2) Cons_nth_drop_Suc [OF j] by (metis list.inject)+
  show "n \<in> set (take k files) \<longleftrightarrow> j < k"
    using assms(1) j by (auto simp: n(1) in_set_conv_nth nth_eq_iff_index_eq)
qed

lemma applied_ensure: "applied (d\<lparr>versions := Some (case versions d of None \<Rightarrow> [] | Some vs \<Rightarrow> vs)\<rparr>) = applied d"
  by (simp add: applied_def)

lemma step_inv:
  assumes "ReadDir fsys = Inr entries" "files = migrationFiles entries" "distinct files"
    and run: "migStep exec fsys pc \<lparr>world = d, faults = fs\<rparr> = (pc', s)" and ok: "pcOk files k pc" "k \<le> length files"
    and now: "applied d = take k files"
  shows "applied (world s) = take k files \<and> tables (world s) = tables d \<and> pcOk files k pc' \<or>
    k < length files \<and> applied (world s) = take (Suc k) files \<and> applyAll exec fsys [files ! k] (tables d) = Some (tables (world s)) \<and>
    pcOk files (Suc k) pc'"
proof (cases pc)
  case Starting
  obtain r s1 where e: "ensureTable \<lparr>world = d, faults = fs\<rparr> = (r, s1)"
    by (rule prod.exhaust)
  then have "applied (world s1) = applied d \<and> tables (world s1) = tables d"
    using ensureTable_world [OF e] applied_ensure [of d] by auto
  moreover have "s = s1" "pcOk files k pc'"
    using run Starting e assms(1,2) by (auto simp: thenM_run returnE_def ret_def split: sum.splits intro!: exI [of _ 0])
  ultimately show ?thesis
    using now by simp
next
  case (Looping ns)
  then obtain j where j: "j \<le> k" "ns = drop j files"
    using ok(1) by auto
  show ?thesis
  proof (cases ns)
    case Nil
    then show ?thesis
      using run Looping j ok(2) now by auto
  next
    case (Cons n rest)
    then have at: "n # rest = drop j files"
      using j(2) by simp
    note pos = position [OF assms(3) at]
    obtain r s1 where e: "isApplied n \<lparr>world = d, faults = fs\<rparr> = (r, s1)"
      by (rule prod.exhaust)
    have "s = s1" "pcOk files k pc'"
      using run Looping e isApplied_world [OF e] pos(3) pos(4) [of k] at now j(1) Cons
      by (auto simp: applied_def split: sum.splits if_splits) (metis Suc_leI)
    then show ?thesis
      using isApplied_world [OF e] now by simp
  qed
next
  case (Applying n ns)
  then obtain j where j: "j \<le> k" "n # ns = drop j files"
    using ok(1) by auto
  note pos = position [OF assms(3) j(2)]
  obtain r s1 where e: "readApply exec fsys n \<lparr>world = d, faults = fs\<rparr> = (r, s1)"
    by (rule prod.exhaust)
  then have s1: "s = s1" "pc' = (case r of Inl e \<Rightarrow> Stopped (Some e) | Inr _ \<Rightarrow> Looping ns)"
    using run Applying by (auto split: sum.splits)
  show ?thesis
  proof (cases r)
    case (Inl x)
    then show ?thesis
      using readApply_world [OF e] s1 now by auto
  next
    case (Inr u)
    then obtain body t where t: "n \<notin> set (applied d)" "ReadFile fsys n = Inr body" "exec body (tables d) = Inr t"
      "applied (world s1) = applied d @ [n]" "tables (world s1) = t"
      using readApply_world [OF e] by (auto simp: applied_def)
    then have "j = k"
      using pos(4) [of k] j(1) now by simp
    then show ?thesis
      using t s1 Inr pos now by (auto simp: take_Suc_conv_app_nth)
  qed
next
  case (Stopped r)
  then show ?thesis
    using run ok now by auto
qed

lemma migInv_step:
  assumes "ReadDir fsys = Inr entries" "files = migrationFiles entries" "distinct files"
    and inv: "migInv exec fsys files d0 (pcs, d)" and "i < length pcs" "migStep exec fsys (pcs ! i) \<lparr>world = d, faults = fs\<rparr> = (pc, s)"
  shows "migInv exec fsys files d0 (pcs[i := pc], world s)"
proof -
  obtain k where k: "k \<le> length files" "length (applied d0) \<le> k" "applied d = take k files"
    "applyAll exec fsys (drop (length (applied d0)) (take k files)) (tables d0) = Some (tables d)" "\<forall>pc \<in> set pcs. pcOk files k pc"
    using inv by (auto simp: migInv_def)
  have others: "pc' = pc \<or> pc' \<in> set pcs" if "pc' \<in> set (pcs[i := pc])" for pc'
    using that set_update_subset_insert [of pcs i pc] by blast
  have "pcOk files k (pcs ! i)"
    using k(5) assms(5) by simp
  from step_inv [OF assms(1-3,6) this k(1,3)] show ?thesis
  proof (elim disjE)
    assume "applied (world s) = take k files \<and> tables (world s) = tables d \<and> pcOk files k pc"
    then show ?thesis
      using k others unfolding migInv_def by (auto intro!: exI [of _ k])
  next
    assume grow: "k < length files \<and> applied (world s) = take (Suc k) files \<and>
      applyAll exec fsys [files ! k] (tables d) = Some (tables (world s)) \<and> pcOk files (Suc k) pc"
    then have "applyAll exec fsys (drop (length (applied d0)) (take (Suc k) files)) (tables d0) = Some (tables (world s))"
      using k by (simp add: take_Suc_conv_app_nth applyAll_append)
    then show ?thesis
      using k others grow pcOk_mono [of files k _ "Suc k"] unfolding migInv_def by (auto intro!: exI [of _ "Suc k"])
  qed
qed

lemma migInv_run:
  assumes "ReadDir fsys = Inr entries" "files = migrationFiles entries" "distinct files"
    and "migrating exec fsys c x" "migInv exec fsys files d0 c"
  shows "migInv exec fsys files d0 x"
  using assms(4)
proof (induction rule: migrating.induct)
  case start
  show ?case
    by (rule assms(5))
next
  case (step pcs d i fs pc s)
  then show ?case
    using migInv_step [OF assms(1-3)] by blast
qed

text \<open>
  C22: Migrations are applied once, in order, even by several processes. Processes that start to migrate the same
  database at the same time, with any interleaving of their statements and any of them failing, apply the
  files that follow the ones applied before, each once and in the order of their names; the database lists exactly the files
  applied to it, and when a process reports success no file is left.
\<close>

theorem migrations_once:
  assumes "ReadDir fsys = Inr entries" "distinct (map de_Name entries)" "migrationFiles entries = applied d @ later"
    and "migrating exec fsys (replicate n Starting, d) (pcs, d')"
  shows "\<exists>new rest. later = new @ rest \<and> applied d' = applied d @ new \<and> applyAll exec fsys new (tables d) = Some (tables d') \<and>
    (Stopped None \<in> set pcs \<longrightarrow> rest = [])"
proof -
  define files where "files = migrationFiles entries"
  have dist: "distinct files"
    using assms(2) by (simp add: files_def migrationFiles_def distinct_map_filter)
  have "migInv exec fsys files d (replicate n Starting, d)"
    using assms(3) by (auto simp: migInv_def files_def intro!: exI [of _ "length (applied d)"])
  then have "migInv exec fsys files d (pcs, d')"
    by (rule migInv_run [OF assms(1) files_def dist assms(4)])
  then obtain k where k: "k \<le> length files" "length (applied d) \<le> k" "applied d' = take k files"
    "applyAll exec fsys (drop (length (applied d)) (take k files)) (tables d) = Some (tables d')" "\<forall>pc \<in> set pcs. pcOk files k pc"
    by (auto simp: migInv_def)
  have "later = take (k - length (applied d)) later @ drop (k - length (applied d)) later"
    by simp
  moreover have "Stopped None \<in> set pcs \<Longrightarrow> drop (k - length (applied d)) later = []"
    using k(5) assms(3) by (auto simp: files_def)
  ultimately show ?thesis
    using k assms(3) unfolding files_def by (intro exI [of _ "take (k - length (applied d)) later"] exI [of _ "drop (k - length (applied d)) later"]) auto
qed

section \<open>A run that is not disturbed\<close>

lemma migrateFile_calm:
  assumes "faults s = []" "versions (world s) = Some vs"
  shows "n \<in> set vs \<Longrightarrow> migrateFile exec fsys n s = (Inr (), s)"
    and "n \<notin> set vs \<Longrightarrow> ReadFile fsys n = Inr body \<Longrightarrow> exec body (tables (world s)) = Inr t \<Longrightarrow>
      migrateFile exec fsys n s = (Inr (), s\<lparr>world := \<lparr>versions = Some (vs @ [n]), tables = t\<rparr>\<rparr>)"
  using assms
  by (simp_all add: migrateFile_def isApplied_def readApply_def applyFile_def inTx_def execScript_def insertVersion_def returnE_def
      faultPoint_def run_simps)

lemma loop_known:
  "faults s = [] \<Longrightarrow> versions (world s) = Some vs \<Longrightarrow> set ns \<subseteq> set vs \<Longrightarrow> fileLoop exec fsys ns s = (Inr (), s)"
  by (induction ns) (simp_all add: migrateFile_calm(1) run_simps)

lemma loop_new:
  "faults s = [] \<Longrightarrow> versions (world s) = Some vs \<Longrightarrow> distinct (vs @ ns) \<Longrightarrow> applyAll exec fsys ns (tables (world s)) = Some t \<Longrightarrow>
   fileLoop exec fsys ns s = (Inr (), s\<lparr>world := \<lparr>versions = Some (vs @ ns), tables = t\<rparr>\<rparr>)"
proof (induction ns arbitrary: s vs)
  case (Cons n ns)
  then obtain body d where body: "ReadFile fsys n = Inr body" "exec body (tables (world s)) = Inr d" "applyAll exec fsys ns d = Some t"
    by (auto split: sum.splits)
  then have "migrateFile exec fsys n s = (Inr (), s\<lparr>world := \<lparr>versions = Some (vs @ [n]), tables = d\<rparr>\<rparr>)"
    using Cons.prems by (intro migrateFile_calm(2)) auto
  then show ?case
    using Cons.IH [of "s\<lparr>world := \<lparr>versions = Some (vs @ [n]), tables = d\<rparr>\<rparr>" "vs @ [n]"] Cons.prems body(3)
    by (simp add: run_simps)
qed (simp add: run_simps)

text \<open>
  A migration completes. While the database works and the files that are not yet applied run in order on its tables,
  \<open>Migrate\<close> succeeds, whatever part of the files was applied before: it lists every file and leaves the tables as the
  missing files make them.
\<close>

theorem Migrate_completes:
  assumes "faults s = []" "ReadDir fsys = Inr entries" "distinct (map de_Name entries)"
    and "migrationFiles entries = applied (world s) @ later" "applyAll exec fsys later (tables (world s)) = Some t"
  shows "Migrate exec fsys s = (Inr (), s\<lparr>world := \<lparr>versions = Some (migrationFiles entries), tables = t\<rparr>\<rparr>)"
proof -
  define s1 where "s1 = s\<lparr>world := world s\<lparr>versions := Some (applied (world s))\<rparr>\<rparr>"
  have "distinct (migrationFiles entries)"
    using assms(3) by (simp add: migrationFiles_def distinct_map_filter)
  then have "fileLoop exec fsys later s1 = (Inr (), s1\<lparr>world := \<lparr>versions = Some (applied (world s) @ later), tables = t\<rparr>\<rparr>)"
    using assms(1,4,5) by (intro loop_new) (simp_all add: s1_def)
  moreover have "fileLoop exec fsys (applied (world s)) s1 = (Inr (), s1)"
    using assms(1) by (intro loop_known [where vs = "applied (world s)"]) (simp_all add: s1_def)
  moreover have "thenM ensureTable (returnE (ReadDir fsys)) s = (Inr entries, s1)"
    using assms(1,2) by (simp add: ensureTable_def returnE_def faultPoint_def run_simps s1_def applied_def)
  moreover have "fileLoop exec fsys (xs @ ys) s = bindM (fileLoop exec fsys xs) (\<lambda>_. fileLoop exec fsys ys) s" for xs ys s
    by (induction xs arbitrary: s) (auto simp: run_simps split: prod.splits sum.splits)
  ultimately show ?thesis
    using assms(4) by (simp add: Migrate_def bindM_run s1_def)
qed

section \<open>An example\<close>

text \<open>Two files, of which a process applies the first; the tables are the list of the scripts that ran.\<close>

definition demoFiles :: fileSys where
  "demoFiles = \<lparr>ReadDir = Inr [\<lparr>de_Name = ''2.sql'', de_IsDir = False\<rparr>, \<lparr>de_Name = ''embed.go'', de_IsDir = False\<rparr>,
     \<lparr>de_Name = ''1.sql'', de_IsDir = False\<rparr>], ReadFile = Inr\<rparr>"

definition demoScript :: "string list script" where
  "demoScript body d = Inr (d @ [body])"

lemma demo_files: "migrationFiles [\<lparr>de_Name = ''2.sql'', de_IsDir = False\<rparr>, \<lparr>de_Name = ''embed.go'', de_IsDir = False\<rparr>,
     \<lparr>de_Name = ''1.sql'', de_IsDir = False\<rparr>] = [''1.sql'', ''2.sql'']"
  by code_simp

theorem Migrate_completes_witness:
  "Migrate demoScript demoFiles \<lparr>world = \<lparr>versions = Some [''1.sql''], tables = [''1.sql'']\<rparr>, faults = []\<rparr> =
     (Inr (), \<lparr>world = \<lparr>versions = Some [''1.sql'', ''2.sql''], tables = [''1.sql'', ''2.sql'']\<rparr>, faults = []\<rparr>)"
  using Migrate_completes [of "\<lparr>world = \<lparr>versions = Some [''1.sql''], tables = [''1.sql'']\<rparr>, faults = []\<rparr>" demoFiles _ "[''2.sql'']" demoScript]
  by (simp add: demoFiles_def demo_files demoScript_def applied_def)

lemma demo_two:
  "migrating demoScript demoFiles (replicate 2 Starting, \<lparr>versions = None, tables = []\<rparr>)
     ([Looping [''2.sql''], Starting], \<lparr>versions = Some [''1.sql''], tables = [''1.sql'']\<rparr>)"
proof -
  have go: "migrating demoScript demoFiles c (pc' # pcs, world s)"
    if "migrating demoScript demoFiles c (pc # pcs, d)" "migStep demoScript demoFiles pc \<lparr>world = d, faults = []\<rparr> = (pc', s)" for c pc pc' pcs d s
    using migrating.step [OF that(1), of 0] that(2) by force
  note eval = ensureTable_def isApplied_def readApply_def applyFile_def inTx_def execScript_def insertVersion_def returnE_def faultPoint_def
    run_simps demoFiles_def demo_files demoScript_def numeral_2_eq_2
  let ?c = "(replicate 2 Starting, \<lparr>versions = None, tables = []\<rparr> :: string list catalog)"
  have "migrating demoScript demoFiles ?c ([Starting, Starting], \<lparr>versions = None, tables = []\<rparr>)"
    using migrating.start [of demoScript demoFiles ?c] by (simp add: numeral_2_eq_2)
  from go [OF this] have "migrating demoScript demoFiles ?c ([Looping [''1.sql'', ''2.sql''], Starting], \<lparr>versions = Some [], tables = []\<rparr>)"
    by (simp add: eval)
  from go [OF this] have "migrating demoScript demoFiles ?c ([Applying ''1.sql'' [''2.sql''], Starting], \<lparr>versions = Some [], tables = []\<rparr>)"
    by (simp add: eval)
  from go [OF this] show ?thesis
    by (simp add: eval)
qed

theorem migrations_once_witness:
  "\<exists>new rest. [''1.sql'', ''2.sql''] = new @ rest \<and> [''1.sql''] = new \<and> applyAll demoScript demoFiles new [] = Some [''1.sql'']"
  using migrations_once [OF _ _ _ demo_two] by (simp add: demoFiles_def demo_files applied_def)

end
