(* ===== verification/MemoryBus.thy ===== *)
theory MemoryBus
imports Prelude "HOL-Library.Multiset"
begin

text \<open>
  The bus inside a process (\<open>eventbus/memory.go\<close>), which the engine uses when no broker is configured.
  A subscriber owns a buffered channel; \<open>Publish\<close> takes a snapshot of the channels of the topic under the
  mutex and then sends to one after the other without it, so calls of \<open>Publish\<close>, subscribers and \<open>Close\<close>
  interleave at the operations on channels. \<open>busStep\<close> is one such operation and \<open>busRun\<close> a schedule of them, which a panic ends.
\<close>

section \<open>Channels and topics\<close>

record memoryMsg =
  mm_key :: string
  mm_value :: string

record chan =
  ch_buf :: "memoryMsg list"
  ch_closed :: bool

record MemBus =
  mb_topics :: "nat list gomap"
  mb_chans :: "chan list"

text \<open>An operation on a channel waits, panics or takes effect.\<close>

datatype 'a effect = Blocks | Panics | Does 'a

definition chanCap :: nat where
  "chanCap = 1024"

definition NewMemoryBus :: MemBus where
  "NewMemoryBus = \<lparr>mb_topics = [], mb_chans = []\<rparr>"

definition chansOf :: "string \<Rightarrow> MemBus \<Rightarrow> nat list" where
  "chansOf topic b = gget [] (mb_topics b) topic"

definition chanSend :: "nat \<Rightarrow> memoryMsg \<Rightarrow> MemBus \<Rightarrow> MemBus effect" where
  "chanSend c m b = (let ch = mb_chans b ! c in
     if ch_closed ch then Panics
     else if length (ch_buf ch) \<ge> chanCap then Blocks
     else Does (b\<lparr>mb_chans := (mb_chans b)[c := ch\<lparr>ch_buf := ch_buf ch @ [m]\<rparr>]\<rparr>))"

text \<open>Receiving from a closed channel that is empty yields the zero value at once.\<close>

definition chanRecv :: "nat \<Rightarrow> MemBus \<Rightarrow> (memoryMsg \<times> MemBus) effect" where
  "chanRecv c b = (let ch = mb_chans b ! c in
     case ch_buf ch of
       m # ms \<Rightarrow> Does (m, b\<lparr>mb_chans := (mb_chans b)[c := ch\<lparr>ch_buf := ms\<rparr>]\<rparr>)
     | [] \<Rightarrow> if ch_closed ch then Does (\<lparr>mm_key = [], mm_value = []\<rparr>, b) else Blocks)"

definition addSubscriber :: "string \<Rightarrow> MemBus \<Rightarrow> MemBus" where
  "addSubscriber topic b = b\<lparr>mb_chans := mb_chans b @ [\<lparr>ch_buf = [], ch_closed = False\<rparr>],
     mb_topics := gset topic (chansOf topic b @ [length (mb_chans b)]) (mb_topics b)\<rparr>"

definition busClose :: "MemBus \<Rightarrow> MemBus" where
  "busClose b = b\<lparr>mb_chans := fold (\<lambda>c chs. chs[c := (chs ! c)\<lparr>ch_closed := True\<rparr>]) (concat (map snd (mb_topics b))) (mb_chans b),
     mb_topics := []\<rparr>"

text \<open>One round of the poll for subscribers, and the poll over the states it sees; None when it is still waiting.\<close>

definition enoughSubscribers :: "string \<Rightarrow> nat \<Rightarrow> MemBus \<Rightarrow> bool" where
  "enoughSubscribers topic n b \<longleftrightarrow> n \<le> length (chansOf topic b)"

fun WaitForSubscribers :: "string \<Rightarrow> nat \<Rightarrow> (MemBus \<times> goerr option) list \<Rightarrow> goerr option option" where
  "WaitForSubscribers topic n [] = None"
| "WaitForSubscribers topic n ((b, ctx) # rest) =
     (if enoughSubscribers topic n b then Some None
      else case ctx of Some e \<Rightarrow> Some (Some e) | None \<Rightarrow> WaitForSubscribers topic n rest)"

section \<open>Calls in progress\<close>

text \<open>
  The calls of \<open>Publish\<close> with the channels they still have to send to, and what every subscriber has taken from its
  channel for its handler. The handler's error is logged and dropped.
\<close>

record busSys =
  bs_bus :: MemBus
  bs_calls :: "(memoryMsg \<times> nat list) list"
  bs_seen :: "memoryMsg list list"
  bs_panic :: bool

datatype busEvent =
    DoPublish string memoryMsg
  | DoSend nat
  | DoSubscribe string
  | DoReceive nat
  | DoClose

fun busStep :: "busEvent \<Rightarrow> busSys \<Rightarrow> busSys option" where
  "busStep (DoPublish topic m) s = Some (s\<lparr>bs_calls := bs_calls s @ [(m, chansOf topic (bs_bus s))]\<rparr>)"
| "busStep (DoSend p) s =
     (if p < length (bs_calls s) then
        (case bs_calls s ! p of
           (m, []) \<Rightarrow> None
         | (m, c # cs) \<Rightarrow> (case chanSend c m (bs_bus s) of
              Blocks \<Rightarrow> None
            | Panics \<Rightarrow> Some (s\<lparr>bs_panic := True\<rparr>)
            | Does b \<Rightarrow> Some (s\<lparr>bs_bus := b, bs_calls := (bs_calls s)[p := (m, cs)]\<rparr>)))
      else None)"
| "busStep (DoSubscribe topic) s = Some (s\<lparr>bs_bus := addSubscriber topic (bs_bus s), bs_seen := bs_seen s @ [[]]\<rparr>)"
| "busStep (DoReceive c) s =
     (if c < length (bs_seen s) then
        (case chanRecv c (bs_bus s) of
           Does (m, b) \<Rightarrow> Some (s\<lparr>bs_bus := b, bs_seen := (bs_seen s)[c := bs_seen s ! c @ [m]]\<rparr>)
         | _ \<Rightarrow> None)
      else None)"
| "busStep DoClose s = Some (s\<lparr>bs_bus := busClose (bs_bus s)\<rparr>)"

fun busRun :: "busEvent list \<Rightarrow> busSys \<Rightarrow> busSys option" where
  "busRun [] s = Some s"
| "busRun (e # es) s = (if bs_panic s then None else case busStep e s of None \<Rightarrow> None | Some s' \<Rightarrow> busRun es s')"

definition newBus :: busSys where
  "newBus = \<lparr>bs_bus = NewMemoryBus, bs_calls = [], bs_seen = [], bs_panic = False\<rparr>"

section \<open>What a subscriber is due\<close>

definition dueAt :: "nat \<Rightarrow> busEvent \<Rightarrow> busSys \<Rightarrow> memoryMsg list" where
  "dueAt c e s = (case e of DoPublish topic m \<Rightarrow> if c \<in> set (chansOf topic (bs_bus s)) then [m] else [] | _ \<Rightarrow> [])"

text \<open>The messages published, in a run, on a topic the subscriber had subscribed to by then.\<close>

fun due :: "nat \<Rightarrow> busEvent list \<Rightarrow> busSys \<Rightarrow> memoryMsg list" where
  "due c [] s = []"
| "due c (e # es) s = dueAt c e s @ (case busStep e s of None \<Rightarrow> [] | Some s' \<Rightarrow> due c es s')"

definition underway :: "nat \<Rightarrow> busSys \<Rightarrow> memoryMsg list" where
  "underway c s = map fst (filter (\<lambda>(m, cs). c \<in> set cs) (bs_calls s))"

definition holding :: "nat \<Rightarrow> busSys \<Rightarrow> memoryMsg list" where
  "holding c s = (if c < length (bs_seen s) then bs_seen s ! c @ ch_buf (mb_chans (bs_bus s) ! c) else []) @ underway c s"

text \<open>Every call of \<open>Publish\<close> begins when the earlier ones have returned.\<close>

fun inTurn :: "busEvent list \<Rightarrow> busSys \<Rightarrow> bool" where
  "inTurn [] s = True"
| "inTurn (e # es) s = ((case e of DoPublish topic m \<Rightarrow> \<forall>call \<in> set (bs_calls s). snd call = [] | _ \<Rightarrow> True) \<and>
     (case busStep e s of None \<Rightarrow> True | Some s' \<Rightarrow> inTurn es s'))"

section \<open>Invariant\<close>

definition busOk :: "busSys \<Rightarrow> bool" where
  "busOk s \<longleftrightarrow> length (bs_seen s) = length (mb_chans (bs_bus s)) \<and>
     (\<forall>ch \<in> set (mb_chans (bs_bus s)). \<not> ch_closed ch \<and> length (ch_buf ch) \<le> chanCap) \<and>
     (\<forall>topic. distinct (chansOf topic (bs_bus s)) \<and> (\<forall>c \<in> set (chansOf topic (bs_bus s)). c < length (bs_seen s))) \<and>
     (\<forall>m cs. (m, cs) \<in> set (bs_calls s) \<longrightarrow> distinct cs \<and> (\<forall>c \<in> set cs. c < length (bs_seen s))) \<and> \<not> bs_panic s"

lemma busOk_new: "busOk newBus"
  by (simp add: busOk_def newBus_def NewMemoryBus_def chansOf_def gget_def)

lemma chanSend_open:
  assumes "\<not> ch_closed (mb_chans b ! c)"
  shows "chanSend c m b = (if length (ch_buf (mb_chans b ! c)) \<ge> chanCap then Blocks
    else Does (b\<lparr>mb_chans := (mb_chans b)[c := (mb_chans b ! c)\<lparr>ch_buf := ch_buf (mb_chans b ! c) @ [m]\<rparr>]\<rparr>))"
  using assms by (simp add: chanSend_def Let_def)

lemma chansOf_add: "chansOf t (addSubscriber topic b) = (if t = topic then chansOf topic b @ [length (mb_chans b)] else chansOf t b)"
  by (simp add: chansOf_def addSubscriber_def)

lemma chansOf_chans [simp]: "chansOf t (b\<lparr>mb_chans := chs\<rparr>) = chansOf t b"
  by (simp add: chansOf_def)

lemma busOk_chan: "busOk s \<Longrightarrow> c < length (bs_seen s) \<Longrightarrow> \<not> ch_closed (mb_chans (bs_bus s) ! c) \<and> length (ch_buf (mb_chans (bs_bus s) ! c)) \<le> chanCap"
  by (simp add: busOk_def)

lemma all_update: "(\<forall>x \<in> set xs. P x) \<Longrightarrow> P y \<Longrightarrow> \<forall>x \<in> set (xs[i := y]). P x"
  using set_update_subset_insert by fastforce

lemma busOk_put:
  assumes "busOk s" "c < length (bs_seen s)" "length buf \<le> chanCap" "length seen = length (bs_seen s)"
    and "\<forall>m cs. (m, cs) \<in> set calls \<longrightarrow> distinct cs \<and> (\<forall>c \<in> set cs. c < length (bs_seen s))"
  shows "busOk (s\<lparr>bs_bus := bs_bus s\<lparr>mb_chans := (mb_chans (bs_bus s))[c := (mb_chans (bs_bus s) ! c)\<lparr>ch_buf := buf\<rparr>]\<rparr>,
    bs_calls := calls, bs_seen := seen\<rparr>)"
proof -
  have "\<forall>ch \<in> set ((mb_chans (bs_bus s))[c := (mb_chans (bs_bus s) ! c)\<lparr>ch_buf := buf\<rparr>]). \<not> ch_closed ch \<and> length (ch_buf ch) \<le> chanCap"
    using assms(1,3) busOk_chan [OF assms(1,2)] by (intro all_update) (simp_all add: busOk_def)
  then show ?thesis
    using assms(1,4,5) unfolding busOk_def by auto
qed

text \<open>A call that sends, and the other calls.\<close>

lemma send_cases:
  assumes "busOk s" "busStep (DoSend p) s = Some s'"
  obtains xs ys m c cs where "bs_calls s = xs @ (m, c # cs) # ys" "c < length (bs_seen s)" "c \<notin> set cs"
    "length (ch_buf (mb_chans (bs_bus s) ! c)) < chanCap"
    "s' = s\<lparr>bs_bus := bs_bus s\<lparr>mb_chans := (mb_chans (bs_bus s))[c := (mb_chans (bs_bus s) ! c)\<lparr>ch_buf := ch_buf (mb_chans (bs_bus s) ! c) @ [m]\<rparr>]\<rparr>,
       bs_calls := xs @ (m, cs) # ys\<rparr>"
proof -
  obtain m chs where call: "p < length (bs_calls s)" "bs_calls s ! p = (m, chs)"
    using assms(2) by (metis busStep.simps(2) option.distinct(1) prod.exhaust)
  then obtain c cs where cs: "chs = c # cs"
    using assms(2) by (cases chs) auto
  have "(m, c # cs) \<in> set (bs_calls s)"
    using call cs by (metis nth_mem)
  then have "distinct (c # cs) \<and> (\<forall>d \<in> set (c # cs). d < length (bs_seen s))"
    using assms(1) unfolding busOk_def by blast
  then have c: "c < length (bs_seen s)" "c \<notin> set cs"
    by simp_all
  show thesis
  proof (rule that [of "take p (bs_calls s)" m c cs "drop (Suc p) (bs_calls s)"])
    show "bs_calls s = take p (bs_calls s) @ (m, c # cs) # drop (Suc p) (bs_calls s)"
      using call cs by (metis id_take_nth_drop)
  qed (use assms(2) call cs c busOk_chan [OF assms(1) c(1)] in \<open>auto simp: chanSend_open upd_conv_take_nth_drop split: if_splits\<close>)
qed

lemma recv_cases:
  assumes "busOk s" "busStep (DoReceive c) s = Some s'"
  obtains m ms where "c < length (bs_seen s)" "ch_buf (mb_chans (bs_bus s) ! c) = m # ms"
    "s' = s\<lparr>bs_bus := bs_bus s\<lparr>mb_chans := (mb_chans (bs_bus s))[c := (mb_chans (bs_bus s) ! c)\<lparr>ch_buf := ms\<rparr>]\<rparr>,
       bs_seen := (bs_seen s)[c := bs_seen s ! c @ [m]]\<rparr>"
  using assms busOk_chan [OF assms(1), of c]
  by (auto simp: chanRecv_def Let_def split: if_splits list.splits effect.splits)

lemma busOk_step:
  assumes "busOk s" "e \<noteq> DoClose" "busStep e s = Some s'"
  shows "busOk s'"
proof (cases e)
  case (DoPublish topic m)
  then show ?thesis
    using assms by (auto simp: busOk_def)
next
  case (DoSend p)
  from send_cases [OF assms(1) assms(3) [unfolded DoSend]] show ?thesis
  proof cases
    case (1 xs ys m c cs)
    have "\<forall>m' ds. (m', ds) \<in> set (bs_calls s) \<longrightarrow> distinct ds \<and> (\<forall>c \<in> set ds. c < length (bs_seen s))"
      using assms(1) unfolding busOk_def by blast
    then have "\<forall>m' ds. (m', ds) \<in> set (xs @ (m, cs) # ys) \<longrightarrow> distinct ds \<and> (\<forall>c \<in> set ds. c < length (bs_seen s))"
      unfolding 1(1) by simp
    with busOk_put [OF assms(1) 1(2), of "ch_buf (mb_chans (bs_bus s) ! c) @ [m]" "bs_seen s" "xs @ (m, cs) # ys"] show ?thesis
      using 1(4,5) by simp
  qed
next
  case (DoSubscribe topic)
  have topics: "distinct (chansOf t (bs_bus s))" "\<And>c. c \<in> set (chansOf t (bs_bus s)) \<Longrightarrow> c < length (mb_chans (bs_bus s))" for t
    using assms(1) unfolding busOk_def by auto
  have "distinct (chansOf t (addSubscriber topic (bs_bus s))) \<and>
      (\<forall>c \<in> set (chansOf t (addSubscriber topic (bs_bus s))). c < Suc (length (mb_chans (bs_bus s))))" for t
    using topics(1) [of t] topics(2) [of _ t] topics(2) [of "length (mb_chans (bs_bus s))" t] by (auto simp: chansOf_add less_SucI)
  moreover have "distinct cs \<and> (\<forall>c \<in> set cs. c < Suc (length (mb_chans (bs_bus s))))" if "(m, cs) \<in> set (bs_calls s)" for m cs
    using assms(1) that unfolding busOk_def by (metis less_SucI)
  moreover have "mb_chans (addSubscriber topic (bs_bus s)) = mb_chans (bs_bus s) @ [\<lparr>ch_buf = [], ch_closed = False\<rparr>]"
    by (simp add: addSubscriber_def)
  ultimately show ?thesis
    using assms(1,3) DoSubscribe by (auto simp: busOk_def)
next
  case (DoReceive c)
  from recv_cases [OF assms(1) assms(3) [unfolded DoReceive]] show ?thesis
  proof cases
    case (1 m ms)
    have "length ms \<le> chanCap"
      using busOk_chan [OF assms(1) 1(1)] 1(2) by simp
    moreover have "\<forall>m cs. (m, cs) \<in> set (bs_calls s) \<longrightarrow> distinct cs \<and> (\<forall>c \<in> set cs. c < length (bs_seen s))"
      using assms(1) unfolding busOk_def by blast
    ultimately show ?thesis
      using busOk_put [OF assms(1) 1(1), of ms "(bs_seen s)[c := bs_seen s ! c @ [m]]" "bs_calls s"] 1(3) by simp
  qed
qed (use assms in simp)

section \<open>Nothing is lost, repeated or overtaken\<close>

definition lone :: "busSys \<Rightarrow> bool" where
  "lone s \<longleftrightarrow> length (filter (\<lambda>call. snd call \<noteq> []) (bs_calls s)) \<le> 1"

lemma underway_idle: "\<forall>call \<in> set calls. snd call = [] \<Longrightarrow> map fst (filter (\<lambda>(m, cs). c \<in> set cs) calls) = []"
  by (auto simp: filter_empty_conv)

lemma holding_step:
  assumes "busOk s" "e \<noteq> DoClose" "busStep e s = Some s'"
  shows "mset (holding c s') = mset (holding c s) + mset (dueAt c e s)"
    and "lone s \<Longrightarrow> (\<And>topic m. e = DoPublish topic m \<Longrightarrow> \<forall>call \<in> set (bs_calls s). snd call = []) \<Longrightarrow>
      lone s' \<and> holding c s' = holding c s @ dueAt c e s"
proof -
  consider topic m where "e = DoPublish topic m" | p where "e = DoSend p" | topic where "e = DoSubscribe topic" | d where "e = DoReceive d"
    using assms(2) by (cases e) auto
  then have "mset (holding c s') = mset (holding c s) + mset (dueAt c e s) \<and>
    (lone s \<longrightarrow> (\<forall>topic m. e = DoPublish topic m \<longrightarrow> (\<forall>call \<in> set (bs_calls s). snd call = [])) \<longrightarrow>
      lone s' \<and> holding c s' = holding c s @ dueAt c e s)"
  proof cases
    case (1 topic m)
    then show ?thesis
      using assms(3) underway_idle [of "bs_calls s" c]
      by (auto simp: holding_def underway_def dueAt_def lone_def filter_empty_conv)
  next
    case (2 p)
    from send_cases [OF assms(1) assms(3) [unfolded 2]] show ?thesis
    proof cases
      case (1 xs ys m d cs)
      have idle: "map fst (filter (\<lambda>(m, cs). c \<in> set cs) xs) = []" "map fst (filter (\<lambda>(m, cs). c \<in> set cs) ys) = []" if "lone s"
        using that 1(1) by (auto simp: lone_def filter_empty_conv)
      have "d < length (mb_chans (bs_bus s))"
        using assms(1) 1(2) by (simp add: busOk_def)
      then have "holding c s' = (if c < length (bs_seen s) then bs_seen s ! c @ ch_buf (mb_chans (bs_bus s) ! c) @ (if c = d then [m] else []) else []) @
          map fst (filter (\<lambda>(m, cs). c \<in> set cs) xs) @ (if c \<in> set cs then [m] else []) @ map fst (filter (\<lambda>(m, cs). c \<in> set cs) ys)"
        using 1 by (simp add: holding_def underway_def)
      moreover have "holding c s = (if c < length (bs_seen s) then bs_seen s ! c @ ch_buf (mb_chans (bs_bus s) ! c) else []) @
          map fst (filter (\<lambda>(m, cs). c \<in> set cs) xs) @ (if c = d \<or> c \<in> set cs then [m] else []) @ map fst (filter (\<lambda>(m, cs). c \<in> set cs) ys)"
        using 1(1) by (simp add: holding_def underway_def)
      moreover have "lone s \<Longrightarrow> lone s'"
        using 1(1,5) by (simp add: lone_def)
      ultimately show ?thesis
        using 1(2,3) idle by (auto simp: 2 dueAt_def)
    qed
  next
    case (3 topic)
    then show ?thesis
      using assms(1,3) by (auto simp: holding_def underway_def dueAt_def lone_def addSubscriber_def nth_append busOk_def)
  next
    case (4 d)
    from recv_cases [OF assms(1) assms(3) [unfolded 4]] show ?thesis
    proof cases
      case (1 m ms)
      then show ?thesis
        using assms(1) by (auto simp: holding_def underway_def dueAt_def lone_def 4 nth_list_update busOk_def)
    qed
  qed
  then show "mset (holding c s') = mset (holding c s) + mset (dueAt c e s)"
    and "lone s \<Longrightarrow> (\<And>topic m. e = DoPublish topic m \<Longrightarrow> \<forall>call \<in> set (bs_calls s). snd call = []) \<Longrightarrow>
      lone s' \<and> holding c s' = holding c s @ dueAt c e s"
    by blast+
qed



definition demoMsg :: memoryMsg where
  "demoMsg = \<lparr>mm_key = ''k'', mm_value = ''v''\<rparr>"

definition demoSchedule :: "busEvent list" where
  "demoSchedule = [DoPublish ''t'' demoMsg, DoSubscribe ''t'', DoPublish ''t'' demoMsg, DoSend 1, DoReceive 0]"

lemma demo_schedule:
  "map_option bs_seen (busRun demoSchedule newBus) = Some [[demoMsg]]" "inTurn demoSchedule newBus" "due 0 demoSchedule newBus = [demoMsg]"
  by code_simp+


text \<open>
  A message published on a topic nobody has subscribed to yet reaches no one, though the call succeeds; and after
  \<open>Close\<close> a subscriber is handed empty messages as fast as it takes them.
\<close>

lemma early_message_lost: "due c [DoPublish topic m, DoSubscribe topic] newBus = []"
  by (simp add: dueAt_def newBus_def NewMemoryBus_def chansOf_def gget_def)

lemma closed_bus_spins:
  assumes "c < length (bs_seen s)" "ch_closed (mb_chans (bs_bus s) ! c)" "ch_buf (mb_chans (bs_bus s) ! c) = []"
  shows "busStep (DoReceive c) s = Some (s\<lparr>bs_seen := (bs_seen s)[c := bs_seen s ! c @ [\<lparr>mm_key = [], mm_value = []\<rparr>]]\<rparr>)"
  using assms by (simp add: chanRecv_def)

end
