(* ===== verification/Redpanda.thy ===== *)
theory Redpanda
imports Prelude "HOL-Library.Sublist"
begin

text \<open>
  The bus over the Kafka protocol (\<open>eventbus/redpanda.go\<close>). The client library is a parameter: a state of
  its own and the operations the code calls. \<open>kafkaClient\<close> states what its documentation promises of them
  for a topic that is not compacted. The loop of \<open>Subscribe\<close> hands every fetched record to the handler,
  marks the ones it succeeded on and commits; \<open>consumeRounds\<close> is any number of its iterations.
\<close>

section \<open>The client\<close>

record krec =
  kr_Key :: string
  kr_Value :: string
  kr_Partition :: int
  kr_Offset :: nat

record fetches =
  ft_Closed :: bool
  ft_Records :: "krec list"

record 'k kgo =
  ProduceSync :: "string \<Rightarrow> string \<Rightarrow> string \<Rightarrow> 'k \<Rightarrow> goerr option \<times> 'k"
  PollFetches :: "'k \<Rightarrow> fetches \<times> 'k"
  MarkCommitRecords :: "krec \<Rightarrow> 'k \<Rightarrow> 'k"
  CommitUncommittedOffsets :: "'k \<Rightarrow> goerr option \<times> 'k"
  ctx_done :: "'k \<Rightarrow> bool"

section \<open>Publishing and consuming\<close>

definition rp_Publish :: "'k kgo \<Rightarrow> string \<Rightarrow> string \<Rightarrow> string \<Rightarrow> ('k, unit) M" where
  "rp_Publish K topic key val = (\<lambda>k. case ProduceSync K topic key val k of
      (Some e, k') \<Rightarrow> (Inl (WrapErr ''produce'' e), k')
    | (None, k') \<Rightarrow> (Inr (), k'))"

type_synonym 's handler = "string \<Rightarrow> string \<Rightarrow> ('s, unit) M"

fun consumeBatch :: "'k kgo \<Rightarrow> 's handler \<Rightarrow> krec list \<Rightarrow> 'k \<times> 's \<Rightarrow> 'k \<times> 's" where
  "consumeBatch K handler [] ks = ks"
| "consumeBatch K handler (r # rs) (k, s) = (case handler (kr_Key r) (kr_Value r) s of
      (Inl e, s') \<Rightarrow> consumeBatch K handler rs (k, s')
    | (Inr _, s') \<Rightarrow> consumeBatch K handler rs (MarkCommitRecords K r k, s'))"

text \<open>One iteration of the loop; True when the call of \<open>Subscribe\<close> returns. Errors of a fetch and of a commit are only logged.\<close>

definition consumeRound :: "'k kgo \<Rightarrow> 's handler \<Rightarrow> 'k \<times> 's \<Rightarrow> bool \<times> 'k \<times> 's" where
  "consumeRound K handler ks = (case PollFetches K (fst ks) of (f, k1) \<Rightarrow>
     if ft_Closed f then (True, k1, snd ks)
     else (case consumeBatch K handler (ft_Records f) (k1, snd ks) of (k2, s2) \<Rightarrow>
       let k3 = snd (CommitUncommittedOffsets K k2) in (ft_Records f = [] \<and> ctx_done K k3, k3, s2)))"

fun consumeRounds :: "nat \<Rightarrow> 'k kgo \<Rightarrow> 's handler \<Rightarrow> 'k \<times> 's \<Rightarrow> 'k \<times> 's" where
  "consumeRounds 0 K handler ks = ks"
| "consumeRounds (Suc n) K handler ks = (case consumeRound K handler ks of
      (True, ks') \<Rightarrow> ks' | (False, ks') \<Rightarrow> consumeRounds n K handler ks')"

section \<open>What the client promises\<close>

text \<open>The log of a partition, the offset the group has committed there and the one this consumer fetches next.\<close>

record 'k brokerView =
  brokerLog :: "'k \<Rightarrow> int \<Rightarrow> krec list"
  committedAt :: "'k \<Rightarrow> int \<Rightarrow> nat"
  positionAt :: "'k \<Rightarrow> int \<Rightarrow> nat"

definition ofPart :: "int \<Rightarrow> krec list \<Rightarrow> krec list" where
  "ofPart p rs = filter (\<lambda>r. kr_Partition r = p) rs"

text \<open>
  Fetching returns the records that follow in the log of each partition, in order, and moves the position behind
  them; logs only grow. Marking moves nothing. A commit stays between the old commit and the position.
\<close>

definition kafkaClient :: "'k kgo \<Rightarrow> 'k brokerView \<Rightarrow> bool" where
  "kafkaClient K V \<longleftrightarrow>
     (\<forall>k f k'. PollFetches K k = (f, k') \<longrightarrow> (\<forall>p. prefix (brokerLog V k p) (brokerLog V k' p) \<and> committedAt V k' p = committedAt V k p \<and>
        ofPart p (ft_Records f) = take (length (ofPart p (ft_Records f))) (drop (positionAt V k p) (brokerLog V k' p)) \<and>
        positionAt V k' p = positionAt V k p + (if ft_Closed f then 0 else length (ofPart p (ft_Records f))))) \<and>
     (\<forall>r k p. brokerLog V (MarkCommitRecords K r k) p = brokerLog V k p \<and>
        committedAt V (MarkCommitRecords K r k) p = committedAt V k p \<and> positionAt V (MarkCommitRecords K r k) p = positionAt V k p) \<and>
     (\<forall>k e k' p. CommitUncommittedOffsets K k = (e, k') \<longrightarrow> brokerLog V k' p = brokerLog V k p \<and> positionAt V k' p = positionAt V k p \<and>
        committedAt V k p \<le> committedAt V k' p \<and> committedAt V k' p \<le> max (committedAt V k p) (positionAt V k p))"

text \<open>The handler, with a record of what it is given.\<close>

definition watched :: "'s handler \<Rightarrow> ('s \<times> (string \<times> string) list) handler" where
  "watched h key val = (\<lambda>(s, log). case h key val s of (r, s') \<Rightarrow> (r, (s', log @ [(key, val)])))"

abbreviation keyValue :: "krec \<Rightarrow> string \<times> string" where
  "keyValue r \<equiv> (kr_Key r, kr_Value r)"

definition segment :: "'k brokerView \<Rightarrow> 'k \<Rightarrow> int \<Rightarrow> nat \<Rightarrow> nat \<Rightarrow> krec list" where
  "segment V k p i j = drop i (take j (brokerLog V k p))"

section \<open>Nothing is committed that was not handed over\<close>

lemma watched_run: "watched h key val (s, log) = (case h key val s of (r, s') \<Rightarrow> (r, (s', log @ [(key, val)])))"
  by (simp add: watched_def)

lemma batch_watched:
  assumes "kafkaClient K V" "consumeBatch K (watched h) rs (k, (s, log)) = (k', (s', log'))"
  shows "log' = log @ map keyValue rs \<and> brokerLog V k' = brokerLog V k \<and> committedAt V k' = committedAt V k \<and> positionAt V k' = positionAt V k"
  using assms(2)
proof (induction rs arbitrary: k s log)
  case (Cons r rs)
  obtain x s1 where run: "h (kr_Key r) (kr_Value r) s = (x, s1)"
    by (rule prod.exhaust)
  have mark: "brokerLog V (MarkCommitRecords K r k) = brokerLog V k" "committedAt V (MarkCommitRecords K r k) = committedAt V k"
    "positionAt V (MarkCommitRecords K r k) = positionAt V k"
    using assms(1) unfolding kafkaClient_def by blast+
  show ?case
  proof (cases x)
    case (Inl e)
    then have "consumeBatch K (watched h) rs (k, (s1, log @ [keyValue r])) = (k', (s', log'))"
      using Cons.prems run by (simp add: watched_run)
    from Cons.IH [OF this] show ?thesis
      by simp
  next
    case (Inr u)
    then have "consumeBatch K (watched h) rs (MarkCommitRecords K r k, (s1, log @ [keyValue r])) = (k', (s', log'))"
      using Cons.prems run by (simp add: watched_run)
    from Cons.IH [OF this] show ?thesis
      using mark by simp
  qed
qed simp

text \<open>
  What holds between the iterations: the log since the first position, up to the current one, is in what the handler was
  given, and the commit has not overtaken the position.
\<close>

definition handedOver :: "'k brokerView \<Rightarrow> 'k \<Rightarrow> 'k \<Rightarrow> (string \<times> string) list \<Rightarrow> bool" where
  "handedOver V k0 k log \<longleftrightarrow> (\<forall>p. positionAt V k0 p \<le> positionAt V k p \<and> positionAt V k p \<le> length (brokerLog V k p) \<and>
     committedAt V k0 p \<le> committedAt V k p \<and> committedAt V k p \<le> positionAt V k p \<and>
     subseq (map keyValue (segment V k p (positionAt V k0 p) (positionAt V k p))) log)"

lemma round_handedOver:
  assumes "kafkaClient K V" "handedOver V k0 k log" "consumeRound K (watched h) (k, (s, log)) = (b, k', (s', log'))"
  shows "handedOver V k0 k' log'"
proof -
  obtain f k1 where poll: "PollFetches K k = (f, k1)"
    by (rule prod.exhaust)
  have fetched: "prefix (brokerLog V k p) (brokerLog V k1 p)" "committedAt V k1 p = committedAt V k p"
    "ofPart p (ft_Records f) = take (length (ofPart p (ft_Records f))) (drop (positionAt V k p) (brokerLog V k1 p))"
    "positionAt V k1 p = positionAt V k p + (if ft_Closed f then 0 else length (ofPart p (ft_Records f)))" for p
    using assms(1) poll unfolding kafkaClient_def by blast+
  have inv: "positionAt V k0 p \<le> positionAt V k p" "positionAt V k p \<le> length (brokerLog V k p)" "committedAt V k0 p \<le> committedAt V k p"
    "committedAt V k p \<le> positionAt V k p" "subseq (map keyValue (segment V k p (positionAt V k0 p) (positionAt V k p))) log" for p
    using assms(2) unfolding handedOver_def by blast+
  have old: "segment V k1 p i (positionAt V k p) = segment V k p i (positionAt V k p)" "positionAt V k p \<le> length (brokerLog V k1 p)" for p i
    using fetched(1) [of p] inv(2) [of p] by (auto simp: segment_def elim!: prefixE)
  show ?thesis
  proof (cases "ft_Closed f")
    case True
    then show ?thesis
      using assms(3) poll fetched(2,4) old inv by (auto simp: consumeRound_def handedOver_def)
  next
    case False
    obtain k2 s2 log2 where batch: "consumeBatch K (watched h) (ft_Records f) (k1, (s, log)) = (k2, (s2, log2))"
      by (metis prod.exhaust)
    obtain e k3 where commit: "CommitUncommittedOffsets K k2 = (e, k3)"
      by (rule prod.exhaust)
    have k3: "brokerLog V k3 p = brokerLog V k2 p" "positionAt V k3 p = positionAt V k2 p"
      "committedAt V k2 p \<le> committedAt V k3 p" "committedAt V k3 p \<le> max (committedAt V k2 p) (positionAt V k2 p)" for p
      using assms(1) commit unfolding kafkaClient_def by blast+
    have fin: "k' = k3" "log' = log2"
      using assms(3) poll False batch commit by (simp_all add: consumeRound_def Let_def)
    note k2 = batch_watched [OF assms(1) batch]
    have "positionAt V k1 p \<le> length (brokerLog V k1 p) \<and>
        subseq (map keyValue (segment V k1 p (positionAt V k0 p) (positionAt V k1 p))) (log @ map keyValue (ft_Records f))" for p
    proof -
      define n where "n = length (ofPart p (ft_Records f))"
      have len: "positionAt V k p + n \<le> length (brokerLog V k1 p)"
        using arg_cong [OF fetched(3) [of p], of length] old(2) [of p] unfolding n_def [symmetric] by simp
      have "segment V k1 p (positionAt V k0 p) (positionAt V k p + n) =
          segment V k p (positionAt V k0 p) (positionAt V k p) @ ofPart p (ft_Records f)"
        using fetched(3) [of p] old(2) [of p] inv(1) [of p] unfolding n_def [symmetric] old(1) [symmetric]
        by (simp add: segment_def take_add)
      moreover have "subseq (map keyValue (ofPart p (ft_Records f))) (map keyValue (ft_Records f))"
        by (simp add: ofPart_def subseq_map subseq_filter_left)
      ultimately show ?thesis
        using fetched(4) [of p] False len inv(5) [of p] by (simp add: n_def list_emb_append_mono)
    qed
    note here = this
    show ?thesis
      unfolding fin handedOver_def
    proof (intro allI)
      fix p
      show "positionAt V k0 p \<le> positionAt V k3 p \<and> positionAt V k3 p \<le> length (brokerLog V k3 p) \<and>
          committedAt V k0 p \<le> committedAt V k3 p \<and> committedAt V k3 p \<le> positionAt V k3 p \<and>
          subseq (map keyValue (segment V k3 p (positionAt V k0 p) (positionAt V k3 p))) log2"
        using here [of p] inv(1,3,4) [of p] fetched(2,4) [of p] k2 k3 [of p] by (simp add: segment_def)
    qed
  qed
qed

lemma rounds_handedOver:
  assumes "kafkaClient K V"
  shows "handedOver V k0 k log \<Longrightarrow> consumeRounds n K (watched h) (k, (s, log)) = (k', (s', log')) \<Longrightarrow> handedOver V k0 k' log'"
proof (induction n arbitrary: k s log)
  case (Suc n)
  obtain b k1 s1 log1 where round: "consumeRound K (watched h) (k, (s, log)) = (b, k1, (s1, log1))"
    by (metis prod.exhaust)
  show ?case
    using Suc.IH [of k1 log1 s1] Suc.prems round round_handedOver [OF assms Suc.prems(1) round] by (cases b) auto
qed simp


section \<open>A client\<close>

text \<open>A client of one partition that fetches what is there and commits the offset behind the last record that was marked.\<close>

record demoK =
  dk_Log :: "(string \<times> string) list"
  dk_Position :: nat
  dk_Marked :: nat
  dk_Committed :: nat

definition demoRecs :: "demoK \<Rightarrow> krec list" where
  "demoRecs k = map (\<lambda>i. \<lparr>kr_Key = fst (dk_Log k ! i), kr_Value = snd (dk_Log k ! i), kr_Partition = 0, kr_Offset = i\<rparr>) [0..<length (dk_Log k)]"

definition demoConsumer :: "demoK kgo" where
  "demoConsumer = \<lparr>ProduceSync = (\<lambda>topic key val k. (None, k\<lparr>dk_Log := dk_Log k @ [(key, val)]\<rparr>)),
     PollFetches = (\<lambda>k. (\<lparr>ft_Closed = False, ft_Records = drop (dk_Position k) (demoRecs k)\<rparr>,
       k\<lparr>dk_Position := max (dk_Position k) (length (dk_Log k))\<rparr>)),
     MarkCommitRecords = (\<lambda>r k. k\<lparr>dk_Marked := max (dk_Marked k) (kr_Offset r + 1)\<rparr>),
     CommitUncommittedOffsets = (\<lambda>k. (None, k\<lparr>dk_Committed := max (dk_Committed k) (min (dk_Marked k) (dk_Position k))\<rparr>)),
     ctx_done = (\<lambda>k. False)\<rparr>"

definition demoView :: "demoK brokerView" where
  "demoView = \<lparr>brokerLog = (\<lambda>k p. if p = 0 then demoRecs k else []),
     committedAt = (\<lambda>k p. if p = 0 then dk_Committed k else 0), positionAt = (\<lambda>k p. if p = 0 then dk_Position k else 0)\<rparr>"

lemma demo_part: "ofPart p (drop n (demoRecs k)) = (if p = 0 then drop n (demoRecs k) else [])"
  by (auto simp: ofPart_def demoRecs_def drop_map filter_empty_conv o_def)

lemma demo_recs: "demoRecs (k\<lparr>dk_Position := n\<rparr>) = demoRecs k" "demoRecs (k\<lparr>dk_Marked := n\<rparr>) = demoRecs k"
  "demoRecs (k\<lparr>dk_Committed := n\<rparr>) = demoRecs k" "length (demoRecs k) = length (dk_Log k)"
  by (simp_all add: demoRecs_def)

lemma demo_consumer: "kafkaClient demoConsumer demoView"
  by (auto simp: kafkaClient_def demoConsumer_def demoView_def demo_part demo_recs)

text \<open>The handler of the example fails on one message.\<close>

definition failsOn :: "string \<Rightarrow> unit handler" where
  "failsOn bad key val = (if val = bad then throw (PlainErr ''database down'') else ret ())"

definition demoLog :: demoK where
  "demoLog = \<lparr>dk_Log = [(''k'', ''a''), (''k'', ''b'')], dk_Position = 0, dk_Marked = 0, dk_Committed = 0\<rparr>"

lemma demo_consumed: "consumeRounds 1 demoConsumer (watched (failsOn ''a'')) (demoLog, ((), [])) =
    (demoLog\<lparr>dk_Position := 2, dk_Marked := 2, dk_Committed := 2\<rparr>, ((), [(''k'', ''a''), (''k'', ''b'')]))"
  by code_simp


text \<open>
  The loop goes on after a record its handler failed on, and offsets are cumulative: even with a client that commits only
  what was marked, a later success of the same partition commits the failed record, and no consumer of the group gets it again.
\<close>

lemma failed_message_committed:
  "\<exists>k' log. consumeRounds 1 demoConsumer (watched (failsOn ''a'')) (demoLog, ((), [])) = (k', ((), log)) \<and>
     fst (failsOn ''a'' ''k'' ''a'' ()) \<noteq> Inr () \<and> committedAt demoView k' 0 = 2"
  unfolding demo_consumed by (simp add: failsOn_def throw_def demoView_def)

end
