(* ===== verification/EngineMain.thy ===== *)
theory EngineMain
imports Router RetryEngine
begin

text \<open>
  How the engine is put together (\<open>cmd/engine/main.go\<close>): the bus it chooses, the options of its retry engine and its
  health check. The loops it starts interleave as in \<open>deployed\<close>.
\<close>

datatype busKind = InMemory | Brokers "string list"

definition chooseBus :: "Config \<Rightarrow> busKind" where
  "chooseBus c = (if TrimSpace (KafkaBrokers c) = [] \<or> KafkaBrokers c = ''memory'' then InMemory
     else Brokers (splitOn (CHR '','') (KafkaBrokers c)))"

definition engineRetryOptions :: "Config \<Rightarrow> RetryOptions" where
  "engineRetryOptions c = retryWithOptions retryDefaults \<lparr>BaseDelay = i64 (RetryBaseDelayMs c * 1000000),
     MaxDelay = i64 (RetryMaxDelayMs c * 1000000), MaxAttempts = RetryMaxAttempts c, PollEvery = 0, BatchSize = 0\<rparr>"

text \<open>The status is computed but never written, so the reply has the default one.\<close>

definition engineHealth :: "(('w, 'z) st_scheme, reply) M" where
  "engineHealth =
     bindM (attempt faultPoint) (\<lambda>dbPing. bindM (attempt faultPoint) (\<lambda>busPing.
     let text = (\<lambda>p. case p of Inl _ \<Rightarrow> ''error'' | Inr _ \<Rightarrow> ''ok'');
         status = (if text dbPing \<noteq> ''ok'' \<or> text busPing \<noteq> ''ok'' then 503 else 200 :: int) in
     writeJSON 200 (JObj [(''status'', jstr (if status = 200 then ''healthy'' else ''degraded'')),
       (''database'', jstr (text dbPing)), (''bus'', jstr (text busPing)), (''service'', jstr ''engine'')])))"

lemma engine_health_status: "engineHealth s = (Inr rep, s') \<Longrightarrow> rp_Status rep = 200"
  by (auto simp: engineHealth_def writeJSON_def run_simps Let_def)

text \<open>Whatever the configuration, the retry engine waits between two attempts and looks for work at intervals.\<close>

lemma engine_options_positive:
  "0 < BaseDelay (engineRetryOptions c)" "0 < MaxDelay (engineRetryOptions c)" "0 < MaxAttempts (engineRetryOptions c)"
  "PollEvery (engineRetryOptions c) = 250000000" "BatchSize (engineRetryOptions c) = 100"
  by (simp_all add: engineRetryOptions_def retryWithOptions_def retryDefaults_def second_def)

text \<open>The configured number of attempts has no effect on the entries of the queue, which carry their own.\<close>

lemma attempts_option_unused: "processRetry L (opts\<lparr>MaxAttempts := n\<rparr>) r = processRetry L opts r"
proof -
  have "engineDelay u k (opts\<lparr>MaxAttempts := n\<rparr>) ra = engineDelay u k opts ra" for u k ra
    by (simp add: engineDelay_def Let_def)
  then show ?thesis
    by (simp only: processRetry_def)
qed

end
