(* ===== verification/Spec2Isabelle.thy ===== *)
theory Spec2Isabelle
imports WorkerProps ApplyProps SyncJob LoginProps TenantProps OpsProps SimProps Fixtures SimOidc Migrate MemoryBus Redpanda EngineMain
begin

text \<open>
  SyncForge keeps the customer records of several providers (Salesforce, HubSpot) in step. This library
  models its Go sources under \<open>src/\<close> and proves what they promise.

  \<^bold>\<open>The program.\<close> A provider reports a change by a signed webhook. The API server (\<open>internal/api\<close>)
  verifies it and stores it as a source event; the ingestion processor (\<open>internal/ingestion\<close>) publishes stored
  events on the bus (\<open>internal/eventbus\<close>); the sync worker (\<open>internal/syncworker\<close>) consumes them, normalizes the
  record through a connector (\<open>internal/connectors\<close>), merges it field by field into the canonical record
  (\<open>internal/conflict\<close>), writes the result to the other providers and records everything in one transaction.
  Failures go to a retry queue, which the retry engine (\<open>internal/retry\<close>) drains with exponential backoff
  (\<open>internal/backoff\<close>), or to the dead-letter queue. The job runner (\<open>internal/syncjob\<close>) runs full
  synchronisations and reconciliations (\<open>internal/reconcile\<close>). Operators use the API with sessions, roles, one-time
  passwords (\<open>internal/totp\<close>) and single sign-on (\<open>internal/oidc\<close>). All state is in PostgreSQL
  (\<open>internal/store\<close>, \<open>internal/db\<close>, \<open>migrations\<close>). \<open>internal/simulator\<close> contains providers and an identity provider to
  run the system against.

  \<^bold>\<open>How it is modelled.\<close> A Go function that may fail and changes state is a function from a state to an error or a value
  and the state reached (type \<open>M\<close> of \<open>Prelude\<close>); the state after an error is kept, as in Go. The state \<open>st\<close> has the
  tables as lists of rows, the outside world, the clock and a list of faults: every database statement, request
  and use of the bus takes an entry of it and fails when the entry says so, so a theorem over all states is a
  theorem over all failures, and \<open>calm\<close> says that none is left. A statement takes effect as a whole or not at all, and the
  row-level security policies are conditions on the tenant in the statements. Go maps
  are association lists whose order is the arbitrary order of \<open>range\<close>; \<open>int64\<close> arithmetic wraps where it can
  overflow; times are nanoseconds. Code outside \<open>src/\<close> is a parameter: JSON, hashing, the random generator, HTTP,
  RSA, PostgreSQL's scripts and the Kafka client are fields of \<open>golib\<close>, \<open>netlib\<close>, \<open>lib\<close>, \<open>apilib\<close>, \<open>simlib\<close>, \<open>idplib\<close> and
  \<open>kgo\<close> or arguments, and what a theorem needs of them is a hypothesis, shown satisfiable by its witness.

  \<^bold>\<open>Theories.\<close>
  \<^item> \<open>Prelude\<close>: programs, errors, maps and the program logic (\<open>pres\<close>, \<open>keeps\<close>, \<open>valid\<close>, \<open>returns\<close>) with its rule
    collections. \<open>GoValues\<close>, \<open>Codecs\<close>: dynamic values, JSON text, hexadecimal, base64 and base32.
  \<^item> \<open>Canonical\<close>, \<open>Conflict\<close>, \<open>Backoff\<close>, \<open>Connectors\<close>, \<open>RateLimit\<close>, \<open>Totp\<close>, \<open>Config\<close>: the components without a database, each
    with its correctness: detection and merging against a reference merge, convergence, bounds of the delay,
    adapters as interpretations of \<open>schema_adapter\<close>, both limiters as interpretations of \<open>token_bucket\<close>, the window of
    accepted codes.
  \<^item> \<open>Tables\<close>, \<open>Schema\<close>, \<open>Store\<close>, \<open>StoreJobs\<close>, \<open>StoreAuth\<close>: keyed tables (locales \<open>keyed_table\<close>, \<open>upsert_table\<close>,
    \<open>claim_log\<close>, interpreted on the statements of \<open>internal/store\<close>), the rows and the statements.
    \<open>Migrate\<close>: the migration loop and processes that run it at once.
  \<^item> \<open>Worker\<close>, \<open>RetryEngine\<close>, \<open>Reconcile\<close>, \<open>SyncJob\<close>: the engine. \<open>Faultless\<close>, \<open>WorkerFacts\<close>, \<open>ApplyFacts\<close>, \<open>EngineFacts\<close> hold
    the shared facts; \<open>WorkerProps\<close> and \<open>ApplyProps\<close> show that no event is lost, processing happens once, a failed apply leaves no
    trace, versions never go back, tenants are isolated, and loops end. \<open>EngineMain\<close>: how the engine is wired.
  \<^item> \<open>ApiBase\<close>, \<open>Auth\<close>, \<open>AccountApi\<close>, \<open>OpsApi\<close>, \<open>Oidc\<close>, \<open>Ingest\<close>, \<open>Router\<close>: every handler of the API behind its route
    and guard. \<open>ApiFacts\<close> and \<open>System\<close>: the relation \<open>deployed\<close>, any interleaving of requests, ingestion, messages, retry passes and
    jobs over one database, and the locale \<open>system_invariant\<close>, in which an invariant of the statements becomes one of the
    deployment. \<open>Access\<close>, \<open>LoginProps\<close>, \<open>TenantProps\<close>, \<open>IngestProps\<close>, \<open>OpsProps\<close>: its uses (revoked sessions, access decisions,
    logins, isolation of tenants, authentic webhooks stored once, final decisions). \<open>Fixtures\<close>: the demo data.
  \<^item> \<open>MemoryBus\<close>, \<open>Redpanda\<close>: the two transports of the bus, as schedules of channel operations and as the loop over
    the client of a broker.
  \<^item> \<open>SimStore\<close>, \<open>Simulator\<close>, \<open>SimSeeds\<close>, \<open>SimProps\<close>, \<open>SimOidc\<close>: the simulated providers with their fault injection, the records
    they start with, and the mock identity provider, with the agreement of both ends: webhooks, paging, record round trips and tokens.
  \<^item> \<open>Demo\<close> and \<open>ApiDemo\<close>: concrete environments in which witnesses are evaluated.

  \<^bold>\<open>Bounds.\<close> Only the loops over the pages of a provider (\<open>sweepPages\<close>, \<open>syncPages\<close>) take fuel, since a provider may give out
  cursors for ever; running out is the value \<open>None\<close>, and when the cursors advance any fuel above the rank of the
  first cursor is enough, as \<open>Reconcile\<close> and \<open>SyncJob\<close> show. Loops that poll until they are cancelled are modelled by one
  pass, which any number of steps of \<open>deployed\<close> repeats, or by a number of rounds (\<open>consumeRounds\<close>). All other functions are total.
  The capacity of a channel is the code's 1024.

  \<^bold>\<open>Not modelled.\<close> Logs, metrics and traces (\<open>internal/observability\<close>), on which no control flow depends; the Redis client
  (\<open>internal/cache\<close>), whose one use, the login counter, is a parameter; connection pools, process start, signals and
  shutdown (\<open>cmd/api\<close>, parts of \<open>cmd/engine\<close> and of the simulators' programs), which only call the modelled parts; the
  load generator (\<open>cmd/loadgen\<close>, \<open>load_test\<close>), which measures time; isolation levels of
  PostgreSQL, since statements are atomic in the model; a transaction that fails to commit is taken not to have happened.
\<close>



end
